(* ===== verification/Prelude.thy ===== *)
theory Prelude
  imports Main "HOL-Library.Word"
begin

text \<open>Shared vocabulary of the development: the machine integers of the sources, the way
  a failed assertion, a dangling pointer or an exhausted fuel is reported, the sequencing of
  fallible state-passing steps, and the two container idioms that the C++ code repeats
  everywhere (push at the back unless the pointer is already there; erase the first
  occurrence of a pointer).\<close>

named_theorems res_simps \<open>evaluation rules of the result type\<close>
named_theorems wp_simps \<open>weakest preconditions of the sequencing combinators\<close>
named_theorems keeps_intro \<open>preservation rules of the sequencing combinators and the operations\<close>
named_theorems exec_simps \<open>evaluation of state-passing code on concrete states\<close>

type_synonym u32 = "32 word"

section \<open>Results\<close>

text \<open>What stops a C++ call short of returning: an \<open>assert\<close> that does not hold, an access
  through a pointer to a destroyed (or never created) object or out of the bounds of a vector, a
  division by zero, or, on the side of the model only, an exhausted fuel.\<close>

datatype err = Assert_failed | Dangling | Out_of_fuel | Div_by_zero

datatype 'a res = Ok 'a | Bad err

fun rbind :: "'a res \<Rightarrow> ('a \<Rightarrow> 'b res) \<Rightarrow> 'b res" where
  "rbind (Ok x) f = f x"
| "rbind (Bad e) f = Bad e"

lemma rbind_Ok_right [simp]: "rbind m Ok = m"
  by (cases m) simp_all

definition rassert :: "bool \<Rightarrow> 's \<Rightarrow> 's res" where
  "rassert c w = (if c then Ok w else Bad Assert_failed)"

definition ok_res :: "('a \<Rightarrow> bool) \<Rightarrow> 'a res \<Rightarrow> bool" where
  "ok_res P r = (case r of Ok x \<Rightarrow> P x | Bad _ \<Rightarrow> True)"

lemma ok_res_simps [simp]: "ok_res P (Ok x) = P x" "ok_res P (Bad e)"
  by (simp_all add: ok_res_def)

lemma rbind_Ok_iff [res_simps]: "rbind m f = Ok y \<longleftrightarrow> (\<exists>x. m = Ok x \<and> f x = Ok y)"
  by (cases m) auto

lemma rbind_Bad_iff [res_simps]:
  "rbind m f = Bad e \<longleftrightarrow> m = Bad e \<or> (\<exists>x. m = Ok x \<and> f x = Bad e)"
  by (cases m) auto

lemma rassert_Ok_iff [res_simps, simp]: "rassert c w = Ok v \<longleftrightarrow> c \<and> v = w"
  by (auto simp: rassert_def)

lemma rassert_True [simp]: "rassert True w = Ok w"
  by (simp add: rassert_def)

lemma rassert_False [simp]: "rassert False w = Bad Assert_failed"
  by (simp add: rassert_def)

lemma rassert_Bad_iff [res_simps]: "rassert c w = Bad e \<longleftrightarrow> \<not> c \<and> e = Assert_failed"
  by (auto simp: rassert_def)

lemma ok_res_mono: "ok_res P r \<Longrightarrow> (\<And>x. P x \<Longrightarrow> Q x) \<Longrightarrow> ok_res Q r"
  by (cases r) auto

lemma ok_resD: "ok_res P r \<Longrightarrow> r = Ok x \<Longrightarrow> P x"
  by simp

lemma ok_resI: "(\<And>x. r = Ok x \<Longrightarrow> P x) \<Longrightarrow> ok_res P r"
  by (cases r) auto

lemma rbind_cong [fundef_cong]:
  assumes "m = m'" "\<And>x. m' = Ok x \<Longrightarrow> f x = g x"
  shows "rbind m f = rbind m' g"
  using assms by (cases m') auto

section \<open>Texts\<close>

text \<open>Integers as \<open>%d\<close> prints them, and lists of texts with a separator between them.\<close>

fun digits :: "nat \<Rightarrow> string" where
  "digits n = (if n < 10 then [char_of (48 + n)] else digits (n div 10) @ [char_of (48 + n mod 10)])"

declare digits.simps [simp del]

definition show_int :: "int \<Rightarrow> string" where
  "show_int i = (if i < 0 then CHR ''-'' # digits (nat (- i)) else digits (nat i))"

lemma digits_ne [simp]: "digits n \<noteq> []"
  by (subst digits.simps) simp

lemma show_int_ne [simp]: "show_int i \<noteq> []"
  by (simp add: show_int_def)

fun sep_by :: "string \<Rightarrow> string list \<Rightarrow> string" where
  "sep_by sep [] = []"
| "sep_by sep [s] = s"
| "sep_by sep (s # t # ts) = s @ sep @ sep_by sep (t # ts)"

lemma sep_by_Cons: "sep_by sep (s # ts) = s @ concat (map (\<lambda>t. sep @ t) ts)"
proof (induction ts arbitrary: s)
  case (Cons t ts)
  then show ?case
    by simp
qed simp

section \<open>State-passing code\<close>

text \<open>A piece of code is a function from the state before to the result and the state after.\<close>

type_synonym ('w, 'a) M = "'w \<Rightarrow> ('a \<times> 'w) res"

definition ret :: "'a \<Rightarrow> ('w, 'a) M" where
  "ret x w = Ok (x, w)"

definition mbind :: "('w, 'a) M \<Rightarrow> ('a \<Rightarrow> ('w, 'b) M) \<Rightarrow> ('w, 'b) M" where
  "mbind f g w = rbind (f w) (\<lambda>(x, w'). g x w')"

definition mseq :: "('w, 'a) M \<Rightarrow> ('w, 'b) M \<Rightarrow> ('w, 'b) M" where
  "mseq f g = mbind f (\<lambda>_. g)"

definition mfail :: "err \<Rightarrow> ('w, 'a) M" where
  "mfail e w = Bad e"

definition massert :: "('w \<Rightarrow> bool) \<Rightarrow> ('w, unit) M" where
  "massert c w = (if c w then Ok ((), w) else Bad Assert_failed)"

definition gets :: "('w \<Rightarrow> 'a) \<Rightarrow> ('w, 'a) M" where
  "gets f w = Ok (f w, w)"

definition modify :: "('w \<Rightarrow> 'w) \<Rightarrow> ('w, unit) M" where
  "modify f w = Ok ((), f w)"

lemmas M_defs [exec_simps] = ret_def mbind_def mseq_def mfail_def massert_def gets_def modify_def

text \<open>Partial correctness: \<open>wp f Q w\<close> says that \<open>Q\<close> holds of the result and the state when
  \<open>f\<close> returns from \<open>w\<close>.\<close>

definition wp :: "('w, 'a) M \<Rightarrow> ('a \<Rightarrow> 'w \<Rightarrow> bool) \<Rightarrow> 'w \<Rightarrow> bool" where
  "wp f Q w = (case f w of Ok (x, w') \<Rightarrow> Q x w' | Bad _ \<Rightarrow> True)"

lemma wp_ret [wp_simps]: "wp (ret x) Q = Q x"
  by (simp add: wp_def ret_def fun_eq_iff)

lemma wp_bind [wp_simps]: "wp (mbind f g) Q = wp f (\<lambda>x. wp (g x) Q)"
proof
  show "wp (mbind f g) Q w = wp f (\<lambda>x. wp (g x) Q) w" for w
    by (cases "f w") (auto simp: wp_def mbind_def)
qed

lemma wp_seq [wp_simps]: "wp (mseq f g) Q = wp f (\<lambda>_. wp g Q)"
  by (simp add: mseq_def wp_bind)

lemma wp_fail [wp_simps]: "wp (mfail e) Q = (\<lambda>_. True)"
  by (simp add: wp_def mfail_def fun_eq_iff)

lemma wp_assert [wp_simps]: "wp (massert c) Q = (\<lambda>w. c w \<longrightarrow> Q () w)"
  by (simp add: wp_def massert_def fun_eq_iff)

lemma wp_gets [wp_simps]: "wp (gets f) Q = (\<lambda>w. Q (f w) w)"
  by (simp add: wp_def gets_def fun_eq_iff)

lemma wp_modify [wp_simps]: "wp (modify f) Q = (\<lambda>w. Q () (f w))"
  by (simp add: wp_def modify_def fun_eq_iff)

lemma wp_if [wp_simps]: "wp (if c then f else g) Q = (if c then wp f Q else wp g Q)"
  by simp

lemma wp_mono: "wp f Q w \<Longrightarrow> (\<And>x w'. Q x w' \<Longrightarrow> Q' x w') \<Longrightarrow> wp f Q' w"
  by (auto simp: wp_def split: res.splits)

lemma wp_cong_at: "f w = g w \<Longrightarrow> wp f Q w = wp g Q w"
  by (simp add: wp_def)

lemma wpD: "wp f Q w \<Longrightarrow> f w = Ok (x, w') \<Longrightarrow> Q x w'"
  by (simp add: wp_def)

lemma wpI: "(\<And>x w'. f w = Ok (x, w') \<Longrightarrow> Q x w') \<Longrightarrow> wp f Q w"
  by (auto simp: wp_def split: res.splits)

lemma wp_all: "(\<And>x w'. Q x w') \<Longrightarrow> wp f Q w"
  by (auto simp: wp_def split: res.splits)

lemma wp_conj: "wp f Q w \<Longrightarrow> wp f Q' w \<Longrightarrow> wp f (\<lambda>x w'. Q x w' \<and> Q' x w') w"
  by (auto simp: wp_def split: res.splits)

lemma mbind_cong [fundef_cong]:
  assumes "w = w'" "f w' = f' w'" "\<And>x v. f' w' = Ok (x, v) \<Longrightarrow> g x v = g' x v"
  shows "mbind f g w = mbind f' g' w'"
  using assms by (cases "f' w'") (auto simp: mbind_def)

text \<open>Code that keeps an invariant and relates the state after to the state before. The
  relation is meant to be a preorder.\<close>

definition keeps :: "('w \<Rightarrow> bool) \<Rightarrow> ('w \<Rightarrow> 'w \<Rightarrow> bool) \<Rightarrow> ('w, 'a) M \<Rightarrow> bool" where
  "keeps I R f \<longleftrightarrow> (\<forall>w. I w \<longrightarrow> wp f (\<lambda>_ w'. I w' \<and> R w w') w)"

lemma keepsD: "keeps I R f \<Longrightarrow> I w \<Longrightarrow> wp f (\<lambda>_ w'. I w' \<and> R w w') w"
  by (simp add: keeps_def)

lemma keepsI: "(\<And>w. I w \<Longrightarrow> wp f (\<lambda>_ w'. I w' \<and> R w w') w) \<Longrightarrow> keeps I R f"
  by (simp add: keeps_def)

lemma keeps_wp:
  "keeps I R f \<Longrightarrow> I w \<Longrightarrow> (\<And>x w'. I w' \<Longrightarrow> R w w' \<Longrightarrow> Q x w') \<Longrightarrow> wp f Q w"
  by (auto simp: keeps_def wp_def split: res.splits)

lemma keeps_ok: "keeps I R f \<Longrightarrow> I w \<Longrightarrow> f w = Ok (x, w') \<Longrightarrow> I w' \<and> R w w'"
  by (auto simp: keeps_def wp_def)

lemma keeps_ret: "reflp R \<Longrightarrow> keeps I R (ret x)"
  by (simp add: keeps_def wp_simps reflpD)

lemma keeps_gets: "reflp R \<Longrightarrow> keeps I R (gets f)"
  by (simp add: keeps_def wp_simps reflpD)

lemma keeps_fail: "keeps I R (mfail e)"
  by (simp add: keeps_def wp_simps)

lemma keeps_assert: "reflp R \<Longrightarrow> keeps I R (massert c)"
  by (simp add: keeps_def wp_simps reflpD)

lemma keeps_bind:
  assumes "transp R" "keeps I R f" "\<And>x. keeps I R (g x)"
  shows "keeps I R (mbind f g)"
proof (rule keepsI, unfold wp_bind)
  fix w assume "I w"
  then show "wp f (\<lambda>x. wp (g x) (\<lambda>_ w'. I w' \<and> R w w')) w"
  proof (rule keeps_wp [OF assms(2)])
    fix x w' assume w': "I w'" "R w w'"
    show "wp (g x) (\<lambda>_ w''. I w'' \<and> R w w'') w'"
      by (rule keeps_wp [OF assms(3) w'(1)]) (use assms(1) w'(2) in \<open>blast dest: transpD\<close>)
  qed
qed

lemma keeps_seq:
  "transp R \<Longrightarrow> keeps I R f \<Longrightarrow> keeps I R g \<Longrightarrow> keeps I R (mseq f g)"
  by (simp add: mseq_def keeps_bind)

section \<open>Pointer vectors\<close>

text \<open>\<open>push_new\<close> is the idiom that scans a vector for a pointer and pushes it at the back
  when the scan does not find it; erasing the first occurrence is the library's
  \<^const>\<open>remove1\<close>.\<close>

definition push_new :: "'a \<Rightarrow> 'a list \<Rightarrow> 'a list" where
  "push_new x xs = (if x \<in> set xs then xs else xs @ [x])"

lemma set_push_new [simp]: "set (push_new x xs) = insert x (set xs)"
  by (auto simp: push_new_def)

lemma distinct_push_new [simp]: "distinct (push_new x xs) = distinct xs"
  by (auto simp: push_new_def)

lemma push_new_in [simp]: "x \<in> set xs \<Longrightarrow> push_new x xs = xs"
  by (simp add: push_new_def)

lemma distinct_remove1_notin [simp]: "distinct xs \<Longrightarrow> x \<notin> set (remove1 x xs)"
  by simp

lemma find_Some_mem: "List.find P xs = Some x \<Longrightarrow> x \<in> set xs \<and> P x"
  by (metis find_Some_iff nth_mem)

lemma find_None: "List.find P xs = None \<longleftrightarrow> (\<forall>x\<in>set xs. \<not> P x)"
  by (auto simp: find_None_iff)

end
