(* ===== verification/World.thy ===== *)
theory World
  imports Prelude
begin

text \<open>The data of the message core: the states of a message, the message objects, the
  communicators (socket pairs) between processors, and the world that holds them all: what the
  C++ heap, the processors' vectors and the sockets hold at one moment. From
  \<open>tier2_message.h\<close>, \<open>tier2_message_processor.h\<close>, \<open>interthread_comm.h\<close> and
  \<open>app_manager.h\<close>.\<close>

type_synonym mid = nat   \<comment> \<open>a \<open>tier2_message *\<close>\<close>
type_synonym pid = nat   \<comment> \<open>a \<open>tier2_message_processor *\<close>\<close>
type_synonym cid = nat   \<comment> \<open>an \<open>interthread_communicator *\<close>\<close>
type_synonym hid = nat   \<comment> \<open>a \<open>tier2_message_state_change_handler *\<close>\<close>
type_synonym sock = nat  \<comment> \<open>an \<open>mg_connection *\<close> of a socket pair\<close>

datatype request_state =
  INIT4PREV | DESTRUCTION | FAILED | ABORTED | MSG_INITIALIZED | EXEC_COMMAND
| WAIT_FOR_TRANSMIT | COMMENCE_TRANSMIT | READY_TO_RECEIVE_RESPONSE | RESPONSE_PENDING
| RESPONSE_COMPLETE | TASK_COMPLETED

fun state_code :: "request_state \<Rightarrow> int" where
  "state_code INIT4PREV = - (2 ^ 31)"
| "state_code DESTRUCTION = -3"
| "state_code FAILED = -2"
| "state_code ABORTED = -1"
| "state_code MSG_INITIALIZED = 0"
| "state_code EXEC_COMMAND = 1"
| "state_code WAIT_FOR_TRANSMIT = 2"
| "state_code COMMENCE_TRANSMIT = 3"
| "state_code READY_TO_RECEIVE_RESPONSE = 4"
| "state_code RESPONSE_PENDING = 5"
| "state_code RESPONSE_COMPLETE = 6"
| "state_code TASK_COMPLETED = 7"

datatype state_change = ERROR_OCCURRED | DONT_CHANGE | PROCEED

text \<open>The ten virtual methods that run when a message enters a state.\<close>

datatype virtual_f =
  F_exec_command | F_wait_for_transmit | F_commence_transmit | F_ready_to_receive_response
| F_response_pending | F_response_complete | F_task_completed | F_task_failed
| F_task_aborted | F_destruction_imminent

record 'k message =
  m_requester :: pid
  m_receiver :: pid
  m_now_state :: request_state
  m_previous_state :: request_state
  m_owner :: "pid option"
  m_state_change_handlers :: "hid list"
  m_class :: 'k   \<comment> \<open>the dynamic type of the object and the members of the derived class\<close>

record communicator =
  m_receiving_socket :: sock
  m_sending_socket :: sock
  m_sender :: pid
  m_receipient :: pid
  m_reverse :: cid

datatype msg_pending_mode = NO_MSG | CONNECTION_DROPPED | MSG_PENDING | MSG_CANCELED

text \<open>\<open>pulsing\<close> and \<open>owned\<close> are the processors' \<open>m_msgs_pending_for_pulsing\<close> and
  \<open>m_msgs_i_own\<close>; \<open>sock_q\<close> holds the pointers that have been written towards a socket and not
  yet read from it.\<close>

record ('k, 'z) world =
  msgs :: "mid \<Rightarrow> 'k message option"
  next_mid :: mid
  owned :: "pid \<Rightarrow> mid list"
  pulsing :: "pid \<Rightarrow> mid list"
  m_senders :: "pid \<Rightarrow> cid list"
  comms :: "cid \<Rightarrow> communicator"
  next_cid :: cid
  m_communicators :: "cid list"
  m_new_communicators_count :: int
  next_sock :: sock
  sock_q :: "sock \<Rightarrow> mid list"
  n_writes :: nat
  glob :: 'z   \<comment> \<open>the state of the back-end that the derived classes work on\<close>

text \<open>What the program gets from outside: the number of bytes the \<open>n\<close>-th \<open>mg_write\<close> reports,
  what \<open>mg_read\<close> reports on an empty socket, whether \<open>mg_socketpair\<close> fails.\<close>

record env =
  env_write :: "nat \<Rightarrow> int"
  env_read_empty :: int
  env_socketpair :: "sock \<Rightarrow> int"

text \<open>What a socket carries is one pointer; its size, here of a 64-bit build, only has to be
  positive.\<close>

definition sizeof_ptr :: int where
  "sizeof_ptr = 8"

type_synonym ('k, 'z) exec = "mid \<Rightarrow> request_state \<Rightarrow> (('k, 'z) world, request_state) M"

text \<open>The virtual dispatch: what a state-change handler and the \<open>f_*\<close> methods of the derived
  classes do, given the state machine they may call back into.\<close>

record ('k, 'z) hooks =
  h_process :: "('k, 'z) exec \<Rightarrow> hid \<Rightarrow> mid \<Rightarrow> request_state \<Rightarrow> (('k, 'z) world, state_change) M"
  h_f :: "('k, 'z) exec \<Rightarrow> virtual_f \<Rightarrow> mid \<Rightarrow> (('k, 'z) world, int) M"

section \<open>Access to message objects\<close>

definition deref :: "mid \<Rightarrow> (('k, 'z) world, 'k message) M" where
  "deref m w = (case msgs w m of Some r \<Rightarrow> Ok (r, w) | None \<Rightarrow> Bad Dangling)"

definition upd_msg :: "mid \<Rightarrow> ('k message \<Rightarrow> 'k message) \<Rightarrow> ('k, 'z) world \<Rightarrow> ('k, 'z) world" where
  "upd_msg m f w = w\<lparr>msgs := (msgs w)(m := map_option f (msgs w m))\<rparr>"

lemma wp_deref [wp_simps]: "wp (deref m) Q = (\<lambda>w. \<forall>r. msgs w m = Some r \<longrightarrow> Q r w)"
  by (simp add: wp_def deref_def fun_eq_iff split: option.splits)

lemma deref_Ok_iff [res_simps]: "deref m w = Ok (r, v) \<longleftrightarrow> msgs w m = Some r \<and> v = w"
  by (auto simp: deref_def split: option.splits)

lemma upd_msg_sel [simp]:
  "next_mid (upd_msg m f w) = next_mid w" "owned (upd_msg m f w) = owned w"
  "pulsing (upd_msg m f w) = pulsing w" "m_senders (upd_msg m f w) = m_senders w"
  "comms (upd_msg m f w) = comms w" "next_cid (upd_msg m f w) = next_cid w"
  "m_communicators (upd_msg m f w) = m_communicators w"
  "m_new_communicators_count (upd_msg m f w) = m_new_communicators_count w"
  "next_sock (upd_msg m f w) = next_sock w" "sock_q (upd_msg m f w) = sock_q w"
  "n_writes (upd_msg m f w) = n_writes w" "glob (upd_msg m f w) = glob w"
  by (simp_all add: upd_msg_def)

lemma msgs_upd_msg [simp]:
  "msgs (upd_msg m f w) n = (if n = m then map_option f (msgs w m) else msgs w n)"
  by (simp add: upd_msg_def)

end
