(* ===== verification/Comms.thy ===== *)
theory Comms
  imports World
begin

text \<open>The communicators between processors: the socket pairs that the application manager
  creates on demand (\<open>app_manager.cpp\<close>), each processor's own cache of them
  (\<open>tier2_message_processor.cpp\<close>), and the readiness tests of \<open>interthread_comm.cpp\<close>.\<close>

section \<open>Socket pairs and communicators\<close>

text \<open>The two ends of a socket pair are allocated together; what is written to one end is read
  from the other.\<close>

definition peer :: "sock \<Rightarrow> sock" where
  "peer s = (if even s then s + 1 else s - 1)"

lemma peer_pair [simp]: "even n \<Longrightarrow> peer n = Suc n" "even n \<Longrightarrow> peer (Suc n) = n"
  by (simp_all add: peer_def)

definition interthread_communicator :: "pid \<Rightarrow> pid \<Rightarrow> sock \<times> sock \<Rightarrow> cid \<Rightarrow> communicator" where
  "interthread_communicator requester receiver conns reverse =
     \<lparr>m_receiving_socket = fst conns, m_sending_socket = snd conns,
      m_sender = requester, m_receipient = receiver, m_reverse = reverse\<rparr>"

definition has_sender :: "communicator \<Rightarrow> pid \<Rightarrow> bool" where
  "has_sender c p \<longleftrightarrow> p = m_sender c"

definition has_receiver :: "communicator \<Rightarrow> pid \<Rightarrow> bool" where
  "has_receiver c p \<longleftrightarrow> p = m_receipient c"

definition matches :: "communicator \<Rightarrow> pid \<Rightarrow> pid \<Rightarrow> bool" where
  "matches c from to \<longleftrightarrow> from = m_sender c \<and> to = m_receipient c"

definition find_comm :: "('k, 'z) world \<Rightarrow> pid \<Rightarrow> pid \<Rightarrow> cid list \<Rightarrow> cid option" where
  "find_comm w from to cs = List.find (\<lambda>c. matches (comms w c) from to) cs"

section \<open>The application manager\<close>

definition create_communication_path :: "env \<Rightarrow> pid \<Rightarrow> pid \<Rightarrow> (('k, 'z) world, cid) M" where
  "create_communication_path e requester receiver w =
     (if env_socketpair e (next_sock w) \<noteq> 0 then Bad Assert_failed
      else
        let a = next_sock w; b = a + 1; c0 = next_cid w; c1 = c0 + 1;
            w1 = w\<lparr>next_sock := a + 2, next_cid := c0 + 2,
                   comms := (comms w)(c0 := interthread_communicator requester receiver (a, b) c1,
                                      c1 := interthread_communicator receiver requester (b, a) c0)\<rparr>
        in case find_comm w1 requester receiver (m_communicators w1) of
             Some c \<Rightarrow> Ok (c, w1)
           | None \<Rightarrow> Ok (c0, w1\<lparr>m_new_communicators_count := m_new_communicators_count w1 + 1,
                                m_communicators := m_communicators w1 @ [c0, c1]\<rparr>))"

definition app_get_interthread_communicator :: "env \<Rightarrow> pid \<Rightarrow> pid \<Rightarrow> (('k, 'z) world, cid) M" where
  "app_get_interthread_communicator e from to w =
     (case find_comm w from to (m_communicators w) of
        Some c \<Rightarrow> Ok (c, w)
      | None \<Rightarrow> create_communication_path e from to w)"

section \<open>The processors' caches\<close>

definition register_interthread_connection :: "pid \<Rightarrow> cid \<Rightarrow> (('k, 'z) world, cid) M" where
  "register_interthread_connection p c w =
     (if \<not> (m_receipient (comms w c) = p \<or> m_sender (comms w c) = p) then Bad Assert_failed
      else if c \<in> set (m_senders w p) then Ok (c, w)
      else Ok (c, w\<lparr>m_senders := (m_senders w)(p := m_senders w p @ [c, m_reverse (comms w c)])\<rparr>))"

definition get_interthread_communicator :: "env \<Rightarrow> pid \<Rightarrow> pid \<Rightarrow> pid \<Rightarrow> (('k, 'z) world, cid) M" where
  "get_interthread_communicator e p from to w =
     (case find_comm w from to (m_senders w p) of
        Some c \<Rightarrow> Ok (c, w)
      | None \<Rightarrow> mbind (app_get_interthread_communicator e from to)
                  (register_interthread_connection p) w)"

text \<open>The receiver's scan for communicators that others have created, from the end of the
  manager's list down while the count of new ones is positive.\<close>

fun fetch_scan :: "pid \<Rightarrow> cid list \<Rightarrow> (('k, 'z) world, unit) M" where
  "fetch_scan p [] w = Ok ((), w)"
| "fetch_scan p (c # cs) w =
     (if \<not> 0 < m_new_communicators_count w then Ok ((), w)
      else if has_receiver (comms w c) p \<and> c \<notin> set (m_senders w p) then
        mseq (register_interthread_connection p c)
          (mseq (modify (\<lambda>w. w\<lparr>m_new_communicators_count := m_new_communicators_count w - 1\<rparr>))
            (fetch_scan p cs)) w
      else fetch_scan p cs w)"

definition fetch_new_interthread_communicators :: "pid \<Rightarrow> (('k, 'z) world, int) M" where
  "fetch_new_interthread_communicators p w =
     (if m_new_communicators_count w \<noteq> 0 then
        mseq (massert (\<lambda>w. 0 < m_new_communicators_count w))
          (mseq (fetch_scan p (rev (m_communicators w))) (ret 0)) w
      else Ok (0, w))"

section \<open>Readiness\<close>

definition comm_prepare_fd :: "communicator \<Rightarrow> sock set \<times> sock set \<times> int \<Rightarrow> sock set \<times> sock set \<times> int" where
  "comm_prepare_fd c fds = (case fds of (rd, ex, max_fd) \<Rightarrow>
     (insert (m_receiving_socket c) rd, insert (m_receiving_socket c) ex,
      max max_fd (int (m_receiving_socket c))))"

definition prepare_fd_sets_for_reception ::
    "('k, 'z) world \<Rightarrow> pid \<Rightarrow> sock set \<times> sock set \<times> int \<Rightarrow> sock set \<times> sock set \<times> int" where
  "prepare_fd_sets_for_reception w p fds =
     foldl (\<lambda>fds c. if has_receiver (comms w c) p then comm_prepare_fd (comms w c) fds else fds)
       fds (m_senders w p)"

definition is_message_pending :: "communicator \<Rightarrow> sock set \<Rightarrow> sock set \<Rightarrow> int \<Rightarrow> msg_pending_mode" where
  "is_message_pending c rd ex max_fd =
     (if 0 \<le> max_fd then
        if m_receiving_socket c \<in> rd then MSG_PENDING
        else if m_receiving_socket c \<in> ex then CONNECTION_DROPPED
        else NO_MSG
      else NO_MSG)"

section \<open>The invariant\<close>

text \<open>Communicators come in pairs that are each other's reverse over the two ends of one socket
  pair; the manager holds at most one per ordered pair of distinct processors; a cache holds
  communicators of the manager only, each with its reverse and none twice.\<close>

definition comm_ok :: "('k, 'z) world \<Rightarrow> cid \<Rightarrow> bool" where
  "comm_ok w c \<longleftrightarrow> (let k = comms w c; r = m_reverse k; k' = comms w r in
     c < next_cid w \<and> m_receiving_socket k < next_sock w \<and>
     peer (m_sending_socket k) = m_receiving_socket k \<and>
     r \<in> set (m_communicators w) \<and> r \<noteq> c \<and> m_reverse k' = c \<and>
     m_sender k' = m_receipient k \<and> m_receipient k' = m_sender k \<and>
     m_receiving_socket k' = m_sending_socket k)"

definition cache_ok :: "('k, 'z) world \<Rightarrow> pid \<Rightarrow> bool" where
  "cache_ok w p \<longleftrightarrow> distinct (m_senders w p) \<and>
     (\<forall>c \<in> set (m_senders w p). c \<in> set (m_communicators w) \<and>
        m_reverse (comms w c) \<in> set (m_senders w p) \<and>
        (m_receipient (comms w c) = p \<or> m_sender (comms w c) = p))"

definition comm_inv :: "('k, 'z) world \<Rightarrow> bool" where
  "comm_inv w \<longleftrightarrow>
     even (next_sock w) \<and> distinct (m_communicators w) \<and>
     (\<forall>c \<in> set (m_communicators w). comm_ok w c) \<and>
     inj_on (\<lambda>c. m_receiving_socket (comms w c)) (set (m_communicators w)) \<and>
     (\<forall>c \<in> set (m_communicators w). \<forall>d \<in> set (m_communicators w).
        m_sender (comms w c) \<noteq> m_receipient (comms w c) \<longrightarrow>
        matches (comms w d) (m_sender (comms w c)) (m_receipient (comms w c)) \<longrightarrow> c = d) \<and>
     (\<forall>p. cache_ok w p)"

text \<open>What every communicator operation leaves alone: the messages, the owners' lists and the
  sockets' contents; existing communicators stay and stay the same.\<close>

definition comm_frame :: "('k, 'z) world \<Rightarrow> ('k, 'z) world \<Rightarrow> bool" where
  "comm_frame w w' \<longleftrightarrow>
     msgs w' = msgs w \<and> next_mid w' = next_mid w \<and> owned w' = owned w \<and> pulsing w' = pulsing w \<and>
     sock_q w' = sock_q w \<and> n_writes w' = n_writes w \<and> glob w' = glob w \<and>
     next_cid w \<le> next_cid w' \<and> next_sock w \<le> next_sock w' \<and>
     set (m_communicators w) \<subseteq> set (m_communicators w') \<and>
     (\<forall>c < next_cid w. comms w' c = comms w c) \<and>
     (\<forall>p. set (m_senders w p) \<subseteq> set (m_senders w' p))"

lemma comm_frame_refl [simp]: "comm_frame w w"
  by (simp add: comm_frame_def)

lemma comm_frame_trans: "comm_frame w w' \<Longrightarrow> comm_frame w' w'' \<Longrightarrow> comm_frame w w''"
  unfolding comm_frame_def by (elim conjE, intro conjI) (simp_all, blast+)

lemma comm_frame_comms: "comm_frame w w' \<Longrightarrow> c < next_cid w \<Longrightarrow> comms w' c = comms w c"
  by (simp add: comm_frame_def)

lemma comm_frame_mem: "comm_frame w w' \<Longrightarrow> c \<in> set (m_communicators w) \<Longrightarrow> c \<in> set (m_communicators w')"
  by (auto simp: comm_frame_def)

lemma reflp_comm_frame: "reflp comm_frame"
  by (simp add: reflp_def)

lemma transp_comm_frame: "transp comm_frame"
  by (blast intro: transpI comm_frame_trans)

lemma find_comm_Some:
  "find_comm w from to cs = Some c \<Longrightarrow> c \<in> set cs \<and> m_sender (comms w c) = from \<and> m_receipient (comms w c) = to"
  by (auto simp: find_comm_def matches_def dest: find_Some_mem)

lemma find_comm_None:
  "find_comm w from to cs = None \<longleftrightarrow> (\<forall>c \<in> set cs. \<not> matches (comms w c) from to)"
  by (simp add: find_comm_def find_None)


section \<open>Preservation\<close>

lemma comm_inv_alloc:
  assumes inv: "comm_inv w"
    and w1: "w1 = w\<lparr>next_sock := next_sock w + 2, next_cid := next_cid w + 2,
       comms := (comms w)(next_cid w := interthread_communicator p q (next_sock w, next_sock w + 1) (next_cid w + 1),
                          next_cid w + 1 := interthread_communicator q p (next_sock w + 1, next_sock w) (next_cid w))\<rparr>"
  shows "comm_inv w1 \<and> comm_frame w w1"
proof -
  have lt: "c \<in> set (m_communicators w) \<Longrightarrow> c < next_cid w" for c
    using inv by (auto simp: comm_inv_def comm_ok_def Let_def)
  have eq: "c \<in> set (m_communicators w) \<Longrightarrow> comms w1 c = comms w c" for c
    using lt [of c] by (auto simp: w1)
  have ok: "comm_ok w c \<Longrightarrow> comm_ok w1 c" if "c \<in> set (m_communicators w)" for c
    using that eq by (auto simp: comm_ok_def Let_def) (auto simp: w1)
  have sets: "m_communicators w1 = m_communicators w" "m_senders w1 = m_senders w" "even (next_sock w1) = even (next_sock w)"
    by (auto simp: w1)
  have "cache_ok w p \<Longrightarrow> cache_ok w1 p" for p
    using eq by (simp add: cache_ok_def sets)
  moreover have "inj_on (\<lambda>c. m_receiving_socket (comms w1 c)) (set (m_communicators w1))"
    using inv eq by (auto simp: comm_inv_def inj_on_def sets)
  ultimately have "comm_inv w1"
    using inv ok eq by (auto simp: comm_inv_def sets)
  moreover have "comm_frame w w1"
    by (auto simp: w1 comm_frame_def)
  ultimately show ?thesis ..
qed

lemma comm_inv_push:
  assumes inv: "comm_inv w" and c: "c1 = Suc c0" "c1 < next_cid w"
    and k0: "comms w c0 = interthread_communicator p q (a, b) c1"
    and k1: "comms w c1 = interthread_communicator q p (b, a) c0"
    and ab: "peer a = b" "peer b = a" "a \<noteq> b" "a < next_sock w" "b < next_sock w"
    and fresh: "\<forall>c \<in> set (m_communicators w). m_receiving_socket (comms w c) \<notin> {a, b} \<and> c \<notin> {c0, c1}"
    and none: "\<forall>c \<in> set (m_communicators w). \<not> matches (comms w c) p q"
    and w1: "w1 = w\<lparr>m_new_communicators_count := n, m_communicators := m_communicators w @ [c0, c1]\<rparr>"
  shows "comm_inv w1 \<and> comm_frame w w1"
proof -
  have ok_old: "comm_ok w1 c" if "c \<in> set (m_communicators w)" for c
    using that inv by (auto simp: comm_inv_def comm_ok_def Let_def w1)
  have ok_new: "comm_ok w1 c0" "comm_ok w1 c1"
    using c k0 k1 ab by (auto simp: comm_ok_def Let_def w1 interthread_communicator_def)
  have none': "\<forall>c \<in> set (m_communicators w). \<not> matches (comms w c) q p"
  proof
    fix c assume "c \<in> set (m_communicators w)"
    then have "m_reverse (comms w c) \<in> set (m_communicators w)" "comm_ok w c"
      using inv by (auto simp: comm_inv_def comm_ok_def Let_def)
    then show "\<not> matches (comms w c) q p"
      using none by (force simp: comm_ok_def Let_def matches_def)
  qed
  have "distinct (m_communicators w1)"
    using inv fresh c by (auto simp: w1 comm_inv_def)
  moreover have "inj_on (\<lambda>c. m_receiving_socket (comms w1 c)) (set (m_communicators w1))"
  proof -
    have m: "m_receiving_socket (comms w c0) = a" "m_receiving_socket (comms w c1) = b"
      using k0 k1 by (simp_all add: interthread_communicator_def)
    have "inj_on (\<lambda>c. m_receiving_socket (comms w c)) (set (m_communicators w))"
      using inv by (simp add: comm_inv_def)
    moreover have "a \<notin> (\<lambda>c. m_receiving_socket (comms w c)) ` set (m_communicators w)"
        "b \<notin> (\<lambda>c. m_receiving_socket (comms w c)) ` set (m_communicators w)"
      using fresh by auto
    ultimately have "inj_on (\<lambda>c. m_receiving_socket (comms w c)) (insert c0 (insert c1 (set (m_communicators w))))"
      using m ab(3) by (auto simp: inj_on_insert)
    then show ?thesis
      by (simp add: w1 insert_commute)
  qed
  moreover have "cache_ok w1 p" for p
    using inv by (auto simp: comm_inv_def cache_ok_def w1)
  moreover have "\<forall>c \<in> set (m_communicators w1). \<forall>d \<in> set (m_communicators w1).
        m_sender (comms w1 c) \<noteq> m_receipient (comms w1 c) \<longrightarrow>
        matches (comms w1 d) (m_sender (comms w1 c)) (m_receipient (comms w1 c)) \<longrightarrow> c = d"
  proof (intro ballI impI)
    fix c d
    assume mem: "c \<in> set (m_communicators w1)" "d \<in> set (m_communicators w1)"
      and ne: "m_sender (comms w1 c) \<noteq> m_receipient (comms w1 c)"
      and mt: "matches (comms w1 d) (m_sender (comms w1 c)) (m_receipient (comms w1 c))"
    have w: "comms w1 = comms w" "set (m_communicators w1) = insert c0 (insert c1 (set (m_communicators w)))"
      by (auto simp: w1)
    have ends: "m_sender (comms w c0) = p" "m_receipient (comms w c0) = q"
        "m_sender (comms w c1) = q" "m_receipient (comms w c1) = p"
      using k0 k1 by (simp_all add: interthread_communicator_def)
    show "c = d"
    proof (cases "c \<in> set (m_communicators w) \<and> d \<in> set (m_communicators w)")
      case True
      then show ?thesis
        using inv ne mt by (simp add: comm_inv_def w)
    next
      case False
      have "\<not> matches (comms w x) p q \<and> \<not> matches (comms w x) q p" if "x \<in> set (m_communicators w)" for x
        using none none' that by simp
      then show ?thesis
        using False mem ne mt ends unfolding w matches_def by (metis insert_iff)
    qed
  qed
  moreover have "even (next_sock w1)"
    using inv by (simp add: w1 comm_inv_def)
  moreover have "set (m_communicators w1) = insert c0 (insert c1 (set (m_communicators w)))"
    by (auto simp: w1)
  then have "\<forall>c \<in> set (m_communicators w1). comm_ok w1 c"
    using ok_old ok_new by simp
  ultimately have "comm_inv w1"
    unfolding comm_inv_def by blast
  moreover have "comm_frame w w1"
    by (auto simp: w1 comm_frame_def)
  ultimately show ?thesis ..
qed

lemma wp_create_path:
  assumes inv: "comm_inv w"
  shows "wp (create_communication_path e p q)
    (\<lambda>c w'. comm_inv w' \<and> comm_frame w w' \<and> c \<in> set (m_communicators w') \<and>
       m_sender (comms w' c) = p \<and> m_receipient (comms w' c) = q) w"
proof -
  define a where "a = next_sock w"
  define w1 where "w1 = w\<lparr>next_sock := next_sock w + 2, next_cid := next_cid w + 2,
       comms := (comms w)(next_cid w := interthread_communicator p q (next_sock w, next_sock w + 1) (next_cid w + 1),
                          next_cid w + 1 := interthread_communicator q p (next_sock w + 1, next_sock w) (next_cid w))\<rparr>"
  have w1: "comm_inv w1" "comm_frame w w1"
    using comm_inv_alloc [OF inv w1_def] by auto
  have even: "even (next_sock w)"
    using inv by (simp add: comm_inv_def)
  have lt: "\<forall>c \<in> set (m_communicators w). c < next_cid w \<and> m_receiving_socket (comms w c) < next_sock w"
    using inv by (auto simp: comm_inv_def comm_ok_def Let_def)
  have fresh: "\<forall>c \<in> set (m_communicators w1).
      m_receiving_socket (comms w1 c) \<notin> {next_sock w, next_sock w + 1} \<and> c \<notin> {next_cid w, next_cid w + 1}"
    using lt by (fastforce simp: w1_def)
  define w2 where "w2 = w1\<lparr>m_new_communicators_count := m_new_communicators_count w1 + 1,
                           m_communicators := m_communicators w1 @ [next_cid w, next_cid w + 1]\<rparr>"
  have w2: "comm_inv w2 \<and> comm_frame w1 w2" if "find_comm w1 p q (m_communicators w1) = None"
    by (rule comm_inv_push [OF w1(1) _ _ _ _ _ _ _ _ _ fresh _ w2_def, where p = p and q = q])
       (use that even in \<open>auto simp: find_comm_None w1_def\<close>)
  have "create_communication_path e p q w = (if env_socketpair e (next_sock w) \<noteq> 0 then Bad Assert_failed
      else case find_comm w1 p q (m_communicators w1) of Some c \<Rightarrow> Ok (c, w1) | None \<Rightarrow> Ok (next_cid w, w2))"
    by (simp add: create_communication_path_def Let_def w1_def w2_def split: option.splits)
  moreover have "m_sender (comms w2 (next_cid w)) = p \<and> m_receipient (comms w2 (next_cid w)) = q \<and>
      next_cid w \<in> set (m_communicators w2)"
    by (simp add: w2_def w1_def interthread_communicator_def)
  ultimately show ?thesis
    using w1 w2 comm_frame_trans [OF w1(2)] by (auto simp: wp_def dest: find_comm_Some split: option.splits)
qed

lemma wp_app_get:
  assumes inv: "comm_inv w"
  shows "wp (app_get_interthread_communicator e p q)
    (\<lambda>c w'. comm_inv w' \<and> comm_frame w w' \<and> c \<in> set (m_communicators w') \<and>
       m_sender (comms w' c) = p \<and> m_receipient (comms w' c) = q) w"
  using wp_create_path [OF inv, of e p q] inv
  by (auto simp: app_get_interthread_communicator_def wp_def dest: find_comm_Some split: option.splits res.splits)

lemma comm_inv_register:
  assumes inv: "comm_inv w" and c: "c \<in> set (m_communicators w)" "c \<notin> set (m_senders w p)"
    and p: "m_receipient (comms w c) = p \<or> m_sender (comms w c) = p"
    and w1: "w1 = w\<lparr>m_senders := (m_senders w)(p := m_senders w p @ [c, m_reverse (comms w c)])\<rparr>"
  shows "comm_inv w1 \<and> comm_frame w w1"
proof -
  have ok: "comm_ok w c" and cp: "cache_ok w p"
    using inv c(1) by (auto simp: comm_inv_def)
  then have rev: "m_reverse (comms w (m_reverse (comms w c))) = c" "m_reverse (comms w c) \<noteq> c"
      "m_reverse (comms w c) \<in> set (m_communicators w)"
      "m_sender (comms w (m_reverse (comms w c))) = m_receipient (comms w c)"
      "m_receipient (comms w (m_reverse (comms w c))) = m_sender (comms w c)"
    by (auto simp: comm_ok_def Let_def)
  have "m_reverse (comms w c) \<notin> set (m_senders w p)"
    using cp c(2) rev(1) unfolding cache_ok_def by metis
  then have "cache_ok w1 p"
    using cp c p rev by (auto simp: cache_ok_def w1)
  moreover have "cache_ok w1 q" if "q \<noteq> p" for q
    using that inv by (auto simp: cache_ok_def comm_inv_def w1)
  ultimately have "\<forall>q. cache_ok w1 q"
    by metis
  then have "comm_inv w1"
    using inv by (auto simp: comm_inv_def w1 comm_ok_def Let_def)
  moreover have "comm_frame w w1"
    by (auto simp: comm_frame_def w1)
  ultimately show ?thesis ..
qed

lemma wp_register:
  assumes "comm_inv w" "c \<in> set (m_communicators w)"
  shows "wp (register_interthread_connection p c)
    (\<lambda>d w'. d = c \<and> comm_inv w' \<and> comm_frame w w' \<and> c \<in> set (m_senders w' p)) w"
  using comm_inv_register [OF assms, of p, OF _ _ refl] assms
  by (auto simp: register_interthread_connection_def wp_def)

lemma wp_get_comm:
  assumes inv: "comm_inv w"
  shows "wp (get_interthread_communicator e p from to)
    (\<lambda>c w'. comm_inv w' \<and> comm_frame w w' \<and> c \<in> set (m_senders w' p) \<and> c \<in> set (m_communicators w') \<and>
       m_sender (comms w' c) = from \<and> m_receipient (comms w' c) = to) w"
proof (cases "find_comm w from to (m_senders w p)")
  case None
  have "wp (mbind (app_get_interthread_communicator e from to) (register_interthread_connection p))
    (\<lambda>c w'. comm_inv w' \<and> comm_frame w w' \<and> c \<in> set (m_senders w' p) \<and> c \<in> set (m_communicators w') \<and>
       m_sender (comms w' c) = from \<and> m_receipient (comms w' c) = to) w"
    unfolding wp_bind
  proof (rule wp_mono [OF wp_app_get [OF inv]])
    fix c w1
    assume 1: "comm_inv w1 \<and> comm_frame w w1 \<and> c \<in> set (m_communicators w1) \<and>
       m_sender (comms w1 c) = from \<and> m_receipient (comms w1 c) = to"
    then have "c < next_cid w1"
      by (auto simp: comm_inv_def comm_ok_def Let_def)
    with 1 show "wp (register_interthread_connection p c)
      (\<lambda>c w'. comm_inv w' \<and> comm_frame w w' \<and> c \<in> set (m_senders w' p) \<and> c \<in> set (m_communicators w') \<and>
       m_sender (comms w' c) = from \<and> m_receipient (comms w' c) = to) w1"
      by (intro wp_mono [OF wp_register [of w1 c p]])
        (auto simp: comm_frame_comms intro: comm_frame_trans comm_frame_mem)
  qed
  then show ?thesis
    using None by (simp add: get_interthread_communicator_def wp_def)
next
  case (Some c)
  then show ?thesis
    using find_comm_Some [OF Some] inv
    by (auto simp: get_interthread_communicator_def wp_def comm_inv_def cache_ok_def)
qed

end
