(* ===== verification/Processor.thy ===== *)
theory Processor
  imports Comms
begin

text \<open>The ownership lists of a processor (\<open>tier2_message_processor.cpp\<close>) and the invariant that
  ties them to the messages' own owner field: a message is in the list of its owner and in no
  other, messages waiting for a pulse are owned by who pulses them, and a pointer travelling
  through a socket belongs to a message in limbo.\<close>

section \<open>The lists\<close>

definition does_own :: "pid \<Rightarrow> mid \<Rightarrow> ('k, 'z) world \<Rightarrow> bool" where
  "does_own p m w \<longleftrightarrow> m \<in> set (owned w p)"

definition own :: "pid \<Rightarrow> mid \<Rightarrow> (('k, 'z) world, int) M" where
  "own p m = mbind (gets (does_own p m)) (\<lambda>b.
     if b then ret 1
     else
       mseq (modify (\<lambda>w. w\<lparr>owned := (owned w)(p := owned w p @ [m])\<rparr>))
       (mbind (deref m) (\<lambda>r.
        mseq (massert (\<lambda>_. m_owner r = Some p
            \<or> (m_owner r = None \<and> m_now_state r = MSG_INITIALIZED)
            \<or> (m_owner r = None \<and> m_receiver r \<noteq> m_requester r)))
        (ret 0))))"

definition release :: "pid \<Rightarrow> mid \<Rightarrow> (('k, 'z) world, int) M" where
  "release p m =
     mseq (massert (\<lambda>w. m \<in> set (pulsing w p) \<longrightarrow> does_own p m w))
     (mseq (modify (\<lambda>w. w\<lparr>pulsing := (pulsing w)(p := remove1 m (pulsing w p))\<rparr>))
     (mbind (gets (does_own p m)) (\<lambda>b.
      if b then
        mseq (modify (\<lambda>w. w\<lparr>owned := (owned w)(p := remove1 m (owned w p))\<rparr>))
        (mseq (massert (\<lambda>w. \<not> does_own p m w)) (ret 0))
      else ret (- 1))))"

text \<open>The scan of \<open>queue_msg_for_pulsing\<close> checks the ownership of each entry it passes.\<close>

fun scan_pulsing :: "pid \<Rightarrow> mid \<Rightarrow> mid list \<Rightarrow> (('k, 'z) world, bool) M" where
  "scan_pulsing p m [] = ret False"
| "scan_pulsing p m (i # is) =
     mseq (massert (does_own p i))
     (mbind (deref i) (\<lambda>r.
      mseq (massert (\<lambda>_. m_owner r = Some p))
      (if i = m then ret True else scan_pulsing p m is)))"

definition queue_msg_for_pulsing :: "pid \<Rightarrow> mid \<Rightarrow> (('k, 'z) world, int) M" where
  "queue_msg_for_pulsing p m =
     mseq (massert (does_own p m))
     (mbind (gets (\<lambda>w. pulsing w p)) (\<lambda>l.
      mbind (scan_pulsing p m l) (\<lambda>found.
      if found then ret 1
      else mseq (modify (\<lambda>w. w\<lparr>pulsing := (pulsing w)(p := pulsing w p @ [m])\<rparr>)) (ret 0))))"

section \<open>The invariant\<close>

definition lists_ok :: "('k, 'z) world \<Rightarrow> bool" where
  "lists_ok w \<longleftrightarrow> (\<forall>p. distinct (owned w p) \<and> distinct (pulsing w p) \<and> set (pulsing w p) \<subseteq> set (owned w p))"

definition owner_ok :: "('k, 'z) world \<Rightarrow> bool" where
  "owner_ok w \<longleftrightarrow> (\<forall>p m. m \<in> set (owned w p) \<longleftrightarrow> (\<exists>r. msgs w m = Some r \<and> m_owner r = Some p))"

definition limbo_ok :: "('k, 'z) world \<Rightarrow> bool" where
  "limbo_ok w \<longleftrightarrow>
     (\<forall>s. distinct (sock_q w s)) \<and>
     (\<forall>s t m. m \<in> set (sock_q w s) \<longrightarrow> m \<in> set (sock_q w t) \<longrightarrow> s = t) \<and>
     (\<forall>s m. m \<in> set (sock_q w s) \<longrightarrow> (\<exists>r. msgs w m = Some r \<and> m_owner r = None))"

definition alloc_ok :: "('k, 'z) world \<Rightarrow> bool" where
  "alloc_ok w \<longleftrightarrow> (\<forall>m. next_mid w \<le> m \<longrightarrow> msgs w m = None)"

definition wf :: "('k, 'z) world \<Rightarrow> bool" where
  "wf w \<longleftrightarrow> lists_ok w \<and> owner_ok w \<and> limbo_ok w \<and> alloc_ok w \<and> comm_inv w"

text \<open>What no operation undoes: the two parties of a message stay what they are, a destroyed
  message does not come back, memory is not handed out twice, and a communicator stays where it is
  and connects the same two processors.\<close>

definition comms_kept :: "('k, 'z) world \<Rightarrow> ('k, 'z) world \<Rightarrow> bool" where
  "comms_kept w w' \<longleftrightarrow> (\<forall>c \<in> set (m_communicators w). c \<in> set (m_communicators w') \<and> comms w' c = comms w c)"

lemma comms_kept_same [simp]:
  "m_communicators w' = m_communicators w \<Longrightarrow> comms w' = comms w \<Longrightarrow> comms_kept w w'"
  by (simp add: comms_kept_def)

lemma comms_kept_trans: "comms_kept w w' \<Longrightarrow> comms_kept w' w'' \<Longrightarrow> comms_kept w w''"
  by (simp add: comms_kept_def)

definition evolves :: "('k, 'z) world \<Rightarrow> ('k, 'z) world \<Rightarrow> bool" where
  "evolves w w' \<longleftrightarrow>
     next_mid w \<le> next_mid w' \<and> comms_kept w w' \<and>
     (\<forall>m r'. m < next_mid w \<longrightarrow> msgs w' m = Some r' \<longrightarrow>
        (\<exists>r. msgs w m = Some r \<and> m_requester r' = m_requester r \<and> m_receiver r' = m_receiver r))"

lemma evolves_refl [simp]: "evolves w w"
  by (simp add: evolves_def)

lemma evolves_msg:
  assumes "evolves w w'" "m < next_mid w" "msgs w' m = Some r'"
  obtains r where "msgs w m = Some r" "m_requester r' = m_requester r" "m_receiver r' = m_receiver r"
  using assms by (auto simp: evolves_def)

lemma evolves_trans:
  assumes 1: "evolves w w'" and 2: "evolves w' w''"
  shows "evolves w w''"
  unfolding evolves_def
proof (intro conjI allI impI)
  have le: "next_mid w \<le> next_mid w'"
    using 1 by (simp add: evolves_def)
  show "next_mid w \<le> next_mid w''"
    using le 2 by (simp add: evolves_def)
  show "comms_kept w w''"
    using 1 2 comms_kept_trans by (auto simp: evolves_def)
  fix m r'' assume m: "m < next_mid w" "msgs w'' m = Some r''"
  obtain r' where r': "msgs w' m = Some r'" "m_requester r'' = m_requester r'" "m_receiver r'' = m_receiver r'"
    using evolves_msg [OF 2 order_less_le_trans [OF m(1) le] m(2)] .
  obtain r where "msgs w m = Some r" "m_requester r' = m_requester r" "m_receiver r' = m_receiver r"
    using evolves_msg [OF 1 m(1) r'(1)] .
  then show "\<exists>r. msgs w m = Some r \<and> m_requester r'' = m_requester r \<and> m_receiver r'' = m_receiver r"
    using r' by simp
qed

lemma reflp_evolves: "reflp evolves"
  by (simp add: reflp_def)

lemma transp_evolves: "transp evolves"
  by (blast intro: transpI evolves_trans)

lemma evolves_msgs:
  assumes "next_mid w' = next_mid w" "msgs w' = msgs w"
    and "m_communicators w' = m_communicators w" "comms w' = comms w"
  shows "evolves w w'"
  using assms by (simp add: evolves_def)

lemma wfD:
  assumes "wf w"
  shows "lists_ok w" "owner_ok w" "limbo_ok w" "alloc_ok w" "comm_inv w"
  using assms by (simp_all add: wf_def)

lemma comm_inv_cong:
  assumes "comm_inv w"
    and "next_sock w' = next_sock w" "m_communicators w' = m_communicators w" "comms w' = comms w"
      "m_senders w' = m_senders w" "next_cid w' = next_cid w"
  shows "comm_inv w'"
  using assms by (simp add: comm_inv_def comm_ok_def cache_ok_def Let_def)

text \<open>The invariant the state machine keeps: the world is well formed, and whatever the derived
  classes require of their own state holds.\<close>

lemma limbo_okD: "limbo_ok w \<Longrightarrow> m \<in> set (sock_q w s) \<Longrightarrow> \<exists>r. msgs w m = Some r \<and> m_owner r = None"
  by (simp add: limbo_ok_def)

definition winv :: "('z \<Rightarrow> bool) \<Rightarrow> ('k, 'z) world \<Rightarrow> bool" where
  "winv G w \<longleftrightarrow> wf w \<and> G (glob w)"

lemma winvD: "winv G w \<Longrightarrow> wf w" "winv G w \<Longrightarrow> G (glob w)"
  by (simp_all add: winv_def)

lemma inv_comm_frame:
  assumes "winv G w" "comm_frame w w'" "comm_inv w'"
  shows "winv G w' \<and> evolves w w'"
proof -
  have "comms_kept w w'"
    using assms(1,2) by (auto simp: comms_kept_def comm_frame_def winv_def wf_def comm_inv_def comm_ok_def Let_def)
  then show ?thesis
    using assms
    by (simp add: winv_def wf_def lists_ok_def owner_ok_def limbo_ok_def alloc_ok_def comm_frame_def evolves_def)
qed

section \<open>Operations on the lists keep the invariant\<close>

lemma scan_pulsing_wp:
  "wp (scan_pulsing p m l) (\<lambda>b w'. w' = w \<and> b = (m \<in> set l)) w"
  by (induction l) (auto simp: wp_simps)

lemma queue_wp:
  assumes "wf w"
  shows "wp (queue_msg_for_pulsing p m) (\<lambda>rv w'. m \<in> set (owned w p) \<and>
     w' = w\<lparr>pulsing := (pulsing w)(p := push_new m (pulsing w p))\<rparr> \<and>
     rv = (if m \<in> set (pulsing w p) then 1 else 0)) w"
  unfolding queue_msg_for_pulsing_def
  by (auto simp: wp_simps does_own_def intro!: wp_mono [OF scan_pulsing_wp] simp: push_new_def)

lemma wf_queue:
  assumes "wf w" "m \<in> set (owned w p)"
  shows "wf (w\<lparr>pulsing := (pulsing w)(p := push_new m (pulsing w p))\<rparr>)"
  using assms
  by (auto simp: wf_def lists_ok_def owner_ok_def limbo_ok_def alloc_ok_def elim!: comm_inv_cong)

lemma keeps_queue: "keeps (winv G) evolves (queue_msg_for_pulsing p m)"
proof (rule keepsI)
  fix w assume "winv G w"
  then show "wp (queue_msg_for_pulsing p m) (\<lambda>_ w'. winv G w' \<and> evolves w w') w"
    by (intro wp_mono [OF queue_wp [OF winvD(1)]]) (auto simp: winv_def intro!: wf_queue evolves_msgs)
qed

definition set_owner :: "mid \<Rightarrow> pid option \<Rightarrow> ('k, 'z) world \<Rightarrow> ('k, 'z) world" where
  "set_owner m q w = upd_msg m (\<lambda>r. r\<lparr>m_owner := q\<rparr>) w"

definition released :: "pid \<Rightarrow> mid \<Rightarrow> ('k, 'z) world \<Rightarrow> ('k, 'z) world" where
  "released p m w = w\<lparr>pulsing := (pulsing w)(p := remove1 m (pulsing w p)),
                       owned := (owned w)(p := remove1 m (owned w p))\<rparr>"

definition taken :: "pid \<Rightarrow> mid \<Rightarrow> ('k, 'z) world \<Rightarrow> ('k, 'z) world" where
  "taken q m w = w\<lparr>owned := (owned w)(q := owned w q @ [m])\<rparr>"

lemma release_wp:
  assumes "wf w" "msgs w m = Some r" "m_owner r = Some p"
  shows "wp (release p m) (\<lambda>rv w'. rv = 0 \<and> w' = released p m w) w"
proof -
  have "m \<in> set (owned w p)"
    using assms by (auto simp: wf_def owner_ok_def)
  then show ?thesis
    by (simp add: release_def wp_simps does_own_def released_def)
qed

lemma own_wp:
  assumes "wf w" "msgs w m = Some r" "m_owner r \<noteq> Some q"
  shows "wp (own q m) (\<lambda>rv w'. rv = 0 \<and> w' = taken q m w) w"
proof -
  have "m \<notin> set (owned w q)"
    using assms by (auto simp: wf_def owner_ok_def)
  then show ?thesis
    by (simp add: own_def wp_simps does_own_def taken_def)
qed

lemma inv_upd_msg:
  assumes "winv G w" and "\<And>r. m_owner (f r) = m_owner r"
    and "\<And>r. m_requester (f r) = m_requester r" "\<And>r. m_receiver (f r) = m_receiver r"
  shows "winv G (upd_msg m f w) \<and> evolves w (upd_msg m f w)"
proof -
  have "glob (upd_msg m f w) = glob w"
    by (simp add: upd_msg_def)
  moreover have "comm_inv (upd_msg m f w)"
    using assms(1) by (auto simp: winv_def wf_def elim!: comm_inv_cong)
  moreover have "lists_ok (upd_msg m f w)" "alloc_ok (upd_msg m f w)"
    using assms(1) by (auto simp: winv_def wf_def lists_ok_def alloc_ok_def)
  moreover have "owner_ok (upd_msg m f w)"
    using assms(1,2) by (auto simp: winv_def wf_def owner_ok_def)
  moreover have "limbo_ok (upd_msg m f w)"
    using assms(1,2) unfolding winv_def wf_def limbo_ok_def by (auto; metis)
  ultimately show ?thesis
    using assms by (auto simp: winv_def wf_def evolves_def)
qed

lemma keeps_upd_msg:
  assumes "\<And>r. m_owner (f r) = m_owner r"
    and "\<And>r. m_requester (f r) = m_requester r" "\<And>r. m_receiver (f r) = m_receiver r"
  shows "keeps (winv G) evolves (modify (upd_msg m f))"
  unfolding keeps_def wp_modify by (intro allI impI inv_upd_msg assms)

lemma inv_release:
  assumes w: "winv G w" and m: "msgs w m = Some r" "m_owner r = Some p"
    and w': "w' = set_owner m None (released p m w)"
  shows "winv G w' \<and> evolves w w' \<and> (\<forall>s. m \<notin> set (sock_q w' s))"
proof -
  have sel: "glob w' = glob w" "sock_q w' = sock_q w" "next_mid w' = next_mid w"
      "owned w' = (owned w)(p := remove1 m (owned w p))" "pulsing w' = (pulsing w)(p := remove1 m (pulsing w p))"
      "msgs w' = (msgs w)(m := Some (r\<lparr>m_owner := None\<rparr>))"
      "m_communicators w' = m_communicators w" "comms w' = comms w"
    using m by (simp_all add: w' set_owner_def released_def upd_msg_def)
  have wf: "lists_ok w" "owner_ok w" "limbo_ok w" "alloc_ok w" "comm_inv w"
    using w by (simp_all add: winv_def wf_def)
  have "comm_inv w'"
    by (rule comm_inv_cong [OF wf(5)]) (simp_all add: w' set_owner_def released_def)
  moreover have "lists_ok w'"
    using wf(1) by (auto simp: lists_ok_def sel)
  moreover have "owner_ok w'"
    using wf(1,2) m by (auto simp: owner_ok_def lists_ok_def sel)
  moreover have no: "m \<notin> set (sock_q w s)" for s
    using limbo_okD [OF wf(3), of m s] m by auto
  then have "limbo_ok w'"
    using wf(3) unfolding limbo_ok_def sel by auto
  moreover have "alloc_ok w'"
    using wf(4) m by (auto simp: alloc_ok_def sel)
  ultimately show ?thesis
    using w m no by (auto simp: winv_def wf_def evolves_def sel)
qed

lemma inv_take:
  assumes w: "winv G w" and m: "msgs w m = Some r" "m_owner r = None" "\<forall>s. m \<notin> set (sock_q w s)"
    and w': "w' = set_owner m (Some q) (taken q m w)"
  shows "winv G w' \<and> evolves w w'"
proof -
  have sel: "glob w' = glob w" "sock_q w' = sock_q w" "next_mid w' = next_mid w"
      "owned w' = (owned w)(q := owned w q @ [m])" "pulsing w' = pulsing w"
      "msgs w' = (msgs w)(m := Some (r\<lparr>m_owner := Some q\<rparr>))"
      "m_communicators w' = m_communicators w" "comms w' = comms w"
    using m by (simp_all add: w' set_owner_def taken_def upd_msg_def)
  have wf: "lists_ok w" "owner_ok w" "limbo_ok w" "alloc_ok w" "comm_inv w"
    using w by (simp_all add: winv_def wf_def)
  have notin: "m \<notin> set (owned w p)" for p
    using wf(2) m by (auto simp: owner_ok_def)
  have "comm_inv w'"
    by (rule comm_inv_cong [OF wf(5)]) (simp_all add: w' set_owner_def taken_def)
  moreover have "lists_ok w'"
    using wf(1) notin by (auto simp: lists_ok_def sel)
  moreover have "owner_ok w'"
    using wf(2) notin by (auto simp: owner_ok_def sel)
  moreover have "limbo_ok w'"
    using wf(3) m(3) unfolding limbo_ok_def sel by auto
  moreover have "alloc_ok w'"
    using wf(4) m by (auto simp: alloc_ok_def sel)
  ultimately show ?thesis
    using w m by (auto simp: winv_def wf_def evolves_def sel)
qed


section \<open>Preservation, combinator by combinator\<close>

lemmas ev_combinators [keeps_intro] =
  keeps_bind [OF transp_evolves] keeps_seq [OF transp_evolves] keeps_ret [OF reflp_evolves]
  keeps_gets [OF reflp_evolves] keeps_fail keeps_assert [OF reflp_evolves]

lemma ev_deref [keeps_intro]: "keeps (winv G) evolves (deref m)"
  by (auto simp: keeps_def wp_simps)

lemma ev_queue [keeps_intro]: "keeps (winv G) evolves (queue_msg_for_pulsing p m)"
  by (rule keeps_queue)

lemma ev_if [keeps_intro]:
  "(c \<Longrightarrow> keeps I R f) \<Longrightarrow> (\<not> c \<Longrightarrow> keeps I R g) \<Longrightarrow> keeps I R (if c then f else g)"
  by simp

lemma ev_option [keeps_intro]:
  "(x = None \<Longrightarrow> keeps I R f) \<Longrightarrow> (\<And>y. x = Some y \<Longrightarrow> keeps I R (g y)) \<Longrightarrow>
   keeps I R (case x of None \<Rightarrow> f | Some y \<Rightarrow> g y)"
  by (cases x) auto

lemma ev_prod [keeps_intro]:
  "(\<And>a b. x = (a, b) \<Longrightarrow> keeps I R (g a b)) \<Longrightarrow> keeps I R (case x of (a, b) \<Rightarrow> g a b)"
  by (cases x) auto

lemma ev_state_change [keeps_intro]:
  "keeps I R a \<Longrightarrow> keeps I R b \<Longrightarrow> keeps I R c \<Longrightarrow>
   keeps I R (case x of ERROR_OCCURRED \<Rightarrow> a | DONT_CHANGE \<Rightarrow> b | PROCEED \<Rightarrow> c)"
  by (cases x) auto

lemma ev_get_comm [keeps_intro]: "keeps (winv G) evolves (get_interthread_communicator e p from to)"
proof (rule keepsI)
  fix w assume w: "winv G w"
  then have "comm_inv w"
    by (simp add: winv_def wf_def)
  then show "wp (get_interthread_communicator e p from to) (\<lambda>_ w'. winv G w' \<and> evolves w w') w"
    by (rule wp_mono [OF wp_get_comm]) (use inv_comm_frame [OF w] in blast)
qed

end
