(* ===== verification/Message.thy ===== *)
theory Message
  imports Processor
begin

text \<open>The message state machine of \<open>tier2_message.cpp\<close>: state changes with their handlers, the
  virtual methods run on entering a state, ownership transfer, pulsing, posting and popping
  (\<open>interthread_comm.cpp\<close>). The state machine re-enters itself through the virtual methods, so
  each operation is written over an argument \<open>ex\<close>, the state machine it calls back into, and
  \<open>exec_state\<close> closes the recursion with fuel.\<close>

section \<open>Handlers\<close>

fun run_handlers :: "('k, 'z) hooks \<Rightarrow> ('k, 'z) exec \<Rightarrow> mid \<Rightarrow> request_state \<Rightarrow> hid list \<Rightarrow>
    (('k, 'z) world, state_change) M" where
  "run_handlers hk ex m new [] = ret PROCEED"
| "run_handlers hk ex m new (h # hs) = mbind (h_process hk ex h m new) (\<lambda>rv.
     case rv of
       ERROR_OCCURRED \<Rightarrow> ret ERROR_OCCURRED
     | DONT_CHANGE \<Rightarrow> ret DONT_CHANGE
     | PROCEED \<Rightarrow> run_handlers hk ex m new hs)"

definition handle_state_change :: "('k, 'z) hooks \<Rightarrow> ('k, 'z) exec \<Rightarrow> mid \<Rightarrow> request_state \<Rightarrow>
    (('k, 'z) world, state_change) M" where
  "handle_state_change hk ex m new =
     mbind (deref m) (\<lambda>r. run_handlers hk ex m new (m_state_change_handlers r))"

definition register_handler :: "mid \<Rightarrow> hid \<Rightarrow> (('k, 'z) world, unit) M" where
  "register_handler m h = mseq (deref m)
     (modify (upd_msg m (\<lambda>r. r\<lparr>m_state_change_handlers := push_new h (m_state_change_handlers r)\<rparr>)))"

definition unregister_handler :: "mid \<Rightarrow> hid \<Rightarrow> (('k, 'z) world, unit) M" where
  "unregister_handler m h = mseq (deref m)
     (modify (upd_msg m (\<lambda>r. r\<lparr>m_state_change_handlers := remove1 h (m_state_change_handlers r)\<rparr>)))"

section \<open>Entering a state\<close>

definition enter_state :: "request_state \<Rightarrow> 'k message \<Rightarrow> 'k message" where
  "enter_state s r = r\<lparr>m_previous_state := (if m_previous_state r \<noteq> m_now_state r then m_now_state r
                                             else m_previous_state r),
                       m_now_state := s\<rparr>"

text \<open>Which virtual method a state runs, and whether the receiver or the requester runs it.\<close>

datatype party = Receiver | Requester

fun stage :: "request_state \<Rightarrow> (party \<times> virtual_f) option" where
  "stage EXEC_COMMAND = Some (Receiver, F_exec_command)"
| "stage WAIT_FOR_TRANSMIT = Some (Receiver, F_wait_for_transmit)"
| "stage COMMENCE_TRANSMIT = Some (Receiver, F_commence_transmit)"
| "stage READY_TO_RECEIVE_RESPONSE = Some (Receiver, F_ready_to_receive_response)"
| "stage RESPONSE_PENDING = Some (Receiver, F_response_pending)"
| "stage RESPONSE_COMPLETE = Some (Requester, F_response_complete)"
| "stage TASK_COMPLETED = Some (Requester, F_task_completed)"
| "stage DESTRUCTION = Some (Requester, F_destruction_imminent)"
| "stage FAILED = Some (Requester, F_task_failed)"
| "stage ABORTED = Some (Requester, F_task_aborted)"
| "stage MSG_INITIALIZED = None"
| "stage INIT4PREV = None"

definition party_pid :: "party \<Rightarrow> 'k message \<Rightarrow> pid" where
  "party_pid a r = (case a of Receiver \<Rightarrow> m_receiver r | Requester \<Rightarrow> m_requester r)"

text \<open>\<open>m_owner->...\<close>: a null owner is a dangling access.\<close>

definition the_owner :: "mid \<Rightarrow> (('k, 'z) world, pid) M" where
  "the_owner m = mbind (deref m) (\<lambda>r. case m_owner r of None \<Rightarrow> mfail Dangling | Some p \<Rightarrow> ret p)"

definition dispatch_state :: "('k, 'z) hooks \<Rightarrow> ('k, 'z) exec \<Rightarrow> mid \<Rightarrow> request_state \<Rightarrow>
    (('k, 'z) world, int) M" where
  "dispatch_state hk ex m new =
     mbind (the_owner m) (\<lambda>p. mbind (deref m) (\<lambda>r.
     case stage new of
       None \<Rightarrow> if p \<noteq> m_requester r then mseq (queue_msg_for_pulsing p m) (ret 0) else ret 0
     | Some (a, f) \<Rightarrow>
         if new = DESTRUCTION then
           mbind (if p = party_pid a r then h_f hk ex f m else ret 0) (\<lambda>err.
           mbind (the_owner m) (\<lambda>p'. mseq (queue_msg_for_pulsing p' m) (ret err)))
         else if p = party_pid a r then h_f hk ex f m
         else mseq (queue_msg_for_pulsing p m) (ret 0)))"

definition has_owner :: "mid \<Rightarrow> (('k, 'z) world, unit) M" where
  "has_owner m = mbind (deref m) (\<lambda>r. massert (\<lambda>_. m_owner r \<noteq> None))"

definition exec_state_body :: "('k, 'z) hooks \<Rightarrow> ('k, 'z) exec \<Rightarrow> ('k, 'z) exec" where
  "exec_state_body hk ex m new =
     mbind (handle_state_change hk ex m new) (\<lambda>rv.
     case rv of
       DONT_CHANGE \<Rightarrow> mbind (deref m) (\<lambda>r. ret (m_now_state r))
     | _ \<Rightarrow>
         let new' = (if rv = PROCEED then new else FAILED) in
         mseq (deref m)
         (mseq (modify (upd_msg m (enter_state new')))
         (mseq (has_owner m)
         (mbind (dispatch_state hk ex m new') (\<lambda>err.
          mseq (has_owner m)
          (mbind (deref m) (\<lambda>r. ret (if err \<noteq> 0 then FAILED else m_now_state r))))))))"

fun exec_state :: "('k, 'z) hooks \<Rightarrow> nat \<Rightarrow> ('k, 'z) exec" where
  "exec_state hk 0 m new = mfail Out_of_fuel"
| "exec_state hk (Suc n) m new = exec_state_body hk (exec_state hk n) m new"

fun state_loop :: "('k, 'z) exec \<Rightarrow> nat \<Rightarrow> ('k, 'z) exec" where
  "state_loop ex 0 m new = ret new"
| "state_loop ex (Suc i) m new = mbind (deref m) (\<lambda>r.
     if new = m_now_state r then ret new
     else mbind (ex m new) (state_loop ex i m))"

definition set_state :: "('k, 'z) exec \<Rightarrow> ('k, 'z) exec" where
  "set_state ex m new = state_loop ex 2 m new"

section \<open>Ownership transfer\<close>

definition set_current_owner :: "('k, 'z) exec \<Rightarrow> mid \<Rightarrow> pid option \<Rightarrow> (('k, 'z) world, pid option) M" where
  "set_current_owner ex m new =
     mbind (deref m) (\<lambda>r.
     if m_owner r \<noteq> new then
       mseq (massert (\<lambda>_. m_owner r = None \<or> new = None))
       (mseq (case m_owner r of
               None \<Rightarrow> ret ()
             | Some p \<Rightarrow> mseq (release p m) (modify (set_owner m None)))
       (case new of
          None \<Rightarrow> ret None
        | Some q \<Rightarrow>
            mseq (own q m)
            (mseq (modify (set_owner m (Some q)))
            (mbind (deref m) (\<lambda>r.
             mbind (ex m (m_now_state r)) (\<lambda>st.
             mbind (deref m) (\<lambda>r.
             mseq (if st \<noteq> m_now_state r then mseq (ex m st) (ret ()) else ret ())
             (mbind (deref m) (\<lambda>r. ret (m_owner r))))))))))
     else ret (m_owner r))"

text \<open>The constructor: a fresh object without an owner, the defaulting of the two parties, the
  communicator between them, and the requester as the first owner.\<close>

definition alloc_msg :: "'k message \<Rightarrow> (('k, 'z) world, mid) M" where
  "alloc_msg r w = Ok (next_mid w, w\<lparr>next_mid := next_mid w + 1, msgs := (msgs w)(next_mid w \<mapsto> r)\<rparr>)"

definition resolve_parties :: "pid option \<Rightarrow> pid option \<Rightarrow> (pid \<times> pid) option" where
  "resolve_parties from to = (case (from, to) of
      (None, None) \<Rightarrow> None
    | (Some p, None) \<Rightarrow> Some (p, p)
    | (None, Some q) \<Rightarrow> Some (q, q)
    | (Some p, Some q) \<Rightarrow> Some (p, q))"

definition new_message :: "env \<Rightarrow> ('k, 'z) exec \<Rightarrow> pid option \<Rightarrow> pid option \<Rightarrow> 'k \<Rightarrow>
    (('k, 'z) world, mid) M" where
  "new_message e ex from to k =
     (case resolve_parties from to of
        None \<Rightarrow> mfail Assert_failed
      | Some (p, q) \<Rightarrow>
          mbind (alloc_msg \<lparr>m_requester = p, m_receiver = q, m_now_state = MSG_INITIALIZED,
              m_previous_state = INIT4PREV, m_owner = None, m_state_change_handlers = [], m_class = k\<rparr>)
          (\<lambda>m. mseq (if p \<noteq> q then mseq (get_interthread_communicator e p p q) (ret ()) else ret ())
              (mseq (set_current_owner ex m (Some p)) (ret m))))"

section \<open>Between threads\<close>

definition mg_write_msg :: "env \<Rightarrow> sock \<Rightarrow> mid \<Rightarrow> (('k, 'z) world, int) M" where
  "mg_write_msg e s m w =
     (let n = env_write e (n_writes w); w1 = w\<lparr>n_writes := n_writes w + 1\<rparr> in
      Ok (n, if n = sizeof_ptr then w1\<lparr>sock_q := (sock_q w1)(peer s := sock_q w1 (peer s) @ [m])\<rparr> else w1))"

definition post_message :: "env \<Rightarrow> ('k, 'z) exec \<Rightarrow> cid \<Rightarrow> mid \<Rightarrow> (('k, 'z) world, int) M" where
  "post_message e ex c m =
     mbind (deref m) (\<lambda>r. mbind (gets (\<lambda>w. comms w c)) (\<lambda>k.
     mseq (massert (\<lambda>_. m_owner r = Some (m_sender k)))
     (mseq (set_current_owner ex m None)
     (mbind (mg_write_msg e (m_sending_socket k) m) (\<lambda>n.
      let rv = (if 0 < n then if n \<noteq> sizeof_ptr then 1 else 0 else n) in
      if rv \<noteq> 0 then mseq (set_current_owner ex m (m_owner r)) (ret rv) else ret rv)))))"

text \<open>The wait for the socket to become readable ends with the socket readable (\<open>ready\<close>) or with
  the stop flag.\<close>

definition pop_one_message :: "env \<Rightarrow> ('k, 'z) exec \<Rightarrow> cid \<Rightarrow> msg_pending_mode \<Rightarrow> bool \<Rightarrow>
    (('k, 'z) world, mid option \<times> msg_pending_mode) M" where
  "pop_one_message e ex c mode ready =
     mbind (gets (\<lambda>w. comms w c)) (\<lambda>k.
     if mode = MSG_PENDING \<or> ready then
       mbind (gets (\<lambda>w. sock_q w (m_receiving_socket k))) (\<lambda>q.
       case q of
         m # ms \<Rightarrow>
           mseq (modify (\<lambda>w. w\<lparr>sock_q := (sock_q w)(m_receiving_socket k := ms)\<rparr>))
           (mseq (set_current_owner ex m (Some (m_receipient k)))
           (ret (Some m, MSG_PENDING)))
       | [] \<Rightarrow> ret (None, if env_read_empty e = 0 then NO_MSG else CONNECTION_DROPPED))
     else ret (None, CONNECTION_DROPPED))"

section \<open>Pulsing\<close>

definition delete_msg :: "mid \<Rightarrow> (('k, 'z) world, unit) M" where
  "delete_msg m = modify (\<lambda>w. w\<lparr>msgs := (msgs w)(m := None)\<rparr>)"

definition pulse_target :: "'k message \<Rightarrow> pid" where
  "pulse_target r = (if m_now_state r \<in> {EXEC_COMMAND, WAIT_FOR_TRANSMIT, COMMENCE_TRANSMIT,
                          READY_TO_RECEIVE_RESPONSE, RESPONSE_PENDING}
                     then m_receiver r else m_requester r)"

definition pulse :: "env \<Rightarrow> ('k, 'z) exec \<Rightarrow> mid \<Rightarrow> (('k, 'z) world, int) M" where
  "pulse e ex m =
     mseq (has_owner m)
     (mbind (deref m) (\<lambda>r. mbind (the_owner m) (\<lambda>p.
      if p \<noteq> pulse_target r then
        mbind (get_interthread_communicator e p p (pulse_target r)) (\<lambda>c. post_message e ex c m)
      else if m_now_state r = DESTRUCTION then
        mseq (release p m) (mseq (modify (set_owner m None)) (mseq (delete_msg m) (ret 0)))
      else ret 0)))"

definition int_or :: "int \<Rightarrow> int \<Rightarrow> int" where
  "int_or a b = or a b"

fun pulse_marked_messages :: "env \<Rightarrow> ('k, 'z) exec \<Rightarrow> nat \<Rightarrow> pid \<Rightarrow> int \<Rightarrow> (('k, 'z) world, int) M" where
  "pulse_marked_messages e ex n p rv w =
     (case pulsing w p of
        [] \<Rightarrow> Ok (rv, w)
      | m # ms \<Rightarrow>
          (case n of
             0 \<Rightarrow> Bad Out_of_fuel
           | Suc n' \<Rightarrow>
               mseq (massert (does_own p m))
               (mbind (deref m) (\<lambda>r.
                mseq (massert (\<lambda>_. m_owner r = Some p))
                (mseq (modify (\<lambda>w. w\<lparr>pulsing := (pulsing w)(p := ms)\<rparr>))
                (mbind (pulse e ex m) (\<lambda>err.
                 pulse_marked_messages e ex n' p (int_or rv err)))))) w))"

declare pulse_marked_messages.simps [simp del]

text \<open>One received message per call: the first of the processor's incoming communicators that
  has something to report.\<close>

fun process_queued :: "env \<Rightarrow> ('k, 'z) exec \<Rightarrow> pid \<Rightarrow> sock set \<Rightarrow> sock set \<Rightarrow> int \<Rightarrow> cid list \<Rightarrow>
    (('k, 'z) world, int) M" where
  "process_queued e ex p rd exc max_fd [] = ret 0"
| "process_queued e ex p rd exc max_fd (c # cs) = mbind (gets (\<lambda>w. comms w c)) (\<lambda>k.
     if has_receiver k p then
       (case is_message_pending k rd exc max_fd of
          MSG_PENDING \<Rightarrow> mseq (pop_one_message e ex c MSG_PENDING True) (ret 0)
        | CONNECTION_DROPPED \<Rightarrow> ret 0
        | _ \<Rightarrow> process_queued e ex p rd exc max_fd cs)
     else process_queued e ex p rd exc max_fd cs)"

definition process_one_queued_tier2_request :: "env \<Rightarrow> ('k, 'z) exec \<Rightarrow> pid \<Rightarrow> sock set \<Rightarrow> sock set \<Rightarrow>
    int \<Rightarrow> (('k, 'z) world, int) M" where
  "process_one_queued_tier2_request e ex p rd exc max_fd =
     (if 0 \<le> max_fd then mbind (gets (\<lambda>w. m_senders w p)) (process_queued e ex p rd exc max_fd)
      else ret 0)"

section \<open>The base class and the cancel message\<close>

fun base_f :: "('k, 'z) exec \<Rightarrow> virtual_f \<Rightarrow> mid \<Rightarrow> (('k, 'z) world, int) M" where
  "base_f ex F_exec_command m = mfail Assert_failed"
| "base_f ex F_wait_for_transmit m = mseq (set_state ex m COMMENCE_TRANSMIT) (ret 0)"
| "base_f ex F_commence_transmit m = ret 0"
| "base_f ex F_ready_to_receive_response m = ret 0"
| "base_f ex F_response_pending m = ret 0"
| "base_f ex F_response_complete m = ret 0"
| "base_f ex F_task_completed m = ret 0"
| "base_f ex F_task_failed m = ret 0"
| "base_f ex F_task_aborted m = ret 0"
| "base_f ex F_destruction_imminent m = ret 0"

definition cancel_f_exec_command :: "('k, 'z) exec \<Rightarrow> mid \<Rightarrow> mid \<Rightarrow> (('k, 'z) world, int) M" where
  "cancel_f_exec_command ex refd m =
     mbind (deref m) (\<lambda>r.
     mseq (massert (\<lambda>_. m_owner r = Some (m_receiver r)))
     (mbind (gets (does_own (m_receiver r) refd)) (\<lambda>b.
      if b then mbind (set_state ex refd ABORTED) (\<lambda>rv. ret (if rv = ABORTED then 1 else 0))
      else ret (- 1))))"

definition cancel_request :: "env \<Rightarrow> ('k, 'z) exec \<Rightarrow> (mid \<Rightarrow> 'k) \<Rightarrow> mid \<Rightarrow> pid \<Rightarrow> (('k, 'z) world, int) M" where
  "cancel_request e ex mk_cancel m transmitter =
     mbind (deref m) (\<lambda>r.
     mbind (new_message e ex (Some transmitter) (Some (m_receiver r)) (mk_cancel m)) (\<lambda>c.
     mseq (set_state ex c EXEC_COMMAND) (ret 0)))"


section \<open>The contract of the derived classes\<close>

text \<open>What the state machine relies on: given a state machine that keeps the invariant, the
  handlers and the virtual methods keep it.\<close>

locale message_hooks =
  fixes hk :: "('k, 'z) hooks" and G :: "'z \<Rightarrow> bool"
  assumes process_keeps: "(\<And>m s. keeps (winv G) evolves (ex m s)) \<Longrightarrow>
      keeps (winv G) evolves (h_process hk ex h m s)"
    and f_keeps: "(\<And>m s. keeps (winv G) evolves (ex m s)) \<Longrightarrow>
      keeps (winv G) evolves (h_f hk ex f m)"

lemma ev_the_owner [keeps_intro]: "keeps (winv G) evolves (the_owner m)"
  unfolding the_owner_def by (intro keeps_intro)

lemma ev_has_owner [keeps_intro]: "keeps (winv G) evolves (has_owner m)"
  unfolding has_owner_def by (intro keeps_intro)

lemma ev_enter_state [keeps_intro]: "keeps (winv G) evolves (modify (upd_msg m (enter_state s)))"
  by (rule keeps_upd_msg) (simp_all add: enter_state_def)

lemma ev_register [keeps_intro]: "keeps (winv G) evolves (register_handler m h)"
  unfolding register_handler_def by (intro keeps_intro keeps_upd_msg) simp_all

lemma ev_unregister [keeps_intro]: "keeps (winv G) evolves (unregister_handler m h)"
  unfolding unregister_handler_def by (intro keeps_intro keeps_upd_msg) simp_all

lemma ev_state_loop:
  assumes "\<And>m s. keeps (winv G) evolves (ex m s)"
  shows "keeps (winv G) evolves (state_loop ex i m new)"
  by (induction i arbitrary: new) (auto intro!: keeps_intro assms)

lemma ev_set_state [keeps_intro]:
  assumes "\<And>m s. keeps (winv G) evolves (ex m s)"
  shows "keeps (winv G) evolves (set_state ex m new)"
  unfolding set_state_def by (rule ev_state_loop [OF assms])

context message_hooks
begin

lemma ev_run_handlers:
  assumes "\<And>m s. keeps (winv G) evolves (ex m s)"
  shows "keeps (winv G) evolves (run_handlers hk ex m new hs)"
  by (induction hs) (auto intro!: keeps_intro process_keeps assms)

lemma ev_exec_state_body:
  assumes "\<And>m s. keeps (winv G) evolves (ex m s)"
  shows "keeps (winv G) evolves (exec_state_body hk ex m new)"
  unfolding exec_state_body_def handle_state_change_def dispatch_state_def Let_def
  by (intro keeps_intro ev_run_handlers f_keeps assms)

lemma ev_exec_state: "keeps (winv G) evolves (exec_state hk n m new)"
  by (induction n arbitrary: m new) (auto intro: ev_exec_state_body keeps_fail)

end

section \<open>Ownership transfer keeps the invariant\<close>

lemma give_up_wp:
  assumes w: "winv G w" and m: "msgs w m = Some r" "m_owner r = Some p"
  shows "wp (set_current_owner ex m None) (\<lambda>rv w'. rv = None \<and> w' = set_owner m None (released p m w)) w"
proof -
  have "wp (release p m) (\<lambda>_ w'. set_owner m None w' = set_owner m None (released p m w)) w"
    by (rule wp_mono [OF release_wp [OF winvD(1) [OF w] m]]) simp
  then have "wp (release p m) (\<lambda>_. wp (modify (set_owner m None))
      (\<lambda>_. wp (ret None) (\<lambda>rv w'. rv = None \<and> w' = set_owner m None (released p m w)))) w"
    by (rule wp_mono) (simp add: wp_simps)
  then show ?thesis
    using m by (simp add: set_current_owner_def wp_simps)
qed

lemma take_wp:
  assumes w: "winv G w" and m: "msgs w m = Some r" "m_owner r = None"
    and free: "\<forall>s. m \<notin> set (sock_q w s)"
    and ex: "\<And>m s. keeps (winv G) evolves (ex m s)"
  shows "wp (set_current_owner ex m (Some q)) (\<lambda>_ w'. winv G w' \<and> evolves w w') w"
proof -
  let ?w = "set_owner m (Some q) (taken q m w)"
  have w1: "winv G ?w" "evolves w ?w"
    using inv_take [OF w m free refl] by auto
  let ?rest = "mbind (deref m) (\<lambda>r. mbind (ex m (m_now_state r)) (\<lambda>st.
             mbind (deref m) (\<lambda>r.
             mseq (if st \<noteq> m_now_state r then mseq (ex m st) (ret ()) else ret ())
             (mbind (deref m) (\<lambda>r. ret (m_owner r))))))"
  have k: "keeps (winv G) evolves ?rest"
    by (intro keeps_intro ex)
  have rest: "wp ?rest (\<lambda>_ w'. winv G w' \<and> evolves w w') ?w"
    by (rule keeps_wp [OF k w1(1)]) (use w1(2) evolves_trans in blast)
  have "m_owner r \<noteq> Some q"
    using m by simp
  then have "wp (own q m) (\<lambda>_. wp (modify (set_owner m (Some q))) (\<lambda>_. wp ?rest (\<lambda>_ w'. winv G w' \<and> evolves w w'))) w"
    by (intro wp_mono [OF own_wp [OF winvD(1) [OF w] m(1)]]) (use rest in \<open>simp_all add: wp_modify\<close>)
  then show ?thesis
    using m unfolding set_current_owner_def by (simp add: wp_simps)
qed


lemma inv_alloc:
  assumes w: "winv G w" and r: "m_owner r = None"
    and w': "w' = w\<lparr>next_mid := next_mid w + 1, msgs := (msgs w)(next_mid w \<mapsto> r)\<rparr>"
  shows "winv G w' \<and> evolves w w' \<and> (\<forall>s. next_mid w \<notin> set (sock_q w' s))"
proof -
  have sel: "glob w' = glob w" "sock_q w' = sock_q w" "next_mid w' = next_mid w + 1"
      "owned w' = owned w" "pulsing w' = pulsing w" "msgs w' = (msgs w)(next_mid w \<mapsto> r)"
      "m_communicators w' = m_communicators w" "comms w' = comms w"
    by (simp_all add: w')
  have wf: "lists_ok w" "owner_ok w" "limbo_ok w" "alloc_ok w" "comm_inv w"
    using w by (simp_all add: winv_def wf_def)
  have fresh: "msgs w (next_mid w) = None"
    using wf(4) by (simp add: alloc_ok_def)
  then have notin: "next_mid w \<notin> set (owned w p)" for p
    using wf(2) by (auto simp: owner_ok_def)
  have noq: "next_mid w \<notin> set (sock_q w s)" for s
    using limbo_okD [OF wf(3)] fresh by fastforce
  have "comm_inv w'"
    by (rule comm_inv_cong [OF wf(5)]) (simp_all add: w')
  moreover have "lists_ok w'"
    using wf(1) by (simp add: lists_ok_def sel)
  moreover have "owner_ok w'"
    using wf(2) notin r by (auto simp: owner_ok_def sel)
  moreover have "limbo_ok w'"
    using wf(3) noq r unfolding limbo_ok_def sel by auto
  moreover have "alloc_ok w'"
    using wf(4) by (auto simp: alloc_ok_def sel)
  ultimately show ?thesis
    using w noq by (auto simp: winv_def wf_def evolves_def sel)
qed

lemma inv_enqueue:
  assumes w: "winv G w" and m: "msgs w m = Some r" "m_owner r = None" "\<forall>s. m \<notin> set (sock_q w s)"
    and w': "w' = w\<lparr>n_writes := n, sock_q := (sock_q w)(s := sock_q w s @ [m])\<rparr>"
  shows "winv G w' \<and> evolves w w'"
proof -
  have wf: "lists_ok w" "owner_ok w" "limbo_ok w" "alloc_ok w" "comm_inv w"
    using w by (simp_all add: winv_def wf_def)
  have "comm_inv w'"
    by (rule comm_inv_cong [OF wf(5)]) (simp_all add: w')
  moreover have "limbo_ok w'"
    using wf(3) m unfolding limbo_ok_def w' by auto
  ultimately show ?thesis
    using w by (auto simp: winv_def wf_def evolves_def w' lists_ok_def owner_ok_def alloc_ok_def)
qed

lemma inv_dequeue:
  assumes w: "winv G w" and q: "sock_q w s = m # ms"
    and w': "w' = w\<lparr>sock_q := (sock_q w)(s := ms)\<rparr>"
  shows "winv G w' \<and> evolves w w' \<and> (\<forall>t. m \<notin> set (sock_q w' t)) \<and> (\<exists>r. msgs w' m = Some r \<and> m_owner r = None)"
proof -
  have wf: "lists_ok w" "owner_ok w" "limbo_ok w" "alloc_ok w" "comm_inv w"
    using w by (simp_all add: winv_def wf_def)
  have d: "distinct (m # ms)" "\<And>t. m \<in> set (sock_q w t) \<Longrightarrow> s = t"
    using wf(3) q unfolding limbo_ok_def by (metis, metis list.set_intros(1))
  have sub: "set (sock_q w' t) \<subseteq> set (sock_q w t)" "distinct (sock_q w' t)" for t
    using d wf(3) q by (auto simp: w' limbo_ok_def)
  have no: "\<forall>t. m \<notin> set (sock_q w' t)"
    using d by (auto simp: w')
  have "comm_inv w'"
    by (rule comm_inv_cong [OF wf(5)]) (simp_all add: w')
  moreover have "limbo_ok w'"
  unfolding limbo_ok_def
  proof (intro conjI allI impI)
    show "distinct (sock_q w' t)" for t
      by (rule sub(2))
    show "t = u" if "n \<in> set (sock_q w' t)" "n \<in> set (sock_q w' u)" for t u n
      using that sub(1) wf(3) unfolding limbo_ok_def by (meson subsetD)
    show "\<exists>r. msgs w' n = Some r \<and> m_owner r = None" if "n \<in> set (sock_q w' t)" for t n
      using limbo_okD [OF wf(3) subsetD [OF sub(1) that]] by (simp add: w')
  qed
  ultimately show ?thesis
    using w no limbo_okD [OF wf(3), of m s] q
    by (auto simp: winv_def wf_def evolves_def w' lists_ok_def owner_ok_def alloc_ok_def)
qed

lemma inv_writes: "winv G w \<Longrightarrow> winv G (w\<lparr>n_writes := n\<rparr>) \<and> evolves w (w\<lparr>n_writes := n\<rparr>)"
  by (auto simp: winv_def wf_def evolves_def lists_ok_def owner_ok_def alloc_ok_def limbo_ok_def elim!: comm_inv_cong)

lemma inv_delete:
  assumes w: "winv G w" and m: "msgs w m = Some r" "m_owner r = None" "\<forall>s. m \<notin> set (sock_q w s)"
    and w': "w' = w\<lparr>msgs := (msgs w)(m := None)\<rparr>"
  shows "winv G w' \<and> evolves w w'"
proof -
  have wf: "lists_ok w" "owner_ok w" "limbo_ok w" "alloc_ok w" "comm_inv w"
    using w by (simp_all add: winv_def wf_def)
  have "comm_inv w'"
    by (rule comm_inv_cong [OF wf(5)]) (simp_all add: w')
  moreover have "limbo_ok w'"
    using wf(3) m unfolding limbo_ok_def w' by auto
  moreover have "owner_ok w'"
    using wf(2) m by (auto simp: owner_ok_def w')
  ultimately show ?thesis
    using w by (auto simp: winv_def wf_def evolves_def w' lists_ok_def alloc_ok_def)
qed


section \<open>Construction, posting, popping and pulsing keep the invariant\<close>

lemma take_keeps:
  assumes "winv G w" "msgs w m = Some r" "m_owner r = None" "\<forall>s. m \<notin> set (sock_q w s)"
    and "\<And>m s. keeps (winv G) evolves (ex m s)" "evolves v w"
  shows "wp (set_current_owner ex m (Some q)) (\<lambda>_ w'. winv G w' \<and> evolves v w') w"
  by (rule wp_mono [OF take_wp [OF assms(1-5)]]) (use assms(6) evolves_trans in blast)

lemma ev_new_message [keeps_intro]:
  fixes ex :: "('k, 'z) exec"
  assumes ex: "\<And>m s. keeps (winv G) evolves (ex m s)"
  shows "keeps (winv G) evolves (new_message e ex from to k)"
proof (rule keepsI)
  fix w :: "('k, 'z) world" assume w: "winv G w"
  show "wp (new_message e ex from to k) (\<lambda>_ w'. winv G w' \<and> evolves w w') w"
  proof (cases "resolve_parties from to")
    case (Some pq)
    obtain p q where pq: "pq = (p, q)" by fastforce
    define r where "r = \<lparr>m_requester = p, m_receiver = q, m_now_state = MSG_INITIALIZED,
        m_previous_state = INIT4PREV, m_owner = None, m_state_change_handlers = [], m_class = k\<rparr>"
    define w1 where "w1 = w\<lparr>next_mid := next_mid w + 1, msgs := (msgs w)(next_mid w \<mapsto> r)\<rparr>"
    have w1: "winv G w1" "evolves w w1" "\<forall>s. next_mid w \<notin> set (sock_q w1 s)"
      using inv_alloc [OF w _ w1_def] by (simp_all add: r_def)
    have m1: "msgs w1 (next_mid w) = Some r" "m_owner r = None"
      by (simp_all add: w1_def r_def)
    let ?tk = "wp (set_current_owner ex (next_mid w) (Some p)) (\<lambda>_ w'. winv G w' \<and> evolves w w')"
    have tk: "?tk w2" if "comm_inv w2" "comm_frame w1 w2" for w2
    proof (rule take_keeps [OF _ _ m1(2) _ ex])
      show "winv G w2" "evolves w w2"
        using inv_comm_frame [OF w1(1) that(2,1)] w1(2) evolves_trans by blast+
      show "msgs w2 (next_mid w) = Some r" "\<forall>s. next_mid w \<notin> set (sock_q w2 s)"
        using that m1 w1(3) by (simp_all add: comm_frame_def)
    qed
    have ci: "comm_inv w1"
      using w1(1) by (simp add: winv_def wf_def)
    have "wp (get_interthread_communicator e p p q) (\<lambda>_. ?tk) w1"
      by (rule wp_mono [OF wp_get_comm [OF ci]]) (use tk in blast)
    moreover have "?tk w1"
      using tk [OF ci] by simp
    ultimately have "wp (mseq (if p \<noteq> q then mseq (get_interthread_communicator e p p q) (ret ()) else ret ())
        (mseq (set_current_owner ex (next_mid w) (Some p)) (ret (next_mid w))))
        (\<lambda>_ w'. winv G w' \<and> evolves w w') w1"
      by (auto simp: wp_simps)
    moreover have "new_message e ex from to k w =
        mseq (if p \<noteq> q then mseq (get_interthread_communicator e p p q) (ret ()) else ret ())
        (mseq (set_current_owner ex (next_mid w) (Some p)) (ret (next_mid w))) w1"
      using Some pq by (simp add: new_message_def mbind_def alloc_msg_def w1_def r_def)
    ultimately show ?thesis
      by (simp add: wp_def)
  qed (simp add: new_message_def wp_simps)
qed

lemma post_wp:
  fixes ex :: "('k, 'z) exec"
  assumes w: "winv G w" and ex: "\<And>m s. keeps (winv G) evolves (ex m s)"
  shows "wp (post_message e ex c m) (\<lambda>_ w'. winv G w' \<and> evolves w w') w"
proof -
  define k where "k = comms w c"
  have "wp (set_current_owner ex m None) (\<lambda>_. wp (mg_write_msg e (m_sending_socket k) m) (\<lambda>n.
      wp (let rv = (if 0 < n then if n \<noteq> sizeof_ptr then 1 else 0 else n) in
          if rv \<noteq> 0 then mseq (set_current_owner ex m (m_owner r)) (ret rv) else ret rv)
         (\<lambda>_ w'. winv G w' \<and> evolves w w'))) w"
    if r: "msgs w m = Some r" "m_owner r = Some p" for r p
  proof (rule wp_mono [OF give_up_wp [OF w r]], elim conjE)
    fix x w1
    assume w1_def: "w1 = set_owner m None (released p m w)"
    have w1: "winv G w1" "evolves w w1" "\<forall>s. m \<notin> set (sock_q w1 s)"
      using inv_release [OF w r w1_def] by simp_all
    have m1: "msgs w1 m = Some (r\<lparr>m_owner := None\<rparr>)"
      using r by (simp add: w1_def set_owner_def released_def)
    define n where "n = env_write e (n_writes w1)"
    define w2 where "w2 = w1\<lparr>n_writes := n_writes w1 + 1\<rparr>"
    define w3 where "w3 = w1\<lparr>n_writes := n_writes w1 + 1,
      sock_q := (sock_q w1)(peer (m_sending_socket k) := sock_q w1 (peer (m_sending_socket k)) @ [m])\<rparr>"
    have w3: "winv G w3" "evolves w w3"
      using inv_enqueue [OF w1(1) m1 _ w1(3) w3_def] evolves_trans [OF w1(2)] by auto
    have w2: "winv G w2" "evolves w w2"
      using inv_writes [OF w1(1)] evolves_trans [OF w1(2)] unfolding w2_def by blast+
    have tk: "wp (set_current_owner ex m (Some p)) (\<lambda>_ w'. winv G w' \<and> evolves w w') w2"
      by (rule take_keeps [where r = "r\<lparr>m_owner := None\<rparr>", OF w2(1) _ _ _ ex w2(2)]) (use m1 w1(3) in \<open>simp_all add: w2_def\<close>)
    have wr: "mg_write_msg e (m_sending_socket k) m w1 = Ok (n, if n = sizeof_ptr then w3 else w2)"
      by (simp add: mg_write_msg_def Let_def n_def w2_def w3_def)
    show "wp (mg_write_msg e (m_sending_socket k) m) (\<lambda>n.
      wp (let rv = (if 0 < n then if n \<noteq> sizeof_ptr then 1 else 0 else n) in
          if rv \<noteq> 0 then mseq (set_current_owner ex m (m_owner r)) (ret rv) else ret rv)
         (\<lambda>_ w'. winv G w' \<and> evolves w w')) w1"
    proof (cases "n = sizeof_ptr")
      case True
      then show ?thesis
        using w3 wr by (simp add: wp_def sizeof_ptr_def ret_def)
    next
      case False
      have "wp (let rv = (if 0 < n then if n \<noteq> sizeof_ptr then 1 else 0 else n) in
          if rv \<noteq> 0 then mseq (set_current_owner ex m (m_owner r)) (ret rv) else ret rv)
         (\<lambda>_ w'. winv G w' \<and> evolves w w') w2"
        using tk w2 r by (simp add: Let_def wp_simps)
      then show ?thesis
        using wr False unfolding wp_def [of "mg_write_msg e (m_sending_socket k) m"] by simp
    qed
  qed
  then show ?thesis
    by (simp add: post_message_def wp_simps k_def)
qed

lemma ev_post [keeps_intro]:
  assumes "\<And>m s. keeps (winv G) evolves (ex m s)"
  shows "keeps (winv G) evolves (post_message e ex c m)"
  by (rule keepsI) (rule post_wp [OF _ assms])

lemma ev_pop [keeps_intro]:
  fixes ex :: "('k, 'z) exec"
  assumes ex: "\<And>m s. keeps (winv G) evolves (ex m s)"
  shows "keeps (winv G) evolves (pop_one_message e ex c mode ready)"
proof (rule keepsI)
  fix w :: "('k, 'z) world" assume w: "winv G w"
  define s where "s = m_receiving_socket (comms w c)"
  have "wp (set_current_owner ex m (Some p)) (\<lambda>_ w'. winv G w' \<and> evolves w w') (w\<lparr>sock_q := (sock_q w)(s := ms)\<rparr>)"
    if "sock_q w s = m # ms" for m ms p
    using inv_dequeue [OF w that refl] by (auto intro!: take_keeps ex)
  then show "wp (pop_one_message e ex c mode ready) (\<lambda>_ w'. winv G w' \<and> evolves w w') w"
    using w by (auto simp: pop_one_message_def wp_simps s_def split: list.splits)
qed

lemma ev_pulse [keeps_intro]:
  fixes ex :: "('k, 'z) exec"
  assumes ex: "\<And>m s. keeps (winv G) evolves (ex m s)"
  shows "keeps (winv G) evolves (pulse e ex m)"
proof -
  have del: "wp (mseq (release p m) (mseq (modify (set_owner m None)) (mseq (delete_msg m) (ret 0))))
      (\<lambda>_ w'. winv G w' \<and> evolves w w') w"
    if w: "winv G w" and r: "msgs w m = Some r" "m_owner r = Some p" for w :: "('k, 'z) world" and r p
  proof -
    define w1 where "w1 = set_owner m None (released p m w)"
    have w1: "winv G w1" "evolves w w1" "\<forall>s. m \<notin> set (sock_q w1 s)"
      using inv_release [OF w r w1_def] by simp_all
    have m1: "msgs w1 m = Some (r\<lparr>m_owner := None\<rparr>)"
      using r by (simp add: w1_def set_owner_def released_def)
    have "winv G (w1\<lparr>msgs := (msgs w1)(m := None)\<rparr>) \<and> evolves w (w1\<lparr>msgs := (msgs w1)(m := None)\<rparr>)"
      using inv_delete [OF w1(1) m1 _ w1(3) refl] evolves_trans [OF w1(2)] by simp
    then show ?thesis
      unfolding wp_simps delete_msg_def
      by (intro wp_mono [OF release_wp [OF winvD(1) [OF w] r]]) (simp add: w1_def)
  qed
  show ?thesis
  proof (rule keepsI)
    fix w :: "('k, 'z) world" assume w: "winv G w"
    have post: "wp (mbind (get_interthread_communicator e p p q) (\<lambda>c. post_message e ex c m))
        (\<lambda>_ w'. winv G w' \<and> evolves w w') w" for p q
    proof -
      have "keeps (winv G) evolves (mbind (get_interthread_communicator e p p q) (\<lambda>c. post_message e ex c m))"
        by (intro keeps_intro ex)
      then show ?thesis
        using w by (simp add: keeps_def)
    qed
    have "wp (if p \<noteq> pulse_target r
         then mbind (get_interthread_communicator e p p (pulse_target r)) (\<lambda>c. post_message e ex c m)
         else if m_now_state r = DESTRUCTION
           then mseq (release p m) (mseq (modify (set_owner m None)) (mseq (delete_msg m) (ret 0)))
         else ret 0) (\<lambda>_ w'. winv G w' \<and> evolves w w') w"
      if "msgs w m = Some r" "m_owner r = Some p" for r p
      using post del [OF w that] w by (auto simp: wp_ret)
    then show "wp (pulse e ex m) (\<lambda>_ w'. winv G w' \<and> evolves w w') w"
      by (simp add: pulse_def wp_bind wp_seq wp_deref has_owner_def the_owner_def wp_assert wp_ret
          split: option.split)
  qed
qed


lemma inv_pending:
  assumes "winv G w" "pulsing w p = m # ms"
  shows "winv G (w\<lparr>pulsing := (pulsing w)(p := ms)\<rparr>) \<and> evolves w (w\<lparr>pulsing := (pulsing w)(p := ms)\<rparr>)"
proof -
  let ?w = "w\<lparr>pulsing := (pulsing w)(p := ms)\<rparr>"
  have wf: "lists_ok w" "comm_inv w"
    using assms(1) by (simp_all add: winv_def wf_def)
  have "distinct (m # ms)" "set (m # ms) \<subseteq> set (owned w p)"
    using wf(1) assms(2) unfolding lists_ok_def by metis+
  then have "lists_ok ?w"
    using wf(1) by (auto simp: lists_ok_def)
  moreover have "comm_inv ?w"
    by (rule comm_inv_cong [OF wf(2)]) simp_all
  ultimately show ?thesis
    using assms(1) by (auto simp: winv_def wf_def owner_ok_def limbo_ok_def alloc_ok_def evolves_def)
qed

lemma ev_pulse_marked [keeps_intro]:
  fixes ex :: "('k, 'z) exec"
  assumes ex: "\<And>m s. keeps (winv G) evolves (ex m s)"
  shows "keeps (winv G) evolves (pulse_marked_messages e ex n p rv)"
proof (induction n arbitrary: rv)
  case 0
  then show ?case
    by (auto simp: keeps_def wp_def pulse_marked_messages.simps split: list.split)
next
  case (Suc n)
  show ?case
  proof (rule keepsI)
    fix w :: "('k, 'z) world" assume w: "winv G w"
    show "wp (pulse_marked_messages e ex (Suc n) p rv) (\<lambda>_ w'. winv G w' \<and> evolves w w') w"
    proof (cases "pulsing w p")
      case Nil
      then show ?thesis
        using w by (simp add: wp_def pulse_marked_messages.simps)
    next
      case (Cons m ms)
      let ?w = "w\<lparr>pulsing := (pulsing w)(p := ms)\<rparr>"
      have w1: "winv G ?w" "evolves w ?w"
        using inv_pending [OF w Cons] by simp_all
      have k: "keeps (winv G) evolves (mbind (pulse e ex m) (\<lambda>err. pulse_marked_messages e ex n p (int_or rv err)))"
        by (intro keeps_intro ex Suc.IH)
      have "wp (mbind (pulse e ex m) (\<lambda>err. pulse_marked_messages e ex n p (int_or rv err)))
          (\<lambda>_ w'. winv G w' \<and> evolves w w') ?w"
        by (rule keeps_wp [OF k w1(1)]) (use w1(2) evolves_trans in blast)
      then have "wp (mseq (massert (does_own p m)) (mbind (deref m) (\<lambda>r.
            mseq (massert (\<lambda>_. m_owner r = Some p)) (mseq (modify (\<lambda>w. w\<lparr>pulsing := (pulsing w)(p := ms)\<rparr>))
              (mbind (pulse e ex m) (\<lambda>err. pulse_marked_messages e ex n p (int_or rv err))))))) 
          (\<lambda>_ w'. winv G w' \<and> evolves w w') w"
        by (simp add: wp_simps)
      then show ?thesis
        using Cons by (simp add: wp_def [of "pulse_marked_messages e ex (Suc n) p rv"] pulse_marked_messages.simps
            wp_def [of "mseq _ _"])
    qed
  qed
qed

lemma ev_process_queued:
  assumes "\<And>m s. keeps (winv G) evolves (ex m s)"
  shows "keeps (winv G) evolves (process_queued e ex p rd exc mx cs)"
  by (induction cs) (auto intro!: keeps_intro assms split: msg_pending_mode.split)

lemma ev_process_one_queued [keeps_intro]:
  assumes "\<And>m s. keeps (winv G) evolves (ex m s)"
  shows "keeps (winv G) evolves (process_one_queued_tier2_request e ex p rd exc mx)"
  unfolding process_one_queued_tier2_request_def by (intro keeps_intro ev_process_queued assms)

lemma ev_base_f:
  assumes "\<And>m s. keeps (winv G) evolves (ex m s)"
  shows "keeps (winv G) evolves (base_f ex f m)"
  by (cases f) (auto intro!: keeps_intro assms)

lemma ev_cancel_f:
  assumes "\<And>m s. keeps (winv G) evolves (ex m s)"
  shows "keeps (winv G) evolves (cancel_f_exec_command ex refd m)"
  unfolding cancel_f_exec_command_def by (intro keeps_intro assms)

lemma ev_cancel_request [keeps_intro]:
  assumes "\<And>m s. keeps (winv G) evolves (ex m s)"
  shows "keeps (winv G) evolves (cancel_request e ex mk m q)"
  unfolding cancel_request_def by (intro keeps_intro assms)

end
