(* ===== verification/Requests.thy ===== *)
theory Requests
  imports World
begin

text \<open>The request and response classes of \<open>tws_request.h\<close> and \<open>tws_response.h\<close> and the pure
  part of \<open>tws_request.cpp\<close>: which classes carry a ticker or an order number, which response a
  request waits for, which cancel message it obeys, and what its answer to the web client is.
  One constructor per C++ class, in the order of the sources.\<close>

datatype req_kind =
  Req_scanner_parameters | Req_scanner_subscription | Cancel_scanner_subscription
| Req_mkt_data | Req_historical_data | Cancel_historical_data | Cancel_mkt_data
| Exercise_options | Place_order | Cancel_order | Req_open_orders | Req_account_updates
| Req_executions | Req_ids | Req_contract_details | Req_mkt_depth | Cancel_mkt_depth
| Req_news_bulletins | Cancel_news_bulletins | Set_server_log_level | Req_auto_open_orders
| Req_all_open_orders | Req_managed_accts | Request_fa | Replace_fa | Req_current_time
| Req_fundamental_data | Cancel_fundamental_data | Calculate_implied_volatility
| Cancel_calculate_implied_volatility | Calculate_option_price
| Cancel_calculate_option_price | Req_global_cancel | Req_market_data_type
| Request_realtime_bars | Cancel_realtime_bars | Fetch_tws_info

datatype resp_kind =
  Resp_tick_price | Resp_tick_size | Resp_tick_option_computation | Resp_tick_generic
| Resp_tick_string | Resp_tick_efp | Resp_order_status | Resp_open_order
| Resp_open_order_end | Resp_update_account_value | Resp_update_portfolio
| Resp_update_account_time | Resp_next_valid_id | Resp_contract_details
| Resp_contract_details_end | Resp_bond_contract_details | Resp_exec_details
| Resp_exec_details_end | Resp_error | Resp_update_mkt_depth | Resp_update_mkt_depth_l2
| Resp_update_news_bulletin | Resp_managed_accounts | Resp_receive_fa
| Resp_historical_data | Resp_historical_data_end | Resp_scanner_parameters
| Resp_scanner_data | Resp_scanner_data_end | Resp_scanner_data_start | Resp_current_time
| Resp_realtime_bar | Resp_fundamental_data | Resp_delta_neutral_validation
| Resp_acct_download_end | Resp_tick_snapshot_end | Resp_market_data_type
| Resp_commission_report

text \<open>The error codes of the TWS API that the sources name; the API's other codes are carried by
  their number.\<close>

datatype error_code =
  FAIL_MARKET_DATA_FARM_CONNECTED | FAIL_MARKET_DATA_FARM_DISCONNECTED
| FAIL_MARKET_DATA_FARM_CONNECTION_INACTIVE | FAIL_HISTORICAL_DATA_FARM_CONNECTED
| FAIL_HISTORICAL_DATA_FARM_DISCONNECTED | FAIL_HISTORICAL_DATA_FARM_INACTIVE
| FAIL_HISTORICAL_MARKET_DATA_SERVICE | INFO_HISTORICAL_MARKET_DATA_SERVICE_QUERY
| Other_code int

text \<open>The members of the response classes that the program reads: the ticker of the classes below
  \<open>tws_response_w_ticker_message\<close>, the element count of the scanner reports, code and text of an
  error (the text is also the XML document and the account list), the clock, the order number and
  the contract details.\<close>

record 'd resp_data =
  rd_ticker_id :: int
  rd_num_elements :: int
  rd_error_code :: error_code
  rd_text :: string
  rd_time :: int
  rd_order_id :: int
  rd_details :: "'d option"

text \<open>The dynamic type of a message with the members of its class: \<open>Req k i args t\<close> is a request
  of class \<open>k\<close> with ticker or order number \<open>i\<close>, the text arguments of the request and the
  current-time answer.\<close>

datatype 'd tws_class =
  Req req_kind int "string list" int
| Resp resp_kind "'d resp_data"
| Cancel nat
| Plain

section \<open>Numbers\<close>

fun is_w_ticker :: "req_kind \<Rightarrow> bool" where
  "is_w_ticker Req_scanner_subscription = True"
| "is_w_ticker Cancel_scanner_subscription = True"
| "is_w_ticker Req_mkt_data = True"
| "is_w_ticker Req_historical_data = True"
| "is_w_ticker Cancel_historical_data = True"
| "is_w_ticker Cancel_mkt_data = True"
| "is_w_ticker Exercise_options = True"
| "is_w_ticker Req_executions = True"
| "is_w_ticker Req_contract_details = True"
| "is_w_ticker Req_mkt_depth = True"
| "is_w_ticker Cancel_mkt_depth = True"
| "is_w_ticker Req_fundamental_data = True"
| "is_w_ticker Cancel_fundamental_data = True"
| "is_w_ticker Calculate_implied_volatility = True"
| "is_w_ticker Cancel_calculate_implied_volatility = True"
| "is_w_ticker Calculate_option_price = True"
| "is_w_ticker Cancel_calculate_option_price = True"
| "is_w_ticker Request_realtime_bars = True"
| "is_w_ticker Cancel_realtime_bars = True"
| "is_w_ticker _ = False"

definition is_w_order :: "req_kind \<Rightarrow> bool" where
  "is_w_order k \<longleftrightarrow> k \<in> {Place_order, Cancel_order}"

fun resp_w_ticker :: "resp_kind \<Rightarrow> bool" where
  "resp_w_ticker Resp_order_status = False"
| "resp_w_ticker Resp_open_order = False"
| "resp_w_ticker Resp_open_order_end = False"
| "resp_w_ticker Resp_update_account_value = False"
| "resp_w_ticker Resp_update_portfolio = False"
| "resp_w_ticker Resp_update_account_time = False"
| "resp_w_ticker Resp_next_valid_id = False"
| "resp_w_ticker Resp_exec_details = False"
| "resp_w_ticker Resp_update_news_bulletin = False"
| "resp_w_ticker Resp_managed_accounts = False"
| "resp_w_ticker Resp_receive_fa = False"
| "resp_w_ticker Resp_scanner_parameters = False"
| "resp_w_ticker Resp_current_time = False"
| "resp_w_ticker Resp_acct_download_end = False"
| "resp_w_ticker Resp_commission_report = False"
| "resp_w_ticker _ = True"

text \<open>\<open>dynamic_cast\<close> to one of the two base classes with a ticker, and its \<open>get_ticker_id\<close>.\<close>

fun class_ticker :: "'d tws_class \<Rightarrow> int option" where
  "class_ticker (Req k i a t) = (if is_w_ticker k then Some i else None)"
| "class_ticker (Resp k d) = (if resp_w_ticker k then Some (rd_ticker_id d) else None)"
| "class_ticker _ = None"

fun is_request :: "'d tws_class \<Rightarrow> bool" where
  "is_request (Req k i a t) = True"
| "is_request _ = False"

fun is_scan_request :: "'d tws_class \<Rightarrow> bool" where
  "is_scan_request (Req k i a t) = (k = Req_scanner_subscription)"
| "is_scan_request _ = False"

section \<open>Which response belongs to which request\<close>

fun response_kind_ok :: "req_kind \<Rightarrow> resp_kind \<Rightarrow> bool" where
  "response_kind_ok Req_scanner_parameters k = (k = Resp_scanner_parameters)"
| "response_kind_ok Req_scanner_subscription k =
     (k = Resp_scanner_data \<or> k = Resp_scanner_data_start \<or> k = Resp_scanner_data_end \<or> k = Resp_error)"
| "response_kind_ok Req_current_time k = (k = Resp_current_time)"
| "response_kind_ok _ k = False"

definition response_is_meant_for_us :: "'d tws_class \<Rightarrow> request_state \<Rightarrow> 'd tws_class \<Rightarrow> bool" where
  "response_is_meant_for_us self st resp =
     (case (self, resp) of
        (Req k i a t, Resp rk d) \<Rightarrow> response_kind_ok k rk \<and> st = READY_TO_RECEIVE_RESPONSE
      | _ \<Rightarrow> False)"

section \<open>Which cancel message a request obeys\<close>

text \<open>\<open>self\<close> is the pending request with its number, \<open>req\<close> the cancel message with its number.\<close>

fun cancel_request_is_meant_for_us :: "req_kind \<Rightarrow> int \<Rightarrow> req_kind \<Rightarrow> int \<Rightarrow> bool" where
  "cancel_request_is_meant_for_us Req_scanner_subscription i req j =
     (req = Cancel_scanner_subscription \<and> j = i)"
| "cancel_request_is_meant_for_us Req_mkt_data i req j = (req = Cancel_mkt_data \<and> j = i)"
| "cancel_request_is_meant_for_us Req_historical_data i req j =
     (req = Cancel_historical_data \<and> j = i)"
| "cancel_request_is_meant_for_us Place_order i req j =
     (if req = Cancel_order then j = i else req = Req_global_cancel)"
| "cancel_request_is_meant_for_us Req_mkt_depth i req j = (req = Cancel_mkt_depth \<and> j = i)"
| "cancel_request_is_meant_for_us Req_news_bulletins i req j = (req = Cancel_news_bulletins)"
| "cancel_request_is_meant_for_us Req_fundamental_data i req j =
     (req = Cancel_fundamental_data \<and> j = i)"
| "cancel_request_is_meant_for_us Calculate_implied_volatility i req j =
     (req = Cancel_calculate_implied_volatility \<and> j = i)"
| "cancel_request_is_meant_for_us Calculate_option_price i req j =
     (req = Cancel_calculate_option_price \<and> j = i)"
| "cancel_request_is_meant_for_us Request_realtime_bars i req j =
     (req = Cancel_realtime_bars \<and> j = i)"
| "cancel_request_is_meant_for_us _ i req j = False"

definition class_obeys :: "'d tws_class \<Rightarrow> 'd tws_class \<Rightarrow> bool" where
  "class_obeys self cancel =
     (case (self, cancel) of
        (Req k i a t, Req k' j a' t') \<Rightarrow> cancel_request_is_meant_for_us k i k' j
      | _ \<Rightarrow> False)"

text \<open>The request class a cancel class takes back; the global cancel takes back every order.\<close>

fun cancels :: "req_kind \<Rightarrow> req_kind option" where
  "cancels Cancel_scanner_subscription = Some Req_scanner_subscription"
| "cancels Cancel_mkt_data = Some Req_mkt_data"
| "cancels Cancel_historical_data = Some Req_historical_data"
| "cancels Cancel_order = Some Place_order"
| "cancels Req_global_cancel = Some Place_order"
| "cancels Cancel_mkt_depth = Some Req_mkt_depth"
| "cancels Cancel_news_bulletins = Some Req_news_bulletins"
| "cancels Cancel_fundamental_data = Some Req_fundamental_data"
| "cancels Cancel_calculate_implied_volatility = Some Calculate_implied_volatility"
| "cancels Cancel_calculate_option_price = Some Calculate_option_price"
| "cancels Cancel_realtime_bars = Some Request_realtime_bars"
| "cancels _ = None"

section \<open>The text of a ticker list\<close>

text \<open>The generic tick list of a market data request as the API wants it: the numbers in decimal,
  separated by commas, with \<open>mdoff\<close> at the end.\<close>

fun ticks_text :: "string \<Rightarrow> int list \<Rightarrow> string" where
  "ticks_text s [] = s"
| "ticks_text s (i # is) =
     (let buf = CHR '','' # show_int i in
      ticks_text (if length s = 0 then drop 1 buf else s @ buf) is)"

definition ticker_list_text :: "int list \<Rightarrow> bool \<Rightarrow> string" where
  "ticker_list_text ticks mdoff =
     (let s = ticks_text [] ticks in
      if mdoff then s @ drop (if length s = 0 then 1 else 0) '',mdoff'' else s)"

section \<open>Answers to the web client\<close>

text \<open>\<open>save_response\<close> of every class; only the current time writes anything.\<close>

fun save_response :: "'d tws_class \<Rightarrow> (string \<times> int) option" where
  "save_response (Req k i a t) = (if k = Req_current_time then Some (''time'', t) else None)"
| "save_response _ = None"

end
