(* ===== verification/UniqueId.thy ===== *)
theory UniqueId
  imports Prelude
begin

text \<open>The identifier source of \<open>unique_type_id.h\<close>, the order/ticker numbers that
  \<open>app_manager.cpp\<close> hands out with it, and the spin lock of the thread-safe variant as an
  interleaving of the steps of several threads.\<close>

section \<open>The manager\<close>

record id_manager = m_prev_id :: u32

definition unique_type_id_manager :: "u32 \<Rightarrow> id_manager" where
  "unique_type_id_manager start_id = \<lparr>m_prev_id = start_id - 1\<rparr>"

text \<open>The thread-safe constructor passes \<open>start_id - 1\<close> on to the base constructor, which
  subtracts one again.\<close>

definition unique_type_id_threadsafe_manager :: "u32 \<Rightarrow> id_manager" where
  "unique_type_id_threadsafe_manager start_id = unique_type_id_manager (start_id - 1)"

definition obtain_unique_id :: "id_manager \<Rightarrow> u32 \<times> id_manager" where
  "obtain_unique_id m = (let v = m_prev_id m + 1 in (v, m\<lparr>m_prev_id := v\<rparr>))"

definition reset_unique_id :: "u32 \<Rightarrow> id_manager \<Rightarrow> u32 \<times> id_manager" where
  "reset_unique_id v m = (v, m\<lparr>m_prev_id := v\<rparr>)"

definition update_unique_id :: "u32 \<Rightarrow> id_manager \<Rightarrow> u32 \<times> id_manager" where
  "update_unique_id v m =
     (let m' = (if m_prev_id m < v then m\<lparr>m_prev_id := v\<rparr> else m) in (m_prev_id m', m'))"

text \<open>The application manager converts the C \<open>int\<close> of the TWS API to the unsigned identifier
  and the result back.\<close>

definition set_next_order_id :: "int \<Rightarrow> id_manager \<Rightarrow> int \<times> id_manager" where
  "set_next_order_id i m = (let (v, m') = update_unique_id (word_of_int i) m in (sint v, m'))"

definition get_next_order_id :: "id_manager \<Rightarrow> int \<times> id_manager" where
  "get_next_order_id m = (let (v, m') = obtain_unique_id m in (sint v, m'))"

definition get_next_ticker_id :: "id_manager \<Rightarrow> int \<times> id_manager" where
  "get_next_ticker_id m = (let (v, m') = obtain_unique_id m in (sint v, m'))"

section \<open>The interface of an identifier source\<close>

text \<open>What a client relies on: the next identifier is the successor of the last one.\<close>

locale id_source =
  fixes last_id :: "'s \<Rightarrow> u32"
    and obt :: "'s \<Rightarrow> u32 \<times> 's"
  assumes obt_id: "fst (obt s) = last_id s + 1"
    and obt_last: "last_id (snd (obt s)) = fst (obt s)"
begin

fun take_ids :: "nat \<Rightarrow> 's \<Rightarrow> u32 list \<times> 's" where
  "take_ids 0 s = ([], s)"
| "take_ids (Suc n) s = (let (v, s1) = obt s; (vs, s2) = take_ids n s1 in (v # vs, s2))"

lemma take_ids_closed:
  "fst (take_ids n s) = map (\<lambda>i. last_id s + 1 + of_nat i) [0..<n]"
proof (induction n arbitrary: s)
  case (Suc n)
  have "[0..<Suc n] = 0 # map Suc [0..<n]"
    by (simp add: upt_conv_Cons map_Suc_upt del: upt_Suc)
  then show ?case
    using Suc.IH [of "snd (obt s)"] obt_id [of s] obt_last [of s]
    by (simp add: case_prod_beta Let_def comp_def ac_simps del: upt_Suc)
qed simp

lemma take_ids_distinct:
  assumes "n \<le> 2 ^ 32"
  shows "distinct (fst (take_ids n s))"
proof -
  have "inj_on (\<lambda>i. last_id s + 1 + (of_nat i :: u32)) (set [0..<n])"
  proof (rule inj_onI)
    fix i j assume "i \<in> set [0..<n]" "j \<in> set [0..<n]"
      and "last_id s + 1 + (of_nat i :: u32) = last_id s + 1 + of_nat j"
    then have "unat (of_nat i :: u32) = unat (of_nat j :: u32)" "i < 2 ^ 32" "j < 2 ^ 32"
      using assms by auto
    then show "i = j"
      by (simp add: unat_of_nat)
  qed
  then show ?thesis
    by (simp add: take_ids_closed distinct_map)
qed

end


interpretation ids: id_source m_prev_id obtain_unique_id
  by unfold_locales (simp_all add: obtain_unique_id_def Let_def)

section \<open>The operations\<close>

lemma update_ge: "v \<le> m_prev_id (snd (update_unique_id v m))"
  by (simp add: update_unique_id_def Let_def not_less)

lemma update_mono: "m_prev_id m \<le> m_prev_id (snd (update_unique_id v m))"
  by (auto simp: update_unique_id_def Let_def)

lemma update_max: "m_prev_id (snd (update_unique_id v m)) = max (m_prev_id m) v"
  by (auto simp: update_unique_id_def Let_def max_def)

lemma obtain_after_update:
  assumes "max (m_prev_id m) v < max_word"
  shows "v < fst (obtain_unique_id (snd (update_unique_id v m)))"
proof -
  have "1 + max (m_prev_id m) v \<noteq> 0"
    using assms by (metis add_eq_0_iff word_not_simps(3) eq_neg_iff_add_eq_0 add.commute order_less_irrefl)
  then have "max (m_prev_id m) v < max (m_prev_id m) v + 1"
    by (simp add: word_less_nat_alt unatSuc add.commute)
  then show ?thesis
    by (simp add: obtain_unique_id_def Let_def update_max)
qed

section \<open>The spin lock\<close>

text \<open>Several threads run \<open>obtain_unique_id\<close> of the thread-safe manager at once. Each takes the
  lock, reads the counter, writes it back incremented, and leaves the lock with its result; the
  steps of different threads interleave freely.\<close>

datatype pc = Idle | Entered | Loaded u32 | Stored u32

record spin_state =
  sp_mgr :: id_manager
  sp_lock :: bool
  sp_pc :: "nat \<Rightarrow> pc"
  sp_out :: "u32 list"

definition spin_init :: "id_manager \<Rightarrow> spin_state" where
  "spin_init m = \<lparr>sp_mgr = m, sp_lock = False, sp_pc = (\<lambda>_. Idle), sp_out = []\<rparr>"

definition acquire :: "nat \<Rightarrow> spin_state \<Rightarrow> spin_state" where
  "acquire t s = s\<lparr>sp_lock := True, sp_pc := (sp_pc s)(t := Entered)\<rparr>"

definition load_id :: "nat \<Rightarrow> spin_state \<Rightarrow> spin_state" where
  "load_id t s = s\<lparr>sp_pc := (sp_pc s)(t := Loaded (m_prev_id (sp_mgr s)))\<rparr>"

definition store_id :: "nat \<Rightarrow> u32 \<Rightarrow> spin_state \<Rightarrow> spin_state" where
  "store_id t v s = s\<lparr>sp_mgr := (sp_mgr s)\<lparr>m_prev_id := v + 1\<rparr>,
     sp_pc := (sp_pc s)(t := Stored (v + 1))\<rparr>"

definition unlock :: "nat \<Rightarrow> u32 \<Rightarrow> spin_state \<Rightarrow> spin_state" where
  "unlock t v s = s\<lparr>sp_lock := False, sp_pc := (sp_pc s)(t := Idle), sp_out := sp_out s @ [v]\<rparr>"

inductive spin_step :: "spin_state \<Rightarrow> spin_state \<Rightarrow> bool" where
  acq: "sp_pc s t = Idle \<Longrightarrow> \<not> sp_lock s \<Longrightarrow> spin_step s (acquire t s)"
| ld: "sp_pc s t = Entered \<Longrightarrow> spin_step s (load_id t s)"
| st: "sp_pc s t = Loaded v \<Longrightarrow> spin_step s (store_id t v s)"
| rel: "sp_pc s t = Stored v \<Longrightarrow> spin_step s (unlock t v s)"

inductive spin_reach :: "id_manager \<Rightarrow> spin_state \<Rightarrow> bool" for m where
  spin_start: "spin_reach m (spin_init m)"
| spin_next: "spin_reach m s \<Longrightarrow> spin_step s s' \<Longrightarrow> spin_reach m s'"

text \<open>The invariant: at most one thread is inside, exactly when the lock is held; the
  identifiers already returned are the first ones of the sequence, and the counter is at the
  end of it, one further when the thread inside has stored.\<close>

definition spin_inv :: "id_manager \<Rightarrow> spin_state \<Rightarrow> bool" where
  "spin_inv m s \<longleftrightarrow>
     (\<forall>t u. sp_pc s t \<noteq> Idle \<longrightarrow> sp_pc s u \<noteq> Idle \<longrightarrow> t = u) \<and>
     (\<forall>t. sp_pc s t \<noteq> Idle \<longrightarrow> sp_lock s) \<and>
     map (\<lambda>i. m_prev_id m + 1 + of_nat i) [0..<length (sp_out s)] = sp_out s \<and>
     (\<forall>t v. sp_pc s t = Loaded v \<longrightarrow> v = m_prev_id m + of_nat (length (sp_out s))) \<and>
     (\<forall>t v. sp_pc s t = Stored v \<longrightarrow>
        v = m_prev_id m + 1 + of_nat (length (sp_out s)) \<and> m_prev_id (sp_mgr s) = v) \<and>
     ((\<forall>t v. sp_pc s t \<noteq> Stored v) \<longrightarrow>
        m_prev_id (sp_mgr s) = m_prev_id m + of_nat (length (sp_out s)))"

inductive_cases spin_stepE: "spin_step s s'"

lemma spin_inv_init: "spin_inv m (spin_init m)"
  by (simp add: spin_inv_def spin_init_def)

lemma spin_inv_step:
  assumes "spin_step s s'" "spin_inv m s"
  shows "spin_inv m s'"
  using assms
proof (cases rule: spin_step.cases)
  case (acq t)
  then have "\<And>u. sp_pc s u = Idle"
    using assms(2) unfolding spin_inv_def by metis
  then show ?thesis
    using assms(2) acq unfolding spin_inv_def acquire_def by (auto split: if_splits)
next
  case (ld t)
  then have others: "\<And>u. u \<noteq> t \<Longrightarrow> sp_pc s u = Idle"
    using assms(2) by (auto simp: spin_inv_def)
  have "sp_pc s u \<noteq> Stored v" for u v
    using others [of u] ld by (cases "u = t") auto
  then show ?thesis
    using assms(2) ld others unfolding spin_inv_def load_id_def by (auto split: if_splits)
next
  case (st t v)
  then have "\<And>u. u \<noteq> t \<Longrightarrow> sp_pc s u = Idle"
    using assms(2) by (auto simp: spin_inv_def)
  then show ?thesis
    using assms(2) st unfolding spin_inv_def store_id_def by (auto split: if_splits)
next
  case (rel t v)
  then have "\<And>u. u \<noteq> t \<Longrightarrow> sp_pc s u = Idle"
    using assms(2) by (auto simp: spin_inv_def)
  then show ?thesis
    using assms(2) rel unfolding spin_inv_def unlock_def
    by (auto split: if_splits simp: ac_simps)
qed

lemma spin_inv_reach: "spin_reach m s \<Longrightarrow> spin_inv m s"
  by (induction rule: spin_reach.induct) (auto intro: spin_inv_init spin_inv_step)

lemma spin_out_take:
  "spin_reach m s \<Longrightarrow> sp_out s = fst (ids.take_ids (length (sp_out s)) m)"
  using spin_inv_reach [of m s] by (simp add: spin_inv_def ids.take_ids_closed)


section \<open>Properties\<close>

text \<open>C17: whatever the interleaving of the threads that share the thread-safe manager, the
  identifiers it has handed out are, in the order in which the lock was left, the consecutive
  numbers after the counter's start value, and no two of them are equal as long as no more than
  \<open>2 ^ 32\<close> have been handed out.\<close>

theorem spin_lock_ids_distinct:
  assumes "spin_reach m s" "length (sp_out s) \<le> 2 ^ 32"
  shows "distinct (sp_out s) \<and> (\<forall>i < length (sp_out s). sp_out s ! i = m_prev_id m + 1 + of_nat i)"
proof -
  have out: "sp_out s = fst (ids.take_ids (length (sp_out s)) m)"
    by (rule spin_out_take [OF assms(1)])
  have "sp_out s ! i = m_prev_id m + 1 + of_nat i" if "i < length (sp_out s)" for i
    by (subst out) (use that in \<open>simp add: ids.take_ids_closed\<close>)
  then show ?thesis
    using ids.take_ids_distinct [OF assms(2)] out by metis
qed

definition two_threads_run :: "spin_state" where
  "two_threads_run =
     unlock 2 1 (store_id 2 0 (load_id 2 (acquire 2
       (unlock 1 0 (store_id 1 0xFFFFFFFF (load_id 1 (acquire 1
         (spin_init (unique_type_id_threadsafe_manager 1)))))))))"

lemma two_threads_reach:
  "spin_reach (unique_type_id_threadsafe_manager 1) two_threads_run"
  unfolding two_threads_run_def
  by (rule spin_next [OF spin_next [OF spin_next [OF spin_next [OF spin_next [OF spin_next
        [OF spin_next [OF spin_next [OF spin_start acq] ld] st] rel] acq] ld] st] rel])
     (simp_all add: spin_init_def acquire_def load_id_def store_id_def unlock_def
        unique_type_id_threadsafe_manager_def unique_type_id_manager_def)

lemma two_threads_out: "sp_out two_threads_run = [0, 1]"
  by (simp add: two_threads_run_def spin_init_def acquire_def load_id_def store_id_def unlock_def)

theorem spin_lock_ids_distinct_witness: "distinct (sp_out two_threads_run)"
  using spin_lock_ids_distinct [OF two_threads_reach] two_threads_out by simp

text \<open>\<open>update_unique_id\<close> only ever moves the counter upwards, to the larger of its two
  arguments, and the next identifier obtained afterwards is the successor of that maximum.\<close>

theorem update_only_upwards:
  "m_prev_id (snd (update_unique_id v m)) = max (m_prev_id m) v \<and>
   fst (update_unique_id v m) = max (m_prev_id m) v \<and>
   fst (obtain_unique_id (snd (update_unique_id v m))) = max (m_prev_id m) v + 1"
  by (auto simp: update_max ids.obt_id update_unique_id_def Let_def max_def)

text \<open>The very first order or ticker identifier that a default-constructed thread-safe
  manager hands out is 0, the value that the request constructors take to mean that no
  identifier has been assigned yet; the plain manager starts with its start value.\<close>

theorem first_threadsafe_id_is_zero:
  "fst (get_next_ticker_id (unique_type_id_threadsafe_manager 1)) = 0 \<and>
   fst (obtain_unique_id (unique_type_id_manager v)) = v"
  by (simp add: get_next_ticker_id_def obtain_unique_id_def Let_def
      unique_type_id_threadsafe_manager_def unique_type_id_manager_def)

end
