(* ===== verification/TwsInstance.thy ===== *)
theory TwsInstance
  imports Message Requests UniqueId
begin

text \<open>The TWS back-end (\<open>tws_instance.cpp\<close>) and the requests' own methods
  (\<open>tws_request.cpp\<close>): accepting a request, transmitting it, cancelling the requests a cancel
  message names, the limit on simultaneous market scanner subscriptions, and the virtual methods
  of the request classes, which close the state machine of theory \<open>Message\<close>.\<close>

section \<open>The state of the back-end\<close>

record 'd tws_glob =
  m_next_order_id :: id_manager
  m_active_scanner_subscriptions :: "mid list"
  m_last_tickled_queue_position :: nat
  m_still_need_to_prime_the_pump :: bool
  m_rt_providers :: "string list"
  m_hist_providers :: "string list"
  m_account_identifier :: string
  m_contract_details_store :: "'d list"
  tws_calls :: "(req_kind \<times> int \<times> string list) list"   \<comment> \<open>the API calls made so far\<close>

type_synonym 'd tws_world = "('d tws_class, 'd tws_glob) world"
type_synonym 'd tws_exec = "('d tws_class, 'd tws_glob) exec"

text \<open>From outside: the network, what the \<open>n\<close>-th call into the TWS API returns, the locations
  and scan types that the two XPath queries select from a scanner parameters document (with the
  text of the child elements the code looks up), and the comparison of contract details.\<close>

record location =
  loc_instruments :: "string option"
  loc_locationCode :: "string option"
  loc_scanners :: "string option list"

record 'd tws_env =
  net :: env
  tws_call :: "nat \<Rightarrow> int"
  xml_locations :: "string \<Rightarrow> location list option"
  cd_equals :: "'d \<Rightarrow> 'd \<Rightarrow> bool"

definition ibm :: pid where "ibm = 0"

definition m_scanner_subscription_limit :: hid where "m_scanner_subscription_limit = 0"

definition m_max_scanner_subscriptions :: nat where "m_max_scanner_subscriptions = 10"

definition getg :: "('d tws_glob \<Rightarrow> 'a) \<Rightarrow> ('d tws_world, 'a) M" where
  "getg f = gets (\<lambda>w. f (glob w))"

definition modg :: "('d tws_glob \<Rightarrow> 'd tws_glob) \<Rightarrow> ('d tws_world, unit) M" where
  "modg f = modify (\<lambda>w. w\<lparr>glob := f (glob w)\<rparr>)"

section \<open>Construction\<close>

text \<open>The constructors of the request classes: a number 0 means that the request wants a fresh
  one from the application manager.\<close>

definition fresh_id :: "('d tws_world, int) M" where
  "fresh_id = mbind (getg (\<lambda>g. get_next_ticker_id (m_next_order_id g))) (\<lambda>(i, ids).
     mseq (modg (\<lambda>g. g\<lparr>m_next_order_id := ids\<rparr>)) (ret i))"

definition new_request :: "'d tws_env \<Rightarrow> 'd tws_exec \<Rightarrow> pid option \<Rightarrow> pid option \<Rightarrow> req_kind \<Rightarrow> int \<Rightarrow>
    string list \<Rightarrow> ('d tws_world, mid) M" where
  "new_request te ex from to k i args =
     mbind (new_message (net te) ex from to (Req k i args 0)) (\<lambda>m.
     if (is_w_ticker k \<or> is_w_order k) \<and> i = 0 then
       mbind fresh_id (\<lambda>i'.
       mseq (modify (upd_msg m (\<lambda>r. r\<lparr>m_class := Req k i' args 0\<rparr>))) (ret m))
     else ret m)"

section \<open>The scanner subscription limit\<close>

definition get_ticker_id :: "mid \<Rightarrow> ('d tws_world, int option) M" where
  "get_ticker_id m = mbind (deref m) (\<lambda>r. ret (class_ticker (m_class r)))"

fun find_active :: "int \<Rightarrow> mid list \<Rightarrow> ('d tws_world, mid option) M" where
  "find_active t [] = ret None"
| "find_active t (s # ss) = mbind (get_ticker_id s) (\<lambda>i.
     if i = Some t then ret (Some s) else find_active t ss)"

definition drop_active :: "mid \<Rightarrow> ('d tws_world, unit) M" where
  "drop_active s = modg (\<lambda>g. g\<lparr>m_active_scanner_subscriptions :=
      remove1 s (m_active_scanner_subscriptions g)\<rparr>)"

text \<open>The subscription leaves the active set; when it had been sent to TWS, a cancel message goes
  after it.\<close>

definition leave_active :: "'d tws_env \<Rightarrow> 'd tws_exec \<Rightarrow> mid \<Rightarrow> mid \<Rightarrow> ('d tws_world, unit) M" where
  "leave_active te ex m s =
     mseq (drop_active s)
     (mseq (unregister_handler m m_scanner_subscription_limit)
     (mbind (deref s) (\<lambda>r.
      if m_previous_state r \<in> {COMMENCE_TRANSMIT, READY_TO_RECEIVE_RESPONSE, RESPONSE_PENDING} then
        (case class_ticker (m_class r) of
           None \<Rightarrow> mfail Assert_failed
         | Some t \<Rightarrow>
             mbind (new_request te ex (Some ibm) None Cancel_scanner_subscription t []) (\<lambda>c.
             mseq (set_state ex c EXEC_COMMAND)
             (mseq (pulse (net te) ex c) (ret ()))))
      else ret ())))"

definition scanner_subscription_limitation ::
    "'d tws_env \<Rightarrow> 'd tws_exec \<Rightarrow> mid \<Rightarrow> request_state \<Rightarrow> ('d tws_world, state_change) M" where
  "scanner_subscription_limitation te ex m new =
     (if new = COMMENCE_TRANSMIT then
        mbind (deref m) (\<lambda>r.
        if \<not> is_scan_request (m_class r) then ret PROCEED
        else mbind (getg m_active_scanner_subscriptions) (\<lambda>act.
          if length act < m_max_scanner_subscriptions then
            mseq (modg (\<lambda>g. g\<lparr>m_active_scanner_subscriptions := m_active_scanner_subscriptions g @ [m]\<rparr>))
              (ret PROCEED)
          else ret DONT_CHANGE))
      else if new \<in> {RESPONSE_COMPLETE, DESTRUCTION, FAILED, ABORTED, TASK_COMPLETED} then
        mbind (deref m) (\<lambda>r.
        mseq (massert (\<lambda>_. m_owner r = Some ibm))
        (case class_ticker (m_class r) of
           None \<Rightarrow> mfail Assert_failed
         | Some t \<Rightarrow>
             mbind (getg m_active_scanner_subscriptions) (\<lambda>act.
             mbind (find_active t act) (\<lambda>found.
             case found of
               None \<Rightarrow> ret PROCEED
             | Some s \<Rightarrow> mseq (leave_active te ex m s) (ret PROCEED)))))
      else ret PROCEED)"

section \<open>Cancelling\<close>

fun collect :: "(mid \<Rightarrow> ('w, bool) M) \<Rightarrow> mid list \<Rightarrow> ('w, mid list) M" where
  "collect p [] = ret []"
| "collect p (m # ms) = mbind (p m) (\<lambda>b. mbind (collect p ms) (\<lambda>q. ret (if b then m # q else q)))"

fun or_all :: "(mid \<Rightarrow> ('w, int) M) \<Rightarrow> int \<Rightarrow> mid list \<Rightarrow> ('w, int) M" where
  "or_all f rv [] = ret rv"
| "or_all f rv (m # ms) = mbind (f m) (\<lambda>i. or_all f (int_or rv i) ms)"

definition cancel_all_matching_requests :: "'d tws_exec \<Rightarrow> mid \<Rightarrow> ('d tws_world, int) M" where
  "cancel_all_matching_requests ex c =
     mbind (gets (\<lambda>w. owned w ibm)) (\<lambda>l.
     mbind (deref c) (\<lambda>rc.
     mbind (collect (\<lambda>m. mbind (deref m) (\<lambda>r. ret (class_obeys (m_class r) (m_class rc)))) l) (\<lambda>q.
     mbind (or_all (\<lambda>m. mbind (set_state ex m ABORTED) (\<lambda>st. ret (state_code st))) 0 q) (\<lambda>rv.
     mseq (set_state ex c DESTRUCTION) (ret rv)))))"

section \<open>Accepting requests\<close>

definition tx_request :: "'d tws_exec \<Rightarrow> mid \<Rightarrow> ('d tws_world, int) M" where
  "tx_request ex m =
     mseq (massert (does_own ibm m)) (mseq (set_state ex m WAIT_FOR_TRANSMIT) (ret 0))"

definition tx_cancel :: "'d tws_exec \<Rightarrow> mid \<Rightarrow> ('d tws_world, int) M" where
  "tx_cancel ex m =
     mseq (massert (does_own ibm m))
     (mbind (cancel_all_matching_requests ex m) (\<lambda>rv.
      mseq (set_state ex m WAIT_FOR_TRANSMIT) (ret rv)))"

definition tx_request_scanner_parameters :: "'d tws_exec \<Rightarrow> mid \<Rightarrow> ('d tws_world, int) M" where
  "tx_request_scanner_parameters ex m =
     tx_request ex m"

definition tx_request_scanner_subscription :: "'d tws_exec \<Rightarrow> mid \<Rightarrow> ('d tws_world, int) M" where
  "tx_request_scanner_subscription ex m =
     mseq (massert (does_own ibm m))
     (mseq (register_handler m m_scanner_subscription_limit)
     (mseq (set_state ex m WAIT_FOR_TRANSMIT) (ret 0)))"

definition tx_cancel_scanner_subscription :: "'d tws_exec \<Rightarrow> mid \<Rightarrow> ('d tws_world, int) M" where
  "tx_cancel_scanner_subscription ex m =
     mseq (massert (does_own ibm m))
     (mseq (register_handler m m_scanner_subscription_limit)
     (mbind (cancel_all_matching_requests ex m) (\<lambda>rv.
      mseq (set_state ex m WAIT_FOR_TRANSMIT) (ret rv))))"

definition tx_request_mkt_data :: "'d tws_exec \<Rightarrow> mid \<Rightarrow> ('d tws_world, int) M" where
  "tx_request_mkt_data ex m =
     tx_request ex m"

definition tx_request_historical_data :: "'d tws_exec \<Rightarrow> mid \<Rightarrow> ('d tws_world, int) M" where
  "tx_request_historical_data ex m =
     tx_request ex m"

definition tx_cancel_historical_data :: "'d tws_exec \<Rightarrow> mid \<Rightarrow> ('d tws_world, int) M" where
  "tx_cancel_historical_data ex m =
     tx_cancel ex m"

definition tx_cancel_mkt_data :: "'d tws_exec \<Rightarrow> mid \<Rightarrow> ('d tws_world, int) M" where
  "tx_cancel_mkt_data ex m =
     tx_cancel ex m"

definition tx_exercise_options :: "'d tws_exec \<Rightarrow> mid \<Rightarrow> ('d tws_world, int) M" where
  "tx_exercise_options ex m =
     tx_request ex m"

definition tx_place_order :: "'d tws_exec \<Rightarrow> mid \<Rightarrow> ('d tws_world, int) M" where
  "tx_place_order ex m =
     tx_request ex m"

definition tx_cancel_order :: "'d tws_exec \<Rightarrow> mid \<Rightarrow> ('d tws_world, int) M" where
  "tx_cancel_order ex m =
     tx_cancel ex m"

definition tx_request_open_orders :: "'d tws_exec \<Rightarrow> mid \<Rightarrow> ('d tws_world, int) M" where
  "tx_request_open_orders ex m =
     tx_request ex m"

definition tx_request_account_updates :: "'d tws_exec \<Rightarrow> mid \<Rightarrow> ('d tws_world, int) M" where
  "tx_request_account_updates ex m =
     tx_request ex m"

definition tx_request_executions :: "'d tws_exec \<Rightarrow> mid \<Rightarrow> ('d tws_world, int) M" where
  "tx_request_executions ex m =
     tx_request ex m"

definition tx_request_ids :: "'d tws_exec \<Rightarrow> mid \<Rightarrow> ('d tws_world, int) M" where
  "tx_request_ids ex m =
     tx_request ex m"

definition tx_request_contract_details :: "'d tws_exec \<Rightarrow> mid \<Rightarrow> ('d tws_world, int) M" where
  "tx_request_contract_details ex m =
     tx_request ex m"

definition tx_request_mkt_depth :: "'d tws_exec \<Rightarrow> mid \<Rightarrow> ('d tws_world, int) M" where
  "tx_request_mkt_depth ex m =
     tx_request ex m"

definition tx_cancel_mkt_depth :: "'d tws_exec \<Rightarrow> mid \<Rightarrow> ('d tws_world, int) M" where
  "tx_cancel_mkt_depth ex m =
     tx_cancel ex m"

definition tx_request_news_bulletins :: "'d tws_exec \<Rightarrow> mid \<Rightarrow> ('d tws_world, int) M" where
  "tx_request_news_bulletins ex m =
     tx_request ex m"

definition tx_cancel_news_bulletins :: "'d tws_exec \<Rightarrow> mid \<Rightarrow> ('d tws_world, int) M" where
  "tx_cancel_news_bulletins ex m =
     tx_cancel ex m"

definition tx_set_server_log_level :: "'d tws_exec \<Rightarrow> mid \<Rightarrow> ('d tws_world, int) M" where
  "tx_set_server_log_level ex m =
     tx_request ex m"

definition tx_request_auto_open_orders :: "'d tws_exec \<Rightarrow> mid \<Rightarrow> ('d tws_world, int) M" where
  "tx_request_auto_open_orders ex m =
     tx_request ex m"

definition tx_request_all_open_orders :: "'d tws_exec \<Rightarrow> mid \<Rightarrow> ('d tws_world, int) M" where
  "tx_request_all_open_orders ex m =
     tx_request ex m"

definition tx_request_managed_accts :: "'d tws_exec \<Rightarrow> mid \<Rightarrow> ('d tws_world, int) M" where
  "tx_request_managed_accts ex m =
     tx_request ex m"

definition tx_request_fa :: "'d tws_exec \<Rightarrow> mid \<Rightarrow> ('d tws_world, int) M" where
  "tx_request_fa ex m =
     tx_request ex m"

definition tx_replace_fa :: "'d tws_exec \<Rightarrow> mid \<Rightarrow> ('d tws_world, int) M" where
  "tx_replace_fa ex m =
     tx_request ex m"

definition tx_request_current_time :: "'d tws_exec \<Rightarrow> mid \<Rightarrow> ('d tws_world, int) M" where
  "tx_request_current_time ex m =
     tx_request ex m"

definition tx_request_fundamental_data :: "'d tws_exec \<Rightarrow> mid \<Rightarrow> ('d tws_world, int) M" where
  "tx_request_fundamental_data ex m =
     tx_request ex m"

definition tx_cancel_fundamental_data :: "'d tws_exec \<Rightarrow> mid \<Rightarrow> ('d tws_world, int) M" where
  "tx_cancel_fundamental_data ex m =
     tx_cancel ex m"

definition tx_calculate_implied_volatility :: "'d tws_exec \<Rightarrow> mid \<Rightarrow> ('d tws_world, int) M" where
  "tx_calculate_implied_volatility ex m =
     tx_request ex m"

definition tx_cancel_calculate_implied_volatility :: "'d tws_exec \<Rightarrow> mid \<Rightarrow> ('d tws_world, int) M" where
  "tx_cancel_calculate_implied_volatility ex m =
     tx_cancel ex m"

definition tx_calculate_option_price :: "'d tws_exec \<Rightarrow> mid \<Rightarrow> ('d tws_world, int) M" where
  "tx_calculate_option_price ex m =
     tx_request ex m"

definition tx_cancel_calculate_option_price :: "'d tws_exec \<Rightarrow> mid \<Rightarrow> ('d tws_world, int) M" where
  "tx_cancel_calculate_option_price ex m =
     tx_cancel ex m"

definition tx_request_global_cancel :: "'d tws_exec \<Rightarrow> mid \<Rightarrow> ('d tws_world, int) M" where
  "tx_request_global_cancel ex m =
     tx_cancel ex m"

definition tx_request_market_data_type :: "'d tws_exec \<Rightarrow> mid \<Rightarrow> ('d tws_world, int) M" where
  "tx_request_market_data_type ex m =
     tx_request ex m"

definition tx_request_realtime_bars :: "'d tws_exec \<Rightarrow> mid \<Rightarrow> ('d tws_world, int) M" where
  "tx_request_realtime_bars ex m =
     tx_request ex m"

definition tx_cancel_realtime_bars :: "'d tws_exec \<Rightarrow> mid \<Rightarrow> ('d tws_world, int) M" where
  "tx_cancel_realtime_bars ex m =
     tx_cancel ex m"

lemmas tx_other_defs =
  tx_request_scanner_parameters_def tx_request_mkt_data_def tx_request_historical_data_def
  tx_cancel_historical_data_def tx_cancel_mkt_data_def tx_exercise_options_def
  tx_place_order_def tx_cancel_order_def tx_request_open_orders_def
  tx_request_account_updates_def tx_request_executions_def tx_request_ids_def
  tx_request_contract_details_def tx_request_mkt_depth_def tx_cancel_mkt_depth_def
  tx_request_news_bulletins_def tx_cancel_news_bulletins_def tx_set_server_log_level_def
  tx_request_auto_open_orders_def tx_request_all_open_orders_def tx_request_managed_accts_def
  tx_request_fa_def tx_replace_fa_def tx_request_current_time_def
  tx_request_fundamental_data_def tx_cancel_fundamental_data_def tx_calculate_implied_volatility_def
  tx_cancel_calculate_implied_volatility_def tx_calculate_option_price_def tx_cancel_calculate_option_price_def
  tx_request_global_cancel_def tx_request_market_data_type_def tx_request_realtime_bars_def
  tx_cancel_realtime_bars_def

section \<open>The virtual methods of the requests\<close>

fun req_f_exec_command :: "'d tws_exec \<Rightarrow> req_kind \<Rightarrow> mid \<Rightarrow> ('d tws_world, int) M" where
  "req_f_exec_command ex Req_scanner_parameters m = tx_request_scanner_parameters ex m"
| "req_f_exec_command ex Req_scanner_subscription m = tx_request_scanner_subscription ex m"
| "req_f_exec_command ex Cancel_scanner_subscription m = tx_cancel_scanner_subscription ex m"
| "req_f_exec_command ex Req_mkt_data m = tx_request_mkt_data ex m"
| "req_f_exec_command ex Req_historical_data m = tx_request_historical_data ex m"
| "req_f_exec_command ex Cancel_historical_data m = tx_cancel_historical_data ex m"
| "req_f_exec_command ex Cancel_mkt_data m = tx_cancel_mkt_data ex m"
| "req_f_exec_command ex Exercise_options m = tx_exercise_options ex m"
| "req_f_exec_command ex Place_order m = tx_place_order ex m"
| "req_f_exec_command ex Cancel_order m = tx_cancel_order ex m"
| "req_f_exec_command ex Req_open_orders m = tx_request_open_orders ex m"
| "req_f_exec_command ex Req_account_updates m = tx_request_account_updates ex m"
| "req_f_exec_command ex Req_executions m = tx_request_executions ex m"
| "req_f_exec_command ex Req_ids m = tx_request_ids ex m"
| "req_f_exec_command ex Req_contract_details m = tx_request_contract_details ex m"
| "req_f_exec_command ex Req_mkt_depth m = tx_request_mkt_depth ex m"
| "req_f_exec_command ex Cancel_mkt_depth m = tx_cancel_mkt_depth ex m"
| "req_f_exec_command ex Req_news_bulletins m = tx_request_news_bulletins ex m"
| "req_f_exec_command ex Cancel_news_bulletins m = tx_cancel_news_bulletins ex m"
| "req_f_exec_command ex Set_server_log_level m = tx_set_server_log_level ex m"
| "req_f_exec_command ex Req_auto_open_orders m = tx_request_auto_open_orders ex m"
| "req_f_exec_command ex Req_all_open_orders m = tx_request_all_open_orders ex m"
| "req_f_exec_command ex Req_managed_accts m = tx_request_managed_accts ex m"
| "req_f_exec_command ex Request_fa m = tx_request_fa ex m"
| "req_f_exec_command ex Replace_fa m = tx_replace_fa ex m"
| "req_f_exec_command ex Req_current_time m = tx_request_current_time ex m"
| "req_f_exec_command ex Req_fundamental_data m = tx_request_fundamental_data ex m"
| "req_f_exec_command ex Cancel_fundamental_data m = tx_cancel_fundamental_data ex m"
| "req_f_exec_command ex Calculate_implied_volatility m = tx_calculate_implied_volatility ex m"
| "req_f_exec_command ex Cancel_calculate_implied_volatility m = tx_cancel_calculate_implied_volatility ex m"
| "req_f_exec_command ex Calculate_option_price m = tx_calculate_option_price ex m"
| "req_f_exec_command ex Cancel_calculate_option_price m = tx_cancel_calculate_option_price ex m"
| "req_f_exec_command ex Req_global_cancel m = tx_request_global_cancel ex m"
| "req_f_exec_command ex Req_market_data_type m = tx_request_market_data_type ex m"
| "req_f_exec_command ex Request_realtime_bars m = tx_request_realtime_bars ex m"
| "req_f_exec_command ex Cancel_realtime_bars m = tx_cancel_realtime_bars ex m"
| "req_f_exec_command ex Fetch_tws_info m = mseq (set_state ex m RESPONSE_COMPLETE) (ret 0)"

text \<open>The transmission: the API call of the class, with its number and arguments, and the request
  is ready for its response.\<close>

definition tx :: "'d tws_env \<Rightarrow> 'd tws_exec \<Rightarrow> mid \<Rightarrow> ('d tws_world, int) M" where
  "tx te ex m = mbind (deref m) (\<lambda>r.
     case m_class r of
       Req k i args t \<Rightarrow>
         mbind (getg (\<lambda>g. tws_call te (length (tws_calls g)))) (\<lambda>rv.
         mseq (modg (\<lambda>g. g\<lparr>tws_calls := tws_calls g @ [(k, i, args)]\<rparr>))
         (mseq (set_state ex m READY_TO_RECEIVE_RESPONSE) (ret rv)))
     | _ \<Rightarrow> mfail Assert_failed)"

definition transmits :: "req_kind \<Rightarrow> bool" where
  "transmits k \<longleftrightarrow> k \<in> {Req_scanner_parameters, Req_scanner_subscription,
                          Cancel_scanner_subscription, Req_current_time}"

definition req_f_commence_transmit :: "'d tws_env \<Rightarrow> 'd tws_exec \<Rightarrow> req_kind \<Rightarrow> mid \<Rightarrow>
    ('d tws_world, int) M" where
  "req_f_commence_transmit te ex k m =
     (if transmits k then tx te ex m
      else if k = Fetch_tws_info then base_f ex F_commence_transmit m
      else mfail Assert_failed)"

definition req_f_task_ended :: "'d tws_exec \<Rightarrow> mid \<Rightarrow> ('d tws_world, int) M" where
  "req_f_task_ended ex m = mbind (the_owner m) (\<lambda>_. mbind (deref m) (\<lambda>r.
     if m_requester r = ibm then mseq (set_state ex m DESTRUCTION) (ret 0) else ret 0))"

fun req_f :: "'d tws_env \<Rightarrow> 'd tws_exec \<Rightarrow> virtual_f \<Rightarrow> req_kind \<Rightarrow> mid \<Rightarrow> ('d tws_world, int) M" where
  "req_f te ex F_exec_command k m = req_f_exec_command ex k m"
| "req_f te ex F_commence_transmit k m = req_f_commence_transmit te ex k m"
| "req_f te ex F_task_completed k m = req_f_task_ended ex m"
| "req_f te ex F_task_failed k m = req_f_task_ended ex m"
| "req_f te ex F_task_aborted k m = req_f_task_ended ex m"
| "req_f te ex f k m = base_f ex f m"

definition tws_f :: "'d tws_env \<Rightarrow> 'd tws_exec \<Rightarrow> virtual_f \<Rightarrow> mid \<Rightarrow> ('d tws_world, int) M" where
  "tws_f te ex f m = mbind (deref m) (\<lambda>r.
     case m_class r of
       Req k i args t \<Rightarrow> req_f te ex f k m
     | Cancel refd \<Rightarrow> if f = F_exec_command then cancel_f_exec_command ex refd m else base_f ex f m
     | _ \<Rightarrow> base_f ex f m)"

definition tws_process :: "'d tws_env \<Rightarrow> 'd tws_exec \<Rightarrow> hid \<Rightarrow> mid \<Rightarrow> request_state \<Rightarrow>
    ('d tws_world, state_change) M" where
  "tws_process te ex h m new =
     (if h = m_scanner_subscription_limit then scanner_subscription_limitation te ex m new
      else ret PROCEED)"

definition tws_hooks :: "'d tws_env \<Rightarrow> ('d tws_class, 'd tws_glob) hooks" where
  "tws_hooks te = \<lparr>h_process = tws_process te, h_f = tws_f te\<rparr>"

definition tws_state_machine :: "'d tws_env \<Rightarrow> nat \<Rightarrow> 'd tws_exec" where
  "tws_state_machine te n = exec_state (tws_hooks te) n"

section \<open>The state machine keeps the invariant\<close>

definition limit_ok :: "'d tws_glob \<Rightarrow> bool" where
  "limit_ok g \<longleftrightarrow> length (m_active_scanner_subscriptions g) \<le> m_max_scanner_subscriptions"

lemma ev_getg [keeps_intro]: "keeps (winv G) evolves (getg f)"
  unfolding getg_def by (intro keeps_intro)

lemma ev_modg:
  assumes "\<And>g. limit_ok g \<Longrightarrow> limit_ok (f g)"
  shows "keeps (winv limit_ok) evolves (modg f)"
  unfolding modg_def
  by (auto simp: keeps_def wp_simps winv_def wf_def lists_ok_def owner_ok_def limbo_ok_def
      alloc_ok_def evolves_def assms elim!: comm_inv_cong)

lemma ev_fresh_id [keeps_intro]: "keeps (winv limit_ok) evolves fresh_id"
  unfolding fresh_id_def by (intro keeps_intro ev_modg) (simp add: limit_ok_def)

lemma ev_new_request [keeps_intro]:
  assumes "\<And>m s. keeps (winv limit_ok) evolves (ex m s)"
  shows "keeps (winv limit_ok) evolves (new_request te ex from to k i args)"
  unfolding new_request_def by (intro keeps_intro assms keeps_upd_msg) simp_all

lemma ev_get_ticker_id [keeps_intro]: "keeps (winv G) evolves (get_ticker_id m)"
  unfolding get_ticker_id_def by (intro keeps_intro)

lemma ev_find_active [keeps_intro]: "keeps (winv G) evolves (find_active t l)"
  by (induction l) (auto intro!: keeps_intro)

lemma ev_drop_active [keeps_intro]: "keeps (winv limit_ok) evolves (drop_active s)"
  unfolding drop_active_def
  by (rule ev_modg) (auto simp: limit_ok_def length_remove1)

lemma ev_collect [keeps_intro]:
  assumes "\<And>m. keeps (winv G) evolves (p m)"
  shows "keeps (winv G) evolves (collect p l)"
  by (induction l) (auto intro!: keeps_intro assms)

lemma ev_or_all [keeps_intro]:
  assumes "\<And>m. keeps (winv G) evolves (f m)"
  shows "keeps (winv G) evolves (or_all f rv l)"
  by (induction l arbitrary: rv) (auto intro!: keeps_intro assms)

lemma ev_enter_active [keeps_intro]:
  "keeps (winv limit_ok) evolves (mbind (getg m_active_scanner_subscriptions) (\<lambda>act.
     if length act < m_max_scanner_subscriptions then
       mseq (modg (\<lambda>g. g\<lparr>m_active_scanner_subscriptions := m_active_scanner_subscriptions g @ [m]\<rparr>))
         (ret PROCEED)
     else ret DONT_CHANGE))"
  unfolding modg_def getg_def
  by (auto simp: keeps_def wp_simps winv_def wf_def lists_ok_def owner_ok_def limbo_ok_def
      alloc_ok_def evolves_def limit_ok_def elim!: comm_inv_cong)

lemma ev_leave_active [keeps_intro]:
  assumes "\<And>m s. keeps (winv limit_ok) evolves (ex m s)"
  shows "keeps (winv limit_ok) evolves (leave_active te ex m s)"
  unfolding leave_active_def by (intro keeps_intro assms)

lemma ev_limitation [keeps_intro]:
  assumes "\<And>m s. keeps (winv limit_ok) evolves (ex m s)"
  shows "keeps (winv limit_ok) evolves (scanner_subscription_limitation te ex m new)"
  unfolding scanner_subscription_limitation_def
  by (intro ev_if ev_option keeps_bind [OF transp_evolves ev_deref] ev_enter_active
      keeps_seq [OF transp_evolves] keeps_bind [OF transp_evolves ev_getg]
      keeps_bind [OF transp_evolves ev_find_active] ev_combinators ev_leave_active assms)

lemma ev_cancel_all [keeps_intro]:
  assumes "\<And>m s. keeps (winv limit_ok) evolves (ex m s)"
  shows "keeps (winv limit_ok) evolves (cancel_all_matching_requests ex m)"
  unfolding cancel_all_matching_requests_def by (intro keeps_intro assms)

lemma ev_tx_request [keeps_intro]:
  assumes "\<And>m s. keeps (winv limit_ok) evolves (ex m s)"
  shows "keeps (winv limit_ok) evolves (tx_request ex m)"
    and "keeps (winv limit_ok) evolves (tx_cancel ex m)"
    and "keeps (winv limit_ok) evolves (tx_request_scanner_subscription ex m)"
    and "keeps (winv limit_ok) evolves (tx_cancel_scanner_subscription ex m)"
  unfolding tx_request_def tx_cancel_def tx_request_scanner_subscription_def
    tx_cancel_scanner_subscription_def
  by (intro keeps_intro assms)+

lemma ev_req_f_exec [keeps_intro]:
  assumes "\<And>m s. keeps (winv limit_ok) evolves (ex m s)"
  shows "keeps (winv limit_ok) evolves (req_f_exec_command ex k m)"
  by (cases k) (simp_all add: tx_other_defs ev_tx_request [OF assms], intro keeps_intro assms)

lemma ev_tx [keeps_intro]:
  assumes "\<And>m s. keeps (winv limit_ok) evolves (ex m s)"
  shows "keeps (winv limit_ok) evolves (tx te ex m)"
proof -
  have "keeps (winv limit_ok) evolves (mbind (getg (\<lambda>g. tws_call te (length (tws_calls g)))) (\<lambda>rv.
         mseq (modg (\<lambda>g. g\<lparr>tws_calls := tws_calls g @ [c]\<rparr>))
         (mseq (set_state ex m READY_TO_RECEIVE_RESPONSE) (ret rv))))" for c
    by (intro keeps_intro ev_modg assms) (simp add: limit_ok_def)
  then show ?thesis
    unfolding tx_def by (intro keeps_intro) (auto intro: keeps_fail split: tws_class.split)
qed

lemma ev_tws_f:
  assumes "\<And>m s. keeps (winv limit_ok) evolves (ex m s)"
  shows "keeps (winv limit_ok) evolves (tws_f te ex f m)"
proof -
  have ended: "keeps (winv limit_ok) evolves (req_f_task_ended ex m)"
    unfolding req_f_task_ended_def by (intro keeps_intro assms)
  have commence: "keeps (winv limit_ok) evolves (req_f_commence_transmit te ex k m)" for k
    unfolding req_f_commence_transmit_def by (intro keeps_intro assms ev_base_f)
  have "keeps (winv limit_ok) evolves (req_f te ex f k m)" for k
    by (cases f) (simp_all add: ended commence ev_req_f_exec [OF assms] ev_base_f [OF assms, where f = F_wait_for_transmit, simplified]
        keeps_ret [OF reflp_evolves])
  then show ?thesis
    unfolding tws_f_def
    by (intro keeps_intro) (auto intro: ev_base_f ev_cancel_f assms split: tws_class.split)
qed

interpretation tws: message_hooks "tws_hooks te" limit_ok
proof
  show "keeps (winv limit_ok) evolves (h_process (tws_hooks te) ex h m s)"
    if "\<And>m s. keeps (winv limit_ok) evolves (ex m s)" for ex h m s
    by (simp add: tws_hooks_def tws_process_def ev_limitation [OF that] keeps_ret [OF reflp_evolves])
  show "keeps (winv limit_ok) evolves (h_f (tws_hooks te) ex f m)"
    if "\<And>m s. keeps (winv limit_ok) evolves (ex m s)" for ex f m
    by (simp add: tws_hooks_def ev_tws_f [OF that])
qed

lemma ev_state_machine: "keeps (winv limit_ok) evolves (tws_state_machine te n m s)"
  unfolding tws_state_machine_def by (rule tws.ev_exec_state)

end
