(* ===== verification/TwsResponses.thy ===== *)
theory TwsResponses
  imports TwsInstance
begin

text \<open>What comes back from TWS: the callbacks of \<open>tws_api_callbacks.cpp\<close>, the response handling
  of the back-end (\<open>tws_instance.cpp\<close>), of the requests (\<open>tws_request.cpp\<close>) and of the responses
  themselves (\<open>tws_response.cpp\<close>, \<open>tws_stocklist_loading.cpp\<close>), and the round-robin pulse of
  the pending requests.\<close>

section \<open>What a response does itself\<close>

text \<open>\<open>request_range_of_interesting_market_scans\<close>: one subscription per scan type of a location,
  issued by \<open>requester\<close> to itself.\<close>

definition scan_args :: "location \<Rightarrow> string option \<Rightarrow> string list" where
  "scan_args loc code = map (\<lambda>s. case s of None \<Rightarrow> '''' | Some t \<Rightarrow> t)
     [code, loc_instruments loc, loc_locationCode loc]"

fun request_market_scans :: "'d tws_env \<Rightarrow> 'd tws_exec \<Rightarrow> pid \<Rightarrow> location \<Rightarrow> string option list \<Rightarrow>
    ('d tws_world, unit) M" where
  "request_market_scans te ex p loc [] = ret ()"
| "request_market_scans te ex p loc (c # cs) =
     mbind (new_request te ex (Some p) None Req_scanner_subscription 0 (scan_args loc c)) (\<lambda>s.
     mseq (set_state ex s EXEC_COMMAND) (request_market_scans te ex p loc cs))"

fun request_all_scans :: "'d tws_env \<Rightarrow> 'd tws_exec \<Rightarrow> pid \<Rightarrow> location list \<Rightarrow> ('d tws_world, unit) M" where
  "request_all_scans te ex p [] = ret ()"
| "request_all_scans te ex p (l # ls) =
     mseq (if loc_instruments l \<noteq> None then request_market_scans te ex p l (loc_scanners l) else ret ())
       (request_all_scans te ex p ls)"

definition resp_scanner_parameters_process :: "'d tws_env \<Rightarrow> 'd tws_exec \<Rightarrow> mid \<Rightarrow> mid \<Rightarrow>
    ('d tws_world, int) M" where
  "resp_scanner_parameters_process te ex resp req =
     mbind (deref resp) (\<lambda>r. mbind (deref req) (\<lambda>q.
     case (m_class r, m_class q) of
       (Resp rk d, Req k i args t) \<Rightarrow>
         mseq (massert (\<lambda>_. k = Req_scanner_parameters))
         (case xml_locations te (rd_text d) of
            None \<Rightarrow> ret (- 1)
          | Some ls \<Rightarrow> mseq (request_all_scans te ex (m_requester r) ls) (ret 0))
     | _ \<Rightarrow> mfail Assert_failed))"

text \<open>The base class wants the argument to be another message than itself; so does
  \<open>ib_msg_resp_scanner_data\<close>. Every other class asserts that the argument is itself and calls the
  base class with it.\<close>

definition tws_response_message_process :: "mid \<Rightarrow> mid \<Rightarrow> ('d tws_world, int) M" where
  "tws_response_message_process self arg = mseq (massert (\<lambda>_. arg \<noteq> self)) (ret 0)"

definition resp_scanner_data_process :: "mid \<Rightarrow> mid \<Rightarrow> ('d tws_world, int) M" where
  "resp_scanner_data_process self arg =
     mseq (massert (\<lambda>_. arg \<noteq> self)) (tws_response_message_process self arg)"

definition resp_other_process :: "mid \<Rightarrow> mid \<Rightarrow> ('d tws_world, int) M" where
  "resp_other_process self arg =
     mseq (massert (\<lambda>_. arg = self)) (tws_response_message_process self arg)"

definition resp_process :: "'d tws_env \<Rightarrow> 'd tws_exec \<Rightarrow> mid \<Rightarrow> mid \<Rightarrow> ('d tws_world, int) M" where
  "resp_process te ex self arg = mbind (deref self) (\<lambda>r.
     case m_class r of
       Resp k d \<Rightarrow>
         if k = Resp_scanner_parameters then resp_scanner_parameters_process te ex self arg
         else if k = Resp_scanner_data then resp_scanner_data_process self arg
         else resp_other_process self arg
     | _ \<Rightarrow> mfail Assert_failed)"

section \<open>What a request does with its response\<close>

definition scanner_parameters_response :: "'d tws_env \<Rightarrow> 'd tws_exec \<Rightarrow> mid \<Rightarrow> mid \<Rightarrow> resp_kind \<Rightarrow>
    ('d tws_world, int) M" where
  "scanner_parameters_response te ex self resp k =
     (if k = Resp_scanner_parameters then
        mbind (resp_process te ex resp self) (\<lambda>rv.
        mseq (set_state ex self TASK_COMPLETED) (ret rv))
      else ret 0)"

definition infix_of :: "string \<Rightarrow> string \<Rightarrow> bool" where
  "infix_of needle s \<longleftrightarrow> (\<exists>i \<in> set [0..<Suc (length s)]. take (length needle) (drop i s) = needle)"

definition scanner_subscription_response :: "'d tws_env \<Rightarrow> 'd tws_exec \<Rightarrow> mid \<Rightarrow> int \<Rightarrow> mid \<Rightarrow>
    resp_kind \<Rightarrow> 'd resp_data \<Rightarrow> ('d tws_world, int) M" where
  "scanner_subscription_response te ex self i resp k d =
     (if k = Resp_scanner_data_start then
        mseq (if rd_ticker_id d = i \<and> rd_num_elements d \<le> 0
              then mseq (set_state ex self TASK_COMPLETED) (ret ()) else ret ()) (ret 0)
      else if k = Resp_scanner_data_end then
        mseq (if rd_ticker_id d = i then mseq (set_state ex self TASK_COMPLETED) (ret ()) else ret ()) (ret 0)
      else if k = Resp_scanner_data then resp_process te ex resp self
      else if k = Resp_error then
        mseq (if rd_error_code d = FAIL_HISTORICAL_MARKET_DATA_SERVICE \<and> rd_ticker_id d = i
              then mseq (set_state ex self ABORTED) (ret ()) else ret ())
        (if rd_error_code d = INFO_HISTORICAL_MARKET_DATA_SERVICE_QUERY \<and> rd_ticker_id d = i
            \<and> infix_of ''no items retrieved'' (rd_text d) then
           mbind (deref self) (\<lambda>r.
           mseq (if m_owner r = Some ibm then mseq (set_state ex self ABORTED) (ret ()) else ret ()) (ret 0))
         else ret 0)
      else ret 0)"

definition current_time_response :: "'d tws_exec \<Rightarrow> mid \<Rightarrow> int \<Rightarrow> string list \<Rightarrow> resp_kind \<Rightarrow>
    'd resp_data \<Rightarrow> ('d tws_world, int) M" where
  "current_time_response ex self i args k d =
     (if k = Resp_current_time then
        mseq (modify (upd_msg self (\<lambda>r. r\<lparr>m_class := Req Req_current_time i args (rd_time d)\<rparr>)))
        (mseq (set_state ex self RESPONSE_COMPLETE) (ret 0))
      else ret 0)"

definition req_process_response :: "'d tws_env \<Rightarrow> 'd tws_exec \<Rightarrow> mid \<Rightarrow> mid \<Rightarrow> ('d tws_world, int) M" where
  "req_process_response te ex self resp =
     mbind (deref self) (\<lambda>q. mbind (deref resp) (\<lambda>r.
     case (m_class q, m_class r) of
       (Req k i args t, Resp rk d) \<Rightarrow>
         if k = Req_scanner_parameters then scanner_parameters_response te ex self resp rk
         else if k = Req_scanner_subscription then scanner_subscription_response te ex self i resp rk d
         else if k = Req_current_time then current_time_response ex self i args rk d
         else if k \<in> {Request_realtime_bars, Cancel_realtime_bars, Fetch_tws_info} then mfail Assert_failed
         else ret 0
     | _ \<Rightarrow> mfail Assert_failed))"

section \<open>What the back-end does with a response\<close>

definition scan_queue_and_process :: "'d tws_env \<Rightarrow> 'd tws_exec \<Rightarrow> mid \<Rightarrow> ('d tws_world, int) M" where
  "scan_queue_and_process te ex resp =
     mbind (gets (\<lambda>w. owned w ibm)) (\<lambda>l.
     mbind (deref resp) (\<lambda>rr.
     mbind (collect (\<lambda>m. mbind (deref m) (\<lambda>r.
        ret (response_is_meant_for_us (m_class r) (m_now_state r) (m_class rr)))) l) (\<lambda>q.
     mbind (or_all (\<lambda>m. req_process_response te ex m resp) 0 q) (\<lambda>rv.
     mseq (set_state ex resp DESTRUCTION) (ret rv)))))"

text \<open>The name of the data farm: what follows the last colon, without leading blanks.\<close>

definition after_last_colon :: "string \<Rightarrow> string option" where
  "after_last_colon s =
     (if CHR '':'' \<in> set s
      then Some (dropWhile (\<lambda>c. c = CHR '' '') (rev (takeWhile (\<lambda>c. c \<noteq> CHR '':'') (rev s))))
      else None)"

definition farm_event :: "error_code \<Rightarrow> string \<Rightarrow> ('d tws_world, unit) M" where
  "farm_event code text =
     (if code \<in> {FAIL_MARKET_DATA_FARM_CONNECTION_INACTIVE, FAIL_HISTORICAL_DATA_FARM_INACTIVE}
      then mfail Assert_failed
      else case after_last_colon text of
        None \<Rightarrow> ret ()
      | Some f \<Rightarrow>
          if code = FAIL_MARKET_DATA_FARM_CONNECTED then
            modg (\<lambda>g. g\<lparr>m_rt_providers := m_rt_providers g @ [f]\<rparr>)
          else if code = FAIL_MARKET_DATA_FARM_DISCONNECTED then
            modg (\<lambda>g. g\<lparr>m_rt_providers := remove1 f (m_rt_providers g)\<rparr>)
          else if code = FAIL_HISTORICAL_DATA_FARM_CONNECTED then
            modg (\<lambda>g. g\<lparr>m_hist_providers := m_hist_providers g @ [f]\<rparr>)
          else if code = FAIL_HISTORICAL_DATA_FARM_DISCONNECTED then
            modg (\<lambda>g. g\<lparr>m_hist_providers := remove1 f (m_hist_providers g)\<rparr>)
          else ret ())"

text \<open>The first scan request goes out as soon as both kinds of data farm have been reported.\<close>

definition prime_the_pump :: "'d tws_env \<Rightarrow> 'd tws_exec \<Rightarrow> ('d tws_world, unit) M" where
  "prime_the_pump te ex =
     mbind (getg (\<lambda>g. m_still_need_to_prime_the_pump g \<and> m_hist_providers g \<noteq> [] \<and> m_rt_providers g \<noteq> []))
     (\<lambda>b. if b then
        mbind (new_request te ex (Some ibm) None Req_scanner_parameters 0 []) (\<lambda>scan.
        mseq (set_state ex scan EXEC_COMMAND)
        (modg (\<lambda>g. g\<lparr>m_still_need_to_prime_the_pump := False\<rparr>)))
      else ret ())"

definition register_contract_info :: "'d tws_env \<Rightarrow> 'd option \<Rightarrow> ('d tws_world, int) M" where
  "register_contract_info te cd = (case cd of
     None \<Rightarrow> ret (- 1)
   | Some d \<Rightarrow> mbind (getg m_contract_details_store) (\<lambda>store.
       if \<exists>c \<in> set store. cd_equals te c d then ret 1
       else mseq (modg (\<lambda>g. g\<lparr>m_contract_details_store := m_contract_details_store g @ [d]\<rparr>)) (ret 0)))"

definition ibm_process_response :: "'d tws_env \<Rightarrow> 'd tws_exec \<Rightarrow> mid \<Rightarrow> ('d tws_world, int) M" where
  "ibm_process_response te ex resp =
     mbind (deref resp) (\<lambda>r.
     case m_class r of
       Resp k d \<Rightarrow>
         mseq
           (if k = Resp_next_valid_id then
              modg (\<lambda>g. g\<lparr>m_next_order_id := snd (set_next_order_id (rd_order_id d) (m_next_order_id g))\<rparr>)
            else if k = Resp_error then
              mseq (farm_event (rd_error_code d) (rd_text d)) (prime_the_pump te ex)
            else if k = Resp_managed_accounts then
              modg (\<lambda>g. if m_account_identifier g = '''' then g\<lparr>m_account_identifier := rd_text d\<rparr> else g)
            else if k = Resp_scanner_data then
              mseq (register_contract_info te (rd_details d)) (ret ())
            else ret ())
           (scan_queue_and_process te ex resp)
     | _ \<Rightarrow> mfail Assert_failed)"

section \<open>The callbacks of the TWS API\<close>

text \<open>Each callback wraps its arguments in a response message from the back-end to itself and has
  the back-end process it. \<open>n\<close> is the fuel of the state machine.\<close>

definition no_data :: "'d resp_data" where
  "no_data = \<lparr>rd_ticker_id = 0, rd_num_elements = 0, rd_error_code = Other_code 0, rd_text = '''',
     rd_time = 0, rd_order_id = 0, rd_details = None\<rparr>"

definition tws_event :: "'d tws_env \<Rightarrow> nat \<Rightarrow> resp_kind \<Rightarrow> 'd resp_data \<Rightarrow> ('d tws_world, int) M" where
  "tws_event te n k d =
     mbind (new_message (net te) (tws_state_machine te n) (Some ibm) None (Resp k d)) (\<lambda>m.
     ibm_process_response te (tws_state_machine te n) m)"

definition event_tick_price :: "'d tws_env \<Rightarrow> nat \<Rightarrow> int \<Rightarrow> ('d tws_world, int) M" where
  "event_tick_price te n ticker_id =
     tws_event te n Resp_tick_price (no_data\<lparr>rd_ticker_id := ticker_id\<rparr>)"

definition event_tick_size :: "'d tws_env \<Rightarrow> nat \<Rightarrow> int \<Rightarrow> ('d tws_world, int) M" where
  "event_tick_size te n ticker_id =
     tws_event te n Resp_tick_size (no_data\<lparr>rd_ticker_id := ticker_id\<rparr>)"

definition event_tick_option_computation :: "'d tws_env \<Rightarrow> nat \<Rightarrow> int \<Rightarrow> ('d tws_world, int) M" where
  "event_tick_option_computation te n ticker_id =
     tws_event te n Resp_tick_option_computation (no_data\<lparr>rd_ticker_id := ticker_id\<rparr>)"

definition event_tick_generic :: "'d tws_env \<Rightarrow> nat \<Rightarrow> int \<Rightarrow> ('d tws_world, int) M" where
  "event_tick_generic te n ticker_id =
     tws_event te n Resp_tick_generic (no_data\<lparr>rd_ticker_id := ticker_id\<rparr>)"

definition event_tick_string :: "'d tws_env \<Rightarrow> nat \<Rightarrow> int \<Rightarrow> ('d tws_world, int) M" where
  "event_tick_string te n ticker_id =
     tws_event te n Resp_tick_string (no_data\<lparr>rd_ticker_id := ticker_id\<rparr>)"

definition event_tick_efp :: "'d tws_env \<Rightarrow> nat \<Rightarrow> int \<Rightarrow> ('d tws_world, int) M" where
  "event_tick_efp te n ticker_id =
     tws_event te n Resp_tick_efp (no_data\<lparr>rd_ticker_id := ticker_id\<rparr>)"

definition event_order_status :: "'d tws_env \<Rightarrow> nat \<Rightarrow> ('d tws_world, int) M" where
  "event_order_status te n =
     tws_event te n Resp_order_status no_data"

definition event_open_order :: "'d tws_env \<Rightarrow> nat \<Rightarrow> ('d tws_world, int) M" where
  "event_open_order te n =
     tws_event te n Resp_open_order no_data"

definition event_update_account_value :: "'d tws_env \<Rightarrow> nat \<Rightarrow> ('d tws_world, int) M" where
  "event_update_account_value te n =
     tws_event te n Resp_update_account_value no_data"

definition event_update_portfolio :: "'d tws_env \<Rightarrow> nat \<Rightarrow> ('d tws_world, int) M" where
  "event_update_portfolio te n =
     tws_event te n Resp_update_portfolio no_data"

definition event_update_account_time :: "'d tws_env \<Rightarrow> nat \<Rightarrow> ('d tws_world, int) M" where
  "event_update_account_time te n =
     tws_event te n Resp_update_account_time no_data"

definition event_next_valid_id :: "'d tws_env \<Rightarrow> nat \<Rightarrow> int \<Rightarrow> ('d tws_world, int) M" where
  "event_next_valid_id te n order_id =
     tws_event te n Resp_next_valid_id (no_data\<lparr>rd_order_id := order_id\<rparr>)"

definition event_contract_details :: "'d tws_env \<Rightarrow> nat \<Rightarrow> int \<Rightarrow> ('d tws_world, int) M" where
  "event_contract_details te n req_id =
     tws_event te n Resp_contract_details (no_data\<lparr>rd_ticker_id := req_id\<rparr>)"

definition event_bond_contract_details :: "'d tws_env \<Rightarrow> nat \<Rightarrow> int \<Rightarrow> ('d tws_world, int) M" where
  "event_bond_contract_details te n req_id =
     tws_event te n Resp_bond_contract_details (no_data\<lparr>rd_ticker_id := req_id\<rparr>)"

definition event_exec_details :: "'d tws_env \<Rightarrow> nat \<Rightarrow> ('d tws_world, int) M" where
  "event_exec_details te n =
     tws_event te n Resp_exec_details no_data"

definition event_error :: "'d tws_env \<Rightarrow> nat \<Rightarrow> int \<Rightarrow> error_code \<Rightarrow> string \<Rightarrow> ('d tws_world, int) M" where
  "event_error te n ticker_id code error_string =
     tws_event te n Resp_error (no_data\<lparr>rd_ticker_id := ticker_id, rd_error_code := code, rd_text := error_string\<rparr>)"

definition event_update_mkt_depth :: "'d tws_env \<Rightarrow> nat \<Rightarrow> int \<Rightarrow> ('d tws_world, int) M" where
  "event_update_mkt_depth te n ticker_id =
     tws_event te n Resp_update_mkt_depth (no_data\<lparr>rd_ticker_id := ticker_id\<rparr>)"

definition event_update_mkt_depth_l2 :: "'d tws_env \<Rightarrow> nat \<Rightarrow> int \<Rightarrow> ('d tws_world, int) M" where
  "event_update_mkt_depth_l2 te n ticker_id =
     tws_event te n Resp_update_mkt_depth_l2 (no_data\<lparr>rd_ticker_id := ticker_id\<rparr>)"

definition event_update_news_bulletin :: "'d tws_env \<Rightarrow> nat \<Rightarrow> ('d tws_world, int) M" where
  "event_update_news_bulletin te n =
     tws_event te n Resp_update_news_bulletin no_data"

definition event_managed_accounts :: "'d tws_env \<Rightarrow> nat \<Rightarrow> string \<Rightarrow> ('d tws_world, int) M" where
  "event_managed_accounts te n accounts_list =
     tws_event te n Resp_managed_accounts (no_data\<lparr>rd_text := accounts_list\<rparr>)"

definition event_receive_fa :: "'d tws_env \<Rightarrow> nat \<Rightarrow> ('d tws_world, int) M" where
  "event_receive_fa te n =
     tws_event te n Resp_receive_fa no_data"

definition event_historical_data :: "'d tws_env \<Rightarrow> nat \<Rightarrow> int \<Rightarrow> ('d tws_world, int) M" where
  "event_historical_data te n req_id =
     tws_event te n Resp_historical_data (no_data\<lparr>rd_ticker_id := req_id\<rparr>)"

definition event_historical_data_end :: "'d tws_env \<Rightarrow> nat \<Rightarrow> int \<Rightarrow> ('d tws_world, int) M" where
  "event_historical_data_end te n req_id =
     tws_event te n Resp_historical_data_end (no_data\<lparr>rd_ticker_id := req_id\<rparr>)"

definition event_scanner_parameters :: "'d tws_env \<Rightarrow> nat \<Rightarrow> string \<Rightarrow> ('d tws_world, int) M" where
  "event_scanner_parameters te n xml =
     tws_event te n Resp_scanner_parameters (no_data\<lparr>rd_text := xml\<rparr>)"

definition event_scanner_data :: "'d tws_env \<Rightarrow> nat \<Rightarrow> int \<Rightarrow> 'd \<Rightarrow> ('d tws_world, int) M" where
  "event_scanner_data te n ticker_id cd =
     tws_event te n Resp_scanner_data (no_data\<lparr>rd_ticker_id := ticker_id, rd_details := Some cd\<rparr>)"

definition event_scanner_data_start :: "'d tws_env \<Rightarrow> nat \<Rightarrow> int \<Rightarrow> int \<Rightarrow> ('d tws_world, int) M" where
  "event_scanner_data_start te n ticker_id num_elements =
     tws_event te n Resp_scanner_data_start (no_data\<lparr>rd_ticker_id := ticker_id, rd_num_elements := num_elements\<rparr>)"

definition event_scanner_data_end :: "'d tws_env \<Rightarrow> nat \<Rightarrow> int \<Rightarrow> int \<Rightarrow> ('d tws_world, int) M" where
  "event_scanner_data_end te n ticker_id num_elements =
     tws_event te n Resp_scanner_data_end (no_data\<lparr>rd_ticker_id := ticker_id, rd_num_elements := num_elements\<rparr>)"

definition event_current_time :: "'d tws_env \<Rightarrow> nat \<Rightarrow> int \<Rightarrow> ('d tws_world, int) M" where
  "event_current_time te n time =
     tws_event te n Resp_current_time (no_data\<lparr>rd_time := time\<rparr>)"

definition event_realtime_bar :: "'d tws_env \<Rightarrow> nat \<Rightarrow> int \<Rightarrow> ('d tws_world, int) M" where
  "event_realtime_bar te n req_id =
     tws_event te n Resp_realtime_bar (no_data\<lparr>rd_ticker_id := req_id\<rparr>)"

definition event_fundamental_data :: "'d tws_env \<Rightarrow> nat \<Rightarrow> int \<Rightarrow> ('d tws_world, int) M" where
  "event_fundamental_data te n req_id =
     tws_event te n Resp_fundamental_data (no_data\<lparr>rd_ticker_id := req_id\<rparr>)"

definition event_contract_details_end :: "'d tws_env \<Rightarrow> nat \<Rightarrow> int \<Rightarrow> ('d tws_world, int) M" where
  "event_contract_details_end te n req_id =
     tws_event te n Resp_contract_details_end (no_data\<lparr>rd_ticker_id := req_id\<rparr>)"

definition event_open_order_end :: "'d tws_env \<Rightarrow> nat \<Rightarrow> ('d tws_world, int) M" where
  "event_open_order_end te n =
     tws_event te n Resp_open_order_end no_data"

definition event_delta_neutral_validation :: "'d tws_env \<Rightarrow> nat \<Rightarrow> int \<Rightarrow> ('d tws_world, int) M" where
  "event_delta_neutral_validation te n req_id =
     tws_event te n Resp_delta_neutral_validation (no_data\<lparr>rd_ticker_id := req_id\<rparr>)"

definition event_acct_download_end :: "'d tws_env \<Rightarrow> nat \<Rightarrow> ('d tws_world, int) M" where
  "event_acct_download_end te n =
     tws_event te n Resp_acct_download_end no_data"

definition event_exec_details_end :: "'d tws_env \<Rightarrow> nat \<Rightarrow> int \<Rightarrow> ('d tws_world, int) M" where
  "event_exec_details_end te n req_id =
     tws_event te n Resp_exec_details_end (no_data\<lparr>rd_ticker_id := req_id\<rparr>)"

definition event_tick_snapshot_end :: "'d tws_env \<Rightarrow> nat \<Rightarrow> int \<Rightarrow> ('d tws_world, int) M" where
  "event_tick_snapshot_end te n req_id =
     tws_event te n Resp_tick_snapshot_end (no_data\<lparr>rd_ticker_id := req_id\<rparr>)"

definition event_market_data_type :: "'d tws_env \<Rightarrow> nat \<Rightarrow> int \<Rightarrow> ('d tws_world, int) M" where
  "event_market_data_type te n req_id =
     tws_event te n Resp_market_data_type (no_data\<lparr>rd_ticker_id := req_id\<rparr>)"

definition event_commission_report :: "'d tws_env \<Rightarrow> nat \<Rightarrow> ('d tws_world, int) M" where
  "event_commission_report te n =
     tws_event te n Resp_commission_report no_data"

section \<open>The round-robin pulse\<close>

fun tickle :: "'d tws_exec \<Rightarrow> nat \<Rightarrow> nat \<Rightarrow> nat \<Rightarrow> nat \<Rightarrow> ('d tws_world, nat) M" where
  "tickle ex n pos i start w =
     (if length (owned w ibm) \<le> i then Ok (start, w)
      else case n of
        0 \<Rightarrow> Bad Out_of_fuel
      | Suc n' \<Rightarrow>
          (let idx = (i + pos) mod length (owned w ibm); m = owned w ibm ! idx in
           mbind (deref m) (\<lambda>r.
           if m_now_state r = WAIT_FOR_TRANSMIT then
             mbind (set_state ex m COMMENCE_TRANSMIT) (\<lambda>st.
             tickle ex n' pos (Suc i) (if st = COMMENCE_TRANSMIT then Suc idx else start))
           else if m_now_state r = RESPONSE_COMPLETE then
             mseq (massert (\<lambda>_. m_requester r = ibm)) (tickle ex n' pos (Suc i) start)
           else if m_now_state r \<in> {EXEC_COMMAND, DESTRUCTION, FAILED, ABORTED, MSG_INITIALIZED, TASK_COMPLETED}
           then mfail Assert_failed
           else tickle ex n' pos (Suc i) start) w))"

declare tickle.simps [simp del]

definition pulse_pending_issues :: "'d tws_env \<Rightarrow> nat \<Rightarrow> nat \<Rightarrow> ('d tws_world, int) M" where
  "pulse_pending_issues te n f =
     mseq (pulse_marked_messages (net te) (tws_state_machine te n) f ibm 0)
     (mbind (getg m_last_tickled_queue_position) (\<lambda>pos.
      mbind (tickle (tws_state_machine te n) f pos 0 pos) (\<lambda>start.
      mseq (modg (\<lambda>g. g\<lparr>m_last_tickled_queue_position := start\<rparr>)) (ret 0))))"

section \<open>The responses keep the invariant\<close>

lemma ev_modg_keep [keeps_intro]:
  assumes "\<And>g. m_active_scanner_subscriptions (f g) = m_active_scanner_subscriptions g"
  shows "keeps (winv limit_ok) evolves (modg f)"
  by (rule ev_modg) (simp add: limit_ok_def assms)

lemma ev_tws_class [keeps_intro]:
  "(\<And>k i a t. keeps I R (f k i a t)) \<Longrightarrow> (\<And>k d. keeps I R (g k d)) \<Longrightarrow> (\<And>m. keeps I R (c m)) \<Longrightarrow>
   keeps I R p \<Longrightarrow>
   keeps I R (case x of Req k i a t \<Rightarrow> f k i a t | Resp k d \<Rightarrow> g k d | Cancel m \<Rightarrow> c m | Plain \<Rightarrow> p)"
  by (cases x) auto

lemma ev_request_scans [keeps_intro]:
  assumes "\<And>m s. keeps (winv limit_ok) evolves (ex m s)"
  shows "keeps (winv limit_ok) evolves (request_market_scans te ex p loc cs)"
    and "keeps (winv limit_ok) evolves (request_all_scans te ex p ls)"
proof -
  show *: "keeps (winv limit_ok) evolves (request_market_scans te ex p loc cs)" for loc cs
    by (induction cs) (auto intro!: keeps_intro assms)
  show "keeps (winv limit_ok) evolves (request_all_scans te ex p ls)"
    by (induction ls) (auto intro!: keeps_intro assms *)
qed

lemma ev_resp_process [keeps_intro]:
  assumes "\<And>m s. keeps (winv limit_ok) evolves (ex m s)"
  shows "keeps (winv limit_ok) evolves (resp_process te ex self arg)"
  unfolding resp_process_def resp_scanner_parameters_process_def resp_scanner_data_process_def
    resp_other_process_def tws_response_message_process_def
  by (intro keeps_intro assms)

lemma ev_req_process_response [keeps_intro]:
  assumes "\<And>m s. keeps (winv limit_ok) evolves (ex m s)"
  shows "keeps (winv limit_ok) evolves (req_process_response te ex self resp)"
  unfolding req_process_response_def scanner_parameters_response_def
    scanner_subscription_response_def current_time_response_def
  by (intro keeps_intro assms keeps_upd_msg) simp_all

lemma ev_scan_queue [keeps_intro]:
  assumes "\<And>m s. keeps (winv limit_ok) evolves (ex m s)"
  shows "keeps (winv limit_ok) evolves (scan_queue_and_process te ex resp)"
  unfolding scan_queue_and_process_def by (intro keeps_intro assms)

lemma ev_ibm_process [keeps_intro]:
  assumes "\<And>m s. keeps (winv limit_ok) evolves (ex m s)"
  shows "keeps (winv limit_ok) evolves (ibm_process_response te ex resp)"
  unfolding ibm_process_response_def farm_event_def prime_the_pump_def register_contract_info_def
  by (intro keeps_intro assms) simp_all

lemma ev_tws_event [keeps_intro]: "keeps (winv limit_ok) evolves (tws_event te n k d)"
  unfolding tws_event_def by (intro keeps_intro ev_state_machine)

lemma ev_tickle [keeps_intro]:
  fixes ex :: "'d tws_exec"
  assumes ex: "\<And>m s. keeps (winv limit_ok) evolves (ex m s)"
  shows "keeps (winv limit_ok) evolves (tickle ex n pos i start)"
proof (induction n arbitrary: i start)
  case 0
  show ?case
    by (auto simp: keeps_def wp_def tickle.simps)
next
  case (Suc n)
  show ?case
  proof (rule keepsI)
    fix w :: "'d tws_world" assume w: "winv limit_ok w"
    define idx where "idx = (i + pos) mod length (owned w ibm)"
    define m where "m = owned w ibm ! idx"
    let ?body = "mbind (deref m) (\<lambda>r.
           if m_now_state r = WAIT_FOR_TRANSMIT then
             mbind (set_state ex m COMMENCE_TRANSMIT) (\<lambda>st.
             tickle ex n pos (Suc i) (if st = COMMENCE_TRANSMIT then Suc idx else start))
           else if m_now_state r = RESPONSE_COMPLETE then
             mseq (massert (\<lambda>_. m_requester r = ibm)) (tickle ex n pos (Suc i) start)
           else if m_now_state r \<in> {EXEC_COMMAND, DESTRUCTION, FAILED, ABORTED, MSG_INITIALIZED, TASK_COMPLETED}
           then mfail Assert_failed
           else tickle ex n pos (Suc i) start)"
    have "keeps (winv limit_ok) evolves ?body"
      by (intro keeps_intro ex Suc.IH)
    then have "wp ?body (\<lambda>_ w'. winv limit_ok w' \<and> evolves w w') w"
      using w by (simp add: keeps_def)
    moreover have "tickle ex (Suc n) pos i start w = (if length (owned w ibm) \<le> i then Ok (start, w) else ?body w)"
      unfolding idx_def m_def by (subst tickle.simps) (simp add: Let_def)
    ultimately show "wp (tickle ex (Suc n) pos i start) (\<lambda>_ w'. winv limit_ok w' \<and> evolves w w') w"
      using w by (cases "length (owned w ibm) \<le> i")
        (simp add: wp_def, subst wp_cong_at [where g = ?body], simp_all)
  qed
qed

lemma ev_pulse_pending [keeps_intro]: "keeps (winv limit_ok) evolves (pulse_pending_issues te n f)"
  unfolding pulse_pending_issues_def by (intro keeps_intro ev_state_machine) simp

end
