(* ===== verification/System.thy ===== *)
theory System
  imports TwsResponses
begin

text \<open>The running program: the threads of the front-end processors and of the back-end, the
  latter with number \<open>ibm\<close>, take turns with the operations their loops consist of
  (\<open>tws_input_output.cpp\<close>, \<open>mongoose_event_handler.cpp\<close>), and TWS calls back at any time. What
  holds of every world they can reach is proved here.\<close>

section \<open>Fetching new communicators keeps the invariant\<close>

lemma ev_register_conn:
  assumes w: "winv G w" and c: "c \<in> set (m_communicators w)"
  shows "wp (register_interthread_connection p c)
    (\<lambda>_ w'. winv G w' \<and> evolves w w' \<and> m_communicators w' = m_communicators w) w"
proof -
  have "comm_inv w"
    using w by (simp add: winv_def wf_def)
  then have "wp (register_interthread_connection p c) (\<lambda>_ w'. winv G w' \<and> evolves w w') w"
    by (rule wp_mono [OF wp_register [OF _ c]]) (use inv_comm_frame [OF w] in blast)
  then show ?thesis
    by (auto simp: wp_def register_interthread_connection_def)
qed

lemma ev_count:
  "winv G w \<Longrightarrow> winv G (w\<lparr>m_new_communicators_count := n\<rparr>) \<and> evolves w (w\<lparr>m_new_communicators_count := n\<rparr>)"
  by (auto simp: winv_def wf_def evolves_def lists_ok_def owner_ok_def alloc_ok_def limbo_ok_def
      elim!: comm_inv_cong)

lemma fetch_scan_wp:
  assumes "winv G w" "set cs \<subseteq> set (m_communicators w)"
  shows "wp (fetch_scan p cs) (\<lambda>_ w'. winv G w' \<and> evolves w w') w"
  using assms
proof (induction cs arbitrary: w)
  case Nil
  then show ?case by (simp add: wp_def)
next
  case (Cons c cs)
  have step: "wp (mseq (modify (\<lambda>w. w\<lparr>m_new_communicators_count := m_new_communicators_count w - 1\<rparr>))
        (fetch_scan p cs)) (\<lambda>_ w'. winv G w' \<and> evolves w w') w1"
    if w1: "winv G w1" "evolves w w1" "m_communicators w1 = m_communicators w" for w1
  proof -
    let ?w = "w1\<lparr>m_new_communicators_count := m_new_communicators_count w1 - 1\<rparr>"
    have w2: "winv G ?w" "evolves w ?w"
      using ev_count [OF w1(1)] evolves_trans [OF w1(2)] by blast+
    have "wp (fetch_scan p cs) (\<lambda>_ w'. winv G w' \<and> evolves ?w w') ?w"
      by (rule Cons.IH) (use w2 w1 Cons.prems in auto)
    then show ?thesis
      by (auto simp: wp_simps elim!: wp_mono intro: evolves_trans [OF w2(2)])
  qed
  have "wp (register_interthread_connection p c) (\<lambda>_. wp (mseq (modify (\<lambda>w. w\<lparr>m_new_communicators_count :=
        m_new_communicators_count w - 1\<rparr>)) (fetch_scan p cs)) (\<lambda>_ w'. winv G w' \<and> evolves w w')) w"
    by (rule wp_mono [OF ev_register_conn [OF Cons.prems(1)]]) (use step Cons.prems(2) in auto)
  then have reg: "wp (mseq (register_interthread_connection p c) (mseq (modify (\<lambda>w. w\<lparr>m_new_communicators_count :=
        m_new_communicators_count w - 1\<rparr>)) (fetch_scan p cs))) (\<lambda>_ w'. winv G w' \<and> evolves w w') w"
    by (simp add: wp_simps)
  have rest: "wp (fetch_scan p cs) (\<lambda>_ w'. winv G w' \<and> evolves w w') w"
    using Cons by simp
  show ?case
    using reg rest Cons.prems by (auto simp: wp_def split: if_splits)
qed

lemma ev_fetch [keeps_intro]: "keeps (winv G) evolves (fetch_new_interthread_communicators p)"
proof (rule keepsI)
  fix w assume w: "winv G w"
  have "wp (fetch_scan p (rev (m_communicators w))) (\<lambda>_ w'. winv G w' \<and> evolves w w') w"
    by (rule fetch_scan_wp [OF w]) simp
  then have "wp (mseq (massert (\<lambda>w. 0 < m_new_communicators_count w))
      (mseq (fetch_scan p (rev (m_communicators w))) (ret (0 :: int)))) (\<lambda>_ w'. winv G w' \<and> evolves w w') w"
    by (simp add: wp_simps)
  then show "wp (fetch_new_interthread_communicators p) (\<lambda>_ w'. winv G w' \<and> evolves w w') w"
    using w by (simp add: wp_def fetch_new_interthread_communicators_def)
qed

section \<open>Steps and reachable worlds\<close>

datatype 'd action =
  New_request pid "pid option" req_kind int "string list"  \<comment> \<open>a thread builds a request\<close>
| Execute mid                      \<comment> \<open>\<open>msg->state(EXEC_COMMAND)\<close>\<close>
| Pulse mid                        \<comment> \<open>\<open>msg->pulse()\<close>\<close>
| Pulse_marked pid                 \<comment> \<open>\<open>pulse_marked_messages()\<close>\<close>
| Receive pid "sock set" "sock set" int  \<comment> \<open>\<open>process_one_queued_tier2_request()\<close>\<close>
| Pop cid msg_pending_mode bool    \<comment> \<open>\<open>pop_one_message()\<close>\<close>
| Fetch pid                        \<comment> \<open>\<open>fetch_new_interthread_communicators()\<close>\<close>
| Cancel_msg mid pid               \<comment> \<open>\<open>msg->cancel_request()\<close>\<close>
| Tickle                           \<comment> \<open>\<open>pulse_pending_issues()\<close>\<close>
| Event resp_kind "'d resp_data"   \<comment> \<open>a callback of the TWS API\<close>
| Connect                          \<comment> \<open>\<open>init_tws_api()\<close>\<close>
| Find_comm pid pid pid            \<comment> \<open>\<open>get_interthread_communicator()\<close>\<close>

text \<open>A new connection to TWS has the scanner parameters asked for again.\<close>

definition init_tws_api :: "('d tws_world, unit) M" where
  "init_tws_api = modg (\<lambda>g. g\<lparr>m_still_need_to_prime_the_pump := True\<rparr>)"

lemma ev_init_tws_api [keeps_intro]: "keeps (winv limit_ok) evolves init_tws_api"
  unfolding init_tws_api_def by (intro keeps_intro) simp

fun perform :: "'d tws_env \<Rightarrow> nat \<Rightarrow> 'd action \<Rightarrow> ('d tws_world, unit) M" where
  "perform te n (New_request p q k i args) =
     mseq (new_request te (tws_state_machine te n) (Some p) q k i args) (ret ())"
| "perform te n (Execute m) = mseq (set_state (tws_state_machine te n) m EXEC_COMMAND) (ret ())"
| "perform te n (Pulse m) = mseq (pulse (net te) (tws_state_machine te n) m) (ret ())"
| "perform te n (Pulse_marked p) =
     mseq (pulse_marked_messages (net te) (tws_state_machine te n) n p 0) (ret ())"
| "perform te n (Receive p rd exc mx) =
     mseq (process_one_queued_tier2_request (net te) (tws_state_machine te n) p rd exc mx) (ret ())"
| "perform te n (Pop c mode ready) =
     mseq (pop_one_message (net te) (tws_state_machine te n) c mode ready) (ret ())"
| "perform te n (Fetch p) = mseq (fetch_new_interthread_communicators p) (ret ())"
| "perform te n (Cancel_msg m p) =
     mseq (cancel_request (net te) (tws_state_machine te n) Cancel m p) (ret ())"
| "perform te n Tickle = mseq (pulse_pending_issues te n n) (ret ())"
| "perform te n (Event k d) = mseq (tws_event te n k d) (ret ())"
| "perform te n Connect = mseq init_tws_api (ret ())"
| "perform te n (Find_comm p from to) = mseq (get_interthread_communicator (net te) p from to) (ret ())"

lemma ev_perform: "keeps (winv limit_ok) evolves (perform te n a)"
  by (cases a) (simp, intro keeps_intro ev_state_machine)+

inductive sys_step :: "'d tws_env \<Rightarrow> 'd tws_world \<Rightarrow> 'd tws_world \<Rightarrow> bool" for te where
  sys_step: "perform te n a w = Ok ((), w') \<Longrightarrow> sys_step te w w'"

definition glob_init :: "id_manager \<Rightarrow> 'd tws_glob" where
  "glob_init ids = \<lparr>m_next_order_id = ids,
     m_active_scanner_subscriptions = [], m_last_tickled_queue_position = 0,
     m_still_need_to_prime_the_pump = True, m_rt_providers = [], m_hist_providers = [],
     m_account_identifier = '''', m_contract_details_store = [], tws_calls = []\<rparr>"

definition world_init :: "id_manager \<Rightarrow> 'd tws_world" where
  "world_init ids = \<lparr>msgs = (\<lambda>_. None), next_mid = 0, owned = (\<lambda>_. []), pulsing = (\<lambda>_. []),
     m_senders = (\<lambda>_. []), comms = (\<lambda>_. interthread_communicator 0 0 (0, 0) 0), next_cid = 0,
     m_communicators = [], m_new_communicators_count = 0, next_sock = 0, sock_q = (\<lambda>_. []),
     n_writes = 0, glob = glob_init ids\<rparr>"

inductive reachable :: "'d tws_env \<Rightarrow> 'd tws_world \<Rightarrow> bool" for te where
  reach_init: "reachable te (world_init (unique_type_id_threadsafe_manager 1))"
| reach_step: "reachable te w \<Longrightarrow> sys_step te w w' \<Longrightarrow> reachable te w'"

inductive_cases sys_stepE: "sys_step te w w'"

inductive_simps sys_step_iff: "sys_step te w w'"

lemma winv_init: "winv limit_ok (world_init ids)"
  by (simp add: winv_def wf_def world_init_def lists_ok_def owner_ok_def limbo_ok_def alloc_ok_def
      comm_inv_def cache_ok_def limit_ok_def glob_init_def)

lemma sys_step_keeps: "sys_step te w w' \<Longrightarrow> winv limit_ok w \<Longrightarrow> winv limit_ok w' \<and> evolves w w'"
  by (auto elim!: sys_stepE dest: keeps_ok [OF ev_perform])

lemma reachable_winv: "reachable te w \<Longrightarrow> winv limit_ok w"
  by (induction rule: reachable.induct) (auto intro: winv_init dest: sys_step_keeps)

section \<open>Sequences of actions\<close>

fun performs :: "'d tws_env \<Rightarrow> nat \<Rightarrow> 'd action list \<Rightarrow> ('d tws_world, unit) M" where
  "performs te n [] = ret ()"
| "performs te n (a # as) = mseq (perform te n a) (performs te n as)"

lemma performs_reach:
  "reachable te w \<Longrightarrow> performs te n as w = Ok ((), w') \<Longrightarrow> reachable te w'"
proof (induction as arbitrary: w)
  case (Cons a as)
  then obtain w1 where "perform te n a w = Ok ((), w1)" "performs te n as w1 = Ok ((), w')"
    by (auto simp: M_defs res_simps)
  then show ?case
    using Cons by (blast intro: reach_step sys_step)
qed (simp add: ret_def)

end
