(* ===== verification/MessageProps.thy ===== *)
theory MessageProps
  imports Message
begin

text \<open>What the state machine does, case by case: the effect of entering a state on the side that
  handles it and on the other side, the verdicts of the handlers, posting and receiving, and the
  fuel that the classes of \<open>tier2_message.cpp\<close> need.\<close>

section \<open>Queueing succeeds in a well-formed world\<close>

lemma scan_pulsing_Ok:
  assumes "owner_ok w" "set l \<subseteq> set (owned w p)"
  shows "scan_pulsing p m l w = Ok (m \<in> set l, w)"
  using assms(2)
proof (induction l)
  case (Cons i l)
  then obtain r where "msgs w i = Some r" "m_owner r = Some p"
    using assms(1) by (auto simp: owner_ok_def)
  with Cons show ?case
    by (auto simp: M_defs does_own_def deref_def)
qed (simp add: ret_def)

lemma queue_Ok:
  assumes "wf w" "msgs w m = Some r" "m_owner r = Some p"
  shows "queue_msg_for_pulsing p m w =
    Ok (if m \<in> set (pulsing w p) then 1 else 0, w\<lparr>pulsing := (pulsing w)(p := push_new m (pulsing w p))\<rparr>)"
proof -
  have "m \<in> set (owned w p)" "set (pulsing w p) \<subseteq> set (owned w p)" "owner_ok w"
    using assms by (auto simp: wf_def owner_ok_def lists_ok_def)
  then show ?thesis
    using scan_pulsing_Ok [of w "pulsing w p" p m]
    by (simp add: queue_msg_for_pulsing_def M_defs does_own_def push_new_def)
qed

section \<open>Entering a state\<close>

lemma enter_state_sel [simp]:
  "m_owner (enter_state s r) = m_owner r" "m_requester (enter_state s r) = m_requester r"
  "m_receiver (enter_state s r) = m_receiver r" "m_now_state (enter_state s r) = s"
  "m_previous_state (enter_state s r) = m_now_state r" "m_class (enter_state s r) = m_class r"
  "m_state_change_handlers (enter_state s r) = m_state_change_handlers r"
  by (simp_all add: enter_state_def)

lemma party_pid_enter [simp]: "party_pid a (enter_state s r) = party_pid a r"
  by (simp add: party_pid_def split: party.split)

lemma wf_enter: "wf w \<Longrightarrow> wf (upd_msg m (enter_state s) w)"
  using inv_upd_msg [of "\<lambda>_. True" w "enter_state s" m] by (simp add: winv_def)

lemma handle_none:
  "msgs w m = Some r \<Longrightarrow> m_state_change_handlers r = [] \<Longrightarrow> handle_state_change hk ex m new w = Ok (PROCEED, w)"
  by (simp add: handle_state_change_def M_defs deref_def)

text \<open>The side that handles the state runs the state's virtual method.\<close>

lemma exec_runs:
  assumes v: "handle_state_change hk ex m new w = Ok (PROCEED, w0)"
    and r: "msgs w0 m = Some r" "m_owner r = Some p"
    and st: "stage new = Some (a, f)" "new \<noteq> DESTRUCTION" "p = party_pid a r"
    and f: "h_f hk ex f m (upd_msg m (enter_state new) w0) = Ok (err, w1)"
    and r1: "msgs w1 m = Some r1" "m_owner r1 \<noteq> None"
  shows "exec_state_body hk ex m new w = Ok (if err \<noteq> 0 then FAILED else m_now_state r1, w1)"
  using assms
  by (simp add: exec_state_body_def M_defs deref_def has_owner_def the_owner_def dispatch_state_def)

text \<open>The other side only marks the message for the next pulse.\<close>

lemma exec_queues:
  assumes v: "handle_state_change hk ex m new w = Ok (PROCEED, w0)"
    and r: "msgs w0 m = Some r" "m_owner r = Some p" "wf w0"
    and st: "stage new = Some (a, f)" "p \<noteq> party_pid a r"
  shows "exec_state_body hk ex m new w =
    Ok (new, (upd_msg m (enter_state new) w0)\<lparr>pulsing := (pulsing w0)(p := push_new m (pulsing w0 p))\<rparr>)"
proof -
  let ?w = "upd_msg m (enter_state new) w0"
  have q: "queue_msg_for_pulsing p m ?w =
      Ok (if m \<in> set (pulsing w0 p) then 1 else 0, ?w\<lparr>pulsing := (pulsing w0)(p := push_new m (pulsing w0 p))\<rparr>)"
    using queue_Ok [OF wf_enter [OF r(3)], of m new m "enter_state new r" p] r by simp
  show ?thesis
    using assms q
    by (auto simp: exec_state_body_def M_defs deref_def has_owner_def the_owner_def dispatch_state_def)
qed

text \<open>A handler's veto leaves the message in the state it was in, an error makes it fail.\<close>

lemma exec_veto:
  assumes "handle_state_change hk ex m new w = Ok (DONT_CHANGE, w0)" "msgs w0 m = Some r"
  shows "exec_state_body hk ex m new w = Ok (m_now_state r, w0)"
  using assms by (simp add: exec_state_body_def M_defs deref_def)

lemma set_state_veto:
  assumes "handle_state_change hk (exec_state hk n) m new w = Ok (DONT_CHANGE, w)"
    and "msgs w m = Some r" "new \<noteq> m_now_state r"
  shows "set_state (exec_state hk (Suc n)) m new w = Ok (m_now_state r, w)"
  using assms exec_veto [OF assms(1,2)]
  by (simp add: set_state_def numeral_2_eq_2 M_defs deref_def)

lemma set_state_same:
  "msgs w m = Some r \<Longrightarrow> set_state ex m (m_now_state r) w = Ok (m_now_state r, w)"
  by (simp add: set_state_def numeral_2_eq_2 M_defs deref_def)

lemma set_state_once:
  assumes "msgs w m = Some r" "new \<noteq> m_now_state r"
    and "ex m new w = Ok (st, w1)" "msgs w1 m = Some r1" "st = m_now_state r1"
  shows "set_state ex m new w = Ok (st, w1)"
  using assms by (simp add: set_state_def numeral_2_eq_2 M_defs deref_def)

lemma set_state_twice:
  assumes "msgs w m = Some r" "new \<noteq> m_now_state r"
    and "ex m new w = Ok (st, w1)" "msgs w1 m = Some r1" "st \<noteq> m_now_state r1"
    and "ex m st w1 = Ok (st2, w2)"
  shows "set_state ex m new w = Ok (st2, w2)"
  using assms by (simp add: set_state_def numeral_2_eq_2 M_defs deref_def)

section \<open>The classes of \<open>tier2_message.cpp\<close>\<close>

text \<open>Plain messages and cancel messages, without state-change handlers.\<close>

datatype core_class = Plain_message | Cancel_message mid

definition core_f :: "(core_class, 'z) exec \<Rightarrow> virtual_f \<Rightarrow> mid \<Rightarrow> ((core_class, 'z) world, int) M" where
  "core_f ex f m = mbind (deref m) (\<lambda>r. case m_class r of
     Plain_message \<Rightarrow> base_f ex f m
   | Cancel_message refd \<Rightarrow> if f = F_exec_command then cancel_f_exec_command ex refd m else base_f ex f m)"

definition core_hooks :: "(core_class, 'z) hooks" where
  "core_hooks = \<lparr>h_process = (\<lambda>ex h m s. ret PROCEED), h_f = core_f\<rparr>"

interpretation core: message_hooks core_hooks "\<lambda>_. True"
proof
  fix ex :: "(core_class, 'z) exec" and m h s f
  assume ex: "\<And>m s. keeps (winv (\<lambda>_. True)) evolves (ex m s)"
  show "keeps (winv (\<lambda>_. True)) evolves (h_process core_hooks ex h m s)"
    by (simp add: core_hooks_def keeps_ret [OF reflp_evolves])
  have "keeps (winv (\<lambda>_. True)) evolves (core_f ex f m)"
    unfolding core_f_def
    by (intro keeps_intro) (auto intro: ev_base_f ev_cancel_f ex split: core_class.split)
  then show "keeps (winv (\<lambda>_. True)) evolves (h_f core_hooks ex f m)"
    by (simp add: core_hooks_def)
qed

section \<open>Enough fuel\<close>

text \<open>\<open>enough k f\<close>: with fuel for \<open>k\<close> nested state changes, \<open>f\<close> never runs out.\<close>

definition no_fuel_error :: "'a res \<Rightarrow> bool" where
  "no_fuel_error r \<longleftrightarrow> r \<noteq> Bad Out_of_fuel"

lemma nfe_bind:
  "no_fuel_error (f w) \<Longrightarrow> (\<And>x w'. f w = Ok (x, w') \<Longrightarrow> no_fuel_error (g x w')) \<Longrightarrow> no_fuel_error (mbind f g w)"
  by (cases "f w") (auto simp: mbind_def no_fuel_error_def)

lemma nfe_seq:
  "no_fuel_error (f w) \<Longrightarrow> (\<And>x w'. f w = Ok (x, w') \<Longrightarrow> no_fuel_error (g w')) \<Longrightarrow> no_fuel_error (mseq f g w)"
  by (simp add: mseq_def nfe_bind)

lemma nfe_simple [simp]:
  "no_fuel_error (ret x w)" "no_fuel_error (gets h w)" "no_fuel_error (modify h' w)"
  "no_fuel_error (massert c w)" "no_fuel_error (deref m w)"
  "no_fuel_error (mfail e w) = (e \<noteq> Out_of_fuel)"
  by (simp_all add: M_defs no_fuel_error_def deref_def split: option.split)

lemma nfe_scan [simp]: "no_fuel_error (scan_pulsing p m l w)"
  by (induction l arbitrary: w) (auto intro!: nfe_bind nfe_seq)

lemma nfe_ops [simp]:
  "no_fuel_error (queue_msg_for_pulsing p m w)" "no_fuel_error (the_owner m w)"
  "no_fuel_error (has_owner m w)"
  unfolding queue_msg_for_pulsing_def the_owner_def has_owner_def
  by (auto intro!: nfe_bind nfe_seq split: option.split)

lemma run_handlers_core: "run_handlers core_hooks ex m new hs = ret PROCEED"
  by (induction hs) (auto simp: core_hooks_def M_defs fun_eq_iff)

lemma nfe_handle_core [simp]: "no_fuel_error (handle_state_change core_hooks ex m new w)"
  by (auto simp: handle_state_change_def run_handlers_core intro!: nfe_bind)

lemma nfe_state_loop:
  assumes "\<And>s w. no_fuel_error (ex m s w)"
  shows "no_fuel_error (state_loop ex i m new w)"
  by (induction i arbitrary: new w) (auto intro!: nfe_bind assms)


lemma exec_result:
  assumes "exec_state_body hk ex m new w = Ok (st, w')"
  shows "\<exists>r. msgs w' m = Some r \<and> (st = FAILED \<or> st = m_now_state r)"
proof -
  have "wp (exec_state_body hk ex m new) (\<lambda>st w'. \<exists>r. msgs w' m = Some r \<and> (st = FAILED \<or> st = m_now_state r)) w"
    unfolding exec_state_body_def Let_def wp_bind
    by (rule wp_all) (auto simp: wp_simps has_owner_def intro!: wp_all split: state_change.split)
  then show ?thesis
    using assms by (simp add: wp_def)
qed

lemma nfe_set_state:
  assumes "\<And>w. no_fuel_error (exec_state hk (Suc n) m new w)"
    and "\<And>w. no_fuel_error (exec_state hk (Suc n) m FAILED w)"
  shows "no_fuel_error (set_state (exec_state hk (Suc n)) m new w)"
proof -
  have "no_fuel_error (state_loop (exec_state hk (Suc n)) 1 m st w')"
    if res: "exec_state hk (Suc n) m new v = Ok (st, w')" for st w' v
  proof -
    obtain r where "msgs w' m = Some r" "st = FAILED \<or> st = m_now_state r"
      using exec_result [of hk "exec_state hk n" m new v st w'] res by auto
    then show ?thesis
      using assms(2) by (cases "st = m_now_state r") (auto intro!: nfe_bind simp: deref_def no_fuel_error_def M_defs rbind_Ok_right)
  qed
  then show ?thesis
    unfolding set_state_def numeral_2_eq_2
    by (auto simp del: exec_state.simps intro!: nfe_bind assms(1))
qed

lemma nfe_body_core:
  assumes "\<And>w f. stage new = Some (Receiver, f) \<or> stage new = Some (Requester, f) \<Longrightarrow> no_fuel_error (core_f ex f m w)"
  shows "no_fuel_error (exec_state_body core_hooks ex m new w)"
proof -
  have "no_fuel_error (dispatch_state core_hooks ex m s w)" if "s = new \<or> s = FAILED" for s w
  proof (cases "stage s")
    case None
    then show ?thesis
      by (auto simp: dispatch_state_def intro!: nfe_bind nfe_seq)
  next
    case (Some af)
    obtain a f where af: "af = (a, f)" by fastforce
    have "no_fuel_error (core_f ex f m v)" for v
    proof (cases "s = new")
      case True
      then show ?thesis
        using assms Some af by (cases a) auto
    next
      case False
      then have "f = F_task_failed"
        using that Some af by auto
      then show ?thesis
        by (auto simp: core_f_def intro!: nfe_bind split: core_class.split)
    qed
    then show ?thesis
      using Some af by (auto simp: dispatch_state_def core_hooks_def intro!: nfe_bind nfe_seq)
  qed
  then show ?thesis
    unfolding exec_state_body_def Let_def
    by (auto intro!: nfe_bind nfe_seq split: state_change.split)
qed

lemma nfe_basic_core:
  assumes "new \<notin> {EXEC_COMMAND, WAIT_FOR_TRANSMIT}"
  shows "no_fuel_error (exec_state core_hooks (Suc n) m new w)"
proof -
  have "no_fuel_error (exec_state_body core_hooks (exec_state core_hooks n) m new w)"
    by (rule nfe_body_core)
       (use assms in \<open>cases new; auto simp: core_f_def intro!: nfe_bind split: core_class.split\<close>)
  then show ?thesis by simp
qed

lemma nfe_exec_core: "no_fuel_error (exec_state core_hooks (Suc (Suc n)) m new w)"
proof -
  let ?ex = "exec_state core_hooks (Suc n)"
  have set: "no_fuel_error (set_state ?ex m' s v)" if "s \<notin> {EXEC_COMMAND, WAIT_FOR_TRANSMIT}" for s m' v
    by (rule nfe_set_state; rule nfe_basic_core) (use that in simp_all)
  have "no_fuel_error (core_f ?ex f m v)" for f v
  proof (cases f)
    case F_exec_command
    then show ?thesis
      by (auto simp del: exec_state.simps simp: core_f_def cancel_f_exec_command_def intro!: nfe_bind nfe_seq set
          split: core_class.split)
  next
    case F_wait_for_transmit
    then show ?thesis
      by (auto simp del: exec_state.simps simp: core_f_def intro!: nfe_bind nfe_seq set split: core_class.split)
  qed (auto simp: core_f_def intro!: nfe_bind split: core_class.split)
  then have "no_fuel_error (exec_state_body core_hooks ?ex m new w)"
    by (intro nfe_body_core)
  then show ?thesis by simp
qed


section \<open>Pulsing with sockets that work\<close>

lemma get_comm_Ok:
  assumes inv: "comm_inv w" and e: "\<And>s. env_socketpair e s = 0" and p: "p = from \<or> p = to"
  shows "\<exists>c w'. get_interthread_communicator e p from to w = Ok (c, w')"
proof (cases "find_comm w from to (m_senders w p)")
  case None
  have "\<exists>c w1. app_get_interthread_communicator e from to w = Ok (c, w1)"
    by (cases "find_comm w from to (m_communicators w)")
      (auto simp: app_get_interthread_communicator_def create_communication_path_def Let_def e split: option.split)
  then obtain c w1 where c: "app_get_interthread_communicator e from to w = Ok (c, w1)"
    by auto
  have "m_sender (comms w1 c) = from" "m_receipient (comms w1 c) = to"
    using wpD [OF wp_app_get [OF inv] c] by simp_all
  then have "register_interthread_connection p c w1 \<noteq> Bad Assert_failed"
    using p by (auto simp: register_interthread_connection_def)
  then show ?thesis
    using None c p \<open>m_sender (comms w1 c) = from\<close> \<open>m_receipient (comms w1 c) = to\<close>
    by (auto simp: get_interthread_communicator_def mbind_def register_interthread_connection_def)
qed (simp add: get_interthread_communicator_def)

lemma give_up_Ok:
  assumes "wf w" "msgs w m = Some r" "m_owner r = Some p"
  shows "set_current_owner ex m None w = Ok (None, set_owner m None (released p m w))"
proof -
  have "m \<in> set (owned w p)" "distinct (owned w p)"
    using assms by (auto simp: wf_def owner_ok_def lists_ok_def)
  then show ?thesis
    using assms by (simp add: set_current_owner_def M_defs deref_def release_def does_own_def released_def set_owner_def)
qed

text \<open>A post that goes through: the sender gives the message up, its pointer is the last one in
  the recipient's socket.\<close>

definition posted :: "pid \<Rightarrow> mid \<Rightarrow> sock \<Rightarrow> ('k, 'z) world \<Rightarrow> ('k, 'z) world" where
  "posted p m s w = (let w1 = set_owner m None (released p m w) in
     w1\<lparr>n_writes := n_writes w1 + 1, sock_q := (sock_q w1)(s := sock_q w1 s @ [m])\<rparr>)"

lemma post_Ok:
  assumes "wf w" "msgs w m = Some r" "m_owner r = Some p" "m_sender (comms w c) = p"
    and "env_write e (n_writes w) = sizeof_ptr"
  shows "post_message e ex c m w = Ok (0, posted p m (peer (m_sending_socket (comms w c))) w)"
  using assms give_up_Ok [OF assms(1-3), of ex]
  by (simp add: post_message_def M_defs deref_def mg_write_msg_def Let_def posted_def sizeof_ptr_def
      set_owner_def released_def)

lemma pulse_Ok:
  assumes w: "wf w" and r: "msgs w m = Some r" "m_owner r = Some p"
    and e: "\<And>n. env_write e n = sizeof_ptr" "\<And>s. env_socketpair e s = 0"
  shows "\<exists>w'. (\<forall>ex. pulse e ex m w = Ok (0, w')) \<and> pulsing w' p = remove1 m (pulsing w p) \<or>
              (\<forall>ex. pulse e ex m w = Ok (0, w')) \<and> w' = w"
proof (cases "p = pulse_target r")
  case True
  then show ?thesis
  proof (cases "m_now_state r = DESTRUCTION")
    case dest: True
    have "m \<in> set (owned w p)" "distinct (owned w p)" "m \<in> set (pulsing w p) \<longrightarrow> m \<in> set (owned w p)"
      using w r by (auto simp: wf_def owner_ok_def lists_ok_def)
    define v where "v = (set_owner m None (released p m w))\<lparr>msgs :=
      (msgs (set_owner m None (released p m w)))(m := None)\<rparr>"
    have "pulse e ex m w = Ok (0, v)" for ex
      using True dest r \<open>m \<in> set (owned w p)\<close> \<open>distinct (owned w p)\<close>
      by (simp add: pulse_def M_defs deref_def has_owner_def the_owner_def release_def does_own_def
          delete_msg_def v_def released_def set_owner_def)
    moreover have "pulsing v p = remove1 m (pulsing w p)"
      by (simp add: v_def set_owner_def released_def)
    ultimately show ?thesis
      by blast
  qed (use r in \<open>auto simp: pulse_def M_defs deref_def has_owner_def the_owner_def\<close>)
next
  case False
  have ci: "comm_inv w"
    using w by (simp add: wf_def)
  obtain c w1 where c: "get_interthread_communicator e p p (pulse_target r) w = Ok (c, w1)"
    using get_comm_Ok [OF ci e(2), of p p "pulse_target r"] by auto
  have w1: "comm_inv w1" "comm_frame w w1" "m_sender (comms w1 c) = p"
    using wpD [OF wp_get_comm [OF ci] c] by simp_all
  have "wf w1"
    using inv_comm_frame [of "\<lambda>_. True" w w1] w w1 by (simp add: winv_def)
  then have "post_message e ex c m w1 = Ok (0, posted p m (peer (m_sending_socket (comms w1 c))) w1)" for ex
    by (rule post_Ok) (use r w1 e in \<open>simp_all add: comm_frame_def\<close>)
  then have "pulse e ex m w = Ok (0, posted p m (peer (m_sending_socket (comms w1 c))) w1)" for ex
    using False r c by (simp add: pulse_def M_defs deref_def has_owner_def the_owner_def)
  moreover have "pulsing (posted p m (peer (m_sending_socket (comms w1 c))) w1) p = remove1 m (pulsing w p)"
    using w1(2) by (simp add: posted_def Let_def set_owner_def released_def comm_frame_def)
  ultimately show ?thesis
    by blast
qed

lemma pulse_marked_step:
  assumes w: "wf w" and p: "pulsing w p = m # ms"
  shows "pulse_marked_messages e ex (Suc n) p rv w =
    mbind (pulse e ex m) (\<lambda>err. pulse_marked_messages e ex n p (int_or rv err))
      (w\<lparr>pulsing := (pulsing w)(p := ms)\<rparr>)"
proof -
  have "m \<in> set (owned w p)"
    using w p unfolding wf_def lists_ok_def by (metis list.set_intros(1) subsetD)
  moreover obtain r where "msgs w m = Some r" "m_owner r = Some p"
    using calculation w by (auto simp: wf_def owner_ok_def)
  ultimately show ?thesis
    using p by (subst pulse_marked_messages.simps) (simp add: M_defs deref_def does_own_def)
qed

lemma pulse_marked_Ok:
  assumes e: "\<And>n. env_write e n = sizeof_ptr" "\<And>s. env_socketpair e s = 0"
    and w: "wf w" and n: "length (pulsing w p) \<le> n"
  shows "\<exists>w'. pulse_marked_messages e ex n p 0 w = Ok (0, w') \<and> pulsing w' p = [] \<and> wf w'"
  using w n
proof (induction n arbitrary: w)
  case 0
  then show ?case
    by (subst pulse_marked_messages.simps) simp
next
  case (Suc n)
  show ?case
  proof (cases "pulsing w p")
    case Nil
    then show ?thesis
      using Suc.prems by (subst pulse_marked_messages.simps) simp
  next
    case (Cons m ms)
    let ?w = "w\<lparr>pulsing := (pulsing w)(p := ms)\<rparr>"
    have w1: "wf ?w"
      using inv_pending [of "\<lambda>_. True" w p m ms] Suc.prems(1) Cons by (simp add: winv_def)
    have "distinct (m # ms)" "m \<in> set (owned w p)"
      using Suc.prems(1) Cons unfolding wf_def lists_ok_def by (metis, metis list.set_intros(1) subsetD)
    then obtain r where r: "msgs ?w m = Some r" "m_owner r = Some p" and "m \<notin> set ms"
      using Suc.prems(1) by (auto simp: wf_def owner_ok_def)
    then obtain w2 where w2: "\<And>ex. pulse e ex m ?w = Ok (0, w2)" "pulsing w2 p = ms"
      using pulse_Ok [OF w1 r e] by (auto simp: remove1_idem)
    have "wf w2"
      using keeps_ok [OF ev_pulse [of "\<lambda>_. True" "\<lambda>_ _. mfail Assert_failed"] _ w2(1)] w1
      by (simp add: keeps_fail winv_def)
    then obtain w' where "pulse_marked_messages e ex n p 0 w2 = Ok (0, w')" "pulsing w' p = []" "wf w'"
      using Suc.IH [of w2] Suc.prems(2) Cons w2(2) by auto
    then show ?thesis
      using pulse_marked_step [OF Suc.prems(1) Cons, of e ex n 0] w2(1)
      by (simp add: mbind_def int_or_def)
  qed
qed

section \<open>Receiving\<close>

lemma exec_basic_core:
  assumes "wf w" "msgs w m = Some r" "m_owner r = Some p" "m_state_change_handlers r = []"
    and "new \<notin> {EXEC_COMMAND, WAIT_FOR_TRANSMIT}"
  shows "\<exists>w'. exec_state core_hooks (Suc n) m new w = Ok (new, w') \<and> msgs w' = msgs (upd_msg m (enter_state new) w)
     \<and> owned w' = owned w \<and> set (pulsing w' p) \<subseteq> insert m (set (pulsing w p))"
proof -
  let ?w = "upd_msg m (enter_state new) w"
  let ?q = "?w\<lparr>pulsing := (pulsing w)(p := push_new m (pulsing w p))\<rparr>"
  have h: "handle_state_change core_hooks (exec_state core_hooks n) m new w = Ok (PROCEED, w)"
    by (rule handle_none [OF assms(2,4)])
  have m1: "msgs ?w m = Some (enter_state new r)" "m_owner (enter_state new r) = Some p"
    using assms by simp_all
  have q: "queue_msg_for_pulsing p m ?w = Ok (if m \<in> set (pulsing w p) then 1 else 0, ?q)"
    using queue_Ok [OF wf_enter [OF assms(1)] m1] by simp
  have f: "core_f ex f m ?w = Ok (0, ?w)" if "f \<notin> {F_exec_command, F_wait_for_transmit}" for ex f
    using m1 that by (cases f) (auto simp: core_f_def M_defs deref_def split: core_class.split)
  have d: "\<exists>w'. dispatch_state core_hooks (exec_state core_hooks n) m new ?w = Ok (0, w') \<and> (w' = ?w \<or> w' = ?q)"
    using m1 q assms(5) f
    by (cases new) (auto simp: dispatch_state_def the_owner_def M_defs deref_def core_hooks_def)
  then show ?thesis
    using h m1 assms(2) by (auto simp: exec_state_body_def M_defs deref_def has_owner_def)
qed


text \<open>Taking over a message in limbo whose state needs no further state change.\<close>

lemma take_basic_core:
  assumes w: "wf w" and r: "msgs w m = Some r" "m_owner r = None" "m_state_change_handlers r = []"
    and ne: "m_requester r \<noteq> m_receiver r" and free: "\<forall>s. m \<notin> set (sock_q w s)"
    and st: "m_now_state r \<notin> {EXEC_COMMAND, WAIT_FOR_TRANSMIT}"
  shows "\<exists>w'. set_current_owner (exec_state core_hooks (Suc n)) m (Some q) w = Ok (Some q, w') \<and>
     msgs w' m = Some (enter_state (m_now_state r) (r\<lparr>m_owner := Some q\<rparr>)) \<and>
     owned w' = (owned w)(q := owned w q @ [m])"
proof -
  let ?w = "set_owner m (Some q) (taken q m w)"
  have w1: "wf ?w"
    using inv_take [of "\<lambda>_. True" w m r ?w q] w r free by (simp add: winv_def)
  have m1: "msgs ?w m = Some (r\<lparr>m_owner := Some q\<rparr>)"
    using r by (simp add: set_owner_def taken_def)
  obtain w2 where ex: "exec_state core_hooks (Suc n) m (m_now_state r) ?w = Ok (m_now_state r, w2)"
      and w2: "msgs w2 = msgs (upd_msg m (enter_state (m_now_state r)) ?w)" "owned w2 = owned ?w"
    using exec_basic_core [OF w1 m1, of q "m_now_state r" n] r(3) st by auto
  have "m \<notin> set (owned w q)"
    using w r by (auto simp: wf_def owner_ok_def)
  then have own: "own q m w = Ok (0, taken q m w)"
    using r ne by (simp add: own_def M_defs deref_def does_own_def taken_def)
  have sc: "set_current_owner (exec_state core_hooks (Suc n)) m (Some q) w =
     mbind (deref m) (\<lambda>r. mbind (exec_state core_hooks (Suc n) m (m_now_state r)) (\<lambda>st.
             mbind (deref m) (\<lambda>r.
             mseq (if st \<noteq> m_now_state r then mseq (exec_state core_hooks (Suc n) m st) (ret ()) else ret ())
             (mbind (deref m) (\<lambda>r. ret (m_owner r)))))) ?w"
    using own r by (simp add: set_current_owner_def M_defs deref_def)
  have m2: "msgs w2 m = Some (enter_state (m_now_state r) (r\<lparr>m_owner := Some q\<rparr>))"
    using w2 m1 by simp
  then have "set_current_owner (exec_state core_hooks (Suc n)) m (Some q) w = Ok (Some q, w2)"
    using ex m1 unfolding sc by (simp add: M_defs deref_def)
  then show ?thesis
    using m2 w2 by (simp add: set_owner_def taken_def)
qed

lemma posted_wf:
  assumes w: "wf w" and r: "msgs w m = Some r" "m_owner r = Some p"
  shows "wf (posted p m s w)"
proof -
  let ?w = "set_owner m None (released p m w)"
  have 1: "winv (\<lambda>_. True) ?w" "\<forall>s. m \<notin> set (sock_q ?w s)"
    using inv_release [of "\<lambda>_. True" w m r p ?w] w r by (simp_all add: winv_def)
  have "msgs ?w m = Some (r\<lparr>m_owner := None\<rparr>)"
    using r by (simp add: set_owner_def released_def)
  then have "winv (\<lambda>_. True) (posted p m s w)"
    using inv_enqueue [OF 1(1) _ _ 1(2), of "r\<lparr>m_owner := None\<rparr>"] unfolding posted_def Let_def by auto
  then show ?thesis
    by (simp add: winv_def)
qed

section \<open>Pulsing over a broken socket\<close>

text \<open>A message that waits to cross to the other side, marked and nothing else.\<close>

definition stuck :: "pid \<Rightarrow> mid \<Rightarrow> ('k, 'z) world \<Rightarrow> bool" where
  "stuck p m w \<longleftrightarrow> wf w \<and> pulsing w p = [m] \<and>
     (\<exists>r a f. msgs w m = Some r \<and> m_owner r = Some p \<and> m_state_change_handlers r = [] \<and>
        m_requester r \<noteq> m_receiver r \<and> stage (m_now_state r) = Some (a, f) \<and> p \<noteq> party_pid a r)"

lemma stage_target: "stage (m_now_state r) = Some (a, f) \<Longrightarrow> party_pid a r = pulse_target r"
  by (cases "m_now_state r") (auto simp: party_pid_def pulse_target_def)

lemma take_queues:
  assumes w: "wf w" and r: "msgs w m = Some r" "m_owner r = None" "m_state_change_handlers r = []"
    and ne: "m_requester r \<noteq> m_receiver r" and free: "\<forall>s. m \<notin> set (sock_q w s)"
    and st: "stage (m_now_state r) = Some (a, f)" "q \<noteq> party_pid a r"
  shows "\<exists>w'. set_current_owner (exec_state hk (Suc n)) m (Some q) w = Ok (Some q, w') \<and> wf w' \<and>
     msgs w' m = Some (enter_state (m_now_state r) (r\<lparr>m_owner := Some q\<rparr>)) \<and>
     pulsing w' q = push_new m (pulsing w q)"
proof -
  let ?w = "set_owner m (Some q) (taken q m w)"
  have w1: "wf ?w"
    using inv_take [of "\<lambda>_. True" w m r ?w q] w r free by (simp add: winv_def)
  have m1: "msgs ?w m = Some (r\<lparr>m_owner := Some q\<rparr>)"
    using r by (simp add: set_owner_def taken_def)
  let ?v = "(upd_msg m (enter_state (m_now_state r)) ?w)\<lparr>pulsing := (pulsing ?w)(q := push_new m (pulsing ?w q))\<rparr>"
  have "party_pid a (r\<lparr>m_owner := Some q\<rparr>) = party_pid a r"
    by (simp add: party_pid_def split: party.split)
  then have ex: "exec_state hk (Suc n) m (m_now_state r) ?w = Ok (m_now_state r, ?v)"
    using exec_queues [OF handle_none [OF m1] m1 _ w1 st(1)] r(3) st(2) by simp
  have v: "wf ?v"
    using wf_queue [OF wf_enter [OF w1, of m "m_now_state r"], of m q] w1 m1
    by (simp add: taken_def set_owner_def)
  have "m \<notin> set (owned w q)"
    using w r by (auto simp: wf_def owner_ok_def)
  then have own: "own q m w = Ok (0, taken q m w)"
    using r ne by (simp add: own_def M_defs deref_def does_own_def taken_def)
  have sc: "set_current_owner (exec_state hk (Suc n)) m (Some q) w =
     mbind (deref m) (\<lambda>r. mbind (exec_state hk (Suc n) m (m_now_state r)) (\<lambda>st.
             mbind (deref m) (\<lambda>r.
             mseq (if st \<noteq> m_now_state r then mseq (exec_state hk (Suc n) m st) (ret ()) else ret ())
             (mbind (deref m) (\<lambda>r. ret (m_owner r)))))) ?w"
    using own r by (simp add: set_current_owner_def M_defs deref_def)
  have m2: "msgs ?v m = Some (enter_state (m_now_state r) (r\<lparr>m_owner := Some q\<rparr>))"
    using m1 by simp
  then have "set_current_owner (exec_state hk (Suc n)) m (Some q) w = Ok (Some q, ?v)"
    using ex m1 unfolding sc by (simp add: M_defs deref_def del: exec_state.simps)
  moreover have "pulsing ?v q = push_new m (pulsing w q)"
    by (simp add: set_owner_def taken_def)
  ultimately show ?thesis
    using m2 v by blast
qed

lemma stuck_pulse:
  assumes st: "stuck p m w" and e: "\<And>n. env_write e n = - 1" "\<And>s. env_socketpair e s = 0"
  shows "\<exists>w'. pulse e (exec_state hk (Suc n)) m (w\<lparr>pulsing := (pulsing w)(p := [])\<rparr>) = Ok (- 1, w') \<and> stuck p m w'"
proof -
  let ?w = "w\<lparr>pulsing := (pulsing w)(p := [])\<rparr>"
  obtain r a f where r: "msgs w m = Some r" "m_owner r = Some p" "m_state_change_handlers r = []"
      "m_requester r \<noteq> m_receiver r" "stage (m_now_state r) = Some (a, f)" "p \<noteq> party_pid a r"
    and w: "wf w" "pulsing w p = [m]"
    using st by (auto simp: stuck_def)
  have w1: "wf ?w"
    using inv_pending [of "\<lambda>_. True" w p m "[]"] w by (simp add: winv_def)
  then have ci: "comm_inv ?w"
    by (simp add: wf_def)
  obtain c w2 where c: "get_interthread_communicator e p p (pulse_target r) ?w = Ok (c, w2)"
    using get_comm_Ok [OF ci e(2), of p p "pulse_target r"] by auto
  have fr: "comm_inv w2" "comm_frame ?w w2" "m_sender (comms w2 c) = p"
    using wpD [OF wp_get_comm [OF ci] c] by simp_all
  have w2: "wf w2" "msgs w2 m = Some r" "pulsing w2 p = []"
    using inv_comm_frame [of "\<lambda>_. True" ?w w2] w1 fr r by (simp_all add: winv_def comm_frame_def)
  let ?w3 = "set_owner m None (released p m w2)"
  have w3: "wf ?w3" "\<forall>s. m \<notin> set (sock_q ?w3 s)"
    using inv_release [of "\<lambda>_. True" w2 m r p ?w3] w2 r by (simp_all add: winv_def)
  have m3: "msgs ?w3 m = Some (r\<lparr>m_owner := None\<rparr>)" "pulsing ?w3 p = []"
    using w2 by (simp_all add: set_owner_def released_def)
  let ?w4 = "?w3\<lparr>n_writes := n_writes ?w3 + 1\<rparr>"
  have w4: "wf ?w4"
    using inv_writes [of "\<lambda>_. True" ?w3] w3(1) by (simp add: winv_def)
  have pp: "party_pid a (r\<lparr>m_owner := None\<rparr>) = party_pid a r"
    by (simp add: party_pid_def split: party.split)
  obtain w5 where w5: "set_current_owner (exec_state hk (Suc n)) m (Some p) ?w4 = Ok (Some p, w5)" "wf w5"
      "msgs w5 m = Some (enter_state (m_now_state r) (r\<lparr>m_owner := Some p\<rparr>))" "pulsing w5 p = [m]"
    using take_queues [OF w4, of m "r\<lparr>m_owner := None\<rparr>" a f p hk n] m3 w3(2) r pp
    by (auto simp: push_new_def)
  have "post_message e (exec_state hk (Suc n)) c m w2 = Ok (- 1, w5)"
    using give_up_Ok [OF w2(1,2) r(2), of "exec_state hk (Suc n)"] w2 r fr(3) e w5(1)
    by (simp add: post_message_def M_defs deref_def mg_write_msg_def Let_def sizeof_ptr_def del: exec_state.simps)
  then have "pulse e (exec_state hk (Suc n)) m ?w = Ok (- 1, w5)"
    using r c stage_target [OF r(5)] by (simp add: pulse_def M_defs deref_def has_owner_def the_owner_def)
  moreover have "stuck p m w5"
    using w5 r by (cases a) (auto simp: stuck_def party_pid_def)
  ultimately show ?thesis
    by blast
qed

section \<open>Two small worlds\<close>

text \<open>Processor 1 alone with a message it has marked for destruction, and processors 1 and 2 with
  a message from the one to the other.\<close>

definition demo_net :: env where
  "demo_net = \<lparr>env_write = (\<lambda>_. sizeof_ptr), env_read_empty = 0, env_socketpair = (\<lambda>_. 0)\<rparr>"

definition core_init :: "(core_class, unit) world" where
  "core_init = \<lparr>msgs = (\<lambda>_. None), next_mid = 0, owned = (\<lambda>_. []), pulsing = (\<lambda>_. []),
     m_senders = (\<lambda>_. []), comms = (\<lambda>_. interthread_communicator 0 0 (0, 0) 0), next_cid = 0,
     m_communicators = [], m_new_communicators_count = 0, next_sock = 0, sock_q = (\<lambda>_. []),
     n_writes = 0, glob = ()\<rparr>"

definition after :: "('w, 'a) M \<Rightarrow> 'w \<Rightarrow> 'w" where
  "after f w = (case f w of Ok (x, w') \<Rightarrow> w' | Bad e \<Rightarrow> w)"

definition doomed_world :: "(core_class, unit) world" where
  "doomed_world = after (mbind (new_message demo_net (exec_state core_hooks 2) (Some 1) None Plain_message)
     (\<lambda>m. set_state (exec_state core_hooks 2) m DESTRUCTION)) core_init"

definition parcel_world :: "(core_class, unit) world" where
  "parcel_world = after (new_message demo_net (exec_state core_hooks 2) (Some 1) (Some 2) Plain_message) core_init"

lemma core_init_wf: "winv (\<lambda>_. True) core_init"
  by (simp add: winv_def wf_def core_init_def lists_ok_def owner_ok_def limbo_ok_def alloc_ok_def
      comm_inv_def cache_ok_def)

lemma after_winv: "keeps (winv G) evolves f \<Longrightarrow> winv G w \<Longrightarrow> winv G (after f w)"
  by (auto simp: after_def keeps_def wp_def split: res.splits)

lemma doomed_wf: "wf doomed_world"
proof -
  have "winv (\<lambda>_. True) doomed_world"
    unfolding doomed_world_def
    by (intro after_winv core_init_wf keeps_intro core.ev_exec_state)
  then show ?thesis
    by (simp add: winv_def)
qed

lemma parcel_wf: "wf parcel_world"
proof -
  have "winv (\<lambda>_. True) parcel_world"
    unfolding parcel_world_def
    by (intro after_winv core_init_wf keeps_intro core.ev_exec_state)
  then show ?thesis
    by (simp add: winv_def)
qed

definition crossing_world :: "(core_class, unit) world" where
  "crossing_world = after (set_state (exec_state core_hooks 2) 0 COMMENCE_TRANSMIT) parcel_world"

lemma crossing_facts:
  "pulsing crossing_world 1 = [0]" "map_option m_owner (msgs crossing_world 0) = Some (Some 1)"
  "map_option m_requester (msgs crossing_world 0) = Some 1"
  "map_option m_receiver (msgs crossing_world 0) = Some 2"
  "map_option m_now_state (msgs crossing_world 0) = Some COMMENCE_TRANSMIT"
  "map_option m_state_change_handlers (msgs crossing_world 0) = Some []"
  by code_simp+

lemma crossing_stuck: "stuck 1 0 crossing_world"
proof -
  have "winv (\<lambda>_. True) crossing_world"
    unfolding crossing_world_def
    by (intro after_winv keeps_intro core.ev_exec_state) (simp add: winv_def parcel_wf)
  then show ?thesis
    using crossing_facts by (auto simp: stuck_def winv_def party_pid_def)
qed

lemma doomed_pulsing: "pulsing doomed_world 1 = [0]"
  by code_simp

lemma parcel_facts:
  "m_communicators parcel_world = [0, 1]" "m_sender (comms parcel_world 0) = 1"
  "m_receipient (comms parcel_world 0) = 2" "sock_q parcel_world (m_receiving_socket (comms parcel_world 0)) = []"
  "map_option m_owner (msgs parcel_world 0) = Some (Some 1)"
  "map_option m_requester (msgs parcel_world 0) = Some 1"
  "map_option m_receiver (msgs parcel_world 0) = Some 2"
  "map_option m_now_state (msgs parcel_world 0) = Some MSG_INITIALIZED"
  "map_option m_state_change_handlers (msgs parcel_world 0) = Some []"
  by code_simp+

section \<open>Properties\<close>

text \<open>C7: with sockets that work, one round of \<open>pulse_marked_messages\<close> terminates after as many
  pulses as there are messages marked, reports no error, and leaves none marked: every message
  whose next state belongs to the other side has been posted there, and every message due for
  destruction at its requester has been destroyed.\<close>

theorem pulse_marked_empties:
  assumes "wf w" "\<And>n. env_write e n = sizeof_ptr" "\<And>s. env_socketpair e s = 0"
    and "length (pulsing w p) \<le> n"
  shows "\<exists>w'. pulse_marked_messages e ex n p 0 w = Ok (0, w') \<and> pulsing w' p = [] \<and> wf w'"
  by (rule pulse_marked_Ok [OF assms(2,3,1,4)])

theorem pulse_marked_empties_witness:
  "\<exists>w'. pulse_marked_messages demo_net (exec_state core_hooks 2) 1 1 0 doomed_world = Ok (0, w') \<and>
     pulsing w' 1 = [] \<and> wf w'"
  by (rule pulse_marked_empties [OF doomed_wf]) (simp_all add: doomed_pulsing [unfolded One_nat_def] demo_net_def)



text \<open>C8: when the socket to the other side keeps failing, \<open>pulse_marked_messages\<close> never returns:
  the failed post takes the message back, and taking it back marks it for the next pulse of the
  same loop, so whatever the fuel, it runs out. This holds for every set of message classes.\<close>

theorem pulse_marked_spins:
  assumes "stuck p m w" "\<And>n. env_write e n = - 1" "\<And>s. env_socketpair e s = 0"
  shows "pulse_marked_messages e (exec_state hk (Suc n)) k p rv w = Bad Out_of_fuel"
  using assms(1)
proof (induction k arbitrary: w rv)
  case 0
  then show ?case
    by (subst pulse_marked_messages.simps) (simp add: stuck_def)
next
  case (Suc k)
  obtain w' where "pulse e (exec_state hk (Suc n)) m (w\<lparr>pulsing := (pulsing w)(p := [])\<rparr>) = Ok (- 1, w')" "stuck p m w'"
    using stuck_pulse [OF Suc.prems assms(2,3)] by blast
  then show ?case
    using pulse_marked_step [of w p m "[]" e "exec_state hk (Suc n)" k rv] Suc.prems Suc.IH
    by (simp add: stuck_def mbind_def del: exec_state.simps)
qed

theorem pulse_marked_spins_witness:
  "\<forall>k. pulse_marked_messages (demo_net\<lparr>env_write := \<lambda>_. - 1\<rparr>) (exec_state core_hooks (Suc 1)) k 1 0 crossing_world
     = Bad Out_of_fuel"
  by (intro allI pulse_marked_spins [OF crossing_stuck]) (simp_all add: demo_net_def)

text \<open>C9: the state machine of the plain and the cancel messages always comes to rest: whatever
  state is asked for in whatever world, fuel for two nested state changes is enough for
  \<open>state()\<close> and for \<open>exec_state()\<close>.\<close>

theorem core_state_machine_terminates:
  assumes "2 \<le> n"
  shows "set_state (exec_state core_hooks n) m new w \<noteq> Bad Out_of_fuel \<and>
         exec_state core_hooks n m new w \<noteq> Bad Out_of_fuel"
proof -
  obtain k where n: "n = Suc (Suc k)"
    using assms by (metis add_2_eq_Suc le_Suc_ex)
  have "no_fuel_error (set_state (exec_state core_hooks n) m new w)"
    unfolding n by (rule nfe_set_state; rule nfe_exec_core)
  moreover have "no_fuel_error (exec_state core_hooks n m new w)"
    unfolding n by (rule nfe_exec_core)
  ultimately show ?thesis
    by (simp add: no_fuel_error_def)
qed

theorem core_state_machine_terminates_witness:
  "set_state (exec_state core_hooks 2) 0 DESTRUCTION parcel_world \<noteq> Bad Out_of_fuel"
  using core_state_machine_terminates [of 2 0 DESTRUCTION parcel_world] by simp

end
