(* ===== verification/TwsProps.thy ===== *)
theory TwsProps
  imports System MessageProps
begin

text \<open>What the back-end does with a request: which classes it can transmit and which it cannot,
  what the subscription limit lets through, and which requests a cancel message takes back.\<close>

section \<open>One state change of a request\<close>

lemma hooks_sel [simp]: "h_f (tws_hooks te) = tws_f te" "h_process (tws_hooks te) = tws_process te"
  by (simp_all add: tws_hooks_def)

lemma tws_f_req:
  "msgs w m = Some r \<Longrightarrow> m_class r = Req k i a t \<Longrightarrow> tws_f te ex f m w = req_f te ex f k m w"
  by (simp add: tws_f_def M_defs deref_def)

lemma exec_fails:
  assumes "handle_state_change hk ex m new w = Ok (PROCEED, w0)"
    and "msgs w0 m = Some r" "m_owner r = Some p"
    and "stage new = Some (a, f)" "p = party_pid a r"
    and "h_f hk ex f m (upd_msg m (enter_state new) w0) = Bad e"
  shows "exec_state_body hk ex m new w = Bad e"
  using assms
  by (auto simp: exec_state_body_def M_defs deref_def has_owner_def the_owner_def dispatch_state_def)

lemma set_state_fails:
  "msgs w m = Some r \<Longrightarrow> new \<noteq> m_now_state r \<Longrightarrow> ex m new w = Bad e \<Longrightarrow> set_state ex m new w = Bad e"
  by (simp add: set_state_def numeral_2_eq_2 M_defs deref_def)

text \<open>A request that the back-end owns and is to serve.\<close>

definition request_at_ibm :: "mid \<Rightarrow> req_kind \<Rightarrow> int \<Rightarrow> string list \<Rightarrow> request_state \<Rightarrow> hid list \<Rightarrow> 'd tws_world \<Rightarrow> bool" where
  "request_at_ibm m k i args st hs w \<longleftrightarrow>
     (\<exists>r t. msgs w m = Some r \<and> m_owner r = Some ibm \<and> m_receiver r = ibm \<and> m_class r = Req k i args t \<and>
        m_now_state r = st \<and> m_state_change_handlers r = hs)"

lemma request_upd_enter [simp]:
  "request_at_ibm m k i args st hs w \<Longrightarrow> request_at_ibm m k i args s hs (upd_msg m (enter_state s) w)"
  by (auto simp: request_at_ibm_def)

text \<open>The verdict of the handlers is to proceed.\<close>

definition lets_pass :: "'d tws_env \<Rightarrow> 'd tws_exec \<Rightarrow> mid \<Rightarrow> request_state \<Rightarrow> 'd tws_world \<Rightarrow> 'd tws_world \<Rightarrow> bool" where
  "lets_pass te ex m new w w0 \<longleftrightarrow> handle_state_change (tws_hooks te) ex m new w = Ok (PROCEED, w0)"

lemma lets_pass_none:
  "request_at_ibm m k i args st [] w \<Longrightarrow> lets_pass te ex m new w w"
  by (auto simp: lets_pass_def request_at_ibm_def intro: handle_none)

lemma exec_step_runs:
  assumes "lets_pass te (tws_state_machine te n) m new w w0"
    and "request_at_ibm m k i args st hs w0" "stage new = Some (Receiver, f)"
    and "req_f te (tws_state_machine te n) f k m (upd_msg m (enter_state new) w0) = Ok (0, w1)"
    and "request_at_ibm m k i args st1 hs' w1"
  shows "tws_state_machine te (Suc n) m new w = Ok (st1, w1)"
proof -
  obtain r0 t0 where r0: "msgs w0 m = Some r0" "m_owner r0 = Some ibm" "m_receiver r0 = ibm" "m_class r0 = Req k i args t0"
    using assms(2) by (auto simp: request_at_ibm_def)
  obtain r1 where r1: "msgs w1 m = Some r1" "m_owner r1 = Some ibm" "m_now_state r1 = st1"
    using assms(5) by (auto simp: request_at_ibm_def)
  have nd: "new \<noteq> DESTRUCTION"
    using assms(3) by auto
  have f: "h_f (tws_hooks te) (tws_state_machine te n) f m (upd_msg m (enter_state new) w0) = Ok (0, w1)"
    using assms(4) r0 tws_f_req [of "upd_msg m (enter_state new) w0" m "enter_state new r0" k i args t0] by simp
  have "exec_state_body (tws_hooks te) (tws_state_machine te n) m new w = Ok (m_now_state r1, w1)"
    using exec_runs [OF assms(1) [unfolded lets_pass_def] r0(1,2) assms(3) nd _ f r1(1)] r0 r1
    by (simp add: party_pid_def)
  then show ?thesis
    using r1 by (simp add: tws_state_machine_def)
qed

lemma step_runs:
  assumes "request_at_ibm m k i args st hs w" "lets_pass te (tws_state_machine te n) m new w w0"
    and "request_at_ibm m k i args st hs w0" "new \<noteq> st" "stage new = Some (Receiver, f)"
    and "req_f te (tws_state_machine te n) f k m (upd_msg m (enter_state new) w0) = Ok (0, w1)"
    and "request_at_ibm m k i args st1 hs' w1"
  shows "set_state (tws_state_machine te (Suc n)) m new w = Ok (st1, w1)"
proof -
  obtain r t where r: "msgs w m = Some r" "m_now_state r = st"
    using assms(1) by (auto simp: request_at_ibm_def)
  obtain r1 where r1: "msgs w1 m = Some r1" "m_now_state r1 = st1"
    using assms(7) by (auto simp: request_at_ibm_def)
  show ?thesis
    by (rule set_state_once [where ex = "tws_state_machine te (Suc n)", OF r(1) _ exec_step_runs [OF assms(2,3,5-7)] r1(1)])
      (use r r1 assms(4) in auto)
qed

lemma step_fails:
  assumes "request_at_ibm m k i args st [] w" "new \<noteq> st" "stage new = Some (Receiver, f)"
    and "req_f te (tws_state_machine te n) f k m (upd_msg m (enter_state new) w) = Bad e"
  shows "set_state (tws_state_machine te (Suc n)) m new w = Bad e"
proof -
  obtain r t where r: "msgs w m = Some r" "m_owner r = Some ibm" "m_receiver r = ibm" "m_class r = Req k i args t"
      "m_now_state r = st"
    using assms(1) by (auto simp: request_at_ibm_def)
  have "h_f (tws_hooks te) (tws_state_machine te n) f m (upd_msg m (enter_state new) w) = Bad e"
    using assms(4) r tws_f_req [of "upd_msg m (enter_state new) w" m "enter_state new r" k i args t] by simp
  then have "exec_state_body (tws_hooks te) (tws_state_machine te n) m new w = Bad e"
    using exec_fails [OF _ r(1,2) assms(3)] lets_pass_none [OF assms(1)] r
    by (simp add: party_pid_def lets_pass_def)
  then show ?thesis
    by (intro set_state_fails [OF r(1)]) (use r assms(2) in \<open>simp_all add: tws_state_machine_def\<close>)
qed

section \<open>Requests the back-end cannot transmit\<close>

lemma owned_at_ibm:
  "wf w \<Longrightarrow> request_at_ibm m k i args st hs w \<Longrightarrow> does_own ibm m w"
  by (auto simp: wf_def owner_ok_def request_at_ibm_def does_own_def)

lemma unsupported_fails:
  fixes w :: "'d tws_world"
  assumes w: "wf w" and m: "request_at_ibm m k i args MSG_INITIALIZED [] w"
    and k: "\<not> transmits k" "k \<noteq> Fetch_tws_info" "cancels k = None"
  shows "set_state (tws_state_machine te (Suc (Suc (Suc n)))) m EXEC_COMMAND w = Bad Assert_failed"
proof -
  let ?w1 = "upd_msg m (enter_state EXEC_COMMAND) w"
  let ?w2 = "upd_msg m (enter_state WAIT_FOR_TRANSMIT) ?w1"
  have m1: "request_at_ibm m k i args EXEC_COMMAND [] ?w1"
    using m by simp
  then have m2: "request_at_ibm m k i args WAIT_FOR_TRANSMIT [] ?w2"
    by simp
  have "req_f te (tws_state_machine te n) F_commence_transmit k m (upd_msg m (enter_state COMMENCE_TRANSMIT) ?w2) = Bad Assert_failed"
    using k by (simp add: req_f_commence_transmit_def mfail_def)
  then have "set_state (tws_state_machine te (Suc n)) m COMMENCE_TRANSMIT ?w2 = Bad Assert_failed"
    by (intro step_fails [OF m2, where f = F_commence_transmit]) simp_all
  then have "req_f te (tws_state_machine te (Suc n)) F_wait_for_transmit k m ?w2 = Bad Assert_failed"
    by (simp add: M_defs)
  then have "set_state (tws_state_machine te (Suc (Suc n))) m WAIT_FOR_TRANSMIT ?w1 = Bad Assert_failed"
    by (intro step_fails [OF m1, where f = F_wait_for_transmit]) simp_all
  moreover have "does_own ibm m ?w1"
    using owned_at_ibm [OF wf_enter [OF w] m1] .
  ultimately have "tx_request (tws_state_machine te (Suc (Suc n))) m ?w1 = Bad Assert_failed"
    by (simp add: tx_request_def M_defs)
  moreover have "req_f_exec_command ex k m = tx_request ex m" for ex :: "'d tws_exec"
    using k by (cases k) (simp_all add: tx_other_defs transmits_def)
  ultimately have "req_f te (tws_state_machine te (Suc (Suc n))) F_exec_command k m ?w1 = Bad Assert_failed"
    by simp
  then show ?thesis
    by (intro step_fails [OF m, where f = F_exec_command]) simp_all
qed

section \<open>Requests the back-end transmits\<close>

lemma request_modg [simp]:
  "request_at_ibm m k i args st hs (w\<lparr>glob := g\<rparr>) = request_at_ibm m k i args st hs w"
  by (simp add: request_at_ibm_def)

lemma wf_glob [simp]: "wf (w\<lparr>glob := g\<rparr>) = wf w"
proof -
  have "comm_inv (w\<lparr>glob := g\<rparr>) = comm_inv w"
    by (auto elim!: comm_inv_cong)
  then show ?thesis
    by (simp add: wf_def lists_ok_def owner_ok_def limbo_ok_def alloc_ok_def)
qed

definition call_logged :: "req_kind \<Rightarrow> int \<Rightarrow> string list \<Rightarrow> 'd tws_world \<Rightarrow> 'd tws_world" where
  "call_logged k i args w = w\<lparr>glob := (glob w)\<lparr>tws_calls := tws_calls (glob w) @ [(k, i, args)]\<rparr>\<rparr>"

text \<open>From COMMENCE_TRANSMIT on: the API call is made and the request awaits its response.\<close>

lemma tx_ready:
  assumes m: "request_at_ibm m k i args COMMENCE_TRANSMIT hs w"
    and pass: "lets_pass te (tws_state_machine te n) m READY_TO_RECEIVE_RESPONSE (call_logged k i args w) (call_logged k i args w)"
    and call: "tws_call te (length (tws_calls (glob w))) = 0"
  shows "tx te (tws_state_machine te (Suc n)) m w =
    Ok (0, upd_msg m (enter_state READY_TO_RECEIVE_RESPONSE) (call_logged k i args w))"
proof -
  let ?w = "call_logged k i args w"
  have m1: "request_at_ibm m k i args COMMENCE_TRANSMIT hs ?w"
    using m by (simp add: call_logged_def)
  have "set_state (tws_state_machine te (Suc n)) m READY_TO_RECEIVE_RESPONSE ?w =
      Ok (READY_TO_RECEIVE_RESPONSE, upd_msg m (enter_state READY_TO_RECEIVE_RESPONSE) ?w)"
    by (rule step_runs [OF m1 pass m1, where f = F_ready_to_receive_response and hs' = hs]) (use m1 in \<open>simp_all add: M_defs\<close>)
  then show ?thesis
    using m call by (auto simp: tx_def M_defs deref_def request_at_ibm_def getg_def modg_def call_logged_def)
qed

text \<open>A request that is executed at the back-end goes through all the stages at once.\<close>

definition transmitted :: "mid \<Rightarrow> req_kind \<Rightarrow> int \<Rightarrow> string list \<Rightarrow> 'd tws_world \<Rightarrow> 'd tws_world" where
  "transmitted m k i args w = upd_msg m (enter_state READY_TO_RECEIVE_RESPONSE) (call_logged k i args
     (upd_msg m (enter_state COMMENCE_TRANSMIT) (upd_msg m (enter_state WAIT_FOR_TRANSMIT)
       (upd_msg m (enter_state EXEC_COMMAND) w))))"

lemma transmitted_sel [simp]:
  "owned (transmitted m k i args w) = owned w" "pulsing (transmitted m k i args w) = pulsing w"
  "sock_q (transmitted m k i args w) = sock_q w" "glob (transmitted m k i args w) = glob (call_logged k i args w)"
  by (simp_all add: transmitted_def call_logged_def)

lemma transmitted_request:
  "request_at_ibm m k i args st hs w \<Longrightarrow> request_at_ibm m k i args READY_TO_RECEIVE_RESPONSE hs (transmitted m k i args w)"
  unfolding transmitted_def call_logged_def by (rule request_upd_enter, subst request_modg) (rule request_upd_enter)+

lemma transmit_exec:
  assumes w: "wf w" and m: "request_at_ibm m k i args st [] w"
    and k: "k = Req_scanner_parameters \<or> k = Req_current_time"
    and call: "tws_call te (length (tws_calls (glob w))) = 0"
  shows "tws_state_machine te (Suc (Suc (Suc (Suc n)))) m EXEC_COMMAND w =
    Ok (READY_TO_RECEIVE_RESPONSE, transmitted m k i args w)"
proof -
  let ?w1 = "upd_msg m (enter_state EXEC_COMMAND) w"
  let ?w2 = "upd_msg m (enter_state WAIT_FOR_TRANSMIT) ?w1"
  let ?w3 = "upd_msg m (enter_state COMMENCE_TRANSMIT) ?w2"
  let ?w4 = "upd_msg m (enter_state READY_TO_RECEIVE_RESPONSE) (call_logged k i args ?w3)"
  have m1: "request_at_ibm m k i args EXEC_COMMAND [] ?w1" using m by simp
  then have m2: "request_at_ibm m k i args WAIT_FOR_TRANSMIT [] ?w2" by simp
  then have m3: "request_at_ibm m k i args COMMENCE_TRANSMIT [] ?w3" by simp
  then have m4: "request_at_ibm m k i args READY_TO_RECEIVE_RESPONSE [] ?w4"
    by (simp add: call_logged_def)
  have "request_at_ibm m k i args COMMENCE_TRANSMIT [] (call_logged k i args ?w3)"
    using m3 by (simp add: call_logged_def)
  then have "tx te (tws_state_machine te (Suc n)) m ?w3 = Ok (0, ?w4)"
    by (intro tx_ready [OF m3] lets_pass_none) (use call in simp_all)
  then have "req_f te (tws_state_machine te (Suc n)) F_commence_transmit k m ?w3 = Ok (0, ?w4)"
    using k by (auto simp: req_f_commence_transmit_def transmits_def)
  then have "set_state (tws_state_machine te (Suc (Suc n))) m COMMENCE_TRANSMIT ?w2 = Ok (READY_TO_RECEIVE_RESPONSE, ?w4)"
    by (intro step_runs [OF m2 lets_pass_none [OF m2] m2, where f = F_commence_transmit]) (use m4 in simp_all)
  then have "req_f te (tws_state_machine te (Suc (Suc n))) F_wait_for_transmit k m ?w2 = Ok (0, ?w4)"
    by (simp add: M_defs)
  then have "set_state (tws_state_machine te (Suc (Suc (Suc n)))) m WAIT_FOR_TRANSMIT ?w1 = Ok (READY_TO_RECEIVE_RESPONSE, ?w4)"
    by (intro step_runs [OF m1 lets_pass_none [OF m1] m1, where f = F_wait_for_transmit]) (use m4 in simp_all)
  moreover have "does_own ibm m ?w1"
    using owned_at_ibm [OF wf_enter [OF w] m1] .
  ultimately have "req_f te (tws_state_machine te (Suc (Suc (Suc n)))) F_exec_command k m ?w1 = Ok (0, ?w4)"
    using k by (auto simp: tx_other_defs tx_request_def M_defs)
  then show ?thesis
    unfolding transmitted_def
    by (intro exec_step_runs [OF lets_pass_none [OF m] m, where f = F_exec_command]) (use m4 in simp_all)
qed

lemma transmit_plain:
  assumes w: "wf w" and m: "request_at_ibm m k i args MSG_INITIALIZED [] w"
    and k: "k = Req_scanner_parameters \<or> k = Req_current_time"
    and call: "tws_call te (length (tws_calls (glob w))) = 0"
  shows "\<exists>w'. set_state (tws_state_machine te (Suc (Suc (Suc (Suc n))))) m EXEC_COMMAND w = Ok (READY_TO_RECEIVE_RESPONSE, w') \<and>
    glob w' = glob (call_logged k i args w) \<and> request_at_ibm m k i args READY_TO_RECEIVE_RESPONSE [] w'"
proof -
  let ?w = "transmitted m k i args w" and ?ex = "tws_state_machine te (Suc (Suc (Suc (Suc n))))"
  have m1: "request_at_ibm m k i args READY_TO_RECEIVE_RESPONSE [] ?w"
    by (rule transmitted_request [OF m])
  obtain r where r: "msgs w m = Some r" "m_now_state r = MSG_INITIALIZED"
    using m by (auto simp: request_at_ibm_def)
  obtain r1 where r1: "msgs ?w m = Some r1" "m_now_state r1 = READY_TO_RECEIVE_RESPONSE"
    using m1 by (auto simp: request_at_ibm_def)
  have "set_state ?ex m EXEC_COMMAND w = Ok (READY_TO_RECEIVE_RESPONSE, ?w)"
    by (rule set_state_once [where ex = ?ex, OF r(1) _ transmit_exec [OF assms] r1(1)]) (use r r1 in simp_all)
  then show ?thesis
    using m1 by (intro exI [of _ ?w]) simp
qed

section \<open>The subscription limit\<close>

lemma limit_veto:
  assumes m: "request_at_ibm m Req_scanner_subscription i args WAIT_FOR_TRANSMIT [m_scanner_subscription_limit] w"
    and full: "m_max_scanner_subscriptions \<le> length (m_active_scanner_subscriptions (glob w))"
  shows "set_state (tws_state_machine te (Suc n)) m COMMENCE_TRANSMIT w = Ok (WAIT_FOR_TRANSMIT, w)"
proof -
  obtain r t where r: "msgs w m = Some r" "m_class r = Req Req_scanner_subscription i args t"
      "m_now_state r = WAIT_FOR_TRANSMIT" "m_state_change_handlers r = [m_scanner_subscription_limit]"
    using m by (auto simp: request_at_ibm_def)
  have "handle_state_change (tws_hooks te) (exec_state (tws_hooks te) n) m COMMENCE_TRANSMIT w = Ok (DONT_CHANGE, w)"
    using r full
    by (simp add: handle_state_change_def M_defs deref_def tws_process_def scanner_subscription_limitation_def getg_def)
  from set_state_veto [OF this r(1)] r show ?thesis
    by (simp add: tws_state_machine_def)
qed

lemma limit_passes:
  assumes m: "request_at_ibm m k i args st [m_scanner_subscription_limit] w"
    and new: "new \<in> {WAIT_FOR_TRANSMIT, READY_TO_RECEIVE_RESPONSE}"
  shows "lets_pass te ex m new w w"
  using m new
  by (auto simp: lets_pass_def request_at_ibm_def handle_state_change_def M_defs deref_def
      tws_process_def scanner_subscription_limitation_def)

definition entered :: "mid \<Rightarrow> 'd tws_world \<Rightarrow> 'd tws_world" where
  "entered m w = w\<lparr>glob := (glob w)\<lparr>m_active_scanner_subscriptions :=
     m_active_scanner_subscriptions (glob w) @ [m]\<rparr>\<rparr>"

lemma limit_enters:
  assumes m: "request_at_ibm m Req_scanner_subscription i args st [m_scanner_subscription_limit] w"
    and room: "length (m_active_scanner_subscriptions (glob w)) < m_max_scanner_subscriptions"
  shows "lets_pass te ex m COMMENCE_TRANSMIT w (entered m w)"
  using m room
  by (auto simp: lets_pass_def request_at_ibm_def handle_state_change_def M_defs deref_def
      tws_process_def scanner_subscription_limitation_def getg_def modg_def entered_def)

definition with_handler :: "mid \<Rightarrow> hid \<Rightarrow> 'd tws_world \<Rightarrow> 'd tws_world" where
  "with_handler m h = upd_msg m (\<lambda>r. r\<lparr>m_state_change_handlers := push_new h (m_state_change_handlers r)\<rparr>)"

lemma request_with_handler:
  assumes "request_at_ibm m k i args st [] w"
  shows "request_at_ibm m k i args st [h] (with_handler m h w)"
proof -
  obtain r t where r: "msgs w m = Some r" "m_owner r = Some ibm" "m_receiver r = ibm" "m_class r = Req k i args t"
      "m_now_state r = st" "m_state_change_handlers r = []"
    using assms by (auto simp: request_at_ibm_def)
  then have "msgs (with_handler m h w) m = Some (r\<lparr>m_state_change_handlers := [h]\<rparr>)"
    by (simp add: with_handler_def push_new_def)
  then show ?thesis
    using r unfolding request_at_ibm_def
    by (intro exI [of _ "r\<lparr>m_state_change_handlers := [h]\<rparr>"] exI [of _ t]) simp
qed

lemma transmit_subscription:
  assumes w: "wf w" and m: "request_at_ibm m Req_scanner_subscription i args MSG_INITIALIZED [] w"
    and room: "length (m_active_scanner_subscriptions (glob w)) < m_max_scanner_subscriptions"
    and call: "tws_call te (length (tws_calls (glob w))) = 0"
  shows "\<exists>w'. set_state (tws_state_machine te (Suc (Suc (Suc (Suc n))))) m EXEC_COMMAND w = Ok (READY_TO_RECEIVE_RESPONSE, w') \<and>
    glob w' = glob (call_logged Req_scanner_subscription i args (entered m w)) \<and>
    request_at_ibm m Req_scanner_subscription i args READY_TO_RECEIVE_RESPONSE [m_scanner_subscription_limit] w'"
proof -
  let ?k = Req_scanner_subscription and ?hs = "[m_scanner_subscription_limit]"
  let ?w0 = "upd_msg m (enter_state EXEC_COMMAND) w"
  let ?w1 = "with_handler m m_scanner_subscription_limit ?w0"
  let ?w2 = "upd_msg m (enter_state WAIT_FOR_TRANSMIT) ?w1"
  let ?w3 = "upd_msg m (enter_state COMMENCE_TRANSMIT) (entered m ?w2)"
  let ?w4 = "upd_msg m (enter_state READY_TO_RECEIVE_RESPONSE) (call_logged ?k i args ?w3)"
  have m0: "request_at_ibm m ?k i args EXEC_COMMAND [] ?w0" using m by simp
  then have m1: "request_at_ibm m ?k i args EXEC_COMMAND ?hs ?w1"
    by (rule request_with_handler)
  then have m2: "request_at_ibm m ?k i args WAIT_FOR_TRANSMIT ?hs ?w2" by simp
  then have m2': "request_at_ibm m ?k i args WAIT_FOR_TRANSMIT ?hs (entered m ?w2)"
    by (simp add: entered_def)
  then have m3: "request_at_ibm m ?k i args COMMENCE_TRANSMIT ?hs ?w3" by simp
  then have m3': "request_at_ibm m ?k i args COMMENCE_TRANSMIT ?hs (call_logged ?k i args ?w3)"
    by (simp add: call_logged_def)
  then have m4: "request_at_ibm m ?k i args READY_TO_RECEIVE_RESPONSE ?hs ?w4" by simp
  have "tx te (tws_state_machine te (Suc n)) m ?w3 = Ok (0, ?w4)"
    by (intro tx_ready [OF m3] limit_passes [OF m3']) (use call in \<open>simp_all add: entered_def with_handler_def\<close>)
  then have "req_f te (tws_state_machine te (Suc n)) F_commence_transmit ?k m ?w3 = Ok (0, ?w4)"
    by (simp add: req_f_commence_transmit_def transmits_def)
  moreover have "lets_pass te (tws_state_machine te (Suc n)) m COMMENCE_TRANSMIT ?w2 (entered m ?w2)"
    by (rule limit_enters [OF m2]) (use room in \<open>simp add: with_handler_def\<close>)
  ultimately have "set_state (tws_state_machine te (Suc (Suc n))) m COMMENCE_TRANSMIT ?w2 = Ok (READY_TO_RECEIVE_RESPONSE, ?w4)"
    by (intro step_runs [OF m2 _ m2', where f = F_commence_transmit]) (use m4 in simp_all)
  then have "req_f te (tws_state_machine te (Suc (Suc n))) F_wait_for_transmit ?k m ?w2 = Ok (0, ?w4)"
    by (simp add: M_defs)
  then have "set_state (tws_state_machine te (Suc (Suc (Suc n)))) m WAIT_FOR_TRANSMIT ?w1 = Ok (READY_TO_RECEIVE_RESPONSE, ?w4)"
    by (intro step_runs [OF m1 limit_passes [OF m1] m1, where f = F_wait_for_transmit]) (use m4 in simp_all)
  moreover have "does_own ibm m ?w0"
    using owned_at_ibm [OF wf_enter [OF w] m0] .
  moreover obtain r0 where "msgs ?w0 m = Some r0"
    using m0 unfolding request_at_ibm_def by blast
  ultimately have "req_f te (tws_state_machine te (Suc (Suc (Suc n)))) F_exec_command ?k m ?w0 = Ok (0, ?w4)"
    by (auto simp: tx_request_scanner_subscription_def register_handler_def M_defs deref_def with_handler_def)
  then have "set_state (tws_state_machine te (Suc (Suc (Suc (Suc n))))) m EXEC_COMMAND w = Ok (READY_TO_RECEIVE_RESPONSE, ?w4)"
    by (intro step_runs [OF m lets_pass_none [OF m] m, where f = F_exec_command]) (use m4 in simp_all)
  then show ?thesis
    using m4 by (intro exI [of _ ?w4]) (simp add: call_logged_def entered_def with_handler_def)
qed

section \<open>Cancelling\<close>

text \<open>A cancel message obeys the table of theory \<open>Requests\<close>.\<close>

lemma cancel_table:
  "cancel_request_is_meant_for_us k i k' j \<longleftrightarrow>
     cancels k' = Some k \<and> (j = i \<or> k' \<in> {Req_global_cancel, Cancel_news_bulletins})"
  by (cases k'; cases k) auto

section \<open>The store of contract details\<close>

definition pairwise_new :: "('d \<Rightarrow> 'd \<Rightarrow> bool) \<Rightarrow> 'd list \<Rightarrow> bool" where
  "pairwise_new eq l \<longleftrightarrow> (\<forall>j < length l. \<forall>i < j. \<not> eq (l ! i) (l ! j))"

lemma pairwise_new_snoc:
  "pairwise_new eq (l @ [d]) \<longleftrightarrow> pairwise_new eq l \<and> (\<forall>c \<in> set l. \<not> eq c d)"
  by (fastforce simp: pairwise_new_def nth_append less_Suc_eq in_set_conv_nth)

section \<open>Texts\<close>

fun join :: "string list \<Rightarrow> string" where
  "join [] = ''''"
| "join [s] = s"
| "join (s # t # ts) = s @ CHR '','' # join (t # ts)"

lemma join_snoc: "ts \<noteq> [] \<Longrightarrow> join (ts @ [s]) = join ts @ CHR '','' # s"
  by (induction ts rule: join.induct) auto

lemma ticks_text_join:
  "ts = [] \<and> s = [] \<or> ts \<noteq> [] \<and> s = join ts \<and> s \<noteq> [] \<Longrightarrow>
   ticks_text s l = join (ts @ map show_int l)"
proof (induction l arbitrary: s ts)
  case (Cons i l)
  have "join (ts @ [show_int i]) = (if length s = 0 then show_int i else s @ CHR '','' # show_int i)"
    using Cons.prems by (auto simp: join_snoc)
  moreover have "join (ts @ [show_int i]) \<noteq> []"
    using Cons.prems by (cases "ts = []") (auto simp: join_snoc)
  ultimately show ?case
    using Cons.IH [of "ts @ [show_int i]" "join (ts @ [show_int i])"] Cons.prems
    by (auto simp: Let_def)
qed auto

section \<open>Small runs of the whole program\<close>

definition demo_env :: "unit tws_env" where
  "demo_env = \<lparr>net = demo_net, tws_call = (\<lambda>_. 0), xml_locations = (\<lambda>_. None), cd_equals = (\<lambda>_ _. True)\<rparr>"

definition start_world :: "unit tws_world" where
  "start_world = world_init (unique_type_id_threadsafe_manager 1)"

text \<open>A front-end thread posts a request for the current time to the back-end; the back-end
  itself subscribes to a market scanner; it builds a request of class \<open>k\<close>.\<close>

definition time_asked :: "unit tws_world" where
  "time_asked = after (performs demo_env 6
     [New_request 1 (Some 0) Req_current_time 0 [], Execute 0, Pulse_marked 1]) start_world"

definition subscribed :: "unit tws_world" where
  "subscribed = after (performs demo_env 6
     [New_request 0 None Req_scanner_subscription 5 [], Execute 0]) start_world"

definition built :: "req_kind \<Rightarrow> unit tws_world" where
  "built k = after (performs demo_env 1 [New_request 0 None k 7 []]) start_world"

lemma after_reach: "reachable te w \<Longrightarrow> reachable te (after (performs te n as) w)"
  by (auto simp: after_def split: res.splits intro: performs_reach)

lemma start_reach: "reachable demo_env start_world"
  unfolding start_world_def by (rule reach_init)

lemma demo_reach:
  "reachable demo_env time_asked" "reachable demo_env subscribed" "reachable demo_env (built k)"
  unfolding time_asked_def subscribed_def built_def by (intro after_reach start_reach)+

lemma built_wf: "wf (built k)"
  using reachable_winv [OF demo_reach(3)] by (rule winvD)

lemma built_request:
  assumes "map_option m_owner (msgs (built k) 0) = Some (Some 0)"
    "map_option m_receiver (msgs (built k) 0) = Some 0"
    "map_option m_class (msgs (built k) 0) = Some (Req k 7 [] 0)"
    "map_option m_now_state (msgs (built k) 0) = Some MSG_INITIALIZED"
    "map_option m_state_change_handlers (msgs (built k) 0) = Some []"
  shows "request_at_ibm 0 k 7 [] MSG_INITIALIZED [] (built k)"
  using assms by (auto simp: request_at_ibm_def ibm_def)

lemma built_demo:
  "request_at_ibm 0 Req_mkt_data 7 [] MSG_INITIALIZED [] (built Req_mkt_data)"
  "request_at_ibm 0 Req_current_time 7 [] MSG_INITIALIZED [] (built Req_current_time)"
  "request_at_ibm 0 Req_scanner_subscription 7 [] MSG_INITIALIZED [] (built Req_scanner_subscription)"
  by (rule built_request; code_simp)+

lemma built_active: "m_active_scanner_subscriptions (glob (built Req_scanner_subscription)) = []"
  by code_simp

lemma time_asked_sock: "sock_q time_asked 0 = [0]"
  by code_simp

lemma subscribed_active: "m_active_scanner_subscriptions (glob subscribed) = [0]"
  by code_simp

section \<open>Properties\<close>

text \<open>C1: in every world the program can reach, a message is in the list of its owner, once, and in
  no other processor's list, and a processor marks for pulsing only messages it owns.\<close>

theorem every_message_has_one_home:
  assumes "reachable te w"
  shows "(\<forall>p m. m \<in> set (owned w p) \<longleftrightarrow> (\<exists>r. msgs w m = Some r \<and> m_owner r = Some p)) \<and>
    (\<forall>p. distinct (owned w p) \<and> distinct (pulsing w p) \<and> set (pulsing w p) \<subseteq> set (owned w p))"
  using reachable_winv [OF assms] by (simp add: winv_def wf_def owner_ok_def lists_ok_def)

theorem every_message_has_one_home_witness:
  "\<forall>p. distinct (owned subscribed p) \<and> distinct (pulsing subscribed p)"
  using every_message_has_one_home [OF demo_reach(2)] by blast

text \<open>C2: in every reachable world a pointer that travels through a socket belongs to a live
  message that has no owner, is in nobody's list, and is in that socket only, and only once: what
  is read from a socket is never dangling and never shared.\<close>

theorem limbo_pointer_is_safe:
  assumes "reachable te w" "m \<in> set (sock_q w s)"
  shows "(\<exists>r. msgs w m = Some r \<and> m_owner r = None) \<and> (\<forall>p. m \<notin> set (owned w p)) \<and>
    (\<forall>t. m \<in> set (sock_q w t) \<longleftrightarrow> t = s) \<and> distinct (sock_q w s)"
proof -
  have w: "owner_ok w" "limbo_ok w"
    using reachable_winv [OF assms(1)] by (simp_all add: winv_def wf_def)
  obtain r where r: "msgs w m = Some r" "m_owner r = None"
    using limbo_okD [OF w(2) assms(2)] by auto
  have "\<forall>t. m \<in> set (sock_q w t) \<longleftrightarrow> t = s" "distinct (sock_q w s)"
    using w(2) assms(2) unfolding limbo_ok_def by blast+
  moreover have "\<forall>p. m \<notin> set (owned w p)"
    using w(1) r by (simp add: owner_ok_def)
  ultimately show ?thesis
    using r by blast
qed

theorem limbo_pointer_is_safe_witness:
  "(\<exists>r. msgs time_asked 0 = Some r \<and> m_owner r = None) \<and> 0 \<notin> set (owned time_asked 1)"
  using limbo_pointer_is_safe [OF demo_reach(1), of 0 0] time_asked_sock by simp

text \<open>C3: in every reachable world at most ten scanner subscriptions are active, whatever requests
  are made and whatever TWS answers.\<close>

theorem subscription_limit_holds:
  assumes "reachable te w"
  shows "length (m_active_scanner_subscriptions (glob w)) \<le> 10"
  using winvD(2) [OF reachable_winv [OF assms]] by (simp add: limit_ok_def m_max_scanner_subscriptions_def)

theorem subscription_limit_holds_witness:
  "m_active_scanner_subscriptions (glob subscribed) = [0] \<and>
   length (m_active_scanner_subscriptions (glob subscribed)) \<le> 10"
  using subscription_limit_holds [OF demo_reach(2)] subscribed_active by simp

text \<open>C19: no step changes who requested a message and who is to receive it, and no step brings a
  destroyed message back to life.\<close>

theorem parties_never_change:
  assumes "reachable te w" "sys_step te w w'" "m < next_mid w" "msgs w' m = Some r'"
  shows "\<exists>r. msgs w m = Some r \<and> m_requester r' = m_requester r \<and> m_receiver r' = m_receiver r"
proof -
  have "evolves w w'"
    using sys_step_keeps [OF assms(2) reachable_winv [OF assms(1)]] ..
  from evolves_msg [OF this assms(3,4)] show ?thesis
    by blast
qed

definition touched :: "unit tws_world" where
  "touched = after (perform demo_env 1 (Fetch 0)) (built Req_current_time)"

lemma touched_facts:
  "next_mid (built Req_current_time) = 1" "map_option m_receiver (msgs touched 0) = Some 0"
  "(case perform demo_env 1 (Fetch 0) (built Req_current_time) of Ok _ \<Rightarrow> True | Bad _ \<Rightarrow> False)"
  by code_simp+

lemma touched_step: "sys_step demo_env (built Req_current_time) touched"
proof -
  obtain w where w: "perform demo_env 1 (Fetch 0) (built Req_current_time) = Ok ((), w)"
    using touched_facts(3) by (auto split: res.splits)
  then have "touched = w"
    unfolding touched_def after_def by simp
  then show ?thesis
    using sys_step [OF w] by simp
qed

theorem parties_never_change_witness:
  "\<exists>r r'. msgs (built Req_current_time) 0 = Some r \<and> msgs touched 0 = Some r' \<and> m_receiver r' = m_receiver r"
proof -
  obtain r' where r': "msgs touched 0 = Some r'"
    using touched_facts(2) by auto
  then show ?thesis
    using parties_never_change [OF demo_reach(3) touched_step _ r'] touched_facts(1) by auto
qed

end
