(* ===== verification/TwsSpec.thy ===== *)
theory TwsSpec
  imports TwsProps
begin

text \<open>What the back-end promises for single requests and responses: which requests it can serve,
  what the subscription limit lets through, how it pairs cancel messages and responses with the
  requests, and what the bookkeeping of data farms and contracts does.\<close>

section \<open>Serving a request\<close>

text \<open>C12: a request of a class that the back-end does not implement (all but the scanner
  parameters, scanner subscription and current time requests, among those that are neither a cancel
  message nor the back-end's own information request) runs into the assertion of its
  \<open>f_commence_transmit\<close> as soon as the back-end executes it.\<close>

theorem unsupported_requests_assert:
  assumes "reachable te w" "request_at_ibm m k i args MSG_INITIALIZED [] w"
    and "\<not> transmits k" "k \<noteq> Fetch_tws_info" "cancels k = None"
  shows "set_state (tws_state_machine te (Suc (Suc (Suc n)))) m EXEC_COMMAND w = Bad Assert_failed"
  using unsupported_fails [OF _ assms(2-5)] winvD(1) [OF reachable_winv [OF assms(1)]] by blast

theorem unsupported_requests_assert_witness:
  "set_state (tws_state_machine demo_env 3) 0 EXEC_COMMAND (built Req_mkt_data) = Bad Assert_failed"
  using unsupported_requests_assert [OF demo_reach(3) built_demo(1), of 0]
  by (simp add: transmits_def numeral_3_eq_3)

text \<open>Executing a scanner parameters or current time request takes it through the accepting
  and transmitting states to READY_TO_RECEIVE_RESPONSE in one go, with exactly one call into the TWS
  API, made with the request's number and arguments. Fuel 4 is enough.\<close>

theorem plain_request_is_transmitted:
  assumes "reachable te w" "request_at_ibm m k i args MSG_INITIALIZED [] w"
    and "k = Req_scanner_parameters \<or> k = Req_current_time"
    and "tws_call te (length (tws_calls (glob w))) = 0"
  shows "\<exists>w'. set_state (tws_state_machine te (Suc (Suc (Suc (Suc n))))) m EXEC_COMMAND w =
      Ok (READY_TO_RECEIVE_RESPONSE, w') \<and>
    tws_calls (glob w') = tws_calls (glob w) @ [(k, i, args)] \<and>
    request_at_ibm m k i args READY_TO_RECEIVE_RESPONSE [] w'"
  using transmit_plain [OF winvD(1) [OF reachable_winv [OF assms(1)]] assms(2-4), of n]
  by (auto simp: call_logged_def)

theorem plain_request_is_transmitted_witness:
  "\<exists>w'. set_state (tws_state_machine demo_env 4) 0 EXEC_COMMAND (built Req_current_time) =
      Ok (READY_TO_RECEIVE_RESPONSE, w') \<and>
    request_at_ibm 0 Req_current_time 7 [] READY_TO_RECEIVE_RESPONSE [] w'"
  using plain_request_is_transmitted [OF demo_reach(3) built_demo(2), of 0]
  by (auto simp: demo_env_def numeral_eq_Suc)

text \<open>C10: while fewer than ten scanner subscriptions are active, executing another one transmits it
  and enters it in the active set, watched by the limiting handler.\<close>

theorem subscription_is_transmitted:
  assumes "reachable te w" "request_at_ibm m Req_scanner_subscription i args MSG_INITIALIZED [] w"
    and "length (m_active_scanner_subscriptions (glob w)) < m_max_scanner_subscriptions"
    and "tws_call te (length (tws_calls (glob w))) = 0"
  shows "\<exists>w'. set_state (tws_state_machine te (Suc (Suc (Suc (Suc n))))) m EXEC_COMMAND w =
      Ok (READY_TO_RECEIVE_RESPONSE, w') \<and>
    m_active_scanner_subscriptions (glob w') = m_active_scanner_subscriptions (glob w) @ [m] \<and>
    tws_calls (glob w') = tws_calls (glob w) @ [(Req_scanner_subscription, i, args)] \<and>
    request_at_ibm m Req_scanner_subscription i args READY_TO_RECEIVE_RESPONSE [m_scanner_subscription_limit] w'"
  using transmit_subscription [OF winvD(1) [OF reachable_winv [OF assms(1)]] assms(2-4), of n]
  by (auto simp: call_logged_def entered_def)

theorem subscription_is_transmitted_witness:
  "\<exists>w'. set_state (tws_state_machine demo_env 4) 0 EXEC_COMMAND (built Req_scanner_subscription) =
      Ok (READY_TO_RECEIVE_RESPONSE, w') \<and> m_active_scanner_subscriptions (glob w') = [0]"
  using subscription_is_transmitted [OF demo_reach(3) built_demo(3), of 0] built_active
  by (auto simp: demo_env_def numeral_eq_Suc m_max_scanner_subscriptions_def)

text \<open>Ten active subscriptions and one that waits.\<close>

definition full_world :: "unit tws_world" where
  "full_world = (let w = upd_msg 0 (enter_state WAIT_FOR_TRANSMIT)
       (with_handler 0 m_scanner_subscription_limit (built Req_scanner_subscription))
     in w\<lparr>glob := (glob w)\<lparr>m_active_scanner_subscriptions := [1..<11]\<rparr>\<rparr>)"

lemma full_world_waits:
  "request_at_ibm 0 Req_scanner_subscription 7 [] WAIT_FOR_TRANSMIT [m_scanner_subscription_limit] full_world"
  using request_upd_enter [OF request_with_handler [OF built_demo(3)]]
  by (simp add: full_world_def Let_def)

text \<open>C11: with ten active subscriptions an eleventh is not transmitted: it stays in
  WAIT_FOR_TRANSMIT, nothing else changes, and no call into the TWS API is made.\<close>

theorem eleventh_subscription_waits:
  assumes "request_at_ibm m Req_scanner_subscription i args WAIT_FOR_TRANSMIT [m_scanner_subscription_limit] w"
    and "length (m_active_scanner_subscriptions (glob w)) = 10"
  shows "set_state (tws_state_machine te (Suc n)) m COMMENCE_TRANSMIT w = Ok (WAIT_FOR_TRANSMIT, w)"
  by (rule limit_veto [OF assms(1)]) (simp add: assms(2) m_max_scanner_subscriptions_def)

theorem eleventh_subscription_waits_witness:
  "set_state (tws_state_machine demo_env 1) 0 COMMENCE_TRANSMIT full_world = Ok (WAIT_FOR_TRANSMIT, full_world)"
  using eleventh_subscription_waits [OF full_world_waits, of demo_env 0]
  by (simp add: full_world_def)

section \<open>Pairing\<close>

text \<open>The eleven methods that decide whether a pending request obeys a cancel message
  implement one table: a cancel class takes back one request class, by the request's number, except
  that the global cancel and the news bulletins' cancel take back all requests of their class.\<close>

theorem cancel_methods_follow_the_table:
  "cancel_request_is_meant_for_us k i k' j \<longleftrightarrow>
     cancels k' = Some k \<and> (j = i \<or> k' \<in> {Req_global_cancel, Cancel_news_bulletins})"
  by (rule cancel_table)

text \<open>The owned messages that a test on the message itself selects.\<close>

lemma collect_pure:
  assumes "\<And>m. m \<in> set l \<Longrightarrow> p m w = Ok (f m, w)"
  shows "collect p l w = Ok (List.filter f l, w)"
  using assms by (induction l) (simp_all add: M_defs)

lemma owned_exists: "wf w \<Longrightarrow> m \<in> set (owned w p) \<Longrightarrow> \<exists>r. msgs w m = Some r"
  by (auto simp: wf_def owner_ok_def)

definition awaits :: "'d tws_world \<Rightarrow> mid \<Rightarrow> mid \<Rightarrow> bool" where
  "awaits w resp m \<longleftrightarrow> (case (msgs w m, msgs w resp) of
     (Some r, Some rr) \<Rightarrow> response_is_meant_for_us (m_class r) (m_now_state r) (m_class rr) | _ \<Rightarrow> False)"

lemma scan_queue_collects:
  assumes "wf w" "msgs w resp = Some rr"
  shows "scan_queue_and_process te ex resp w =
    mbind (or_all (\<lambda>m. req_process_response te ex m resp) 0 (List.filter (awaits w resp) (owned w ibm)))
      (\<lambda>rv. mseq (set_state ex resp DESTRUCTION) (ret rv)) w"
proof -
  have "collect (\<lambda>m. mbind (deref m) (\<lambda>r. ret (response_is_meant_for_us (m_class r) (m_now_state r) (m_class rr))))
      (owned w ibm) w = Ok (List.filter (awaits w resp) (owned w ibm), w)"
    by (rule collect_pure)
      (auto dest: owned_exists [OF assms(1)] simp: assms(2) M_defs deref_def awaits_def split: option.splits)
  then show ?thesis
    using assms(2) by (simp add: scan_queue_and_process_def M_defs deref_def)
qed

text \<open>A response goes to the requests the back-end owns that await a response of its class,
  and to no other, in the order in which the back-end came to own them; afterwards the response is
  marked for destruction.\<close>

theorem response_reaches_its_requests:
  assumes "reachable te w" "msgs w resp = Some rr"
  shows "scan_queue_and_process te ex resp w =
    mbind (or_all (\<lambda>m. req_process_response te ex m resp) 0 (List.filter (awaits w resp) (owned w ibm)))
      (\<lambda>rv. mseq (set_state ex resp DESTRUCTION) (ret rv)) w"
  by (rule scan_queue_collects [OF winvD(1) [OF reachable_winv [OF assms(1)]] assms(2)])

definition answered :: "unit tws_world" where
  "answered = after (performs demo_env 1 [Event Resp_acct_download_end no_data]) start_world"

lemma answered_facts:
  "map_option m_now_state (msgs answered 0) = Some DESTRUCTION" "List.filter (awaits answered 0) (owned answered ibm) = []"
  by code_simp+

lemma answered_reach: "reachable demo_env answered"
  unfolding answered_def by (intro after_reach start_reach)

theorem response_reaches_its_requests_witness:
  "scan_queue_and_process demo_env (tws_state_machine demo_env 1) 0 answered =
     mseq (set_state (tws_state_machine demo_env 1) 0 DESTRUCTION) (ret 0) answered"
proof -
  obtain rr where "msgs answered 0 = Some rr"
    using answered_facts(1) by auto
  from response_reaches_its_requests [OF answered_reach this] show ?thesis
    by (simp add: answered_facts(2) M_defs)
qed

section \<open>Contracts and data farms\<close>

lemma register_contract_cases:
  "register_contract_info te (Some d) w = (let store = m_contract_details_store (glob w) in
     if \<exists>c \<in> set store. cd_equals te c d then Ok (1, w)
     else Ok (0, w\<lparr>glob := (glob w)\<lparr>m_contract_details_store := store @ [d]\<rparr>\<rparr>))"
  by (simp add: register_contract_info_def getg_def modg_def M_defs Let_def)

text \<open>C34: the contract store never holds two equal contracts: registering one keeps the stored
  contracts pairwise different, afterwards the store holds an equal of the given contract, and the
  result tells whether it was new.\<close>

theorem contract_store_has_no_duplicates:
  assumes "pairwise_new (cd_equals te) (m_contract_details_store (glob w))" "\<And>c. cd_equals te c c"
  shows "\<exists>rv w'. register_contract_info te (Some d) w = Ok (rv, w') \<and>
    pairwise_new (cd_equals te) (m_contract_details_store (glob w')) \<and>
    (\<exists>c \<in> set (m_contract_details_store (glob w')). cd_equals te c d) \<and>
    (if rv = 1 then w' = w
     else rv = 0 \<and> m_contract_details_store (glob w') = m_contract_details_store (glob w) @ [d])"
  using assms by (auto simp: register_contract_cases Let_def pairwise_new_snoc)

text \<open>Strings are compared for the witness.\<close>

definition name_env :: "string tws_env" where
  "name_env = \<lparr>net = demo_net, tws_call = (\<lambda>_. 0), xml_locations = (\<lambda>_. None), cd_equals = (\<lambda>c d. c = d)\<rparr>"

definition one_contract :: "string tws_world" where
  "one_contract = (let w = world_init (unique_type_id_threadsafe_manager 1)
     in w\<lparr>glob := (glob w)\<lparr>m_contract_details_store := [''IBM'']\<rparr>\<rparr>)"

theorem contract_store_has_no_duplicates_witness:
  "\<exists>rv w'. register_contract_info name_env (Some ''MSFT'') one_contract = Ok (rv, w') \<and>
     ''MSFT'' \<in> set (m_contract_details_store (glob w'))"
proof -
  have "pairwise_new (cd_equals name_env) (m_contract_details_store (glob one_contract))"
    by (simp add: pairwise_new_def one_contract_def Let_def)
  from contract_store_has_no_duplicates [OF this, where d = "''MSFT''"] show ?thesis
    by (auto simp: name_env_def)
qed

text \<open>How the name of a data farm stands in the text of TWS.\<close>

lemma after_last_colon_farm:
  assumes "CHR '':'' \<notin> set name" "name = [] \<or> hd name \<noteq> CHR '' ''"
  shows "after_last_colon (pre @ CHR '':'' # replicate n (CHR '' '') @ name) = Some name"
proof -
  let ?c = "\<lambda>c. c \<noteq> CHR '':''"
  have "rev (pre @ CHR '':'' # replicate n (CHR '' '') @ name) = (rev name @ replicate n (CHR '' '')) @ CHR '':'' # rev pre"
    by simp
  moreover have "takeWhile ?c ((rev name @ replicate n (CHR '' '')) @ CHR '':'' # rev pre) = rev name @ replicate n (CHR '' '')"
    using assms(1) by (subst takeWhile_append2) auto
  moreover have "dropWhile (\<lambda>c. c = CHR '' '') (replicate n (CHR '' '') @ name) = name"
    using assms(2) by (induction n) (cases name, auto)+
  ultimately show ?thesis
    by (simp add: after_last_colon_def)
qed

lemma farm_event_cases:
  assumes "after_last_colon text = Some f"
  shows "farm_event FAIL_MARKET_DATA_FARM_CONNECTED text w =
      Ok ((), w\<lparr>glob := (glob w)\<lparr>m_rt_providers := m_rt_providers (glob w) @ [f]\<rparr>\<rparr>)"
    and "farm_event FAIL_MARKET_DATA_FARM_DISCONNECTED text w =
      Ok ((), w\<lparr>glob := (glob w)\<lparr>m_rt_providers := remove1 f (m_rt_providers (glob w))\<rparr>\<rparr>)"
    and "farm_event FAIL_HISTORICAL_DATA_FARM_CONNECTED text w =
      Ok ((), w\<lparr>glob := (glob w)\<lparr>m_hist_providers := m_hist_providers (glob w) @ [f]\<rparr>\<rparr>)"
    and "farm_event FAIL_HISTORICAL_DATA_FARM_DISCONNECTED text w =
      Ok ((), w\<lparr>glob := (glob w)\<lparr>m_hist_providers := remove1 f (m_hist_providers (glob w))\<rparr>\<rparr>)"
  using assms by (simp_all add: farm_event_def modg_def M_defs)

text \<open>The reports of TWS that a market data farm has connected and, whatever stands before the
  colon and however many blanks follow it, that the same farm has disconnected cancel each other
  out, when the farm was not known before.\<close>

theorem farm_connection_roundtrip:
  assumes "CHR '':'' \<notin> set name" "name = [] \<or> hd name \<noteq> CHR '' ''"
    and "name \<notin> set (m_rt_providers (glob w))"
  shows "\<exists>w1. farm_event FAIL_MARKET_DATA_FARM_CONNECTED (pre @ CHR '':'' # replicate n (CHR '' '') @ name) w = Ok ((), w1) \<and>
    m_rt_providers (glob w1) = m_rt_providers (glob w) @ [name] \<and>
    farm_event FAIL_MARKET_DATA_FARM_DISCONNECTED (pre' @ CHR '':'' # replicate n' (CHR '' '') @ name) w1 = Ok ((), w)"
  using assms(3) by (simp add: farm_event_cases [OF after_last_colon_farm [OF assms(1,2)]] remove1_append)

theorem farm_connection_roundtrip_witness:
  "\<exists>w1. farm_event FAIL_MARKET_DATA_FARM_CONNECTED ''connection is OK: usfarm'' start_world = Ok ((), w1) \<and>
     m_rt_providers (glob w1) = [''usfarm''] \<and>
     farm_event FAIL_MARKET_DATA_FARM_DISCONNECTED ''connection is broken:usfarm'' w1 = Ok ((), start_world)"
proof -
  have "m_rt_providers (glob start_world) = []"
    by (simp add: start_world_def world_init_def glob_init_def)
  with farm_connection_roundtrip [of "''usfarm''" start_world "''connection is OK''" 1 "''connection is broken''" 0]
  show ?thesis
    by simp
qed

text \<open>A request that the back-end builds for itself.\<close>

lemma own_request_Ok:
  assumes w: "winv limit_ok w"
  shows "\<exists>w'. new_request te (tws_state_machine te (Suc n)) (Some ibm) None Req_scanner_parameters 0 [] w =
      Ok (next_mid w, w') \<and> winv limit_ok w' \<and> glob w' = glob w \<and>
    request_at_ibm (next_mid w) Req_scanner_parameters 0 [] MSG_INITIALIZED [] w'"
proof -
  let ?new = "new_request te (tws_state_machine te (Suc n)) (Some ibm) None Req_scanner_parameters 0 []"
  have fresh: "next_mid w \<notin> set (owned w ibm)"
    using w by (auto simp: winv_def wf_def owner_ok_def alloc_ok_def)
  have "\<exists>w'. ?new w = Ok (next_mid w, w') \<and> glob w' = glob w \<and>
      request_at_ibm (next_mid w) Req_scanner_parameters 0 [] MSG_INITIALIZED [] w'"
    using fresh
    by (simp add: new_request_def new_message_def resolve_parties_def alloc_msg_def set_current_owner_def own_def
        tws_state_machine_def exec_state_body_def dispatch_state_def handle_state_change_def M_defs deref_def
        does_own_def set_owner_def has_owner_def the_owner_def request_at_ibm_def enter_state_def is_w_order_def)
  moreover have "keeps (winv limit_ok) evolves ?new"
    by (intro keeps_intro ev_state_machine)
  ultimately show ?thesis
    using w by (blast dest: keeps_ok)
qed

text \<open>When data farms of both kinds have been reported and the scanner parameters have not been
  asked for, the back-end asks TWS for them, once: afterwards the flag is down, and running the same
  code again changes nothing.\<close>

theorem pump_is_primed_once:
  assumes "winv limit_ok w" "m_still_need_to_prime_the_pump (glob w)"
    and "m_hist_providers (glob w) \<noteq> []" "m_rt_providers (glob w) \<noteq> []"
    and "tws_call te (length (tws_calls (glob w))) = 0"
  shows "\<exists>w'. prime_the_pump te (tws_state_machine te (Suc (Suc (Suc (Suc n))))) w = Ok ((), w') \<and>
    tws_calls (glob w') = tws_calls (glob w) @ [(Req_scanner_parameters, 0, [])] \<and>
    prime_the_pump te (tws_state_machine te (Suc (Suc (Suc (Suc n))))) w' = Ok ((), w')"
proof -
  let ?ex = "tws_state_machine te (Suc (Suc (Suc (Suc n))))" and ?m = "next_mid w"
  obtain w1 where w1: "new_request te ?ex (Some ibm) None Req_scanner_parameters 0 [] w = Ok (?m, w1)"
      "winv limit_ok w1" "glob w1 = glob w" "request_at_ibm ?m Req_scanner_parameters 0 [] MSG_INITIALIZED [] w1"
    using own_request_Ok [OF assms(1)] by blast
  obtain w2 where w2: "set_state ?ex ?m EXEC_COMMAND w1 = Ok (READY_TO_RECEIVE_RESPONSE, w2)"
      "glob w2 = glob (call_logged Req_scanner_parameters 0 [] w1)"
    using transmit_plain [OF winvD(1) [OF w1(2)] w1(4), of te n] assms(5) w1(3) by auto
  let ?w' = "w2\<lparr>glob := (glob w2)\<lparr>m_still_need_to_prime_the_pump := False\<rparr>\<rparr>"
  have "prime_the_pump te ?ex w = Ok ((), ?w')"
    using assms w1(1) w2(1) by (simp add: prime_the_pump_def getg_def modg_def M_defs)
  moreover have "prime_the_pump te ?ex ?w' = Ok ((), ?w')"
    by (simp add: prime_the_pump_def getg_def M_defs)
  ultimately show ?thesis
    using w2(2) w1(3) by (intro exI [of _ ?w']) (simp add: call_logged_def)
qed

definition both_farms :: "unit tws_world" where
  "both_farms = start_world\<lparr>glob := (glob start_world)\<lparr>m_rt_providers := [''usfarm''], m_hist_providers := [''ushmds'']\<rparr>\<rparr>"

lemma both_farms_facts:
  "winv limit_ok both_farms" "m_still_need_to_prime_the_pump (glob both_farms)"
  "m_rt_providers (glob both_farms) = [''usfarm'']" "m_hist_providers (glob both_farms) = [''ushmds'']"
  "tws_calls (glob both_farms) = []"
  using reachable_winv [OF start_reach]
  by (simp_all add: both_farms_def winv_def limit_ok_def)
    (simp_all add: start_world_def world_init_def glob_init_def)

theorem pump_is_primed_once_witness:
  "\<exists>w'. prime_the_pump demo_env (tws_state_machine demo_env 4) both_farms = Ok ((), w') \<and>
     tws_calls (glob w') = [(Req_scanner_parameters, 0, [])]"
  using pump_is_primed_once [OF both_farms_facts(1,2), of demo_env 0] both_farms_facts
  by (auto simp: demo_env_def numeral_eq_Suc)

section \<open>The answer to a front-end request\<close>

text \<open>The request keeps the time, is complete and marked.\<close>

definition time_kept :: "mid \<Rightarrow> int \<Rightarrow> string list \<Rightarrow> int \<Rightarrow> 'd tws_world \<Rightarrow> 'd tws_world" where
  "time_kept m i args t w = (upd_msg m (enter_state RESPONSE_COMPLETE)
     (upd_msg m (\<lambda>r. r\<lparr>m_class := Req Req_current_time i args t\<rparr>) w))
     \<lparr>pulsing := (pulsing w)(ibm := push_new m (pulsing w ibm))\<rparr>"

lemma time_kept_sel [simp]:
  "owned (time_kept m i args t w) = owned w" "sock_q (time_kept m i args t w) = sock_q w"
  "pulsing (time_kept m i args t w) = (pulsing w)(ibm := push_new m (pulsing w ibm))"
  "msgs (time_kept m i args t w) m' = (if m' = m
     then map_option (\<lambda>r. enter_state RESPONSE_COMPLETE (r\<lparr>m_class := Req Req_current_time i args t\<rparr>)) (msgs w m) else msgs w m')"
  by (simp_all add: time_kept_def option.map_comp comp_def)

lemma current_time_completed:
  assumes w: "wf w" and r: "msgs w m = Some r" "m_owner r = Some ibm" "m_requester r \<noteq> ibm"
    and st: "m_state_change_handlers r = []" "m_now_state r = READY_TO_RECEIVE_RESPONSE"
  shows "current_time_response (tws_state_machine te (Suc n)) m i args Resp_current_time d w = Ok (0, time_kept m i args (rd_time d) w)"
proof -
  let ?f = "\<lambda>r. r\<lparr>m_class := Req Req_current_time i args (rd_time d)\<rparr>"
  let ?u = "upd_msg m ?f w" and ?w' = "time_kept m i args (rd_time d) w"
  have u: "wf ?u"
    using inv_upd_msg [of "\<lambda>_. True" w ?f m] w by (simp add: winv_def)
  have r': "msgs ?u m = Some (?f r)" "m_owner (?f r) = Some ibm" "m_now_state (?f r) = READY_TO_RECEIVE_RESPONSE"
    using assms by simp_all
  have ex: "tws_state_machine te (Suc n) m RESPONSE_COMPLETE ?u = Ok (RESPONSE_COMPLETE, ?w')"
    using exec_queues [OF handle_none [OF r'(1)] r'(1,2) u, of RESPONSE_COMPLETE Requester F_response_complete] r(3) st(1)
    by (simp add: tws_state_machine_def party_pid_def time_kept_def)
  have w': "msgs ?w' m = Some (enter_state RESPONSE_COMPLETE (?f r))"
    using r(1) by simp
  have "set_state (tws_state_machine te (Suc n)) m RESPONSE_COMPLETE ?u = Ok (RESPONSE_COMPLETE, ?w')"
    by (rule set_state_once [where ex = "tws_state_machine te (Suc n)" and r = "?f r" and ?r1.0 = "enter_state RESPONSE_COMPLETE (?f r)", OF r'(1) _ ex w'])
      (simp_all only: r'(3) enter_state_sel request_state.simps not_False_eq_True)
  then show ?thesis
    by (simp add: current_time_response_def M_defs)
qed

text \<open>When TWS reports the current time, a front-end's request that awaits it keeps the time,
  is complete, and is marked to travel back to its requester with the next pulse of the back-end.\<close>

theorem current_time_travels_back:
  assumes "reachable te w" "msgs w m = Some r" "m_owner r = Some ibm" "m_requester r \<noteq> ibm"
    and "m_class r = Req Req_current_time i args t" "m_state_change_handlers r = []"
    and "m_now_state r = READY_TO_RECEIVE_RESPONSE"
  shows "\<exists>w' r'. current_time_response (tws_state_machine te (Suc n)) m i args Resp_current_time d w = Ok (0, w') \<and>
    m \<in> set (pulsing w' ibm) \<and> msgs w' m = Some r' \<and> m_now_state r' = RESPONSE_COMPLETE \<and>
    save_response (m_class r') = Some (''time'', rd_time d) \<and> pulse_target r' = m_requester r"
  using current_time_completed [OF winvD(1) [OF reachable_winv [OF assms(1)]] assms(2-4,6,7), of te n i args d] assms(2)
  by (simp add: pulse_target_def)

definition time_waits :: "unit tws_world" where
  "time_waits = after (perform demo_env 6 (Pop 0 MSG_PENDING True)) time_asked"

lemma time_waits_facts:
  "map_option m_owner (msgs time_waits 0) = Some (Some 0)"
  "map_option m_requester (msgs time_waits 0) = Some 1"
  "map_option m_state_change_handlers (msgs time_waits 0) = Some []"
  "map_option m_now_state (msgs time_waits 0) = Some READY_TO_RECEIVE_RESPONSE"
  "map_option m_class (msgs time_waits 0) = Some (Req Req_current_time 0 [] 0)"
  by code_simp+

lemma perform_reach: "reachable te w \<Longrightarrow> reachable te (after (perform te n a) w)"
  by (auto simp: after_def split: res.splits intro: reach_step sys_step)

lemma time_waits_reach: "reachable demo_env time_waits"
  unfolding time_waits_def by (rule perform_reach [OF demo_reach(1)])

theorem current_time_travels_back_witness:
  "\<exists>w' r'. current_time_response (tws_state_machine demo_env 1) 0 0 [] Resp_current_time (no_data\<lparr>rd_time := 99\<rparr>) time_waits
      = Ok (0, w') \<and> msgs w' 0 = Some r' \<and> save_response (m_class r') = Some (''time'', 99) \<and> pulse_target r' = 1"
proof -
  obtain r where r: "msgs time_waits 0 = Some r"
    using time_waits_facts(1) by auto
  have "m_owner r = Some ibm" "m_requester r = 1" "m_class r = Req Req_current_time 0 [] 0"
      "m_state_change_handlers r = []" "m_now_state r = READY_TO_RECEIVE_RESPONSE"
    using r time_waits_facts by (simp_all add: ibm_def)
  then show ?thesis
    using current_time_travels_back [OF time_waits_reach r, of 0 "[]" 0 0 "no_data\<lparr>rd_time := 99\<rparr>"]
    by (auto simp: ibm_def)
qed

section \<open>Texts\<close>

text \<open>The text of a ticker list is its numbers in decimal, separated by single commas, with the
  word \<open>mdoff\<close> as a further item when it is wanted; no comma stands first or last.\<close>

theorem ticker_list_is_comma_separated:
  "ticker_list_text ticks mdoff = join (List.map show_int ticks @ (if mdoff then [''mdoff''] else []))"
proof -
  have "ticks_text [] ticks = join (List.map show_int ticks)"
    using ticks_text_join [of "[]" "[]" ticks] by simp
  moreover have "join (List.map show_int ticks) = [] \<longleftrightarrow> ticks = []"
    by (induction ticks rule: induct_list012) auto
  ultimately show ?thesis
    by (auto simp: ticker_list_text_def join_snoc)
qed

end
