(* ===== verification/WireSpec.thy ===== *)
theory WireSpec
  imports MessageProps
begin

text \<open>What two processors may rely on between them: both ends find the same socket pair, and what
  a failing write does to a message.\<close>

section \<open>One wire per pair of processors\<close>

lemma get_comm_matches:
  assumes "wf w" "get_interthread_communicator e p from to w = Ok (c, w')"
  shows "comm_inv w'" "c \<in> set (m_communicators w')" "m_sender (comms w' c) = from"
    "m_receipient (comms w' c) = to" "comm_frame w w'"
  using wpD [OF wp_get_comm assms(2)] wfD(5) [OF assms(1)] by blast+

lemma comm_inv_unique:
  assumes "comm_inv w" "c \<in> set (m_communicators w)" "d \<in> set (m_communicators w)"
    and "m_sender (comms w c) \<noteq> m_receipient (comms w c)"
    and "m_sender (comms w d) = m_sender (comms w c)" "m_receipient (comms w d) = m_receipient (comms w c)"
  shows "c = d"
  using assms unfolding comm_inv_def matches_def by metis

text \<open>C13: when processor \<open>p\<close> has fetched the communicator to \<open>q\<close>, then whatever the program does
  in between, \<open>q\<close> fetches the very same communicator for what comes from \<open>p\<close>, and what \<open>p\<close> writes
  into its socket arrives at the socket \<open>q\<close> reads.\<close>

theorem both_ends_find_the_same_wire:
  assumes "wf w" "p \<noteq> q" "get_interthread_communicator e p p q w = Ok (c, w1)"
    and "evolves w1 w2" "wf w2" "get_interthread_communicator e q p q w2 = Ok (d, w3)"
  shows "d = c \<and> comms w3 c = comms w1 c \<and> has_receiver (comms w3 c) q \<and>
    peer (m_sending_socket (comms w1 c)) = m_receiving_socket (comms w3 d)"
proof -
  note 1 = get_comm_matches [OF assms(1,3)]
  note 3 = get_comm_matches [OF assms(5,6)]
  have c2: "c \<in> set (m_communicators w2)" "comms w2 c = comms w1 c"
    using assms(4) 1(2) by (auto simp: evolves_def comms_kept_def)
  have "comm_ok w2 c"
    using wfD(5) [OF assms(5)] c2(1) by (simp add: comm_inv_def)
  then have c3: "c \<in> set (m_communicators w3)" "comms w3 c = comms w1 c"
    using 3(5) c2 by (auto simp: comm_frame_def comm_ok_def Let_def)
  have "c = d"
    by (rule comm_inv_unique [OF 3(1) c3(1) 3(2)]) (use 1 3 c3 assms(2) in simp_all)
  moreover have "comm_ok w1 c"
    using 1(1,2) by (simp add: comm_inv_def)
  ultimately show ?thesis
    using c3 1(4) by (simp add: has_receiver_def comm_ok_def Let_def)
qed

theorem both_ends_find_the_same_wire_witness:
  "\<exists>c w1 d w3. get_interthread_communicator demo_net 1 1 2 core_init = Ok (c, w1) \<and>
     get_interthread_communicator demo_net 2 1 2 w1 = Ok (d, w3) \<and> d = c \<and> has_receiver (comms w3 c) 2"
proof -
  have w: "wf core_init"
    using core_init_wf by (simp add: winv_def)
  obtain c w1 where c: "get_interthread_communicator demo_net 1 1 2 core_init = Ok (c, w1)"
    using get_comm_Ok [OF wfD(5) [OF w], of demo_net 1 1 2] by (auto simp: demo_net_def)
  have w1: "wf w1"
    using inv_comm_frame [OF core_init_wf] get_comm_matches [OF w c] by (simp add: winv_def)
  obtain d w3 where d: "get_interthread_communicator demo_net 2 1 2 w1 = Ok (d, w3)"
    using get_comm_Ok [OF wfD(5) [OF w1], of demo_net 2 1 2] by (auto simp: demo_net_def)
  show ?thesis
    using both_ends_find_the_same_wire [OF w _ c evolves_refl w1 d] c d by auto
qed

section \<open>A write of no bytes\<close>

text \<open>When the socket takes no byte of a message's pointer (\<open>mg_write\<close> returns 0), posting the
  message reports success although it has not been sent: the sender has given it up, no processor
  owns it, no socket carries it, and it can never be processed or destroyed.\<close>

theorem write_of_nothing_loses_the_message:
  assumes "wf w" "msgs w m = Some r" "m_owner r = Some (m_sender (comms w c))"
    and "env_write e (n_writes w) = 0"
  shows "\<exists>w' r'. post_message e ex c m w = Ok (0, w') \<and> msgs w' m = Some r' \<and> m_owner r' = None \<and>
    (\<forall>q. m \<notin> set (owned w' q)) \<and> (\<forall>s. m \<notin> set (sock_q w' s))"
proof -
  let ?p = "m_sender (comms w c)"
  let ?w = "set_owner m None (released ?p m w)"
  have g: "winv (\<lambda>_. True) ?w" "\<forall>s. m \<notin> set (sock_q ?w s)"
    using inv_release [of "\<lambda>_. True" w m r ?p ?w] assms(1-3) by (simp_all add: winv_def)
  have m: "msgs ?w m = Some (r\<lparr>m_owner := None\<rparr>)"
    using assms(2) by (simp add: set_owner_def released_def)
  then have "\<forall>q. m \<notin> set (owned ?w q)"
    using g(1) by (auto simp: winv_def wf_def owner_ok_def)
  moreover have "post_message e ex c m w = Ok (0, ?w\<lparr>n_writes := n_writes ?w + 1\<rparr>)"
    using assms give_up_Ok [OF assms(1-3), of ex]
    by (simp add: post_message_def M_defs deref_def mg_write_msg_def Let_def sizeof_ptr_def set_owner_def released_def)
  ultimately show ?thesis
    using g(2) m by (intro exI [of _ "?w\<lparr>n_writes := n_writes ?w + 1\<rparr>"] exI [of _ "r\<lparr>m_owner := None\<rparr>"]) simp
qed

theorem write_of_nothing_loses_the_message_witness:
  "\<exists>w'. post_message (demo_net\<lparr>env_write := \<lambda>_. 0\<rparr>) (exec_state core_hooks 2) 0 0 parcel_world = Ok (0, w') \<and>
     0 \<notin> set (owned w' 1) \<and> 0 \<notin> set (sock_q w' (m_receiving_socket (comms parcel_world 0)))"
proof -
  obtain r where "msgs parcel_world 0 = Some r" "m_owner r = Some 1"
    using parcel_facts(5) by auto
  then show ?thesis
    using write_of_nothing_loses_the_message [OF parcel_wf, of 0 r 0 "demo_net\<lparr>env_write := \<lambda>_. 0\<rparr>"] parcel_facts(2)
    by fastforce
qed

end
