(* ===== verification/CancelSpec.thy ===== *)
theory CancelSpec
  imports TwsProps
begin

text \<open>The life of a cancel message at the back-end: what it does when there is nothing to cancel.\<close>

section \<open>Worlds that differ in what is marked for pulsing\<close>

definition marked :: "mid \<Rightarrow> 'd tws_world \<Rightarrow> 'd tws_world" where
  "marked m w = w\<lparr>pulsing := (pulsing w)(ibm := push_new m (pulsing w ibm))\<rparr>"

lemma marked_sel [simp]:
  "msgs (marked m w) = msgs w" "owned (marked m w) = owned w" "glob (marked m w) = glob w"
  "request_at_ibm m' k i a st hs (marked m w) = request_at_ibm m' k i a st hs w"
  by (simp_all add: marked_def request_at_ibm_def)

lemma set_state_enters:
  "msgs w m = Some r \<Longrightarrow> m_now_state r \<noteq> new \<Longrightarrow> ex m new w = Ok (new, w1) \<Longrightarrow>
   msgs w1 m = Some (enter_state new r1) \<Longrightarrow> set_state ex m new w = Ok (new, w1)"
  by (simp add: set_state_def numeral_2_eq_2 M_defs deref_def)

section \<open>The steps of a cancel message\<close>

lemma limit_ignores:
  assumes m: "request_at_ibm m k i args st [m_scanner_subscription_limit] w" and k: "is_w_ticker k"
    and none: "m_active_scanner_subscriptions (glob w) = []"
  shows "lets_pass te ex m DESTRUCTION w w"
  using m k none
  by (auto simp: lets_pass_def request_at_ibm_def handle_state_change_def M_defs deref_def
      tws_process_def scanner_subscription_limitation_def getg_def)

lemma destruction_marks:
  assumes w: "wf w" and m: "request_at_ibm m k i args st [m_scanner_subscription_limit] w" "is_w_ticker k"
    and r: "msgs w m = Some r" "m_requester r = ibm" and st: "st \<noteq> DESTRUCTION"
    and none: "m_active_scanner_subscriptions (glob w) = []"
  shows "set_state (tws_state_machine te (Suc n)) m DESTRUCTION w =
    Ok (DESTRUCTION, marked m (upd_msg m (enter_state DESTRUCTION) w))"
proof -
  let ?w = "upd_msg m (enter_state DESTRUCTION) w"
  obtain t where r': "m_owner r = Some ibm" "m_class r = Req k i args t" "m_now_state r = st"
    using m(1) r(1) by (auto simp: request_at_ibm_def)
  have q: "queue_msg_for_pulsing ibm m ?w = Ok (if m \<in> set (pulsing w ibm) then 1 else 0, marked m ?w)"
    using queue_Ok [OF wf_enter [OF w], of m DESTRUCTION m "enter_state DESTRUCTION r" ibm] r(1) r'(1)
    by (simp add: marked_def)
  have f: "tws_f te (tws_state_machine te n) F_destruction_imminent m ?w = Ok (0, ?w)"
    using tws_f_req [of ?w m "enter_state DESTRUCTION r" k i args t] r r' by (simp add: M_defs)
  have "exec_state_body (tws_hooks te) (tws_state_machine te n) m DESTRUCTION w = Ok (DESTRUCTION, marked m ?w)"
    using limit_ignores [OF m none, of te "tws_state_machine te n"] q f r r'
    by (simp add: lets_pass_def exec_state_body_def M_defs deref_def has_owner_def the_owner_def dispatch_state_def
        party_pid_def)
  then have ex: "tws_state_machine te (Suc n) m DESTRUCTION w = Ok (DESTRUCTION, marked m ?w)"
    by (simp add: tws_state_machine_def)
  show ?thesis
    by (rule set_state_enters [where ex = "tws_state_machine te (Suc n)", OF r(1) _ ex]) (use r(1) r'(3) st in simp_all)
qed

lemma collect_nothing:
  assumes "\<forall>m \<in> set l. p m w = Ok (False, w)"
  shows "collect p l w = Ok ([], w)"
  using assms by (induction l) (simp_all add: M_defs)

definition nothing_to_cancel :: "mid \<Rightarrow> 'd tws_world \<Rightarrow> bool" where
  "nothing_to_cancel c w \<longleftrightarrow> (\<forall>m \<in> set (owned w ibm). \<forall>r rc. msgs w m = Some r \<longrightarrow> msgs w c = Some rc \<longrightarrow>
     \<not> class_obeys (m_class r) (m_class rc))"

lemma cancel_all_nothing:
  assumes "wf w" "nothing_to_cancel c w" "msgs w c = Some rc" "set_state ex c DESTRUCTION w = Ok (st, w')"
  shows "cancel_all_matching_requests ex c w = Ok (0, w')"
proof -
  have "\<forall>m \<in> set (owned w ibm). mbind (deref m) (\<lambda>r. ret (class_obeys (m_class r) (m_class rc))) w = Ok (False, w)"
    using assms(1-3) by (fastforce simp: wf_def owner_ok_def nothing_to_cancel_def M_defs deref_def)
  then show ?thesis
    using assms(3,4) by (simp add: cancel_all_matching_requests_def M_defs deref_def collect_nothing)
qed

text \<open>A cancel message of the back-end itself that finds nothing to cancel: marked for destruction,
  it is moved on at once.\<close>

lemma cancel_moves_on:
  fixes w :: "'d tws_world"
  assumes w: "wf w" and m: "request_at_ibm m Cancel_scanner_subscription i args MSG_INITIALIZED [] w"
    and r: "msgs w m = Some r" "m_requester r = ibm"
    and none: "nothing_to_cancel m w" "m_active_scanner_subscriptions (glob w) = []"
    and call: "tws_call te (length (tws_calls (glob w))) = 0"
  shows "\<exists>w'. set_state (tws_state_machine te (Suc (Suc (Suc (Suc n))))) m EXEC_COMMAND w = Ok (READY_TO_RECEIVE_RESPONSE, w') \<and>
    glob w' = glob (call_logged Cancel_scanner_subscription i args w) \<and>
    request_at_ibm m Cancel_scanner_subscription i args READY_TO_RECEIVE_RESPONSE [m_scanner_subscription_limit] w' \<and>
    owned w' = owned w"
proof -
  let ?k = Cancel_scanner_subscription and ?hs = "[m_scanner_subscription_limit]"
  let ?ex3 = "tws_state_machine te (Suc (Suc (Suc n)))"
  let ?w0 = "upd_msg m (enter_state EXEC_COMMAND) w"
  let ?w1 = "with_handler m m_scanner_subscription_limit ?w0"
  let ?w1' = "marked m (upd_msg m (enter_state DESTRUCTION) ?w1)"
  let ?w2 = "upd_msg m (enter_state WAIT_FOR_TRANSMIT) ?w1'"
  let ?w3 = "upd_msg m (enter_state COMMENCE_TRANSMIT) ?w2"
  let ?w4 = "upd_msg m (enter_state READY_TO_RECEIVE_RESPONSE) (call_logged ?k i args ?w3)"
  have m0: "request_at_ibm m ?k i args EXEC_COMMAND [] ?w0" using m by simp
  then have m1: "request_at_ibm m ?k i args EXEC_COMMAND ?hs ?w1"
    by (rule request_with_handler)
  then have m1': "request_at_ibm m ?k i args DESTRUCTION ?hs ?w1'" by simp
  then have m2: "request_at_ibm m ?k i args WAIT_FOR_TRANSMIT ?hs ?w2" by simp
  then have m3: "request_at_ibm m ?k i args COMMENCE_TRANSMIT ?hs ?w3" by simp
  then have m3': "request_at_ibm m ?k i args COMMENCE_TRANSMIT ?hs (call_logged ?k i args ?w3)"
    by (simp add: call_logged_def)
  then have m4: "request_at_ibm m ?k i args READY_TO_RECEIVE_RESPONSE ?hs ?w4" by simp
  obtain r1 where r1: "msgs ?w1 m = Some r1" "m_requester r1 = ibm" "m_class r1 = m_class r"
    using r by (simp add: with_handler_def)
  have wf1: "wf ?w1"
    using inv_upd_msg [of "\<lambda>_. True" ?w0 "\<lambda>r. r\<lparr>m_state_change_handlers := push_new m_scanner_subscription_limit (m_state_change_handlers r)\<rparr>" m]
      wf_enter [OF w] by (simp add: winv_def with_handler_def)
  have d: "set_state ?ex3 m DESTRUCTION ?w1 = Ok (DESTRUCTION, ?w1')"
    by (rule destruction_marks [OF wf1 m1 _ r1(1,2)]) (use none(2) in \<open>simp_all add: with_handler_def\<close>)
  have "nothing_to_cancel m ?w1"
    using none(1) by (fastforce simp: nothing_to_cancel_def with_handler_def)
  then have c: "cancel_all_matching_requests ?ex3 m ?w1 = Ok (0, ?w1')"
    by (rule cancel_all_nothing [OF wf1 _ r1(1) d])
  have "tx te (tws_state_machine te (Suc n)) m ?w3 = Ok (0, ?w4)"
    by (intro tx_ready [OF m3] limit_passes [OF m3']) (use call in \<open>simp_all add: with_handler_def\<close>)
  then have "req_f te (tws_state_machine te (Suc n)) F_commence_transmit ?k m ?w3 = Ok (0, ?w4)"
    by (simp add: req_f_commence_transmit_def transmits_def)
  moreover have "lets_pass te (tws_state_machine te (Suc n)) m COMMENCE_TRANSMIT ?w2 ?w2"
    using m2 by (auto simp: lets_pass_def request_at_ibm_def handle_state_change_def M_defs deref_def
        tws_process_def scanner_subscription_limitation_def)
  ultimately have "set_state (tws_state_machine te (Suc (Suc n))) m COMMENCE_TRANSMIT ?w2 = Ok (READY_TO_RECEIVE_RESPONSE, ?w4)"
    by (intro step_runs [OF m2 _ m2, where f = F_commence_transmit]) (use m4 in simp_all)
  then have "req_f te (tws_state_machine te (Suc (Suc n))) F_wait_for_transmit ?k m ?w2 = Ok (0, ?w4)"
    by (simp add: M_defs)
  then have "set_state ?ex3 m WAIT_FOR_TRANSMIT ?w1' = Ok (READY_TO_RECEIVE_RESPONSE, ?w4)"
    by (intro step_runs [OF m1' limit_passes [OF m1'] m1', where f = F_wait_for_transmit]) (use m4 in simp_all)
  moreover have "does_own ibm m ?w0"
    using owned_at_ibm [OF wf_enter [OF w] m0] .
  moreover obtain r0 where "msgs ?w0 m = Some r0"
    using m0 unfolding request_at_ibm_def by blast
  ultimately have "req_f te ?ex3 F_exec_command ?k m ?w0 = Ok (0, ?w4)"
    using c by (auto simp: tx_cancel_scanner_subscription_def register_handler_def M_defs deref_def with_handler_def)
  then have "set_state (tws_state_machine te (Suc (Suc (Suc (Suc n))))) m EXEC_COMMAND w = Ok (READY_TO_RECEIVE_RESPONSE, ?w4)"
    by (intro step_runs [OF m lets_pass_none [OF m] m, where f = F_exec_command]) (use m4 in simp_all)
  then show ?thesis
    using m4 by (intro exI [of _ ?w4]) (simp add: call_logged_def with_handler_def)
qed

lemma built_cancel_demo:
  "request_at_ibm 0 Cancel_scanner_subscription 7 [] MSG_INITIALIZED [] (built Cancel_scanner_subscription)"
  "map_option m_requester (msgs (built Cancel_scanner_subscription) 0) = Some 0"
  "owned (built Cancel_scanner_subscription) 0 = [0]"
  "m_active_scanner_subscriptions (glob (built Cancel_scanner_subscription)) = []"
  by (rule built_request; code_simp) code_simp+

lemma built_cancel_nothing: "nothing_to_cancel 0 (built Cancel_scanner_subscription)"
  using built_cancel_demo(1,3) by (auto simp: nothing_to_cancel_def request_at_ibm_def class_obeys_def ibm_def)

section \<open>Property\<close>



end
