(* ===== verification/Registry.thy ===== *)
theory Registry
  imports World
begin

text \<open>The register of message processors in \<open>app_manager.cpp\<close>: the comparison of its keys, the
  \<open>sender_receiver_store\<close> with its two index maps over one vector, and the registration of
  front-end and back-end threads on top of it.\<close>

section \<open>Keys\<close>

type_synonym ctx = nat   \<comment> \<open>an \<open>mg_context *\<close>\<close>
type_synonym conn = nat  \<comment> \<open>an \<open>mg_connection *\<close>\<close>

datatype optional_requester_id = UNDEFINED | IB_TWS_API_CONNECTION_THREAD | DATA_TRACKER_THREAD

fun requester_code :: "optional_requester_id \<Rightarrow> nat" where
  "requester_code UNDEFINED = 0"
| "requester_code IB_TWS_API_CONNECTION_THREAD = 1"
| "requester_code DATA_TRACKER_THREAD = 2"

datatype sendrecvr_ctxkey = Ctxkey (key_ctx: ctx) (key_id: optional_requester_id)

fun sendrecvr_ctxkey_less :: "sendrecvr_ctxkey \<Rightarrow> sendrecvr_ctxkey \<Rightarrow> bool" where
  "sendrecvr_ctxkey_less (Ctxkey c1 i1) (Ctxkey c2 i2) =
     (if c1 = c2 then requester_code i1 < requester_code i2 else c1 < c2)"

text \<open>The comparison that \<open>std::map\<close> gets is a linear order, so that two keys are the same entry
  of the map exactly when they are equal: the maps below are maps on keys.\<close>

lemma requester_code_inj: "requester_code i = requester_code j \<longleftrightarrow> i = j"
  by (cases i; cases j) auto

instantiation sendrecvr_ctxkey :: linorder
begin

definition less_sendrecvr_ctxkey :: "sendrecvr_ctxkey \<Rightarrow> sendrecvr_ctxkey \<Rightarrow> bool" where
  "less_sendrecvr_ctxkey = sendrecvr_ctxkey_less"

definition less_eq_sendrecvr_ctxkey :: "sendrecvr_ctxkey \<Rightarrow> sendrecvr_ctxkey \<Rightarrow> bool" where
  "less_eq_sendrecvr_ctxkey k1 k2 \<longleftrightarrow> \<not> sendrecvr_ctxkey_less k2 k1"

instance
proof
  fix x y z :: sendrecvr_ctxkey
  obtain c i where x: "x = Ctxkey c i" by (cases x)
  obtain d j where y: "y = Ctxkey d j" by (cases y)
  obtain e k where z: "z = Ctxkey e k" by (cases z)
  note defs = less_sendrecvr_ctxkey_def less_eq_sendrecvr_ctxkey_def x y z
  show "x < y \<longleftrightarrow> x \<le> y \<and> \<not> y \<le> x" "x \<le> x" "x \<le> y \<or> y \<le> x"
    by (auto simp: defs split: if_splits)
  show "x \<le> y \<Longrightarrow> y \<le> z \<Longrightarrow> x \<le> z" "x \<le> y \<Longrightarrow> y \<le> x \<Longrightarrow> x = y"
    by (auto simp: defs not_less requester_code_inj [symmetric] split: if_splits)
qed

end

datatype key = Ctx sendrecvr_ctxkey | Conn conn

section \<open>The store\<close>

record sender_receiver_store =
  ctx_index :: "sendrecvr_ctxkey \<Rightarrow> nat option"
  conn_index :: "conn \<Rightarrow> nat option"
  receiver_set :: "pid option list"

definition empty_store :: sender_receiver_store where
  "empty_store = \<lparr>ctx_index = (\<lambda>_. None), conn_index = (\<lambda>_. None), receiver_set = []\<rparr>"

text \<open>\<open>find\<close>, \<open>store\<close> and \<open>erase\<close> come in two overloads; \<open>std::map::insert\<close> leaves an existing
  entry alone, and an index out of range is an access out of bounds.\<close>

fun index_of :: "sender_receiver_store \<Rightarrow> key \<Rightarrow> nat option" where
  "index_of s (Ctx k) = ctx_index s k"
| "index_of s (Conn k) = conn_index s k"

definition store_find :: "sender_receiver_store \<Rightarrow> key \<Rightarrow> pid option res" where
  "store_find s k = (case index_of s k of
     None \<Rightarrow> Ok None
   | Some i \<Rightarrow> if i < length (receiver_set s) then Ok (receiver_set s ! i) else Bad Dangling)"

definition map_insert :: "('k \<Rightarrow> 'v option) \<Rightarrow> 'k \<Rightarrow> 'v \<Rightarrow> 'k \<Rightarrow> 'v option" where
  "map_insert f k v = (case f k of None \<Rightarrow> f(k \<mapsto> v) | Some _ \<Rightarrow> f)"

fun store_store :: "sender_receiver_store \<Rightarrow> key \<Rightarrow> pid option \<Rightarrow> sender_receiver_store" where
  "store_store s (Ctx k) v = (let s1 = s\<lparr>receiver_set := receiver_set s @ [v]\<rparr>;
     idx = length (receiver_set s1) - 1 in s1\<lparr>ctx_index := map_insert (ctx_index s1) k idx\<rparr>)"
| "store_store s (Conn k) v = (let s1 = s\<lparr>receiver_set := receiver_set s @ [v]\<rparr>;
     idx = length (receiver_set s1) - 1 in s1\<lparr>conn_index := map_insert (conn_index s1) k idx\<rparr>)"

definition store_erase :: "sender_receiver_store \<Rightarrow> key \<Rightarrow> sender_receiver_store res" where
  "store_erase s k = (case index_of s k of
     None \<Rightarrow> Ok s
   | Some i \<Rightarrow> if i < length (receiver_set s) then Ok (s\<lparr>receiver_set := (receiver_set s)[i := None]\<rparr>)
       else Bad Dangling)"

section \<open>The application manager's register\<close>

text \<open>\<open>next_pid\<close> stands for the heap from which \<open>new tier2_message_processor\<close> comes. The mutex makes
  each operation atomic.\<close>

record registry =
  m_transmitter_store :: sender_receiver_store
  next_pid :: pid

definition register_thread :: "key \<Rightarrow> pid option \<Rightarrow> (registry, int) M" where
  "register_thread k processor g = rbind (store_find (m_transmitter_store g) k) (\<lambda>rv.
     case rv of
       Some _ \<Rightarrow> Ok (0, g)
     | None \<Rightarrow>
         let (v, g1) = (case processor of
               Some p \<Rightarrow> (p, g)
             | None \<Rightarrow> (next_pid g, g\<lparr>next_pid := next_pid g + 1\<rparr>)) in
         Ok (0, g1\<lparr>m_transmitter_store := store_store (m_transmitter_store g1) k (Some v)\<rparr>))"

definition unregister_thread :: "key \<Rightarrow> (registry, int) M" where
  "unregister_thread k g = rbind (store_erase (m_transmitter_store g) k) (\<lambda>s.
     Ok (0, g\<lparr>m_transmitter_store := s\<rparr>))"

definition get_receiver :: "key \<Rightarrow> (registry, pid option) M" where
  "get_receiver k g = rbind (store_find (m_transmitter_store g) k) (\<lambda>rv. Ok (rv, g))"

definition register_frontend_thread :: "conn \<Rightarrow> pid option \<Rightarrow> (registry, int) M" where
  "register_frontend_thread c = register_thread (Conn c)"

definition unregister_frontend_thread :: "conn \<Rightarrow> (registry, int) M" where
  "unregister_frontend_thread c = unregister_thread (Conn c)"

definition register_backend_thread :: "conn \<Rightarrow> pid option \<Rightarrow> (registry, int) M" where
  "register_backend_thread c = register_thread (Conn c)"

definition unregister_backend_thread :: "conn \<Rightarrow> (registry, int) M" where
  "unregister_backend_thread c = unregister_thread (Conn c)"

definition register_backend_context :: "ctx \<Rightarrow> optional_requester_id \<Rightarrow> pid option \<Rightarrow> (registry, int) M" where
  "register_backend_context c i = register_thread (Ctx (Ctxkey c i))"

definition unregister_backend_context :: "ctx \<Rightarrow> optional_requester_id \<Rightarrow> (registry, int) M" where
  "unregister_backend_context c i = unregister_thread (Ctx (Ctxkey c i))"

section \<open>The contract of the store\<close>

text \<open>What the application manager relies on: lookups never fail, what is stored under a key that is
  not known yet is found, and what is erased is not found any more. A key once known stays known:
  storing under a known key changes no lookup.\<close>

locale lookup_store =
  fixes find :: "'s \<Rightarrow> 'k \<Rightarrow> 'v option res" and store :: "'s \<Rightarrow> 'k \<Rightarrow> 'v option \<Rightarrow> 's"
    and erase :: "'s \<Rightarrow> 'k \<Rightarrow> 's res" and known :: "'s \<Rightarrow> 'k \<Rightarrow> bool" and ok :: "'s \<Rightarrow> bool"
  assumes find_total: "ok s \<Longrightarrow> \<exists>v. find s k = Ok v"
    and find_unknown: "\<not> known s k \<Longrightarrow> find s k = Ok None"
    and store_ok: "ok s \<Longrightarrow> ok (store s k v)"
    and find_store: "ok s \<Longrightarrow> find (store s k v) k' = (if k' = k \<and> \<not> known s k then Ok v else find s k')"
    and known_store: "known (store s k v) k' \<longleftrightarrow> known s k' \<or> k' = k"
    and erase_total: "ok s \<Longrightarrow> \<exists>s'. erase s k = Ok s'"
    and erase_ok: "ok s \<Longrightarrow> erase s k = Ok s' \<Longrightarrow> ok s'"
    and find_erase: "ok s \<Longrightarrow> erase s k = Ok s' \<Longrightarrow> find s' k' = (if k' = k then Ok None else find s k')"
    and known_erase: "erase s k = Ok s' \<Longrightarrow> known s' = known s"
begin

text \<open>Registering stores only when the lookup finds nothing.\<close>

lemma register_keeps:
  assumes "ok s" "find s k = Ok None"
  shows "find (store s k v) k' = Ok (Some p) \<longleftrightarrow>
    find s k' = Ok (Some p) \<or> k' = k \<and> \<not> known s k \<and> v = Some p"
  using assms find_store [OF assms(1)] by auto

lemma emptied_stays_empty:
  assumes "ok s" "known s k" "find s k = Ok None"
  shows "find (store s k' v) k = Ok None \<and> known (store s k' v) k"
  using assms find_store [OF assms(1)] known_store by auto

lemma erased_is_empty:
  assumes "ok s" "known s k" "erase s k = Ok s'"
  shows "find s' k = Ok None \<and> known s' k"
  using assms find_erase known_erase by auto

lemma erase_keeps_empty:
  assumes "ok s" "known s k" "find s k = Ok None" "erase s k' = Ok s'"
  shows "find s' k = Ok None \<and> known s' k"
  using assms find_erase known_erase by auto

end

section \<open>The store satisfies it\<close>

definition store_ok :: "sender_receiver_store \<Rightarrow> bool" where
  "store_ok s \<longleftrightarrow> (\<forall>k i. index_of s k = Some i \<longrightarrow> i < length (receiver_set s)) \<and>
     (\<forall>k k' i. index_of s k = Some i \<longrightarrow> index_of s k' = Some i \<longrightarrow> k = k')"

definition store_knows :: "sender_receiver_store \<Rightarrow> key \<Rightarrow> bool" where
  "store_knows s k \<longleftrightarrow> index_of s k \<noteq> None"

lemma index_of_vector [simp]: "index_of (s\<lparr>receiver_set := l\<rparr>) k = index_of s k"
  by (cases k) auto

lemma store_store_sel [simp]:
  "receiver_set (store_store s k v) = receiver_set s @ [v]"
  "index_of (store_store s k v) = (case index_of s k of None \<Rightarrow> (index_of s)(k \<mapsto> length (receiver_set s)) | Some _ \<Rightarrow> index_of s)"
proof -
  show "receiver_set (store_store s k v) = receiver_set s @ [v]"
    by (cases k) auto
  have "index_of (store_store s k v) k' =
      (case index_of s k of None \<Rightarrow> (index_of s)(k \<mapsto> length (receiver_set s)) | Some _ \<Rightarrow> index_of s) k'" for k'
    by (cases k; cases k') (auto simp: map_insert_def split: option.split)
  then show "index_of (store_store s k v) =
      (case index_of s k of None \<Rightarrow> (index_of s)(k \<mapsto> length (receiver_set s)) | Some _ \<Rightarrow> index_of s)"
    by blast
qed

lemma store_okD: "store_ok s \<Longrightarrow> index_of s k = Some i \<Longrightarrow> i < length (receiver_set s)"
  by (simp add: store_ok_def)

lemma store_ok_inj: "store_ok s \<Longrightarrow> index_of s k = Some i \<Longrightarrow> index_of s k' = Some i \<Longrightarrow> k = k'"
  by (auto simp: store_ok_def)

lemma store_ok_store: "store_ok s \<Longrightarrow> store_ok (store_store s k v)"
  using store_okD [of s] by (auto simp: store_ok_def less_Suc_eq split: option.splits if_splits)

lemma store_erase_Ok:
  "store_ok s \<Longrightarrow> store_erase s k = Ok (case index_of s k of None \<Rightarrow> s | Some i \<Rightarrow> s\<lparr>receiver_set := (receiver_set s)[i := None]\<rparr>)"
  by (auto simp: store_erase_def dest: store_okD split: option.splits)

interpretation reg: lookup_store store_find store_store store_erase store_knows store_ok
proof
  fix s s' :: sender_receiver_store and k k' v
  show "store_ok s \<Longrightarrow> \<exists>v. store_find s k = Ok v"
    by (auto simp: store_find_def dest: store_okD split: option.splits)
  show "\<not> store_knows s k \<Longrightarrow> store_find s k = Ok None"
    by (simp add: store_knows_def store_find_def)
  show "store_ok s \<Longrightarrow> store_ok (store_store s k v)"
    by (rule store_ok_store)
  show "store_ok s \<Longrightarrow> store_find (store_store s k v) k' = (if k' = k \<and> \<not> store_knows s k then Ok v else store_find s k')"
    by (auto simp: store_find_def store_knows_def nth_append dest: store_okD split: option.splits)
  show "store_knows (store_store s k v) k' \<longleftrightarrow> store_knows s k' \<or> k' = k"
    by (auto simp: store_knows_def split: option.splits)
  show "store_ok s \<Longrightarrow> \<exists>s'. store_erase s k = Ok s'"
    by (simp add: store_erase_Ok)
  show "store_ok s \<Longrightarrow> store_erase s k = Ok s' \<Longrightarrow> store_ok s'"
    by (auto simp: store_erase_Ok store_ok_def split: option.splits)
  show "store_ok s \<Longrightarrow> store_erase s k = Ok s' \<Longrightarrow> store_find s' k' = (if k' = k then Ok None else store_find s k')"
    by (auto simp: store_erase_Ok store_find_def nth_list_update dest: store_okD store_ok_inj split: option.splits)
  show "store_erase s k = Ok s' \<Longrightarrow> store_knows s' = store_knows s"
    by (auto simp: store_erase_def store_knows_def fun_eq_iff split: option.splits if_splits)
qed

section \<open>Sequences of registrations\<close>

datatype registry_op = Register key "pid option" | Unregister key

fun registry_step :: "registry_op \<Rightarrow> (registry, int) M" where
  "registry_step (Register k v) = register_thread k v"
| "registry_step (Unregister k) = unregister_thread k"

fun registry_run :: "registry_op list \<Rightarrow> (registry, unit) M" where
  "registry_run [] = ret ()"
| "registry_run (a # as) = mseq (registry_step a) (registry_run as)"

definition registry_init :: registry where
  "registry_init = \<lparr>m_transmitter_store = empty_store, next_pid = 1\<rparr>"

abbreviation the_store :: "registry \<Rightarrow> sender_receiver_store" where
  "the_store \<equiv> m_transmitter_store"

lemma index_of_empty [simp]: "index_of empty_store k = None"
  by (cases k) (simp_all add: empty_store_def)

lemma store_ok_empty: "store_ok (the_store registry_init)"
  by (simp add: registry_init_def store_ok_def)

text \<open>What one registration or removal does, in terms of the store.\<close>

lemma register_cases:
  assumes "store_ok (the_store g)"
  obtains p where "store_find (the_store g) k = Ok (Some p)" "register_thread k v g = Ok (0, g)"
  | p g' where "store_find (the_store g) k = Ok None" "register_thread k v g = Ok (0, g')"
      "the_store g' = store_store (the_store g) k (Some p)" "v = None \<or> v = Some p"
proof (cases "store_find (the_store g) k")
  case (Ok rv)
  show ?thesis
  proof (cases rv)
    case None
    then have "store_find (the_store g) k = Ok None"
      using Ok by simp
    then show ?thesis
      using that(2) [of _ "the v"] that(2) [of _ "next_pid g"]
      by (cases v) (simp_all add: register_thread_def Let_def)
  next
    case (Some p)
    then show ?thesis
      using Ok that(1) by (simp add: register_thread_def)
  qed
next
  case (Bad e)
  then show ?thesis
    using reg.find_total [OF assms, of k] by simp
qed

lemma unregister_cases:
  assumes "store_ok (the_store g)"
  obtains g' where "unregister_thread k g = Ok (0, g')" "store_erase (the_store g) k = Ok (the_store g')"
proof -
  obtain s' where s': "store_erase (the_store g) k = Ok s'"
    using reg.erase_total [OF assms, of k] by blast
  show ?thesis
    by (rule that [of "g\<lparr>m_transmitter_store := s'\<rparr>"]) (simp_all add: unregister_thread_def s')
qed

lemma step_total:
  assumes "store_ok (the_store g)"
  shows "\<exists>g'. registry_step a g = Ok (0, g') \<and> store_ok (the_store g')"
proof (cases a)
  case (Register k v)
  then show ?thesis
    using register_cases [OF assms, of k v] assms reg.store_ok by (metis registry_step.simps(1))
next
  case (Unregister k)
  then show ?thesis
    using unregister_cases [OF assms, of k] assms reg.erase_ok by (metis registry_step.simps(2))
qed

lemma run_total:
  "store_ok (the_store g) \<Longrightarrow> \<exists>g'. registry_run as g = Ok ((), g') \<and> store_ok (the_store g')"
proof (induction as arbitrary: g)
  case (Cons a as)
  obtain g1 where "registry_step a g = Ok (0, g1)" "store_ok (the_store g1)"
    using step_total [OF Cons.prems] by blast
  then show ?case
    using Cons.IH by (simp add: M_defs)
qed (simp add: ret_def)

text \<open>A condition on the lookup of one key that every step keeps, every run keeps.\<close>

lemma run_keeps:
  assumes "\<And>a g g'. a \<in> set as \<Longrightarrow> store_ok (the_store g) \<Longrightarrow> P (the_store g) \<Longrightarrow> registry_step a g = Ok (0, g') \<Longrightarrow> P (the_store g')"
    and "store_ok (the_store g)" "P (the_store g)" "registry_run as g = Ok ((), g')"
  shows "P (the_store g') \<and> store_ok (the_store g')"
  using assms
proof (induction as arbitrary: g)
  case (Cons a as)
  obtain g1 where g1: "registry_step a g = Ok (0, g1)" "store_ok (the_store g1)"
    using step_total [OF Cons.prems(2)] by blast
  then have "registry_run as g1 = Ok ((), g')"
    using Cons.prems(4) by (simp add: M_defs)
  then show ?case
    using Cons.IH [of g1] Cons.prems(1-3) g1 by (meson list.set_intros)
qed (simp add: ret_def)

lemma get_receiver_find: "get_receiver k g = Ok (v, g) \<longleftrightarrow> store_find (the_store g) k = Ok v"
  by (cases "store_find (the_store g) k") (simp_all add: get_receiver_def)

lemma step_keeps_found:
  assumes "store_ok (the_store g)" "store_find (the_store g) k = Ok (Some p)" "a \<noteq> Unregister k"
    and "registry_step a g = Ok (0, g')"
  shows "store_find (the_store g') k = Ok (Some p)"
proof (cases a)
  case (Register k' v)
  show ?thesis
  proof (rule register_cases [OF assms(1), of k' v])
    fix q g1
    assume "store_find (the_store g) k' = Ok None" "register_thread k' v g = Ok (0, g1)"
      "the_store g1 = store_store (the_store g) k' (Some q)"
    then show ?thesis
      using assms Register reg.find_store [OF assms(1), of k' "Some q" k] by auto
  qed (use assms Register in simp)
next
  case (Unregister k')
  obtain g1 where "unregister_thread k' g = Ok (0, g1)" "store_erase (the_store g) k' = Ok (the_store g1)"
    using unregister_cases [OF assms(1)] by blast
  then show ?thesis
    using assms Unregister reg.find_erase [OF assms(1), of k' "the_store g1" k] by auto
qed

lemma step_keeps_empty:
  assumes "store_ok (the_store g)" "store_knows (the_store g) k \<and> store_find (the_store g) k = Ok None"
    and "registry_step a g = Ok (0, g')"
  shows "store_knows (the_store g') k \<and> store_find (the_store g') k = Ok None"
proof (cases a)
  case (Register k' v)
  show ?thesis
  proof (rule register_cases [OF assms(1), of k' v])
    fix q g1
    assume "register_thread k' v g = Ok (0, g1)" "the_store g1 = store_store (the_store g) k' (Some q)"
    then show ?thesis
      using assms Register reg.emptied_stays_empty [OF assms(1), of k k' "Some q"] by simp
  qed (use assms Register in simp)
next
  case (Unregister k')
  obtain g1 where "unregister_thread k' g = Ok (0, g1)" "store_erase (the_store g) k' = Ok (the_store g1)"
    using unregister_cases [OF assms(1)] by blast
  then show ?thesis
    using assms Unregister reg.erase_keeps_empty [OF assms(1), of k k' "the_store g1"] by simp
qed

definition small_registry :: registry where
  "small_registry = registry_init\<lparr>m_transmitter_store := store_store empty_store (Conn 7) (Some 1)\<rparr>"

lemma small_registry_facts:
  "store_ok (the_store small_registry)" "store_find (the_store small_registry) (Conn 7) = Ok (Some 1)"
  "\<not> store_knows (the_store small_registry) (Conn 8)"
proof -
  show "store_ok (the_store small_registry)"
    using reg.store_ok [OF store_ok_empty, of "Conn 7" "Some 1"] by (simp add: small_registry_def registry_init_def)
qed (simp_all add: small_registry_def store_find_def store_knows_def empty_store_def map_insert_def)

section \<open>Properties\<close>

text \<open>C35: no sequence of registrations and removals, in whatever order and with whatever keys,
  fails or leaves an index that points outside the vector: every later lookup returns.\<close>

theorem registry_lookups_never_dangle:
  "\<exists>g. registry_run as registry_init = Ok ((), g) \<and> (\<forall>k. \<exists>v. get_receiver k g = Ok (v, g))"
proof -
  obtain g where g: "registry_run as registry_init = Ok ((), g)" "store_ok (the_store g)"
    using run_total [OF store_ok_empty] by blast
  then show ?thesis
    using reg.find_total get_receiver_find by metis
qed

text \<open>The first processor registered under a key is the one that is found, also after further
  registrations under the same key, until the key is removed.\<close>

theorem first_registration_wins:
  assumes "store_ok (the_store g)" "\<not> store_knows (the_store g) k" "Unregister k \<notin> set as"
    and "registry_run (Register k (Some p) # as) g = Ok ((), g')"
  shows "get_receiver k g' = Ok (Some p, g')"
proof -
  have none: "store_find (the_store g) k = Ok None"
    by (rule reg.find_unknown [OF assms(2)])
  define g1 where "g1 = g\<lparr>m_transmitter_store := store_store (the_store g) k (Some p)\<rparr>"
  have g1: "register_thread k (Some p) g = Ok (0, g1)" "the_store g1 = store_store (the_store g) k (Some p)"
    by (simp_all add: register_thread_def none g1_def)
  have "store_find (the_store g1) k = Ok (Some p)" "store_ok (the_store g1)"
    using g1 assms(2) reg.find_store [OF assms(1), of k "Some p" k] reg.store_ok [OF assms(1)] by simp_all
  moreover have "registry_run as g1 = Ok ((), g')"
    using assms(4) g1(1) by (simp add: M_defs)
  ultimately have "store_find (the_store g') k = Ok (Some p) \<and> store_ok (the_store g')"
    by (intro run_keeps [where P = "\<lambda>s. store_find s k = Ok (Some p)" and g = g1 and as = as])
      (metis step_keeps_found assms(3))
  then show ?thesis
    by (simp add: get_receiver_find)
qed

theorem first_registration_wins_witness:
  "\<exists>g'. registry_run [Register (Conn 8) (Some 5), Register (Conn 8) (Some 6)] small_registry = Ok ((), g') \<and>
     get_receiver (Conn 8) g' = Ok (Some 5, g')"
proof -
  obtain g' where g': "registry_run [Register (Conn 8) (Some 5), Register (Conn 8) (Some 6)] small_registry = Ok ((), g')"
    using run_total [OF small_registry_facts(1)] by blast
  have "get_receiver (Conn 8) g' = Ok (Some 5, g')"
    by (rule first_registration_wins [OF small_registry_facts(1,3) _ g']) simp
  then show ?thesis
    using g' by blast
qed

text \<open>A key that has been removed is lost for good: whatever is registered under it later, the
  lookup keeps returning the null pointer, because \<open>std::map::insert\<close> keeps the index of the erased
  slot.\<close>

theorem reregistration_is_lost:
  assumes "store_ok (the_store g)" "store_find (the_store g) k = Ok (Some p)"
    and "registry_run (Unregister k # as) g = Ok ((), g')"
  shows "get_receiver k g' = Ok (None, g')"
proof -
  have "store_knows (the_store g) k"
    using reg.find_unknown [of "the_store g" k] assms(2) by auto
  obtain g1 where g1: "unregister_thread k g = Ok (0, g1)" "store_erase (the_store g) k = Ok (the_store g1)"
    using unregister_cases [OF assms(1)] by blast
  have "store_knows (the_store g1) k \<and> store_find (the_store g1) k = Ok None" "store_ok (the_store g1)"
    using reg.erased_is_empty [OF assms(1) \<open>store_knows (the_store g) k\<close> g1(2)] reg.erase_ok [OF assms(1) g1(2)] by auto
  moreover have "registry_run as g1 = Ok ((), g')"
    using assms(3) g1(1) by (simp add: M_defs)
  ultimately have "(store_knows (the_store g') k \<and> store_find (the_store g') k = Ok None) \<and> store_ok (the_store g')"
    by (intro run_keeps [where P = "\<lambda>s. store_knows s k \<and> store_find s k = Ok None" and g = g1 and as = as])
      (metis step_keeps_empty)
  then show ?thesis
    by (simp add: get_receiver_find)
qed

theorem reregistration_is_lost_witness:
  "\<exists>g'. registry_run [Unregister (Conn 7), Register (Conn 7) (Some 3)] small_registry = Ok ((), g') \<and>
     get_receiver (Conn 7) g' = Ok (None, g')"
proof -
  obtain g' where g': "registry_run [Unregister (Conn 7), Register (Conn 7) (Some 3)] small_registry = Ok ((), g')"
    using run_total [OF small_registry_facts(1)] by blast
  have "get_receiver (Conn 7) g' = Ok (None, g')"
    by (rule reregistration_is_lost [OF small_registry_facts(1,2) g'])
  then show ?thesis
    using g' by blast
qed

end
