(* ===== verification/MessageQueue.thy ===== *)
theory MessageQueue
  imports MessageProps
begin

text \<open>The queue of delayed and repeated messages of \<open>tier2_message_queue.h\<close> and
  \<open>tier2_message_queue.cpp\<close>: its items, which watch the state of their message, and the polling of
  the queue for the item to run next. The state of the items and of the queue is what the messages'
  world carries besides the messages.\<close>

section \<open>Items and the queue\<close>

text \<open>\<open>qi_visitors\<close>: whether the queue has registered as a visitor of the item. Times and intervals
  are seconds.\<close>

record queue_item =
  qi_request :: mid
  m_priority :: int
  m_activation_time :: int
  m_exec_run_count :: int
  m_exec_time_interval :: u32
  qi_watched :: bool

record queue =
  qitems :: "hid \<Rightarrow> queue_item option"
  next_item :: hid
  m_work_queue :: "hid list"
  m_poppos :: nat

type_synonym queue_world = "(core_class, queue) world"
type_synonym queue_exec = "(core_class, queue) exec"

definition getq :: "(queue \<Rightarrow> 'a) \<Rightarrow> (queue_world, 'a) M" where
  "getq f = gets (\<lambda>w. f (glob w))"

definition modq :: "(queue \<Rightarrow> queue) \<Rightarrow> (queue_world, unit) M" where
  "modq f = modify (\<lambda>w. w\<lparr>glob := f (glob w)\<rparr>)"

definition the_item :: "hid \<Rightarrow> (queue_world, queue_item) M" where
  "the_item h w = (case qitems (glob w) h of None \<Rightarrow> Bad Dangling | Some i \<Rightarrow> Ok (i, w))"

definition upd_item :: "hid \<Rightarrow> (queue_item \<Rightarrow> queue_item) \<Rightarrow> queue \<Rightarrow> queue" where
  "upd_item h f q = q\<lparr>qitems := (qitems q)(h := map_option f (qitems q h))\<rparr>"

section \<open>Operations of an item\<close>

text \<open>The constructor; the run count is at least one and the interval becomes unsigned.\<close>

definition new_queue_item :: "mid \<Rightarrow> int \<Rightarrow> int \<Rightarrow> int \<Rightarrow> int \<Rightarrow> (queue_world, hid) M" where
  "new_queue_item m activate run_count interval prio =
     mbind (getq next_item) (\<lambda>h.
     mseq (modq (\<lambda>q. q\<lparr>next_item := h + 1, qitems := (qitems q)(h \<mapsto>
        \<lparr>qi_request = m, m_priority = prio, m_activation_time = activate,
         m_exec_run_count = (if run_count \<le> 0 then 1 else run_count),
         m_exec_time_interval = word_of_int interval, qi_watched = False\<rparr>)\<rparr>))
     (mseq (register_handler m h) (ret h)))"

text \<open>The item as an observer of its message: the last run or an abort stops the item. The only
  visitor there is, the queue, always lets the change proceed.\<close>

definition queue_item_process :: "queue_exec \<Rightarrow> hid \<Rightarrow> mid \<Rightarrow> request_state \<Rightarrow> (queue_world, state_change) M" where
  "queue_item_process ex h m new = mbind (the_item h) (\<lambda>i.
     mseq (if new = ABORTED \<or> new = TASK_COMPLETED \<and> m_exec_run_count i \<le> 0
           then modq (upd_item h (\<lambda>i. i\<lparr>m_exec_run_count := - 1\<rparr>)) else ret ())
     (ret PROCEED))"

definition queue_hooks :: "(core_class, queue) hooks" where
  "queue_hooks = \<lparr>h_process = queue_item_process, h_f = core_f\<rparr>"

definition queue_item_abort :: "queue_exec \<Rightarrow> hid \<Rightarrow> (queue_world, unit) M" where
  "queue_item_abort ex h = mbind (the_item h) (\<lambda>i.
     mseq (modq (upd_item h (\<lambda>i. i\<lparr>m_exec_run_count := - 1\<rparr>)))
     (mseq (set_state ex (qi_request i) ABORTED) (ret ())))"

text \<open>\<open>is_eligible_for_exec\<close> and its update of the chosen item.\<close>

definition is_eligible :: "queue_item \<Rightarrow> int \<Rightarrow> bool" where
  "is_eligible i now \<longleftrightarrow> 0 < m_exec_run_count i \<and> (m_activation_time i = 0 \<or> now \<le> m_activation_time i)"

definition is_eligible_for_exec :: "queue_item \<Rightarrow> queue_item option \<Rightarrow> int \<Rightarrow> bool" where
  "is_eligible_for_exec i chosen now \<longleftrightarrow> is_eligible i now \<and>
     (case chosen of None \<Rightarrow> True | Some c \<Rightarrow> m_priority c \<le> m_priority i)"

definition calc_next_invocation :: "int \<Rightarrow> queue_item \<Rightarrow> queue_item" where
  "calc_next_invocation now i = (let i1 = i\<lparr>m_exec_run_count := m_exec_run_count i - 1\<rparr> in
     if 0 < m_exec_run_count i1 then
       let i2 = i1\<lparr>m_activation_time := m_activation_time i1 + uint (m_exec_time_interval i1)\<rparr> in
       if m_activation_time i2 < now
       then i2\<lparr>m_activation_time := now + uint (m_exec_time_interval i2)\<rparr> else i2
     else i1)"

section \<open>Operations of the queue\<close>

definition queue_push :: "queue_exec \<Rightarrow> hid \<Rightarrow> (queue_world, unit) M" where
  "queue_push ex h = mbind (the_item h) (\<lambda>i.
     mseq (set_state ex (qi_request i) EXEC_COMMAND)
     (modq (\<lambda>q. (upd_item h (\<lambda>i. i\<lparr>qi_watched := True\<rparr>) q)\<lparr>m_work_queue := m_work_queue q @ [h]\<rparr>)))"

text \<open>\<open>on_item_destroy\<close> erases an element while it iterates over the vector: after the erasure the
  iterator is invalid, and the loop goes on with it.\<close>

definition on_item_destroy :: "hid \<Rightarrow> (queue_world, unit) M" where
  "on_item_destroy h = mbind (getq m_work_queue) (\<lambda>l. if h \<in> set l then mfail Dangling else ret ())"

definition queue_item_destroy :: "hid \<Rightarrow> (queue_world, unit) M" where
  "queue_item_destroy h = mbind (the_item h) (\<lambda>i. if qi_watched i then on_item_destroy h else ret ())"

text \<open>The polling loop, from the position after the last one to the last one itself: the chosen item
  so far and its position. A call of a member of a destroyed item is a dangling access.\<close>

fun fetch_loop :: "nat \<Rightarrow> int \<Rightarrow> nat \<Rightarrow> nat \<Rightarrow> (hid \<times> queue_item) option \<Rightarrow> nat \<Rightarrow>
    (queue_world, (hid \<times> queue_item) option \<times> nat) M" where
  "fetch_loop 0 now stop i chosen cand = mfail Out_of_fuel"
| "fetch_loop (Suc n) now stop i chosen cand = mbind (getq m_work_queue) (\<lambda>l.
     mbind (the_item (l ! i)) (\<lambda>item.
     let hit = is_eligible_for_exec item (map_option snd chosen) now;
         chosen' = (if hit then Some (l ! i, item) else chosen);
         cand' = (if hit then i else cand) in
     if i = stop then ret (chosen', cand')
     else fetch_loop n now stop ((i + 1) mod length l) chosen' cand'))"

definition queue_fetch :: "nat \<Rightarrow> int \<Rightarrow> (queue_world, hid option) M" where
  "queue_fetch n now = mbind (getq (\<lambda>q. (length (m_work_queue q), m_poppos q))) (\<lambda>(size, pos).
     if size = 0 then mfail Div_by_zero
     else mbind (fetch_loop n now pos ((pos + 1) mod size) None 0) (\<lambda>(chosen, cand).
       mseq (modq (\<lambda>q. q\<lparr>m_poppos := cand\<rparr>))
       (case chosen of
          None \<Rightarrow> ret None
        | Some (h, i) \<Rightarrow> mseq (modq (upd_item h (calc_next_invocation now))) (ret (Some h)))))"

definition get_queue_depth :: "(queue_world, nat) M" where
  "get_queue_depth = getq (\<lambda>q. length (m_work_queue q))"

text \<open>The destructor takes the items off the back, one after the other, and aborts each of them.\<close>

fun queue_drain :: "queue_exec \<Rightarrow> hid list \<Rightarrow> (queue_world, unit) M" where
  "queue_drain ex [] = modq (\<lambda>q. q\<lparr>m_work_queue := [], m_poppos := 0\<rparr>)"
| "queue_drain ex (h # hs) =
     mseq (modq (\<lambda>q. q\<lparr>m_work_queue := butlast (m_work_queue q)\<rparr>))
     (mseq (queue_item_abort ex h) (queue_drain ex hs))"

definition queue_delete :: "queue_exec \<Rightarrow> (queue_world, unit) M" where
  "queue_delete ex = mbind (getq m_work_queue) (\<lambda>l. queue_drain ex (rev l))"

section \<open>The contract of the state machine\<close>

lemma ev_modq [keeps_intro]: "keeps (winv (\<lambda>_. True)) evolves (modq f)"
  unfolding modq_def keeps_def wp_modify
  by (auto simp: winv_def wf_def lists_ok_def owner_ok_def limbo_ok_def alloc_ok_def evolves_def elim!: comm_inv_cong)

lemma ev_the_item [keeps_intro]: "keeps (winv G) evolves (the_item h)"
  by (auto simp: keeps_def wp_def the_item_def split: option.splits)

interpretation queue: message_hooks queue_hooks "\<lambda>_. True"
proof
  fix ex :: queue_exec and m h s f
  assume ex: "\<And>m s. keeps (winv (\<lambda>_. True)) evolves (ex m s)"
  show "keeps (winv (\<lambda>_. True)) evolves (h_process queue_hooks ex h m s)"
    by (simp add: queue_hooks_def queue_item_process_def) (intro keeps_intro)
  have "keeps (winv (\<lambda>_. True)) evolves (core_f ex f m)"
    unfolding core_f_def
    by (intro keeps_intro) (auto intro: ev_base_f ev_cancel_f ex split: core_class.split)
  then show "keeps (winv (\<lambda>_. True)) evolves (h_f queue_hooks ex f m)"
    by (simp add: queue_hooks_def)
qed

section \<open>The polling loop\<close>

text \<open>The position of the \<open>k\<close>-th poll, and what the loop knows after \<open>j\<close> polls.\<close>

definition poll_pos :: "queue \<Rightarrow> nat \<Rightarrow> nat" where
  "poll_pos q k = (m_poppos q + 1 + k) mod length (m_work_queue q)"

definition queue_ok :: "queue \<Rightarrow> bool" where
  "queue_ok q \<longleftrightarrow> m_poppos q < length (m_work_queue q) \<and> (\<forall>h \<in> set (m_work_queue q). qitems q h \<noteq> None)"

definition polled :: "queue \<Rightarrow> nat \<Rightarrow> queue_item" where
  "polled q k = the (qitems q (m_work_queue q ! poll_pos q k))"

definition best_so_far :: "queue \<Rightarrow> int \<Rightarrow> nat \<Rightarrow> (hid \<times> queue_item) option \<Rightarrow> nat \<Rightarrow> bool" where
  "best_so_far q now j chosen cand = (case chosen of
     None \<Rightarrow> cand = 0 \<and> (\<forall>k < j. \<not> is_eligible (polled q k) now)
   | Some (h, i) \<Rightarrow> (\<exists>c < j. cand = poll_pos q c \<and> h = m_work_queue q ! cand \<and> i = polled q c \<and> is_eligible i now \<and>
       (\<forall>k < j. is_eligible (polled q k) now \<longrightarrow> m_priority (polled q k) \<le> m_priority i) \<and>
       (\<forall>k < j. c < k \<longrightarrow> is_eligible (polled q k) now \<longrightarrow> m_priority (polled q k) < m_priority i)))"

lemma poll_pos_less: "queue_ok q \<Longrightarrow> poll_pos q k < length (m_work_queue q)"
  by (auto simp: poll_pos_def queue_ok_def intro: mod_less_divisor)

lemma poll_item: "queue_ok q \<Longrightarrow> qitems q (m_work_queue q ! poll_pos q k) = Some (polled q k)"
  using poll_pos_less [of q k] by (auto simp: polled_def queue_ok_def)

lemma poll_pos_Suc: "(poll_pos q k + 1) mod length (m_work_queue q) = poll_pos q (Suc k)"
  by (simp add: poll_pos_def mod_simps)

lemma poll_pos_last:
  assumes "queue_ok q" "k < length (m_work_queue q)"
  shows "poll_pos q k = m_poppos q \<longleftrightarrow> Suc k = length (m_work_queue q)"
proof (cases "m_poppos q + 1 + k < length (m_work_queue q)")
  case False
  moreover have "m_poppos q + 1 + k - length (m_work_queue q) < length (m_work_queue q)"
    using assms by (auto simp: queue_ok_def)
  ultimately have "poll_pos q k = m_poppos q + 1 + k - length (m_work_queue q)"
    unfolding poll_pos_def by (subst le_mod_geq) (auto simp del: One_nat_def)
  then show ?thesis
    using False assms by (auto simp: queue_ok_def)
qed (use assms in \<open>auto simp: poll_pos_def queue_ok_def\<close>)

lemma best_step:
  assumes "best_so_far q now j chosen cand" "queue_ok q"
    and "hit = is_eligible_for_exec (polled q j) (map_option snd chosen) now"
  shows "best_so_far q now (Suc j) (if hit then Some (m_work_queue q ! poll_pos q j, polled q j) else chosen)
    (if hit then poll_pos q j else cand)"
proof (cases chosen)
  case None
  then show ?thesis
    using assms by (auto simp: best_so_far_def is_eligible_for_exec_def less_Suc_eq)
next
  case (Some hi)
  obtain h i where hi: "hi = (h, i)"
    by (cases hi)
  obtain c where c: "c < j" "cand = poll_pos q c" "h = m_work_queue q ! cand" "i = polled q c" "is_eligible i now"
      "\<forall>k < j. is_eligible (polled q k) now \<longrightarrow> m_priority (polled q k) \<le> m_priority i"
      "\<forall>k < j. c < k \<longrightarrow> is_eligible (polled q k) now \<longrightarrow> m_priority (polled q k) < m_priority i"
    using assms(1) by (auto simp: best_so_far_def Some hi)
  show ?thesis
  proof (cases hit)
    case True
    then show ?thesis
      using assms(3) c(6) unfolding best_so_far_def
      by (auto simp: Some hi is_eligible_for_exec_def less_Suc_eq intro!: exI [of _ j] dest: order_trans)
  next
    case False
    then have "is_eligible (polled q j) now \<longrightarrow> m_priority (polled q j) < m_priority i"
      using assms(3) by (auto simp: Some hi is_eligible_for_exec_def)
    then show ?thesis
      using False c unfolding best_so_far_def
      by (auto simp: Some hi less_Suc_eq intro!: exI [of _ c])
  qed
qed

lemma fetch_loop_best:
  assumes q: "queue_ok (glob w)" "j < length (m_work_queue (glob w))" "length (m_work_queue (glob w)) - j \<le> n"
    and best: "best_so_far (glob w) now j chosen cand"
  shows "\<exists>ch cd. fetch_loop n now (m_poppos (glob w)) (poll_pos (glob w) j) chosen cand w = Ok ((ch, cd), w) \<and>
     best_so_far (glob w) now (length (m_work_queue (glob w))) ch cd"
  using q(2,3) best
proof (induction n arbitrary: j chosen cand)
  case (Suc n)
  let ?q = "glob w"
  let ?hit = "is_eligible_for_exec (polled ?q j) (map_option snd chosen) now"
  let ?ch = "if ?hit then Some (m_work_queue ?q ! poll_pos ?q j, polled ?q j) else chosen"
  let ?cd = "if ?hit then poll_pos ?q j else cand"
  have step: "fetch_loop (Suc n) now (m_poppos ?q) (poll_pos ?q j) chosen cand w =
      (if Suc j = length (m_work_queue ?q) then Ok ((?ch, ?cd), w)
       else fetch_loop n now (m_poppos ?q) (poll_pos ?q (Suc j)) ?ch ?cd w)"
    using poll_item [OF q(1), of j] poll_pos_last [OF q(1) Suc.prems(1)] poll_pos_Suc [of ?q j]
    by (simp add: getq_def M_defs the_item_def Let_def)
  have best: "best_so_far ?q now (Suc j) ?ch ?cd"
    by (rule best_step [OF Suc.prems(3) q(1) refl])
  show ?case
  proof (cases "Suc j = length (m_work_queue ?q)")
    case True
    then show ?thesis
      using step best by auto
  next
    case False
    then show ?thesis
      using Suc.IH [OF _ _ best] Suc.prems step by auto
  qed
qed simp

lemma poll_pos_surj:
  assumes "queue_ok q" "i < length (m_work_queue q)"
  shows "\<exists>k < length (m_work_queue q). poll_pos q k = i"
proof (cases "m_poppos q < i")
  case True
  then show ?thesis
    using assms by (intro exI [of _ "i - m_poppos q - 1"]) (simp add: poll_pos_def)
next
  case False
  moreover have "m_poppos q < length (m_work_queue q)"
    using assms by (simp add: queue_ok_def)
  ultimately have eq: "m_poppos q + 1 + (i + length (m_work_queue q) - m_poppos q - 1) = i + length (m_work_queue q)"
    by simp
  then have "poll_pos q (i + length (m_work_queue q) - m_poppos q - 1) = i"
    unfolding poll_pos_def eq using assms(2) by simp
  then show ?thesis
    using False \<open>m_poppos q < length (m_work_queue q)\<close>
    by (intro exI [of _ "i + length (m_work_queue q) - m_poppos q - 1"]) simp
qed

lemma queued_is_polled:
  assumes "queue_ok q" "h \<in> set (m_work_queue q)" "qitems q h = Some i"
  shows "\<exists>k < length (m_work_queue q). polled q k = i"
proof -
  obtain j where j: "j < length (m_work_queue q)" "m_work_queue q ! j = h"
    using assms(2) by (auto simp: in_set_conv_nth)
  obtain k where "k < length (m_work_queue q)" "poll_pos q k = j"
    using poll_pos_surj [OF assms(1) j(1)] by auto
  then show ?thesis
    using j assms(3) by (auto simp: polled_def)
qed

text \<open>One poll of the queue.\<close>

lemma fetch_cases:
  assumes q: "queue_ok (glob w)" "length (m_work_queue (glob w)) \<le> n"
  shows "queue_fetch n now w = Ok (None, w\<lparr>glob := (glob w)\<lparr>m_poppos := 0\<rparr>\<rparr>) \<and>
      (\<forall>h \<in> set (m_work_queue (glob w)). \<forall>i. qitems (glob w) h = Some i \<longrightarrow> \<not> is_eligible i now) \<or>
    (\<exists>h i cand. queue_fetch n now w =
        Ok (Some h, w\<lparr>glob := upd_item h (calc_next_invocation now) ((glob w)\<lparr>m_poppos := cand\<rparr>)\<rparr>) \<and>
      cand < length (m_work_queue (glob w)) \<and> m_work_queue (glob w) ! cand = h \<and> qitems (glob w) h = Some i \<and> is_eligible i now \<and>
      (\<forall>h' \<in> set (m_work_queue (glob w)). \<forall>i'. qitems (glob w) h' = Some i' \<longrightarrow> is_eligible i' now \<longrightarrow>
         m_priority i' \<le> m_priority i))"
proof -
  let ?q = "glob w" and ?l = "m_work_queue (glob w)"
  have ne: "0 < length ?l"
    using q(1) by (auto simp: queue_ok_def)
  obtain ch cd where loop: "fetch_loop n now (m_poppos ?q) (poll_pos ?q 0) None 0 w = Ok ((ch, cd), w)"
    and best: "best_so_far ?q now (length ?l) ch cd"
    using fetch_loop_best [OF q(1) ne, of n now None 0] q(2) by (auto simp: best_so_far_def)
  have fetch: "queue_fetch n now w = mseq (modq (\<lambda>q. q\<lparr>m_poppos := cd\<rparr>))
       (case ch of None \<Rightarrow> ret None
        | Some (h, i) \<Rightarrow> mseq (modq (upd_item h (calc_next_invocation now))) (ret (Some h))) w"
    using loop ne by (simp add: queue_fetch_def getq_def M_defs poll_pos_def)
  show ?thesis
  proof (cases ch)
    case None
    then have "\<forall>k < length ?l. \<not> is_eligible (polled ?q k) now" "cd = 0"
      using best by (auto simp: best_so_far_def)
    then show ?thesis
      using fetch None queued_is_polled [OF q(1)] by (fastforce simp: modq_def M_defs)
  next
    case (Some hi)
    obtain h i where hi: "hi = (h, i)"
      by (cases hi)
    obtain c where c: "c < length ?l" "cd = poll_pos ?q c" "h = ?l ! cd" "i = polled ?q c" "is_eligible i now"
        "\<forall>k < length ?l. is_eligible (polled ?q k) now \<longrightarrow> m_priority (polled ?q k) \<le> m_priority i"
      using best by (auto simp: best_so_far_def Some hi)
    have "qitems ?q h = Some i" "cd < length ?l"
      using poll_item [OF q(1), of c] poll_pos_less [OF q(1), of c] c by simp_all
    moreover have "\<forall>h' \<in> set ?l. \<forall>i'. qitems ?q h' = Some i' \<longrightarrow> is_eligible i' now \<longrightarrow> m_priority i' \<le> m_priority i"
      using queued_is_polled [OF q(1)] c(6) by blast
    moreover have "queue_fetch n now w = Ok (Some h, w\<lparr>glob := upd_item h (calc_next_invocation now) (?q\<lparr>m_poppos := cd\<rparr>)\<rparr>)"
      using fetch by (simp add: Some hi modq_def M_defs)
    ultimately show ?thesis
      using c(3,5) by blast
  qed
qed

lemma upd_item_sel [simp]:
  "m_work_queue (upd_item h f q) = m_work_queue q" "m_poppos (upd_item h f q) = m_poppos q"
  "qitems (upd_item h f q) h' = (if h' = h then map_option f (qitems q h) else qitems q h')"
  by (simp_all add: upd_item_def)

lemma queue_ok_next:
  assumes "queue_ok q" "cand < length (m_work_queue q)"
  shows "queue_ok (upd_item h f (q\<lparr>m_poppos := cand\<rparr>))" "queue_ok (q\<lparr>m_poppos := cand\<rparr>)"
  using assms by (auto simp: queue_ok_def)

text \<open>Polling again and again, at the given times.\<close>

fun fetch_many :: "nat \<Rightarrow> int list \<Rightarrow> (queue_world, hid option list) M" where
  "fetch_many n [] = ret []"
| "fetch_many n (t # ts) = mbind (queue_fetch n t) (\<lambda>r. mbind (fetch_many n ts) (\<lambda>rs. ret (r # rs)))"

text \<open>An item left behind in the past is not touched by a poll.\<close>

lemma fetch_leaves_overdue:
  assumes q: "queue_ok (glob w)" "length (m_work_queue (glob w)) \<le> n"
    and h: "qitems (glob w) h = Some i" "m_activation_time i \<noteq> 0" "m_activation_time i < now"
  shows "\<exists>r w'. queue_fetch n now w = Ok (r, w') \<and> r \<noteq> Some h \<and> queue_ok (glob w') \<and>
    m_work_queue (glob w') = m_work_queue (glob w) \<and> qitems (glob w') h = Some i"
proof -
  have "\<not> is_eligible i now"
    using h by (simp add: is_eligible_def)
  moreover have "0 < length (m_work_queue (glob w))"
    using q(1) by (auto simp: queue_ok_def)
  ultimately show ?thesis
    using fetch_cases [OF q, of now] queue_ok_next [OF q(1)] h(1)
    by (elim disjE exE conjE) fastforce+
qed

lemma fetch_many_overdue:
  assumes "queue_ok (glob w)" "length (m_work_queue (glob w)) \<le> n"
    and "qitems (glob w) h = Some i" "m_activation_time i \<noteq> 0" "\<forall>t \<in> set ts. m_activation_time i < t"
  shows "\<exists>rs w'. fetch_many n ts w = Ok (rs, w') \<and> Some h \<notin> set rs"
  using assms
proof (induction ts arbitrary: w)
  case (Cons t ts)
  obtain r w1 where r: "queue_fetch n t w = Ok (r, w1)" "r \<noteq> Some h" "queue_ok (glob w1)"
      "m_work_queue (glob w1) = m_work_queue (glob w)" "qitems (glob w1) h = Some i"
    using fetch_leaves_overdue [OF Cons.prems(1-4), of t] Cons.prems(5) by auto
  then obtain rs w2 where "fetch_many n ts w1 = Ok (rs, w2)" "Some h \<notin> set rs"
    using Cons.IH [of w1] Cons.prems by auto
  then show ?case
    using r by (auto simp: M_defs)
qed (simp add: ret_def)

text \<open>An item that is alone in the queue and due in the future.\<close>

definition alone :: "hid \<Rightarrow> int \<Rightarrow> nat \<Rightarrow> queue \<Rightarrow> bool" where
  "alone h now k q \<longleftrightarrow> m_work_queue q = [h] \<and> m_poppos q = 0 \<and>
     (\<exists>i. qitems q h = Some i \<and> now < m_activation_time i \<and> m_exec_run_count i = int k)"

lemma fetch_alone:
  assumes "alone h now (Suc k) (glob w)" "1 \<le> n"
  shows "\<exists>w'. queue_fetch n now w = Ok (Some h, w') \<and> alone h now k (glob w')"
proof -
  obtain i where i: "m_work_queue (glob w) = [h]" "m_poppos (glob w) = 0" "qitems (glob w) h = Some i"
      "now < m_activation_time i" "m_exec_run_count i = int (Suc k)"
    using assms(1) by (auto simp: alone_def)
  have "queue_ok (glob w)"
    using i by (simp add: queue_ok_def)
  moreover have "is_eligible i now"
    using i by (simp add: is_eligible_def)
  ultimately obtain w' where w': "queue_fetch n now w = Ok (Some h, w')"
      "w' = w\<lparr>glob := upd_item h (calc_next_invocation now) ((glob w)\<lparr>m_poppos := 0\<rparr>)\<rparr>"
    using fetch_cases [of w n now] assms(2) i by fastforce
  have "0 \<le> uint (m_exec_time_interval i)"
    by simp
  then have "now < m_activation_time i + uint (m_exec_time_interval i)"
    using i(4) by linarith
  then have "now < m_activation_time (calc_next_invocation now i)" "m_exec_run_count (calc_next_invocation now i) = int k"
    using i by (auto simp: calc_next_invocation_def Let_def)
  then show ?thesis
    using w' i by (auto simp: alone_def)
qed

lemma fetch_many_alone:
  "alone h now k (glob w) \<Longrightarrow> 1 \<le> n \<Longrightarrow> \<exists>w'. fetch_many n (replicate k now) w = Ok (replicate k (Some h), w')"
proof (induction k arbitrary: w)
  case (Suc k)
  obtain w1 where "queue_fetch n now w = Ok (Some h, w1)" "alone h now k (glob w1)"
    using fetch_alone [OF Suc.prems] by auto
  then show ?case
    using Suc.IH [of w1] Suc.prems(2) by (auto simp: M_defs)
qed (simp add: ret_def)

text \<open>A queue with an overdue item 0, an item 1 due in an hour and to be run three times, and an item
  2 without a time and of higher priority.\<close>

definition item_of :: "int \<Rightarrow> int \<Rightarrow> int \<Rightarrow> queue_item" where
  "item_of act count prio = \<lparr>qi_request = 0, m_priority = prio, m_activation_time = act, m_exec_run_count = count,
     m_exec_time_interval = 3600, qi_watched = True\<rparr>"

definition demo_queue :: "hid list \<Rightarrow> queue_world" where
  "demo_queue l = \<lparr>msgs = (\<lambda>_. None), next_mid = 0, owned = (\<lambda>_. []), pulsing = (\<lambda>_. []),
     m_senders = (\<lambda>_. []), comms = (\<lambda>_. interthread_communicator 0 0 (0, 0) 0), next_cid = 0,
     m_communicators = [], m_new_communicators_count = 0, next_sock = 0, sock_q = (\<lambda>_. []), n_writes = 0,
     glob = \<lparr>qitems = [0 \<mapsto> item_of 500 1 0, 1 \<mapsto> item_of 4600 3 0, 2 \<mapsto> item_of 0 1 9], next_item = 3,
       m_work_queue = l, m_poppos = 0\<rparr>\<rparr>"

section \<open>Properties\<close>

text \<open>C36: polling a non-empty queue returns, within as many steps as there are items: an item that
  is eligible and has the highest priority of the eligible ones, whose next run has been computed, or
  nothing when no item is eligible; the queue keeps its items and its position stays inside it.\<close>

theorem fetch_takes_the_most_important:
  assumes "queue_ok (glob w)" "length (m_work_queue (glob w)) \<le> n"
  shows "\<exists>r w'. queue_fetch n now w = Ok (r, w') \<and> queue_ok (glob w') \<and> m_work_queue (glob w') = m_work_queue (glob w) \<and>
    (case r of
       None \<Rightarrow> \<forall>h \<in> set (m_work_queue (glob w)). \<forall>i. qitems (glob w) h = Some i \<longrightarrow> \<not> is_eligible i now
     | Some h \<Rightarrow> h \<in> set (m_work_queue (glob w)) \<and> (\<exists>i. qitems (glob w) h = Some i \<and> is_eligible i now \<and>
         qitems (glob w') h = Some (calc_next_invocation now i) \<and>
         (\<forall>h' \<in> set (m_work_queue (glob w)). \<forall>i'. qitems (glob w) h' = Some i' \<longrightarrow> is_eligible i' now \<longrightarrow>
            m_priority i' \<le> m_priority i)))"
proof -
  have ne: "0 < length (m_work_queue (glob w))"
    using assms(1) by (auto simp: queue_ok_def)
  show ?thesis
    using fetch_cases [OF assms, of now]
  proof (elim disjE exE conjE)
    assume "queue_fetch n now w = Ok (None, w\<lparr>glob := (glob w)\<lparr>m_poppos := 0\<rparr>\<rparr>)"
      "\<forall>h \<in> set (m_work_queue (glob w)). \<forall>i. qitems (glob w) h = Some i \<longrightarrow> \<not> is_eligible i now"
    then show ?thesis
      using queue_ok_next(2) [OF assms(1) ne] by (intro exI [of _ None]) auto
  next
    fix h i cand
    assume "queue_fetch n now w = Ok (Some h, w\<lparr>glob := upd_item h (calc_next_invocation now) ((glob w)\<lparr>m_poppos := cand\<rparr>)\<rparr>)"
      and "cand < length (m_work_queue (glob w))" "m_work_queue (glob w) ! cand = h" "qitems (glob w) h = Some i"
        "is_eligible i now" "\<forall>h' \<in> set (m_work_queue (glob w)). \<forall>i'. qitems (glob w) h' = Some i' \<longrightarrow> is_eligible i' now \<longrightarrow>
         m_priority i' \<le> m_priority i"
    then show ?thesis
      using queue_ok_next(1) [OF assms(1)] nth_mem by (intro exI [of _ "Some h"]) auto
  qed
qed

theorem fetch_takes_the_most_important_witness:
  "\<exists>w'. queue_fetch 3 1000 (demo_queue [0, 1, 2]) = Ok (Some 2, w') \<and> queue_ok (glob w')"
proof -
  let ?w = "demo_queue [0, 1, 2]"
  have q: "queue_ok (glob ?w)" "length (m_work_queue (glob ?w)) \<le> 3"
    by (simp_all add: demo_queue_def queue_ok_def)
  have it: "qitems (glob ?w) 0 = Some (item_of 500 1 0)" "qitems (glob ?w) 1 = Some (item_of 4600 3 0)"
      "qitems (glob ?w) 2 = Some (item_of 0 1 9)" "set (m_work_queue (glob ?w)) = {0, 1, 2}"
    by (simp_all add: demo_queue_def)
  obtain r w' where r: "queue_fetch 3 1000 ?w = Ok (r, w')" "queue_ok (glob w')" and c:
    "case r of
       None \<Rightarrow> \<forall>h \<in> set (m_work_queue (glob ?w)). \<forall>i. qitems (glob ?w) h = Some i \<longrightarrow> \<not> is_eligible i 1000
     | Some h \<Rightarrow> h \<in> set (m_work_queue (glob ?w)) \<and> (\<exists>i. qitems (glob ?w) h = Some i \<and> is_eligible i 1000 \<and>
         qitems (glob w') h = Some (calc_next_invocation 1000 i) \<and>
         (\<forall>h' \<in> set (m_work_queue (glob ?w)). \<forall>i'. qitems (glob ?w) h' = Some i' \<longrightarrow> is_eligible i' 1000 \<longrightarrow>
            m_priority i' \<le> m_priority i))"
    using fetch_takes_the_most_important [OF q, of 1000] by blast
  have "r = Some 2"
    using c it by (cases r) (auto simp: is_eligible_def item_of_def)
  then show ?thesis
    using r by blast
qed

text \<open>C37: an item whose activation time has passed is never run: whatever else is in the queue and
  however often it is polled from then on, the item is not returned.\<close>

theorem overdue_item_never_runs:
  assumes "queue_ok (glob w)" "length (m_work_queue (glob w)) \<le> n"
    and "qitems (glob w) h = Some i" "m_activation_time i \<noteq> 0" "\<forall>t \<in> set ts. m_activation_time i < t"
  shows "\<exists>rs w'. fetch_many n ts w = Ok (rs, w') \<and> Some h \<notin> set rs"
  by (rule fetch_many_overdue [OF assms])

theorem overdue_item_never_runs_witness:
  "\<exists>rs w'. fetch_many 3 [1000, 2000] (demo_queue [0, 1, 2]) = Ok (rs, w') \<and> Some 0 \<notin> set rs"
  by (rule overdue_item_never_runs [where i = "item_of 500 1 0"]) (auto simp: demo_queue_def queue_ok_def item_of_def)

text \<open>An item that is due in the future is run at once, and all its repetitions right after one
  another, at one and the same time, without any interval.\<close>

theorem future_item_runs_at_once:
  assumes "m_work_queue (glob w) = [h]" "m_poppos (glob w) = 0" "qitems (glob w) h = Some i"
    and "now < m_activation_time i" "m_exec_run_count i = int k" "1 \<le> n"
  shows "\<exists>w'. fetch_many n (replicate k now) w = Ok (replicate k (Some h), w')"
  by (rule fetch_many_alone) (use assms in \<open>auto simp: alone_def\<close>)

theorem future_item_runs_at_once_witness:
  "\<exists>w'. fetch_many 1 [1000, 1000, 1000] (demo_queue [1]) = Ok ([Some 1, Some 1, Some 1], w')"
  using future_item_runs_at_once [of "demo_queue [1]" 1 "item_of 4600 3 0" 1000 3 1]
  by (simp add: demo_queue_def item_of_def numeral_3_eq_3)

end
