(* ===== verification/JsonOutput.thy ===== *)
theory JsonOutput
  imports Prelude
begin

text \<open>The writer of JSON texts in \<open>json_io.cpp\<close>: its state, its operations as calls that append to
  the connection, and the document that a sequence of calls produces.\<close>

section \<open>The writer\<close>

text \<open>\<open>m_conn\<close>: whether there is a connection; \<open>printed\<close>: what \<open>mg_printf\<close> has been given for it.
  A double is printed by the format \<open>%g\<close> of the C library, which is the parameter \<open>g\<close>.\<close>

record json_output =
  m_conn :: bool
  m_indent_level :: int
  m_sibling_counter :: int
  m_counter_stack :: "int list"
  printed :: string

definition new_json_output :: "bool \<Rightarrow> json_output" where
  "new_json_output conn = \<lparr>m_conn = conn, m_indent_level = 0, m_sibling_counter = 0, m_counter_stack = [], printed = []\<rparr>"

definition mg_print :: "string \<Rightarrow> (json_output, unit) M" where
  "mg_print s = modify (\<lambda>j. j\<lparr>printed := printed j @ s\<rparr>)"

definition json_output_indent :: "(json_output, unit) M" where
  "json_output_indent = mbind (gets m_indent_level) (\<lambda>i. mg_print (replicate (nat i) (CHR 0x09)))"

definition quoted :: "string \<Rightarrow> string" where
  "quoted s = CHR 0x22 # s @ [CHR 0x22]"

definition comma_newline :: string where
  "comma_newline = [CHR '','', CHR 0x0A]"

text \<open>The start that all members share: a separator after the first one, and the indentation.\<close>

definition begin_member :: "(json_output, unit) M" where
  "begin_member = mseq (massert m_conn)
     (mbind (gets m_sibling_counter) (\<lambda>n.
     mseq (if 0 < n then mg_print comma_newline else ret ()) json_output_indent))"

definition add_text :: "string \<Rightarrow> string \<Rightarrow> (json_output, unit) M" where
  "add_text name v = mseq begin_member
     (mseq (mg_print (quoted name @ '': '' @ v))
     (modify (\<lambda>j. j\<lparr>m_sibling_counter := m_sibling_counter j + 1\<rparr>)))"

definition add_sibling_string :: "string \<Rightarrow> string \<Rightarrow> (json_output, unit) M" where
  "add_sibling_string name value = add_text name (quoted value)"

definition add_sibling_int :: "string \<Rightarrow> int \<Rightarrow> (json_output, unit) M" where
  "add_sibling_int name value = add_text name (show_int value)"

definition add_sibling_double :: "('d \<Rightarrow> string) \<Rightarrow> string \<Rightarrow> 'd \<Rightarrow> (json_output, unit) M" where
  "add_sibling_double g name value = add_text name (g value)"

definition push_level :: "string \<Rightarrow> (json_output, unit) M" where
  "push_level name = mseq begin_member
     (mseq (mg_print (quoted name @ '': {'' @ [CHR 0x0A]))
     (modify (\<lambda>j. j\<lparr>m_counter_stack := m_counter_stack j @ [m_sibling_counter j], m_sibling_counter := 0,
        m_indent_level := m_indent_level j + 1\<rparr>)))"

definition end_members :: "(json_output, unit) M" where
  "end_members = mbind (gets m_sibling_counter) (\<lambda>n. if 0 < n then mg_print [CHR 0x0A] else ret ())"

definition pop_level :: "(json_output, unit) M" where
  "pop_level = mseq (massert m_conn)
     (mseq (massert (\<lambda>j. 1 < m_indent_level j))
     (mseq end_members
     (mseq (modify (\<lambda>j. j\<lparr>m_indent_level := m_indent_level j - 1\<rparr>))
     (mseq (massert (\<lambda>j. m_counter_stack j \<noteq> []))
     (mseq (modify (\<lambda>j. j\<lparr>m_sibling_counter := last (m_counter_stack j), m_counter_stack := butlast (m_counter_stack j)\<rparr>))
     (mseq json_output_indent
     (mseq (mg_print ''}'')
     (modify (\<lambda>j. j\<lparr>m_sibling_counter := m_sibling_counter j + 1\<rparr>)))))))))"

definition json_start :: "(json_output, unit) M" where
  "json_start = mseq (massert m_conn)
     (mseq (mg_print [CHR ''{'', CHR 0x0A])
     (modify (\<lambda>j. j\<lparr>m_indent_level := 1, m_sibling_counter := 0, m_counter_stack := []\<rparr>)))"

definition json_finish :: "(json_output, unit) M" where
  "json_finish = mseq (massert m_conn)
     (mseq end_members
     (mseq (modify (\<lambda>j. j\<lparr>m_indent_level := m_indent_level j - 1\<rparr>))
     (mseq json_output_indent (mg_print ''}''))))"

text \<open>\<open>begin_object\<close>, \<open>end_object\<close>, \<open>begin_array\<close> and \<open>end_array\<close> only check the connection.\<close>

definition json_bracket :: "(json_output, unit) M" where
  "json_bracket = massert m_conn"

section \<open>Documents\<close>

text \<open>What can be written: members with a name and a text, an integer, a double or further members
  as value. \<open>write_member\<close> is the sequence of calls that writes one, \<open>render_member\<close> the text that
  a reader of the document expects.\<close>

datatype 'd json = JText string | JInt int | JDouble 'd | JObject "(string \<times> 'd json) list"

fun write_member :: "('d \<Rightarrow> string) \<Rightarrow> string \<times> 'd json \<Rightarrow> (json_output, unit) M"
  and write_members :: "('d \<Rightarrow> string) \<Rightarrow> (string \<times> 'd json) list \<Rightarrow> (json_output, unit) M" where
  "write_member g (n, JText s) = add_sibling_string n s"
| "write_member g (n, JInt i) = add_sibling_int n i"
| "write_member g (n, JDouble d) = add_sibling_double g n d"
| "write_member g (n, JObject ms) = mseq (push_level n) (mseq (write_members g ms) pop_level)"
| "write_members g [] = ret ()"
| "write_members g (m # ms) = mseq (write_member g m) (write_members g ms)"

definition write_document :: "('d \<Rightarrow> string) \<Rightarrow> (string \<times> 'd json) list \<Rightarrow> (json_output, unit) M" where
  "write_document g ms = mseq json_start (mseq (write_members g ms) json_finish)"

definition tabs :: "nat \<Rightarrow> string" where
  "tabs n = replicate n (CHR 0x09)"

definition block :: "nat \<Rightarrow> string list \<Rightarrow> string" where
  "block l ts = CHR ''{'' # CHR 0x0A # sep_by comma_newline ts @ (if ts = [] then [] else [CHR 0x0A]) @ tabs l @ ''}''"

fun render_member :: "('d \<Rightarrow> string) \<Rightarrow> nat \<Rightarrow> string \<times> 'd json \<Rightarrow> string" where
  "render_member g l (n, JText s) = tabs l @ quoted n @ '': '' @ quoted s"
| "render_member g l (n, JInt i) = tabs l @ quoted n @ '': '' @ show_int i"
| "render_member g l (n, JDouble d) = tabs l @ quoted n @ '': '' @ g d"
| "render_member g l (n, JObject ms) = tabs l @ quoted n @ '': '' @ block l (map (render_member g (Suc l)) ms)"

definition render :: "('d \<Rightarrow> string) \<Rightarrow> (string \<times> 'd json) list \<Rightarrow> string" where
  "render g ms = block 0 (map (render_member g 1) ms)"

section \<open>Writing is rendering\<close>

text \<open>What a member prints behind those before it, and the state it leaves.\<close>

definition wrote :: "json_output \<Rightarrow> string list \<Rightarrow> json_output" where
  "wrote j ts = j\<lparr>printed := printed j @ (if 0 < m_sibling_counter j then concat (map (\<lambda>t. comma_newline @ t) ts)
      else sep_by comma_newline ts), m_sibling_counter := m_sibling_counter j + int (length ts)\<rparr>"

lemma wrote_Nil [simp]: "wrote j [] = j"
  by (simp add: wrote_def)

lemma wrote_sel [simp]:
  "m_conn (wrote j ts) = m_conn j" "m_indent_level (wrote j ts) = m_indent_level j"
  "m_counter_stack (wrote j ts) = m_counter_stack j" "m_sibling_counter (wrote j ts) = m_sibling_counter j + int (length ts)"
  by (simp_all add: wrote_def)

lemma wrote_append:
  assumes "0 \<le> m_sibling_counter j"
  shows "wrote (wrote j [t]) ts = wrote j (t # ts)"
  using assms by (cases "0 < m_sibling_counter j") (auto simp: wrote_def sep_by_Cons)

lemma add_text_wrote:
  assumes "m_conn j" "m_indent_level j = int l" "0 \<le> m_sibling_counter j"
  shows "add_text n v j = Ok ((), wrote j [tabs l @ quoted n @ '': '' @ v])"
  using assms by (cases "0 < m_sibling_counter j")
    (simp_all add: add_text_def begin_member_def json_output_indent_def mg_print_def tabs_def wrote_def M_defs)

lemmas json_defs = begin_member_def json_output_indent_def mg_print_def end_members_def M_defs

lemma object_wrote:
  assumes "m_conn j" "m_indent_level j = int l" "0 < l" "0 \<le> m_sibling_counter j"
    and members: "\<And>j. m_conn j \<Longrightarrow> m_indent_level j = int l + 1 \<Longrightarrow> 0 \<le> m_sibling_counter j \<Longrightarrow>
      f j = Ok ((), wrote j ts)"
  shows "mseq (push_level n) (mseq f pop_level) j = Ok ((), wrote j [tabs l @ quoted n @ '': '' @ block l ts])"
proof -
  let ?p = "if 0 < m_sibling_counter j then comma_newline else []"
  let ?j1 = "j\<lparr>printed := printed j @ ?p @ tabs l @ quoted n @ '': {'' @ [CHR 0x0A],
      m_counter_stack := m_counter_stack j @ [m_sibling_counter j], m_sibling_counter := 0, m_indent_level := int l + 1\<rparr>"
  have "push_level n j = Ok ((), ?j1)"
    using assms(1,2) by (simp add: push_level_def json_defs tabs_def)
  moreover have "f ?j1 = Ok ((), wrote ?j1 ts)"
    using assms(1) by (intro members) simp_all
  moreover have "pop_level (wrote ?j1 ts) = Ok ((), wrote j [tabs l @ quoted n @ '': '' @ block l ts])"
    using assms(1-3) by (simp add: pop_level_def json_defs) (simp add: wrote_def block_def tabs_def)
  ultimately show ?thesis
    by (simp add: M_defs)
qed

lemma write_wrote:
  "m_conn j \<Longrightarrow> m_indent_level j = int l \<Longrightarrow> 0 < l \<Longrightarrow> 0 \<le> m_sibling_counter j \<Longrightarrow>
    write_member g m j = Ok ((), wrote j [render_member g l m])"
  "m_conn j \<Longrightarrow> m_indent_level j = int l \<Longrightarrow> 0 < l \<Longrightarrow> 0 \<le> m_sibling_counter j \<Longrightarrow>
    write_members g ms j = Ok ((), wrote j (map (render_member g l) ms))"
proof (induction g m and g ms arbitrary: j l and j l rule: write_member_write_members.induct)
  case (4 g n ms)
  have "write_members g ms i = Ok ((), wrote i (map (render_member g (Suc l)) ms))"
    if "m_conn i" "m_indent_level i = int l + 1" "0 \<le> m_sibling_counter i" for i
    using 4(1) [of i "Suc l"] that by simp
  then show ?case
    using object_wrote [OF 4(2-5), of "write_members g ms"] by simp
next
  case (6 g m ms)
  then show ?case
    using wrote_append [of j "render_member g l m"] by (simp add: M_defs)
qed (simp_all add: add_sibling_string_def add_sibling_int_def add_sibling_double_def add_text_wrote ret_def)

lemma document_wrote:
  assumes "m_conn j"
  shows "write_document g ms j =
    Ok ((), j\<lparr>printed := printed j @ render g ms, m_indent_level := 0, m_sibling_counter := int (length ms), m_counter_stack := []\<rparr>)"
proof -
  let ?j1 = "j\<lparr>printed := printed j @ [CHR ''{'', CHR 0x0A], m_indent_level := 1, m_sibling_counter := 0, m_counter_stack := []\<rparr>"
  have "json_start j = Ok ((), ?j1)"
    using assms by (simp add: json_start_def json_defs)
  moreover have "write_members g ms ?j1 = Ok ((), wrote ?j1 (map (render_member g 1) ms))"
    using assms by (intro write_wrote(2)) simp_all
  ultimately show ?thesis
    using assms by (simp add: write_document_def json_finish_def json_defs) (simp add: wrote_def render_def block_def tabs_def)
qed

section \<open>Properties\<close>

text \<open>C23: with a connection, the calls that write a document never run into an assertion, whatever
  its members and however deep they are nested; they print exactly the rendering of the document, with
  every comma, brace and indentation in its place, and leave no open level.\<close>

theorem json_writer_renders:
  assumes "m_conn j"
  shows "\<exists>j'. write_document g ms j = Ok ((), j') \<and> printed j' = printed j @ render g ms \<and>
    m_indent_level j' = 0 \<and> m_counter_stack j' = []"
  using document_wrote [OF assms, of g ms] by simp

theorem json_writer_renders_witness:
  "\<exists>j'. write_document show_int [(''a'', JInt 1), (''b'', JObject [(''c'', JText ''x'')])] (new_json_output True) = Ok ((), j') \<and>
     printed j' = render show_int [(''a'', JInt 1), (''b'', JObject [(''c'', JText ''x'')])]"
  using json_writer_renders [of "new_json_output True"] by (auto simp: new_json_output_def)

text \<open>Values are not escaped: a text value with a quote in it prints the same document as two
  members, so that the reader of the document cannot tell one from the other.\<close>

theorem json_text_can_forge_members:
  "render g [(a, JText (x @ [CHR 0x22, CHR '','', CHR 0x0A, CHR 0x09, CHR 0x22] @ b @ [CHR 0x22] @ '': '' @ [CHR 0x22] @ y))] =
   render g [(a, JText x), (b, JText y)]"
  by (simp add: render_def block_def quoted_def comma_newline_def tabs_def)

end
