(* ===== verification/SupportCode.thy ===== *)
theory SupportCode
  imports Prelude
begin

text \<open>The string and path functions of \<open>support-code.cpp\<close>: splitting a path into directory and file
  name, the bounded copies, putting a path together in a buffer, and reducing \<open>/./\<close> and \<open>/../\<close> in it.
  A C string is the list of its characters, without the terminating NUL; a pointer into it is an index.\<close>

type_synonym size_t = "64 word"

section \<open>File and directory names\<close>

text \<open>\<open>filename\<close> looks for the last of each delimiter in turn, in what is left by the one before.\<close>

definition after_last :: "char \<Rightarrow> string \<Rightarrow> string" where
  "after_last c s = rev (takeWhile (\<lambda>x. x \<noteq> c) (rev s))"

definition filename :: "string \<Rightarrow> string" where
  "filename path = foldl (\<lambda>p c. after_last c p) path [CHR ''/'', CHR 0x5C, CHR '':'']"

definition slash :: "char \<Rightarrow> bool" where
  "slash c \<longleftrightarrow> c = CHR ''/'' \<or> c = CHR 0x5C"

text \<open>The loop of \<open>dirname\<close>: from the character before the file name backwards over all slashes;
  \<open>n\<close> is the index of the character looked at plus one, so that 0 is the place before the string.\<close>

fun skip_slashes :: "string \<Rightarrow> nat \<Rightarrow> nat" where
  "skip_slashes path 0 = 0"
| "skip_slashes path (Suc n) = (if slash (path ! n) then skip_slashes path n else Suc n)"

definition dirname :: "string \<Rightarrow> string option" where
  "dirname path = (let n = skip_slashes path (length path - length (filename path)) in
     if 1 < n \<and> path ! (n - 1) \<noteq> CHR '':'' then Some (take n path) else None)"

section \<open>Copying\<close>

definition D :: "char \<Rightarrow> char" where
  "D c = (if c = CHR 0x5C then CHR ''/'' else c)"

text \<open>The bounded copies give the characters written before the NUL. The length is unsigned and
  decremented before it is looked at.\<close>

fun strnmov_loop :: "size_t \<Rightarrow> string \<Rightarrow> string" where
  "strnmov_loop n [] = []"
| "strnmov_loop n (c # cs) = (if 0 < n then D c # strnmov_loop (n - 1) cs else [])"

definition strnmov_D :: "string \<Rightarrow> size_t \<Rightarrow> string" where
  "strnmov_D src dstlen = strnmov_loop (dstlen - 1) src"

definition lower :: "char \<Rightarrow> char" where
  "lower c = (if (65 :: nat) \<le> of_char c \<and> of_char c \<le> (90 :: nat) then char_of (of_char c + (32 :: nat)) else c)"

definition strtolower :: "string \<Rightarrow> string" where
  "strtolower s = map lower s"

fun strntolower_loop :: "size_t \<Rightarrow> string \<Rightarrow> string" where
  "strntolower_loop n [] = []"
| "strntolower_loop n (c # cs) = (if n \<noteq> 0 then lower c # strntolower_loop (n - 1) cs else [])"

definition strntolower :: "size_t \<Rightarrow> string \<Rightarrow> string" where
  "strntolower len s = strntolower_loop (len - 1) s"

section \<open>Reducing a path\<close>

text \<open>The index of the first \<open>/.\<close> at or after \<open>d\<close>, and the loop that goes back from \<open>o\<close> to the start
  of the parent directory. Reading behind the end gives the NUL.\<close>

definition at :: "string \<Rightarrow> nat \<Rightarrow> char" where
  "at s i = (if i < length s then s ! i else CHR 0x00)"

fun strstr_dot :: "string \<Rightarrow> nat option" where
  "strstr_dot (c # e # cs) = (if c = CHR ''/'' \<and> e = CHR ''.'' then Some 0 else map_option Suc (strstr_dot (e # cs)))"
| "strstr_dot [c] = None"
| "strstr_dot [] = None"

fun parent_start :: "string \<Rightarrow> nat \<Rightarrow> nat" where
  "parent_start s 0 = 0"
| "parent_start s (Suc i) = (if at s (Suc i) \<noteq> CHR ''/'' \<and> at s (Suc i) \<noteq> CHR '':'' then parent_start s i else Suc i)"

lemma strstr_dot_at: "strstr_dot s = Some r \<Longrightarrow> Suc r < length s \<and> s ! r = CHR ''/'' \<and> s ! Suc r = CHR ''.''"
  by (induction s arbitrary: r rule: strstr_dot.induct) (auto split: if_splits)

lemma strstr_dot_drop: "strstr_dot (drop d s) = Some r \<Longrightarrow> Suc (d + r) < length s"
  using strstr_dot_at [of "drop d s" r] by auto

lemma parent_start_le: "parent_start s i \<le> i"
  by (induction i) auto

text \<open>One round of the loop: \<open>None\<close> when it is left, otherwise the path and the position to go on at.\<close>

definition reduce_step :: "string \<Rightarrow> nat \<Rightarrow> (string \<times> nat) option" where
  "reduce_step s d = (case strstr_dot (drop d s) of
     None \<Rightarrow> None
   | Some i \<Rightarrow> let r = d + i in
       if at s (r + 2) = CHR ''/'' then Some (take (r + 1) s @ drop (r + 3) s, r)
       else if at s (r + 2) = CHR ''.'' \<and> at s (r + 3) = CHR ''/'' then
         if 0 < r then
           let p = parent_start s (r - 1) in
           if at s p = CHR ''/'' \<and> take 3 (drop (p + 1) s) \<noteq> ''../'' then Some (take (p + 1) s @ drop (r + 4) s, p)
           else Some (s, r + 3)
         else Some (s, r + 3)
       else Some (s, r + 2))"

lemma at_end: "at s i \<noteq> CHR 0x00 \<Longrightarrow> i < length s"
  by (auto simp: at_def split: if_splits)

lemma reduce_step_smaller:
  assumes "reduce_step s d = Some (s', d')"
  shows "length s' < length s \<or> s' = s \<and> d < d' \<and> d' \<le> length s"
proof -
  obtain i where i: "strstr_dot (drop d s) = Some i"
    using assms by (cases "strstr_dot (drop d s)") (auto simp: reduce_step_def)
  have len: "Suc (d + i) < length s"
    by (rule strstr_dot_drop [OF i])
  have slash: "r < length s" if "at s r = CHR ''/''" for r
    using at_end [of s r] that by simp
  show ?thesis
    using assms i len slash [of "d + i + 2"] slash [of "d + i + 3"] parent_start_le [of s "d + i - 1"]
    by (auto simp: reduce_step_def Let_def split: if_splits)
qed

function reduce_path :: "string \<Rightarrow> nat \<Rightarrow> string" where
  "reduce_path s d = (case reduce_step s d of None \<Rightarrow> s | Some (s', d') \<Rightarrow> reduce_path s' d')"
  by pat_completeness auto
termination
  by (relation "inv_image (less_than <*lex*> less_than) (\<lambda>(s, d). (length s, length s - d))")
    (auto dest!: sym [of "Some _"] reduce_step_smaller)

declare reduce_path.simps [simp del]

section \<open>Putting a path together\<close>

text \<open>A write behind the end of the buffer of \<open>cap\<close> bytes is an access out of bounds; \<open>put\<close> writes a
  text and the NUL behind what is there.\<close>

definition put :: "size_t \<Rightarrow> string \<Rightarrow> string \<Rightarrow> string res" where
  "put cap d t = (if length d + length t < unat cap then Ok (d @ t) else Bad Dangling)"

fun concat_loop :: "size_t \<Rightarrow> size_t \<Rightarrow> string \<Rightarrow> string list \<Rightarrow> string res" where
  "concat_loop cap rem d [] = Ok d"
| "concat_loop cap rem d (p # ps) =
     (if length d + 2 < unat cap then
        if p = [] then concat_loop cap rem d ps
        else
          let sep = D (last d) \<noteq> CHR ''/'' \<and> D (hd p) \<noteq> CHR ''/'';
              d1 = (if sep then d @ ''/'' else d);
              rem1 = (if sep then rem - 1 else rem) in
          rbind (put cap d1 (strnmov_D p rem1)) (\<lambda>d2. concat_loop cap rem1 d2 ps)
      else Ok d)"

definition concat_path :: "bool \<Rightarrow> size_t \<Rightarrow> string \<Rightarrow> string list \<Rightarrow> string option res" where
  "concat_path buf bufsize path ps =
     (if \<not> buf \<or> bufsize < 2 then Ok None
      else rbind (put bufsize [] (strnmov_D path bufsize)) (\<lambda>d.
        if d = [] then Ok None
        else rbind (concat_loop bufsize (bufsize - of_nat (length d) - 1) d ps) (\<lambda>d1.
          if unat bufsize \<le> length d1 then Ok None
          else Ok (Some (reduce_path d1 0)))))"

section \<open>Directories and files\<close>

text \<open>The calls of the operating system: \<open>CreateDirectoryA\<close> gives the error code, 0 when the directory
  was created, and \<open>MoveFileA\<close> likewise; \<open>'fs\<close> is the file system. \<open>PATH_MAX\<close> is a parameter.\<close>

record 'fs files =
  CreateDirectoryA :: "string \<Rightarrow> 'fs \<Rightarrow> nat \<times> 'fs"
  MoveFileA :: "string \<Rightarrow> string \<Rightarrow> 'fs \<Rightarrow> nat \<times> 'fs"

definition ERROR_PATH_NOT_FOUND :: nat where "ERROR_PATH_NOT_FOUND = 3"
definition ERROR_FILE_EXISTS :: nat where "ERROR_FILE_EXISTS = 80"
definition ERROR_ALREADY_EXISTS :: nat where "ERROR_ALREADY_EXISTS = 183"

lemma skip_slashes_spec:
  "skip_slashes path n \<le> n \<and> (\<forall>i. skip_slashes path n \<le> i \<longrightarrow> i < n \<longrightarrow> slash (path ! i)) \<and>
   (0 < skip_slashes path n \<longrightarrow> \<not> slash (path ! (skip_slashes path n - 1)))"
  by (induction n) (auto simp: less_Suc_eq)

text \<open>The file name is what follows the last delimiter of any kind.\<close>

definition delimiter :: "char \<Rightarrow> bool" where
  "delimiter c \<longleftrightarrow> c = CHR ''/'' \<or> c = CHR 0x5C \<or> c = CHR '':''"

lemma filename_last_part: "filename path = rev (takeWhile (\<lambda>c. \<not> delimiter c) (rev path))"
  by (simp add: filename_def after_last_def takeWhile_takeWhile delimiter_def)

lemma filename_prefix: "take (length path - length (filename path)) path @ filename path = path"
proof -
  let ?P = "\<lambda>c. \<not> delimiter c"
  have "rev (dropWhile ?P (rev path)) @ rev (takeWhile ?P (rev path)) = rev (rev path)"
    by (metis rev_append takeWhile_dropWhile_id)
  then have split: "path = rev (dropWhile ?P (rev path)) @ filename path"
    by (simp add: filename_last_part)
  show ?thesis
    by (metis append_eq_conv_conj add_diff_cancel_right' length_append split)
qed

lemma before_filename:
  assumes "0 < length path - length (filename path)"
  shows "delimiter (path ! (length path - length (filename path) - 1))"
proof -
  let ?P = "\<lambda>c. \<not> delimiter c"
  have "length (takeWhile ?P (rev path)) < length (rev path)"
    using assms by (simp add: filename_last_part)
  then have "delimiter (rev path ! length (takeWhile ?P (rev path)))"
    using nth_length_takeWhile [of ?P "rev path"] by simp
  then show ?thesis
    using assms by (simp add: rev_nth filename_last_part)
qed

lemma dirname_parts:
  assumes "dirname path = Some d"
  shows "\<exists>seps. path = d @ seps @ filename path \<and> seps \<noteq> [] \<and> list_all slash seps \<and> 1 < length d \<and> \<not> delimiter (last d)"
proof -
  let ?m = "length path - length (filename path)"
  let ?r = "skip_slashes path ?m"
  have r: "1 < ?r" "path ! (?r - 1) \<noteq> CHR '':''" "d = take ?r path"
    using assms by (auto simp: dirname_def Let_def split: if_splits)
  have spec: "?r \<le> ?m" "\<forall>i. ?r \<le> i \<longrightarrow> i < ?m \<longrightarrow> slash (path ! i)" "\<not> slash (path ! (?r - 1))"
    using skip_slashes_spec [of path ?m] r(1) by auto
  have "\<not> delimiter (path ! (?r - 1))"
    using r(2) spec(3) by (simp add: delimiter_def slash_def)
  moreover have "last d = path ! (?r - 1)"
    using r spec(1) by (subst last_conv_nth) auto
  moreover have "?r \<noteq> ?m"
    using before_filename [of path] r(1) calculation(1) by fastforce
  moreover have "path = d @ drop ?r (take ?m path) @ filename path"
    using filename_prefix [of path] r(3) spec(1)
    by (metis append.assoc append_take_drop_id min.absorb1 take_take)
  moreover have "list_all slash (drop ?r (take ?m path))"
    using spec(2) by (auto simp: list_all_length)
  ultimately show ?thesis
    using r spec(1) by (intro exI [of _ "drop ?r (take ?m path)"]) auto
qed

lemma dirname_shorter: "dirname path = Some d \<Longrightarrow> length d < length path"
  using dirname_parts [of path d] by (metis length_append length_greater_0_conv less_add_same_cancel1 trans_less_add1)

function create_directories :: "'fs files \<Rightarrow> string \<Rightarrow> 'fs \<Rightarrow> nat \<times> 'fs" where
  "create_directories os path fs = (let (err, fs1) = CreateDirectoryA os path fs in
     if err = 0 then (0, fs1)
     else if err = ERROR_ALREADY_EXISTS then (0, fs1)
     else if err = ERROR_PATH_NOT_FOUND then
       (case dirname path of
          Some d \<Rightarrow> let (rv, fs2) = create_directories os d fs1 in
            if rv = 0 then CreateDirectoryA os path fs2 else (rv, fs2)
        | None \<Rightarrow> (0, fs1))
     else (err, fs1))"
  by pat_completeness auto
termination
  by (relation "measure (\<lambda>(os, path, fs). length path)") (auto dest: dirname_shorter)

declare create_directories.simps [simp del]

text \<open>\<open>strncpy\<close> leaves the copy without a NUL when the path does not fit.\<close>

definition movefile :: "'fs files \<Rightarrow> nat \<Rightarrow> string \<Rightarrow> string \<Rightarrow> 'fs \<Rightarrow> (nat \<times> 'fs) res" where
  "movefile os PATH_MAXSIZE spath dpath fs =
     (if PATH_MAXSIZE \<le> length dpath then Bad Dangling
      else
        let (rv, fs1) = (case dirname dpath of Some d \<Rightarrow> create_directories os d fs | None \<Rightarrow> (0, fs)) in
        if rv \<noteq> 0 then Ok (rv, fs1)
        else let (rv, fs2) = MoveFileA os spath dpath fs1 in
          Ok (if rv = ERROR_FILE_EXISTS \<or> rv = ERROR_ALREADY_EXISTS then 0 else rv, fs2))"

text \<open>\<open>writefile\<close>: \<open>io\<close> opens the file (or the standard output for an empty name) and writes, and gives
  the length written or -1.\<close>

definition writefile ::
  "'fs files \<Rightarrow> (string \<Rightarrow> bool \<Rightarrow> string \<Rightarrow> 'fs \<Rightarrow> int \<times> 'fs) \<Rightarrow> size_t \<Rightarrow> string \<Rightarrow> string \<Rightarrow> bool \<Rightarrow> 'fs \<Rightarrow> int \<times> 'fs" where
  "writefile os io PATH_MAXSIZE path buf append_mode fs =
     (let (rv, fs1) = (case dirname (strnmov_D path PATH_MAXSIZE) of
         Some d \<Rightarrow> create_directories os d fs | None \<Rightarrow> (0, fs)) in
      if rv \<noteq> 0 then (int rv, fs1) else io path append_mode buf fs1)"

section \<open>What the reduction leaves\<close>

definition dot_segment :: "string \<Rightarrow> nat \<Rightarrow> bool" where
  "dot_segment s i \<longleftrightarrow> at s i = CHR ''/'' \<and> at s (i + 1) = CHR ''.'' \<and> at s (i + 2) = CHR ''/''"

lemma at_drop: "at (drop d s) i = at s (d + i)"
  by (auto simp: at_def)

lemma at_cut: "k < length s \<Longrightarrow> i \<le> k \<Longrightarrow> at (take (Suc k) s @ drop m s) i = at s i"
  by (auto simp: at_def nth_append min_def)

lemma at_simps [simp]: "at [] i = CHR 0x00" "at (c # s) 0 = c" "at (c # s) (Suc i) = at s i"
  by (simp_all add: at_def)

lemma strstr_dot_first:
  "(case strstr_dot s of None \<Rightarrow> True | Some n \<Rightarrow> i < n) \<Longrightarrow> \<not> (at s i = CHR ''/'' \<and> at s (Suc i) = CHR ''.'')"
proof (induction s arbitrary: i rule: strstr_dot.induct)
  case (1 c e cs)
  show ?case
  proof (cases i)
    case (Suc j)
    then show ?thesis
      using 1(1) [of j] 1(2) by (auto split: if_splits option.splits)
  qed (use 1(2) in \<open>auto split: if_splits option.splits\<close>)
next
  case (2 c)
  then show ?case
    by (cases i) auto
qed simp

lemma reduce_step_clean:
  assumes "reduce_step s d = Some (s', d')" "\<And>i. i < d \<Longrightarrow> \<not> dot_segment s i" "i < d'"
  shows "\<not> dot_segment s' i"
proof -
  obtain k where k: "strstr_dot (drop d s) = Some k"
    using assms(1) by (cases "strstr_dot (drop d s)") (auto simp: reduce_step_def)
  define r where "r = d + k"
  have len: "Suc r < length s"
    using strstr_dot_drop [OF k] by (simp add: r_def)
  have dot: "at s r = CHR ''/''" "at s (Suc r) = CHR ''.''"
    using strstr_dot_at [OF k] len by (simp_all add: at_def r_def)
  have before: "\<not> (at s j = CHR ''/'' \<and> at s (Suc j) = CHR ''.'')" if "d \<le> j" "j < r" for j
    using strstr_dot_first [where s = "drop d s" and i = "j - d"] k that by (simp add: at_drop r_def)
  have clean: "\<not> dot_segment s j" if "j < r" for j
    using assms(2) [of j] before [of j] that by (cases "j < d") (auto simp: dot_segment_def)
  have cut: "\<not> dot_segment (take (Suc p) s @ drop m s) j"
    if "at s p = CHR ''/''" "p \<le> r" "j < p" for p m j
  proof -
    have "p < length s"
      using that(2) len by simp
    then show ?thesis
      using clean [of j] that at_cut [of p s j m] at_cut [of p s "Suc j" m] at_cut [of p s "Suc (Suc j)" m]
      by (cases "Suc j = p") (auto simp: dot_segment_def)
  qed
  have p: "parent_start s (r - 1) \<le> r"
    using parent_start_le [of s "r - 1"] by simp
  show ?thesis
    using assms(1,3) k dot clean [of i] cut [OF dot(1) order_refl, of i "r + 3"] cut [OF _ p, of i "r + 4"]
    by (auto simp: reduce_step_def r_def [symmetric] Let_def dot_segment_def less_Suc_eq numeral_3_eq_3 split: if_splits)
qed

lemma reduce_path_clean: "(\<And>i. i < d \<Longrightarrow> \<not> dot_segment s i) \<Longrightarrow> \<not> dot_segment (reduce_path s d) i"
proof (induction s d arbitrary: i rule: reduce_path.induct)
  case (1 s d)
  show ?case
  proof (cases "reduce_step s d")
    case None
    then have "strstr_dot (drop d s) = None"
      by (auto simp: reduce_step_def Let_def split: option.splits if_splits)
    then have "\<not> dot_segment s i"
      using 1(2) [of i] strstr_dot_first [where s = "drop d s" and i = "i - d"]
      by (cases "i < d") (auto simp: dot_segment_def at_drop)
    then show ?thesis
      using None by (subst reduce_path.simps) simp
  next
    case (Some sd)
    then show ?thesis
      using 1(1) [of sd "fst sd" "snd sd"] reduce_step_clean [of s d "fst sd" "snd sd"] 1(2)
      by (subst reduce_path.simps) (auto split: prod.splits)
  qed
qed

lemma reduce_path_length: "length (reduce_path s d) \<le> length s"
proof (induction s d rule: reduce_path.induct)
  case (1 s d)
  show ?case
    using 1 reduce_step_smaller [of s d]
    by (subst reduce_path.simps) (fastforce split: option.splits prod.splits)
qed

section \<open>When a concatenation fits\<close>

definition join_piece :: "string \<Rightarrow> string \<Rightarrow> string" where
  "join_piece d p = (if p = [] then d
     else d @ (if D (last d) \<noteq> CHR ''/'' \<and> D (hd p) \<noteq> CHR ''/'' then ''/'' else []) @ map D p)"

definition pieces_room :: "string list \<Rightarrow> nat" where
  "pieces_room ps = sum_list (map (\<lambda>p. length p + 1) ps)"

lemma pieces_room_simps [simp]: "pieces_room [] = 0" "pieces_room (p # ps) = length p + 1 + pieces_room ps"
  by (simp_all add: pieces_room_def)

lemma unat_dec: "(0 :: size_t) < n \<Longrightarrow> unat (n - 1) = unat n - 1"
  by (simp add: unat_minus_one word_neq_0_conv)

lemma strnmov_loop_take: "strnmov_loop n s = map D (take (unat n) s)"
proof (induction s arbitrary: n)
  case (Cons c s)
  show ?case
  proof (cases "0 < n")
    case True
    then have "unat n = Suc (unat (n - 1))"
      using unat_dec [OF True] by (simp add: word_less_nat_alt)
    then show ?thesis
      using True Cons.IH [of "n - 1"] by simp
  qed (simp add: word_less_nat_alt)
qed simp

lemma strnmov_D_fits: "length s < unat n \<Longrightarrow> strnmov_D s n = map D s"
  using unat_dec [of n] by (simp add: strnmov_D_def strnmov_loop_take word_less_nat_alt)

lemma unat_room:
  assumes "k < unat (cap :: size_t)"
  shows "unat (cap - of_nat k - 1) = unat cap - k - 1"
proof -
  have "cap - of_nat k - 1 = of_nat (unat cap - k - 1)"
    using assms by (simp add: of_nat_diff)
  moreover have "unat cap - k - 1 < 2 ^ LENGTH(64)"
    using unsigned_less [of cap, where 'a = nat] by simp
  ultimately show ?thesis
    by (simp add: unsigned_of_nat take_bit_nat_eq_self)
qed

lemma concat_loop_fits:
  assumes "d \<noteq> []" "length d + pieces_room ps + 1 < unat cap" "pieces_room ps + 1 \<le> unat rem"
  shows "concat_loop cap rem d ps = Ok (foldl join_piece d ps) \<and> length (foldl join_piece d ps) \<le> length d + pieces_room ps"
  using assms
proof (induction ps arbitrary: d rem)
  case (Cons p ps)
  let ?sep = "D (last d) \<noteq> CHR ''/'' \<and> D (hd p) \<noteq> CHR ''/''"
  define rem1 where "rem1 = (if ?sep then rem - 1 else rem)"
  show ?case
  proof (cases "p = []")
    case False
    have rem: "unat rem - 1 \<le> unat rem1" "length p < unat rem - 1"
      using Cons.prems(3) unat_dec [of rem] False by (auto simp: word_less_nat_alt rem1_def)
    have "put cap (if ?sep then d @ ''/'' else d) (strnmov_D p rem1) = Ok (join_piece d p)"
      using strnmov_D_fits [of p rem1] rem Cons.prems(2) False by (simp add: put_def join_piece_def)
    then have step: "concat_loop cap rem d (p # ps) = concat_loop cap rem1 (join_piece d p) ps"
      using Cons.prems(2) False by (simp add: rem1_def)
    have len: "length (join_piece d p) \<le> length d + length p + 1" "join_piece d p \<noteq> []"
      using Cons.prems(1) by (simp_all add: join_piece_def)
    then have "concat_loop cap rem1 (join_piece d p) ps = Ok (foldl join_piece (join_piece d p) ps) \<and>
        length (foldl join_piece (join_piece d p) ps) \<le> length (join_piece d p) + pieces_room ps"
      using Cons.prems rem False by (intro Cons.IH) simp_all
    then show ?thesis
      using step len by simp
  next
    case True
    then have "join_piece d p = d"
      by (simp add: join_piece_def)
    then show ?thesis
      using Cons.IH [of d rem] Cons.prems True by simp
  qed
qed simp

section \<open>Properties\<close>

text \<open>A path is its directory, slashes and its file name: the file name is everything behind the
  last delimiter, and when there is a directory the path is that directory, one or more slashes and the
  file name, and the directory does not end in a delimiter.\<close>

theorem path_is_directory_and_file_name:
  "filename path = rev (takeWhile (\<lambda>c. \<not> delimiter c) (rev path)) \<and>
   (case dirname path of None \<Rightarrow> True | Some d \<Rightarrow>
      \<exists>seps. path = d @ seps @ filename path \<and> seps \<noteq> [] \<and> list_all slash seps \<and> 1 < length d \<and> \<not> delimiter (last d))"
  using filename_last_part dirname_parts by (auto split: option.splits)

text \<open>C39: the reduction of a path ends, never makes the path longer and leaves no \<open>/./\<close> in it.\<close>

theorem reduced_path_is_clean:
  "length (reduce_path path 0) \<le> length path \<and> (\<forall>i. \<not> dot_segment (reduce_path path 0) i)"
  using reduce_path_length reduce_path_clean [of 0 path] by simp

text \<open>C40: when the buffer has room for the path, all the pieces and a separator for each of them,
  \<open>concat_path\<close> stays within the buffer and returns the reduction of their concatenation.\<close>

theorem concat_path_fits:
  assumes "path \<noteq> []" "length path + pieces_room ps + 1 < unat cap"
  shows "concat_path True cap path ps = Ok (Some (reduce_path (foldl join_piece (map D path) ps) 0))"
proof -
  have cap: "2 \<le> cap" "strnmov_D path cap = map D path"
    using assms strnmov_D_fits [of path cap] by (simp_all add: word_le_nat_alt)
  have "unat (cap - of_nat (length path) - 1) = unat cap - length path - 1"
    using assms(2) by (intro unat_room) simp
  then have "concat_loop cap (cap - of_nat (length (map D path)) - 1) (map D path) ps = Ok (foldl join_piece (map D path) ps)"
    "length (foldl join_piece (map D path) ps) \<le> length path + pieces_room ps"
    using concat_loop_fits [of "map D path" ps cap "cap - of_nat (length (map D path)) - 1"] assms by auto
  then show ?thesis
    using cap assms by (simp add: concat_path_def put_def)
qed

theorem concat_path_fits_witness:
  "concat_path True 80 ''db/x.db'' [''/../scanner.xml''] = Ok (Some ''db/scanner.xml'')"
  using concat_path_fits [of "''db/x.db''" "[''/../scanner.xml'']" 80]
  by (simp add: join_piece_def D_def) (simp add: reduce_path.simps reduce_step_def at_def Let_def eval_nat_numeral)

text \<open>With two pieces the second one can be written behind the end of the buffer, whatever its size:
  the remaining size is not reduced by what the first piece takes.\<close>

theorem concat_path_overflows:
  assumes "8 \<le> unat cap"
  shows "concat_path True cap ''a'' [replicate (unat cap - 5) (CHR ''x''), ''yy''] = Bad Dangling"
proof -
  let ?n = "unat cap"
  let ?xs = "replicate (?n - 5) (CHR ''x'')"
  have words: "unat (cap - 2) = ?n - 2" "unat (cap - 3) = ?n - 3" "unat (cap - 4) = ?n - 4"
    using assms unat_room [of 1 cap] unat_room [of 2 cap] unat_room [of 3 cap] by simp_all
  have start: "strnmov_D ''a'' cap = ''a''" "2 \<le> cap"
    using assms strnmov_D_fits [of "''a''" cap] by (simp_all add: D_def word_le_nat_alt)
  have xs: "strnmov_D ?xs (cap - 3) = ?xs" "?xs \<noteq> []" "strnmov_D ''yy'' (cap - 4) = ''yy''"
    using assms words strnmov_D_fits [of ?xs "cap - 3"] strnmov_D_fits [of "''yy''" "cap - 4"] by (simp_all add: D_def)
  obtain k where k: "?n = k + 5" "3 \<le> k"
    by (rule that [of "?n - 5"]) (use assms in simp_all)
  have "concat_loop cap (cap - 2) ''a'' [?xs, ''yy''] = Bad Dangling"
    using xs k by (simp add: put_def D_def Let_def)
  then show ?thesis
    using assms start by (simp add: concat_path_def put_def)
qed

theorem concat_path_overflows_witness:
  "concat_path True 8 ''a'' [''xxx'', ''yy''] = Bad Dangling"
proof -
  have cap: "unat (8 :: size_t) = 8"
    by simp
  show ?thesis
    using concat_path_overflows [of 8, unfolded cap] by (simp add: numeral_3_eq_3)
qed

end
