(* ===== verification/ReadFile.thy ===== *)
theory ReadFile
  imports SupportCode
begin

text \<open>\<open>readfile\<close> of \<open>support-code.cpp\<close>, which reads a whole file into a buffer that grows, and \<open>striEndsWith\<close> of
  \<open>support-code.h\<close>.\<close>

section \<open>Reading a file\<close>

text \<open>\<open>fread\<close> with the position in the file and the room in the buffer gives what is read and whether the end of the
  file has been met; \<open>malloc\<close> says for a size whether the memory is there. The buffer has four bytes more than its
  size. Sizes are natural numbers: a file whose size does not fit a \<open>size_t\<close> does not fit the memory either.\<close>

definition CHUNKSIZE :: nat where "CHUNKSIZE = 1024"

definition terminated :: "nat \<Rightarrow> string \<Rightarrow> (string \<times> nat) res" where
  "terminated sz buf = (if sz + 4 < length buf + 4 then Bad Dangling else Ok (buf @ replicate 4 (CHR 0x00), length buf))"

fun read_loop :: "(nat \<Rightarrow> nat \<Rightarrow> string \<times> bool) \<Rightarrow> (nat \<Rightarrow> bool) \<Rightarrow> nat \<Rightarrow> nat \<Rightarrow> string \<Rightarrow> bool \<Rightarrow>
    (string \<times> nat) option res" where
  "read_loop fread malloc 0 sz buf feof = Bad Out_of_fuel"
| "read_loop fread malloc (Suc fuel) sz buf feof =
     (if feof then rbind (terminated sz buf) (\<lambda>r. Ok (Some r))
      else
        let grow = sz - length buf < CHUNKSIZE; sz = (if grow then 2 * sz else sz) in
        if grow \<and> \<not> malloc (sz + 4) then Ok None
        else let (s, feof) = fread (length buf) (sz - length buf) in read_loop fread malloc fuel sz (buf @ s) feof)"

text \<open>\<open>fopen\<close> gives the stream of a path, the standard input standing for an empty one; that it may be null is not
  tested before the first \<open>feof\<close>.\<close>

definition readfile :: "(string \<Rightarrow> (nat \<Rightarrow> nat \<Rightarrow> string \<times> bool) option) \<Rightarrow> (nat \<Rightarrow> nat \<Rightarrow> string \<times> bool) \<Rightarrow> (nat \<Rightarrow> bool) \<Rightarrow>
    nat \<Rightarrow> string option \<Rightarrow> (string \<times> nat) option res" where
  "readfile fopen stdin malloc fuel path =
     (let fin = (case path of None \<Rightarrow> Some stdin | Some p \<Rightarrow> if p = [] then Some stdin else fopen p);
          sz = 1024 * 1024 * 8 in
      if \<not> malloc (sz + 4) then Ok None
      else case fin of None \<Rightarrow> Bad Dangling | Some fread \<Rightarrow> read_loop fread malloc fuel sz [] False)"

section \<open>Ends of texts\<close>

definition striEndsWith :: "string \<Rightarrow> string \<Rightarrow> bool" where
  "striEndsWith str e =
     (if length str < length e then False
      else map lower (drop (length str - length e) str) = map lower e)"

section \<open>The file is read\<close>

text \<open>A file of the disk: what is left of it, as far as there is room; the end is met when there was room for more.\<close>

definition disk_file :: "string \<Rightarrow> nat \<Rightarrow> nat \<Rightarrow> string \<times> bool" where
  "disk_file s pos room = (take room (drop pos s), length s < pos + room)"

lemma read_loop_step:
  assumes "malloc (sz' + 4)" "sz' = (if sz - length buf < CHUNKSIZE then 2 * sz else sz)"
  shows "read_loop (disk_file s) malloc (Suc fuel) sz buf False =
    read_loop (disk_file s) malloc fuel sz' (buf @ take (sz' - length buf) (drop (length buf) s)) (length s < length buf + (sz' - length buf))"
  using assms(1) by (simp add: assms(2) disk_file_def Let_def split del: if_split cong del: if_weak_cong)

lemma read_loop_disk_file:
  assumes "\<And>n. malloc n" "2 * length s < fuel + 2 * length buf" "CHUNKSIZE \<le> sz" "length buf \<le> sz" "buf = take (length buf) s"
    and "length buf \<le> length s" "feof \<longrightarrow> buf = s"
  shows "read_loop (disk_file s) malloc (Suc fuel) sz buf feof = Ok (Some (s @ replicate 4 (CHR 0x00), length s))"
  using assms(2-)
proof (induction fuel arbitrary: sz buf feof)
  case (Suc fuel)
  show ?case
  proof (cases feof)
    case True
    then show ?thesis
      using Suc.prems by (simp add: terminated_def)
  next
    case False
    define size' where "size' = (if sz - length buf < CHUNKSIZE then 2 * sz else sz)"
    define room where "room = size' - length buf"
    define buf' where "buf' = buf @ take room (drop (length buf) s)"
    have room: "0 < room" "length buf + room \<le> size'"
      using Suc.prems(2,3) by (auto simp: room_def size'_def CHUNKSIZE_def split: if_splits)
    have buf': "buf' = take (length buf + room) s"
      using Suc.prems(4) by (metis buf'_def take_add)
    have "read_loop (disk_file s) malloc (Suc fuel) size' buf' (length s < length buf + room) =
        Ok (Some (s @ replicate 4 (CHR 0x00), length s))"
    proof (cases "length s < length buf + room")
      case True
      then show ?thesis
        using buf' room by (simp add: terminated_def)
    next
      case False
      then have len: "length buf' = length buf + room"
        using buf' by simp
      show ?thesis
        using False Suc.prems room buf' len by (intro Suc.IH) (auto simp: size'_def)
    qed
    then show ?thesis
      using False read_loop_step [where malloc = malloc and sz' = size' and sz = sz and buf = buf and s = s and fuel = "Suc fuel", OF assms(1) size'_def] by (simp add: room_def buf'_def del: read_loop.simps)
  qed
qed (simp add: terminated_def)

text \<open>With memory enough a file is returned as it is, with its length, behind four zeros; the buffer is never overrun.\<close>

theorem readfile_returns_the_file:
  assumes "\<And>n. malloc n" "fopen path = Some (disk_file s)" "path \<noteq> []" "2 * length s < fuel"
  shows "readfile fopen stdin malloc (Suc fuel) (Some path) = Ok (Some (s @ replicate 4 (CHR 0x00), length s))"
  using assms(2,3) read_loop_disk_file [of malloc s fuel "[]" "1024 * 1024 * 8" False] assms(1,4)
  by (simp add: readfile_def CHUNKSIZE_def Let_def del: read_loop.simps)

text \<open>A file that cannot be opened is a null pointer that is read through, and an error that ends no file is tried again
  for ever.\<close>

theorem missing_file_is_dereferenced:
  assumes "malloc (1024 * 1024 * 8 + 4)" "fopen path = None" "path \<noteq> []"
  shows "readfile fopen stdin malloc fuel (Some path) = Bad Dangling"
  using assms by (simp add: readfile_def Let_def)

lemma read_loop_error:
  assumes "CHUNKSIZE \<le> sz"
  shows "read_loop (\<lambda>_ _. ([], False)) malloc fuel sz [] False = Bad Out_of_fuel"
  using assms by (induction fuel) (simp_all add: Let_def)

theorem read_error_spins:
  assumes "malloc (1024 * 1024 * 8 + 4)" "fopen path = Some (\<lambda>_ _. ([], False))" "path \<noteq> []"
  shows "readfile fopen stdin malloc fuel (Some path) = Bad Out_of_fuel"
  using assms read_loop_error [of "1024 * 1024 * 8" malloc fuel] by (simp add: readfile_def CHUNKSIZE_def Let_def)

end
