(* ===== verification/ApiEnums.thy ===== *)
theory ApiEnums
  imports Prelude
begin

text \<open>The enumerations of \<open>tws_data_structures.h\<close> and their conversion to the texts of the TWS API and
  back (\<open>to_tws\<close> and \<open>from_tws\<close> in \<open>tws_data_structures.cpp\<close>). The texts of the order types and of the
  scanner types are macros of the API's header file, which is not part of the program: \<open>M\<close> gives the
  text of a macro, and \<open>same\<close> says when \<open>mg_strcasecmp\<close> returns 0.\<close>

section \<open>The enumerations\<close>

text \<open>The two large ones do without the code generator's equality, which is quadratic in the number
  of constructors.\<close>

datatype (plugins only: ) tws_order_type_t =
    ORDER_MARKET_TO_LIMIT | ORDER_MARKET_WITH_PROTECTION | ORDER_REQUEST_FOR_QUOTE | ORDER_STOP | ORDER_STOP_LIMIT
  | ORDER_TRAILING_LIMIT_IF_TOUCHED | ORDER_TRAILING_MARKET_IF_TOUCHED | ORDER_TRAILING_STOP
  | ORDER_TRAILING_STOP_LIMIT | ORDER_MARKET | ORDER_MARKET_IF_TOUCHED | ORDER_MARKET_ON_CLOSE
  | ORDER_MARKET_ON_OPEN | ORDER_PEGGED_TO_MARKET | ORDER_RELATIVE | ORDER_BOX_TOP | ORDER_LIMIT_ON_CLOSE
  | ORDER_LIMIT_ON_OPEN | ORDER_LIMIT_IF_TOUCHED | ORDER_PEGGED_TO_MIDPOINT | ORDER_VWAP_GUARANTEED
  | ORDER_GOOD_AFTER_TIME_DATE | ORDER_GOOD_TILL_DATE_TIME | ORDER_GOOD_TILL_CANCELED | ORDER_IMMEDIATE_OR_CANCEL
  | ORDER_ONE_CANCELS_ALL | ORDER_VOLATILITY | ORDER_LIMIT | ORDER_ACTIVETIM | ORDER_ADJUST | ORDER_ALERT
  | ORDER_ALLOC | ORDER_AVGCOST | ORDER_BASKET | ORDER_COND | ORDER_CONDORDER | ORDER_CONSCOST | ORDER_DAY
  | ORDER_DEACT | ORDER_DEACTDIS | ORDER_DEACTEOD | ORDER_GTT | ORDER_HID | ORDER_LTH | ORDER_NONALGO | ORDER_SCALE
  | ORDER_SCALERST | ORDER_WHATIF

datatype (plugins only: ) tws_scanner_type_t =
    SCANNER_BOND_CUSIP_AZ | SCANNER_BOND_CUSIP_ZA | SCANNER_FAR_MATURITY_DATE | SCANNER_HALTED
  | SCANNER_HIGHEST_SLB_BID | SCANNER_HIGH_BOND_ASK_CURRENT_YIELD_ALL | SCANNER_HIGH_BOND_ASK_YIELD_ALL
  | SCANNER_HIGH_BOND_DEBT_2_BOOK_RATIO | SCANNER_HIGH_BOND_DEBT_2_EQUITY_RATIO
  | SCANNER_HIGH_BOND_DEBT_2_TAN_BOOK_RATIO | SCANNER_HIGH_BOND_EQUITY_2_BOOK_RATIO
  | SCANNER_HIGH_BOND_EQUITY_2_TAN_BOOK_RATIO | SCANNER_HIGH_BOND_SPREAD_ALL | SCANNER_HIGH_COUPON_RATE
  | SCANNER_HIGH_DIVIDEND_YIELD | SCANNER_HIGH_DIVIDEND_YIELD_IB | SCANNER_HIGH_GROWTH_RATE
  | SCANNER_HIGH_MOODY_RATING_ALL | SCANNER_HIGH_OPEN_GAP | SCANNER_HIGH_OPT_IMP_VOLAT
  | SCANNER_HIGH_OPT_IMP_VOLAT_OVER_HIST | SCANNER_HIGH_OPT_OPEN_INTEREST_PUT_CALL_RATIO
  | SCANNER_HIGH_OPT_OPEN_INT_PUT_CALL_RATIO | SCANNER_HIGH_OPT_VOLUME_PUT_CALL_RATIO | SCANNER_HIGH_PE_RATIO
  | SCANNER_HIGH_PRICE_2_BOOK_RATIO | SCANNER_HIGH_PRICE_2_TAN_BOOK_RATIO | SCANNER_HIGH_QUICK_RATIO
  | SCANNER_HIGH_RETURN_ON_EQUITY | SCANNER_HIGH_SYNTH_BID_REV_NAT_YIELD | SCANNER_HIGH_VS_13W_HL
  | SCANNER_HIGH_VS_26W_HL | SCANNER_HIGH_VS_52W_HL | SCANNER_HOT_BY_OPT_VOLUME | SCANNER_HOT_BY_PRICE
  | SCANNER_HOT_BY_PRICE_RANGE | SCANNER_HOT_BY_VOLUME | SCANNER_HOT_VOLUME | SCANNER_LIMIT_UP_DOWN
  | SCANNER_LOWEST_SLB_ASK | SCANNER_LOW_BOND_BID_CURRENT_YIELD_ALL | SCANNER_LOW_BOND_BID_YIELD_ALL
  | SCANNER_LOW_BOND_DEBT_2_BOOK_RATIO | SCANNER_LOW_BOND_DEBT_2_EQUITY_RATIO
  | SCANNER_LOW_BOND_DEBT_2_TAN_BOOK_RATIO | SCANNER_LOW_BOND_EQUITY_2_BOOK_RATIO
  | SCANNER_LOW_BOND_EQUITY_2_TAN_BOOK_RATIO | SCANNER_LOW_BOND_SPREAD_ALL | SCANNER_LOW_COUPON_RATE
  | SCANNER_LOW_GROWTH_RATE | SCANNER_LOW_MOODY_RATING_ALL | SCANNER_LOW_OPEN_GAP | SCANNER_LOW_OPT_IMP_VOLAT
  | SCANNER_LOW_OPT_IMP_VOLAT_OVER_HIST | SCANNER_LOW_OPT_OPEN_INTEREST_PUT_CALL_RATIO
  | SCANNER_LOW_OPT_OPEN_INT_PUT_CALL_RATIO | SCANNER_LOW_OPT_VOLUME_PUT_CALL_RATIO | SCANNER_LOW_PE_RATIO
  | SCANNER_LOW_PRICE_2_BOOK_RATIO | SCANNER_LOW_PRICE_2_TAN_BOOK_RATIO | SCANNER_LOW_QUICK_RATIO
  | SCANNER_LOW_RETURN_ON_EQUITY | SCANNER_LOW_SYNTH_ASK_REV_NAT_YIELD | SCANNER_LOW_VS_13W_HL
  | SCANNER_LOW_VS_26W_HL | SCANNER_LOW_VS_52W_HL | SCANNER_LOW_WAR_REL_IMP_VOLAT | SCANNER_MOST_ACTIVE
  | SCANNER_MOST_ACTIVE_AVG_USD | SCANNER_MOST_ACTIVE_USD | SCANNER_NEAR_MATURITY_DATE | SCANNER_NOT_OPEN
  | SCANNER_OPT_OPEN_INTEREST_MOST_ACTIVE | SCANNER_OPT_VOLUME_MOST_ACTIVE | SCANNER_PMONITOR_AVAIL_CONTRACTS
  | SCANNER_PMONITOR_CTT | SCANNER_PMONITOR_RFQ | SCANNER_TOP_OPEN_PERC_GAIN | SCANNER_TOP_OPEN_PERC_LOSE
  | SCANNER_TOP_OPT_IMP_VOLAT_GAIN | SCANNER_TOP_OPT_IMP_VOLAT_LOSE | SCANNER_TOP_PERC_GAIN | SCANNER_TOP_PERC_LOSE
  | SCANNER_TOP_PRICE_RANGE | SCANNER_TOP_TRADE_COUNT | SCANNER_TOP_TRADE_RATE | SCANNER_TOP_VOLUME_RATE
  | SCANNER_WSH_NEXT_ANALYST_MEETING | SCANNER_WSH_NEXT_EARNINGS | SCANNER_WSH_NEXT_EVENT
  | SCANNER_WSH_NEXT_MAJOR_EVENT | SCANNER_WSH_PREV_ANALYST_MEETING | SCANNER_WSH_PREV_EARNINGS
  | SCANNER_WSH_PREV_EVENT

datatype tws_action_code_t = ACTION_UNKNOWN | ACTION_BUY | ACTION_SELL | ACTION_SSHORT | ACTION_SSHORTX

datatype tws_short_sale_slot_type_t = SSS_UNKNOWN | SSS_CLEARING_BROKER | SSS_THIRD_PARTY

section \<open>Names\<close>

text \<open>An enumeration variable can hold a value outside the enumeration, such as the default
  \<open>-1\<close> of \<open>from_tws\<close>: that is \<open>None\<close>, as is the null pointer that \<open>to_tws\<close> gives for it. \<open>from_tws\<close> is
  a chain of comparisons, tried one after the other.\<close>

fun first_match :: "(string \<Rightarrow> bool) \<Rightarrow> (string \<times> 'a) list \<Rightarrow> 'a option \<Rightarrow> 'a option" where
  "first_match P [] d = d"
| "first_match P ((m, v) # cs) d = (if P m then Some v else first_match P cs d)"

primrec order_macro :: "tws_order_type_t \<Rightarrow> string" where
  "order_macro ORDER_MARKET_TO_LIMIT = ''ORDER_TYPE_MARKET_TO_LIMIT''"
| "order_macro ORDER_MARKET_WITH_PROTECTION = ''ORDER_TYPE_MARKET_WITH_PROTECTION''"
| "order_macro ORDER_REQUEST_FOR_QUOTE = ''ORDER_TYPE_REQUEST_FOR_QUOTE''"
| "order_macro ORDER_STOP = ''ORDER_TYPE_STOP''"
| "order_macro ORDER_STOP_LIMIT = ''ORDER_TYPE_STOP_LIMIT''"
| "order_macro ORDER_TRAILING_LIMIT_IF_TOUCHED = ''ORDER_TYPE_TRAILING_LIMIT_IF_TOUCHED''"
| "order_macro ORDER_TRAILING_MARKET_IF_TOUCHED = ''ORDER_TYPE_TRAILING_MARKET_IF_TOUCHED''"
| "order_macro ORDER_TRAILING_STOP = ''ORDER_TYPE_TRAILING_STOP''"
| "order_macro ORDER_TRAILING_STOP_LIMIT = ''ORDER_TYPE_TRAILING_STOP_LIMIT''"
| "order_macro ORDER_MARKET = ''ORDER_TYPE_MARKET''"
| "order_macro ORDER_MARKET_IF_TOUCHED = ''ORDER_TYPE_MARKET_IF_TOUCHED''"
| "order_macro ORDER_MARKET_ON_CLOSE = ''ORDER_TYPE_MARKET_ON_CLOSE''"
| "order_macro ORDER_MARKET_ON_OPEN = ''ORDER_TYPE_MARKET_ON_OPEN''"
| "order_macro ORDER_PEGGED_TO_MARKET = ''ORDER_TYPE_PEGGED_TO_MARKET''"
| "order_macro ORDER_RELATIVE = ''ORDER_TYPE_RELATIVE''"
| "order_macro ORDER_BOX_TOP = ''ORDER_TYPE_BOX_TOP''"
| "order_macro ORDER_LIMIT_ON_CLOSE = ''ORDER_TYPE_LIMIT_ON_CLOSE''"
| "order_macro ORDER_LIMIT_ON_OPEN = ''ORDER_TYPE_LIMIT_ON_OPEN''"
| "order_macro ORDER_LIMIT_IF_TOUCHED = ''ORDER_TYPE_LIMIT_IF_TOUCHED''"
| "order_macro ORDER_PEGGED_TO_MIDPOINT = ''ORDER_TYPE_PEGGED_TO_MIDPOINT''"
| "order_macro ORDER_VWAP_GUARANTEED = ''ORDER_TYPE_VWAP_GUARANTEED''"
| "order_macro ORDER_GOOD_AFTER_TIME_DATE = ''ORDER_TYPE_GOOD_AFTER_TIME_DATE''"
| "order_macro ORDER_GOOD_TILL_DATE_TIME = ''ORDER_TYPE_GOOD_TILL_DATE_TIME''"
| "order_macro ORDER_GOOD_TILL_CANCELED = ''ORDER_TYPE_GOOD_TILL_CANCELED''"
| "order_macro ORDER_IMMEDIATE_OR_CANCEL = ''ORDER_TYPE_IMMEDIATE_OR_CANCEL''"
| "order_macro ORDER_ONE_CANCELS_ALL = ''ORDER_TYPE_ONE_CANCELS_ALL''"
| "order_macro ORDER_VOLATILITY = ''ORDER_TYPE_VOLATILITY''"
| "order_macro ORDER_LIMIT = ''ORDER_TYPE_LIMIT''"
| "order_macro ORDER_ACTIVETIM = ''ORDER_TYPE_ACTIVETIM''"
| "order_macro ORDER_ADJUST = ''ORDER_TYPE_ADJUST''"
| "order_macro ORDER_ALERT = ''ORDER_TYPE_ALERT''"
| "order_macro ORDER_ALLOC = ''ORDER_TYPE_ALLOC''"
| "order_macro ORDER_AVGCOST = ''ORDER_TYPE_AVGCOST''"
| "order_macro ORDER_BASKET = ''ORDER_TYPE_BASKET''"
| "order_macro ORDER_COND = ''ORDER_TYPE_COND''"
| "order_macro ORDER_CONDORDER = ''ORDER_TYPE_CONDORDER''"
| "order_macro ORDER_CONSCOST = ''ORDER_TYPE_CONSCOST''"
| "order_macro ORDER_DAY = ''ORDER_TYPE_DAY''"
| "order_macro ORDER_DEACT = ''ORDER_TYPE_DEACT''"
| "order_macro ORDER_DEACTDIS = ''ORDER_TYPE_DEACTDIS''"
| "order_macro ORDER_DEACTEOD = ''ORDER_TYPE_DEACTEOD''"
| "order_macro ORDER_GTT = ''ORDER_TYPE_GTT''"
| "order_macro ORDER_HID = ''ORDER_TYPE_HID''"
| "order_macro ORDER_LTH = ''ORDER_TYPE_LTH''"
| "order_macro ORDER_NONALGO = ''ORDER_TYPE_NONALGO''"
| "order_macro ORDER_SCALE = ''ORDER_TYPE_SCALE''"
| "order_macro ORDER_SCALERST = ''ORDER_TYPE_SCALERST''"
| "order_macro ORDER_WHATIF = ''ORDER_TYPE_WHATIF''"

definition order_to_tws :: "(string \<Rightarrow> string) \<Rightarrow> tws_order_type_t option \<Rightarrow> string option" where
  "order_to_tws M typ = (case typ of None \<Rightarrow> None | Some t \<Rightarrow> Some (M (order_macro t)))"

definition order_cases :: "(string \<times> tws_order_type_t) list" where
  "order_cases = [
    (''ORDER_TYPE_MARKET_TO_LIMIT'', ORDER_MARKET_TO_LIMIT),
    (''ORDER_TYPE_MARKET_WITH_PROTECTION'', ORDER_MARKET_WITH_PROTECTION),
    (''ORDER_TYPE_REQUEST_FOR_QUOTE'', ORDER_REQUEST_FOR_QUOTE),
    (''ORDER_TYPE_STOP'', ORDER_STOP),
    (''ORDER_TYPE_STOP_LIMIT'', ORDER_STOP_LIMIT),
    (''ORDER_TYPE_TRAILING_LIMIT_IF_TOUCHED'', ORDER_TRAILING_LIMIT_IF_TOUCHED),
    (''ORDER_TYPE_TRAILING_MARKET_IF_TOUCHED'', ORDER_TRAILING_MARKET_IF_TOUCHED),
    (''ORDER_TYPE_TRAILING_STOP'', ORDER_TRAILING_STOP),
    (''ORDER_TYPE_TRAILING_STOP_LIMIT'', ORDER_TRAILING_STOP_LIMIT),
    (''ORDER_TYPE_MARKET'', ORDER_MARKET),
    (''ORDER_TYPE_MARKET_IF_TOUCHED'', ORDER_MARKET_IF_TOUCHED),
    (''ORDER_TYPE_MARKET_ON_CLOSE'', ORDER_MARKET_ON_CLOSE),
    (''ORDER_TYPE_MARKET_ON_OPEN'', ORDER_MARKET_ON_OPEN),
    (''ORDER_TYPE_PEGGED_TO_MARKET'', ORDER_PEGGED_TO_MARKET),
    (''ORDER_TYPE_RELATIVE'', ORDER_RELATIVE),
    (''ORDER_TYPE_BOX_TOP'', ORDER_BOX_TOP),
    (''ORDER_TYPE_LIMIT_ON_CLOSE'', ORDER_LIMIT_ON_CLOSE),
    (''ORDER_TYPE_LIMIT_ON_OPEN'', ORDER_LIMIT_ON_OPEN),
    (''ORDER_TYPE_LIMIT_IF_TOUCHED'', ORDER_LIMIT_IF_TOUCHED),
    (''ORDER_TYPE_PEGGED_TO_MIDPOINT'', ORDER_PEGGED_TO_MIDPOINT),
    (''ORDER_TYPE_VWAP_GUARANTEED'', ORDER_VWAP_GUARANTEED),
    (''ORDER_TYPE_GOOD_AFTER_TIME_DATE'', ORDER_GOOD_AFTER_TIME_DATE),
    (''ORDER_TYPE_GOOD_TILL_DATE_TIME'', ORDER_GOOD_TILL_DATE_TIME),
    (''ORDER_TYPE_GOOD_TILL_CANCELED'', ORDER_GOOD_TILL_CANCELED),
    (''ORDER_TYPE_IMMEDIATE_OR_CANCEL'', ORDER_IMMEDIATE_OR_CANCEL),
    (''ORDER_TYPE_ONE_CANCELS_ALL'', ORDER_ONE_CANCELS_ALL),
    (''ORDER_TYPE_VOLATILITY'', ORDER_VOLATILITY),
    (''ORDER_TYPE_LIMIT'', ORDER_LIMIT),
    (''ORDER_TYPE_ACTIVETIM'', ORDER_ACTIVETIM),
    (''ORDER_TYPE_ADJUST'', ORDER_ADJUST),
    (''ORDER_TYPE_ALERT'', ORDER_ALERT),
    (''ORDER_TYPE_ALLOC'', ORDER_ALLOC),
    (''ORDER_TYPE_AVGCOST'', ORDER_AVGCOST),
    (''ORDER_TYPE_BASKET'', ORDER_BASKET),
    (''ORDER_TYPE_COND'', ORDER_COND),
    (''ORDER_TYPE_CONDORDER'', ORDER_CONDORDER),
    (''ORDER_TYPE_CONSCOST'', ORDER_CONSCOST),
    (''ORDER_TYPE_DAY'', ORDER_DAY),
    (''ORDER_TYPE_DEACT'', ORDER_DEACT),
    (''ORDER_TYPE_DEACTDIS'', ORDER_DEACTDIS),
    (''ORDER_TYPE_DEACTEOD'', ORDER_DEACTEOD),
    (''ORDER_TYPE_GTT'', ORDER_GTT),
    (''ORDER_TYPE_HID'', ORDER_HID),
    (''ORDER_TYPE_LTH'', ORDER_LTH),
    (''ORDER_TYPE_NONALGO'', ORDER_NONALGO),
    (''ORDER_TYPE_SCALE'', ORDER_SCALE),
    (''ORDER_TYPE_SCALERST'', ORDER_SCALERST),
    (''ORDER_TYPE_WHATIF'', ORDER_WHATIF)]"

definition order_from_tws :: "(string \<Rightarrow> string \<Rightarrow> bool) \<Rightarrow> (string \<Rightarrow> string) \<Rightarrow> string \<Rightarrow> tws_order_type_t option \<Rightarrow> tws_order_type_t option" where
  "order_from_tws same M typ d = first_match (\<lambda>m. same typ (M m)) order_cases d"

primrec scanner_macro :: "tws_scanner_type_t \<Rightarrow> string" where
  "scanner_macro SCANNER_BOND_CUSIP_AZ = ''TWS_SCANNER_BOND_CUSIP_AZ''"
| "scanner_macro SCANNER_BOND_CUSIP_ZA = ''TWS_SCANNER_BOND_CUSIP_ZA''"
| "scanner_macro SCANNER_FAR_MATURITY_DATE = ''TWS_SCANNER_FAR_MATURITY_DATE''"
| "scanner_macro SCANNER_HALTED = ''TWS_SCANNER_HALTED''"
| "scanner_macro SCANNER_HIGHEST_SLB_BID = ''TWS_SCANNER_HIGHEST_SLB_BID''"
| "scanner_macro SCANNER_HIGH_BOND_ASK_CURRENT_YIELD_ALL = ''TWS_SCANNER_HIGH_BOND_ASK_CURRENT_YIELD_ALL''"
| "scanner_macro SCANNER_HIGH_BOND_ASK_YIELD_ALL = ''TWS_SCANNER_HIGH_BOND_ASK_YIELD_ALL''"
| "scanner_macro SCANNER_HIGH_BOND_DEBT_2_BOOK_RATIO = ''TWS_SCANNER_HIGH_BOND_DEBT_2_BOOK_RATIO''"
| "scanner_macro SCANNER_HIGH_BOND_DEBT_2_EQUITY_RATIO = ''TWS_SCANNER_HIGH_BOND_DEBT_2_EQUITY_RATIO''"
| "scanner_macro SCANNER_HIGH_BOND_DEBT_2_TAN_BOOK_RATIO = ''TWS_SCANNER_HIGH_BOND_DEBT_2_TAN_BOOK_RATIO''"
| "scanner_macro SCANNER_HIGH_BOND_EQUITY_2_BOOK_RATIO = ''TWS_SCANNER_HIGH_BOND_EQUITY_2_BOOK_RATIO''"
| "scanner_macro SCANNER_HIGH_BOND_EQUITY_2_TAN_BOOK_RATIO = ''TWS_SCANNER_HIGH_BOND_EQUITY_2_TAN_BOOK_RATIO''"
| "scanner_macro SCANNER_HIGH_BOND_SPREAD_ALL = ''TWS_SCANNER_HIGH_BOND_SPREAD_ALL''"
| "scanner_macro SCANNER_HIGH_COUPON_RATE = ''TWS_SCANNER_HIGH_COUPON_RATE''"
| "scanner_macro SCANNER_HIGH_DIVIDEND_YIELD = ''TWS_SCANNER_HIGH_DIVIDEND_YIELD''"
| "scanner_macro SCANNER_HIGH_DIVIDEND_YIELD_IB = ''TWS_SCANNER_HIGH_DIVIDEND_YIELD_IB''"
| "scanner_macro SCANNER_HIGH_GROWTH_RATE = ''TWS_SCANNER_HIGH_GROWTH_RATE''"
| "scanner_macro SCANNER_HIGH_MOODY_RATING_ALL = ''TWS_SCANNER_HIGH_MOODY_RATING_ALL''"
| "scanner_macro SCANNER_HIGH_OPEN_GAP = ''TWS_SCANNER_HIGH_OPEN_GAP''"
| "scanner_macro SCANNER_HIGH_OPT_IMP_VOLAT = ''TWS_SCANNER_HIGH_OPT_IMP_VOLAT''"
| "scanner_macro SCANNER_HIGH_OPT_IMP_VOLAT_OVER_HIST = ''TWS_SCANNER_HIGH_OPT_IMP_VOLAT_OVER_HIST''"
| "scanner_macro SCANNER_HIGH_OPT_OPEN_INTEREST_PUT_CALL_RATIO = ''TWS_SCANNER_HIGH_OPT_OPEN_INTEREST_PUT_CALL_RATIO''"
| "scanner_macro SCANNER_HIGH_OPT_OPEN_INT_PUT_CALL_RATIO = ''TWS_SCANNER_HIGH_OPT_OPEN_INT_PUT_CALL_RATIO''"
| "scanner_macro SCANNER_HIGH_OPT_VOLUME_PUT_CALL_RATIO = ''TWS_SCANNER_HIGH_OPT_VOLUME_PUT_CALL_RATIO''"
| "scanner_macro SCANNER_HIGH_PE_RATIO = ''TWS_SCANNER_HIGH_PE_RATIO''"
| "scanner_macro SCANNER_HIGH_PRICE_2_BOOK_RATIO = ''TWS_SCANNER_HIGH_PRICE_2_BOOK_RATIO''"
| "scanner_macro SCANNER_HIGH_PRICE_2_TAN_BOOK_RATIO = ''TWS_SCANNER_HIGH_PRICE_2_TAN_BOOK_RATIO''"
| "scanner_macro SCANNER_HIGH_QUICK_RATIO = ''TWS_SCANNER_HIGH_QUICK_RATIO''"
| "scanner_macro SCANNER_HIGH_RETURN_ON_EQUITY = ''TWS_SCANNER_HIGH_RETURN_ON_EQUITY''"
| "scanner_macro SCANNER_HIGH_SYNTH_BID_REV_NAT_YIELD = ''TWS_SCANNER_HIGH_SYNTH_BID_REV_NAT_YIELD''"
| "scanner_macro SCANNER_HIGH_VS_13W_HL = ''TWS_SCANNER_HIGH_VS_13W_HL''"
| "scanner_macro SCANNER_HIGH_VS_26W_HL = ''TWS_SCANNER_HIGH_VS_26W_HL''"
| "scanner_macro SCANNER_HIGH_VS_52W_HL = ''TWS_SCANNER_HIGH_VS_52W_HL''"
| "scanner_macro SCANNER_HOT_BY_OPT_VOLUME = ''TWS_SCANNER_HOT_BY_OPT_VOLUME''"
| "scanner_macro SCANNER_HOT_BY_PRICE = ''TWS_SCANNER_HOT_BY_PRICE''"
| "scanner_macro SCANNER_HOT_BY_PRICE_RANGE = ''TWS_SCANNER_HOT_BY_PRICE_RANGE''"
| "scanner_macro SCANNER_HOT_BY_VOLUME = ''TWS_SCANNER_HOT_BY_VOLUME''"
| "scanner_macro SCANNER_HOT_VOLUME = ''TWS_SCANNER_HOT_VOLUME''"
| "scanner_macro SCANNER_LIMIT_UP_DOWN = ''TWS_SCANNER_LIMIT_UP_DOWN''"
| "scanner_macro SCANNER_LOWEST_SLB_ASK = ''TWS_SCANNER_LOWEST_SLB_ASK''"
| "scanner_macro SCANNER_LOW_BOND_BID_CURRENT_YIELD_ALL = ''TWS_SCANNER_LOW_BOND_BID_CURRENT_YIELD_ALL''"
| "scanner_macro SCANNER_LOW_BOND_BID_YIELD_ALL = ''TWS_SCANNER_LOW_BOND_BID_YIELD_ALL''"
| "scanner_macro SCANNER_LOW_BOND_DEBT_2_BOOK_RATIO = ''TWS_SCANNER_LOW_BOND_DEBT_2_BOOK_RATIO''"
| "scanner_macro SCANNER_LOW_BOND_DEBT_2_EQUITY_RATIO = ''TWS_SCANNER_LOW_BOND_DEBT_2_EQUITY_RATIO''"
| "scanner_macro SCANNER_LOW_BOND_DEBT_2_TAN_BOOK_RATIO = ''TWS_SCANNER_LOW_BOND_DEBT_2_TAN_BOOK_RATIO''"
| "scanner_macro SCANNER_LOW_BOND_EQUITY_2_BOOK_RATIO = ''TWS_SCANNER_LOW_BOND_EQUITY_2_BOOK_RATIO''"
| "scanner_macro SCANNER_LOW_BOND_EQUITY_2_TAN_BOOK_RATIO = ''TWS_SCANNER_LOW_BOND_EQUITY_2_TAN_BOOK_RATIO''"
| "scanner_macro SCANNER_LOW_BOND_SPREAD_ALL = ''TWS_SCANNER_LOW_BOND_SPREAD_ALL''"
| "scanner_macro SCANNER_LOW_COUPON_RATE = ''TWS_SCANNER_LOW_COUPON_RATE''"
| "scanner_macro SCANNER_LOW_GROWTH_RATE = ''TWS_SCANNER_LOW_GROWTH_RATE''"
| "scanner_macro SCANNER_LOW_MOODY_RATING_ALL = ''TWS_SCANNER_LOW_MOODY_RATING_ALL''"
| "scanner_macro SCANNER_LOW_OPEN_GAP = ''TWS_SCANNER_LOW_OPEN_GAP''"
| "scanner_macro SCANNER_LOW_OPT_IMP_VOLAT = ''TWS_SCANNER_LOW_OPT_IMP_VOLAT''"
| "scanner_macro SCANNER_LOW_OPT_IMP_VOLAT_OVER_HIST = ''TWS_SCANNER_LOW_OPT_IMP_VOLAT_OVER_HIST''"
| "scanner_macro SCANNER_LOW_OPT_OPEN_INTEREST_PUT_CALL_RATIO = ''TWS_SCANNER_LOW_OPT_OPEN_INTEREST_PUT_CALL_RATIO''"
| "scanner_macro SCANNER_LOW_OPT_OPEN_INT_PUT_CALL_RATIO = ''TWS_SCANNER_LOW_OPT_OPEN_INT_PUT_CALL_RATIO''"
| "scanner_macro SCANNER_LOW_OPT_VOLUME_PUT_CALL_RATIO = ''TWS_SCANNER_LOW_OPT_VOLUME_PUT_CALL_RATIO''"
| "scanner_macro SCANNER_LOW_PE_RATIO = ''TWS_SCANNER_LOW_PE_RATIO''"
| "scanner_macro SCANNER_LOW_PRICE_2_BOOK_RATIO = ''TWS_SCANNER_LOW_PRICE_2_BOOK_RATIO''"
| "scanner_macro SCANNER_LOW_PRICE_2_TAN_BOOK_RATIO = ''TWS_SCANNER_LOW_PRICE_2_TAN_BOOK_RATIO''"
| "scanner_macro SCANNER_LOW_QUICK_RATIO = ''TWS_SCANNER_LOW_QUICK_RATIO''"
| "scanner_macro SCANNER_LOW_RETURN_ON_EQUITY = ''TWS_SCANNER_LOW_RETURN_ON_EQUITY''"
| "scanner_macro SCANNER_LOW_SYNTH_ASK_REV_NAT_YIELD = ''TWS_SCANNER_LOW_SYNTH_ASK_REV_NAT_YIELD''"
| "scanner_macro SCANNER_LOW_VS_13W_HL = ''TWS_SCANNER_LOW_VS_13W_HL''"
| "scanner_macro SCANNER_LOW_VS_26W_HL = ''TWS_SCANNER_LOW_VS_26W_HL''"
| "scanner_macro SCANNER_LOW_VS_52W_HL = ''TWS_SCANNER_LOW_VS_52W_HL''"
| "scanner_macro SCANNER_LOW_WAR_REL_IMP_VOLAT = ''TWS_SCANNER_LOW_WAR_REL_IMP_VOLAT''"
| "scanner_macro SCANNER_MOST_ACTIVE = ''TWS_SCANNER_MOST_ACTIVE''"
| "scanner_macro SCANNER_MOST_ACTIVE_AVG_USD = ''TWS_SCANNER_MOST_ACTIVE_AVG_USD''"
| "scanner_macro SCANNER_MOST_ACTIVE_USD = ''TWS_SCANNER_MOST_ACTIVE_USD''"
| "scanner_macro SCANNER_NEAR_MATURITY_DATE = ''TWS_SCANNER_NEAR_MATURITY_DATE''"
| "scanner_macro SCANNER_NOT_OPEN = ''TWS_SCANNER_NOT_OPEN''"
| "scanner_macro SCANNER_OPT_OPEN_INTEREST_MOST_ACTIVE = ''TWS_SCANNER_OPT_OPEN_INTEREST_MOST_ACTIVE''"
| "scanner_macro SCANNER_OPT_VOLUME_MOST_ACTIVE = ''TWS_SCANNER_OPT_VOLUME_MOST_ACTIVE''"
| "scanner_macro SCANNER_PMONITOR_AVAIL_CONTRACTS = ''TWS_SCANNER_PMONITOR_AVAIL_CONTRACTS''"
| "scanner_macro SCANNER_PMONITOR_CTT = ''TWS_SCANNER_PMONITOR_CTT''"
| "scanner_macro SCANNER_PMONITOR_RFQ = ''TWS_SCANNER_PMONITOR_RFQ''"
| "scanner_macro SCANNER_TOP_OPEN_PERC_GAIN = ''TWS_SCANNER_TOP_OPEN_PERC_GAIN''"
| "scanner_macro SCANNER_TOP_OPEN_PERC_LOSE = ''TWS_SCANNER_TOP_OPEN_PERC_LOSE''"
| "scanner_macro SCANNER_TOP_OPT_IMP_VOLAT_GAIN = ''TWS_SCANNER_TOP_OPT_IMP_VOLAT_GAIN''"
| "scanner_macro SCANNER_TOP_OPT_IMP_VOLAT_LOSE = ''TWS_SCANNER_TOP_OPT_IMP_VOLAT_LOSE''"
| "scanner_macro SCANNER_TOP_PERC_GAIN = ''TWS_SCANNER_TOP_PERC_GAIN''"
| "scanner_macro SCANNER_TOP_PERC_LOSE = ''TWS_SCANNER_TOP_PERC_LOSE''"
| "scanner_macro SCANNER_TOP_PRICE_RANGE = ''TWS_SCANNER_TOP_PRICE_RANGE''"
| "scanner_macro SCANNER_TOP_TRADE_COUNT = ''TWS_SCANNER_TOP_TRADE_COUNT''"
| "scanner_macro SCANNER_TOP_TRADE_RATE = ''TWS_SCANNER_TOP_TRADE_RATE''"
| "scanner_macro SCANNER_TOP_VOLUME_RATE = ''TWS_SCANNER_TOP_VOLUME_RATE''"
| "scanner_macro SCANNER_WSH_NEXT_ANALYST_MEETING = ''TWS_SCANNER_WSH_NEXT_ANALYST_MEETING''"
| "scanner_macro SCANNER_WSH_NEXT_EARNINGS = ''TWS_SCANNER_WSH_NEXT_EARNINGS''"
| "scanner_macro SCANNER_WSH_NEXT_EVENT = ''TWS_SCANNER_WSH_NEXT_EVENT''"
| "scanner_macro SCANNER_WSH_NEXT_MAJOR_EVENT = ''TWS_SCANNER_WSH_NEXT_MAJOR_EVENT''"
| "scanner_macro SCANNER_WSH_PREV_ANALYST_MEETING = ''TWS_SCANNER_WSH_PREV_ANALYST_MEETING''"
| "scanner_macro SCANNER_WSH_PREV_EARNINGS = ''TWS_SCANNER_WSH_PREV_EARNINGS''"
| "scanner_macro SCANNER_WSH_PREV_EVENT = ''TWS_SCANNER_WSH_PREV_EVENT''"

definition scanner_to_tws :: "(string \<Rightarrow> string) \<Rightarrow> tws_scanner_type_t option \<Rightarrow> string option" where
  "scanner_to_tws M typ = (case typ of None \<Rightarrow> None | Some t \<Rightarrow> Some (M (scanner_macro t)))"

definition scanner_cases :: "(string \<times> tws_scanner_type_t) list" where
  "scanner_cases = [
    (''TWS_SCANNER_BOND_CUSIP_AZ'', SCANNER_BOND_CUSIP_AZ),
    (''TWS_SCANNER_BOND_CUSIP_ZA'', SCANNER_BOND_CUSIP_ZA),
    (''TWS_SCANNER_FAR_MATURITY_DATE'', SCANNER_FAR_MATURITY_DATE),
    (''TWS_SCANNER_HALTED'', SCANNER_HALTED),
    (''TWS_SCANNER_HIGHEST_SLB_BID'', SCANNER_HIGHEST_SLB_BID),
    (''TWS_SCANNER_HIGH_BOND_ASK_CURRENT_YIELD_ALL'', SCANNER_HIGH_BOND_ASK_CURRENT_YIELD_ALL),
    (''TWS_SCANNER_HIGH_BOND_ASK_YIELD_ALL'', SCANNER_HIGH_BOND_ASK_YIELD_ALL),
    (''TWS_SCANNER_HIGH_BOND_DEBT_2_BOOK_RATIO'', SCANNER_HIGH_BOND_DEBT_2_BOOK_RATIO),
    (''TWS_SCANNER_HIGH_BOND_DEBT_2_EQUITY_RATIO'', SCANNER_HIGH_BOND_DEBT_2_EQUITY_RATIO),
    (''TWS_SCANNER_HIGH_BOND_DEBT_2_TAN_BOOK_RATIO'', SCANNER_HIGH_BOND_DEBT_2_TAN_BOOK_RATIO),
    (''TWS_SCANNER_HIGH_BOND_EQUITY_2_BOOK_RATIO'', SCANNER_HIGH_BOND_EQUITY_2_BOOK_RATIO),
    (''TWS_SCANNER_HIGH_BOND_EQUITY_2_TAN_BOOK_RATIO'', SCANNER_HIGH_BOND_EQUITY_2_TAN_BOOK_RATIO),
    (''TWS_SCANNER_HIGH_BOND_SPREAD_ALL'', SCANNER_HIGH_BOND_SPREAD_ALL),
    (''TWS_SCANNER_HIGH_COUPON_RATE'', SCANNER_HIGH_COUPON_RATE),
    (''TWS_SCANNER_HIGH_DIVIDEND_YIELD'', SCANNER_HIGH_DIVIDEND_YIELD),
    (''TWS_SCANNER_HIGH_DIVIDEND_YIELD_IB'', SCANNER_HIGH_DIVIDEND_YIELD_IB),
    (''TWS_SCANNER_HIGH_GROWTH_RATE'', SCANNER_HIGH_GROWTH_RATE),
    (''TWS_SCANNER_HIGH_MOODY_RATING_ALL'', SCANNER_HIGH_MOODY_RATING_ALL),
    (''TWS_SCANNER_HIGH_OPEN_GAP'', SCANNER_HIGH_OPEN_GAP),
    (''TWS_SCANNER_HIGH_OPT_IMP_VOLAT'', SCANNER_HIGH_OPT_IMP_VOLAT),
    (''TWS_SCANNER_HIGH_OPT_IMP_VOLAT_OVER_HIST'', SCANNER_HIGH_OPT_IMP_VOLAT_OVER_HIST),
    (''TWS_SCANNER_HIGH_OPT_OPEN_INTEREST_PUT_CALL_RATIO'', SCANNER_HIGH_OPT_OPEN_INTEREST_PUT_CALL_RATIO),
    (''TWS_SCANNER_HIGH_OPT_OPEN_INT_PUT_CALL_RATIO'', SCANNER_HIGH_OPT_OPEN_INT_PUT_CALL_RATIO),
    (''TWS_SCANNER_HIGH_OPT_VOLUME_PUT_CALL_RATIO'', SCANNER_HIGH_OPT_VOLUME_PUT_CALL_RATIO),
    (''TWS_SCANNER_HIGH_PE_RATIO'', SCANNER_HIGH_PE_RATIO),
    (''TWS_SCANNER_HIGH_PRICE_2_BOOK_RATIO'', SCANNER_HIGH_PRICE_2_BOOK_RATIO),
    (''TWS_SCANNER_HIGH_PRICE_2_TAN_BOOK_RATIO'', SCANNER_HIGH_PRICE_2_TAN_BOOK_RATIO),
    (''TWS_SCANNER_HIGH_QUICK_RATIO'', SCANNER_HIGH_QUICK_RATIO),
    (''TWS_SCANNER_HIGH_RETURN_ON_EQUITY'', SCANNER_HIGH_RETURN_ON_EQUITY),
    (''TWS_SCANNER_HIGH_SYNTH_BID_REV_NAT_YIELD'', SCANNER_HIGH_SYNTH_BID_REV_NAT_YIELD),
    (''TWS_SCANNER_HIGH_VS_13W_HL'', SCANNER_HIGH_VS_13W_HL),
    (''TWS_SCANNER_HIGH_VS_26W_HL'', SCANNER_HIGH_VS_26W_HL),
    (''TWS_SCANNER_HIGH_VS_52W_HL'', SCANNER_HIGH_VS_52W_HL),
    (''TWS_SCANNER_HOT_BY_OPT_VOLUME'', SCANNER_HOT_BY_OPT_VOLUME),
    (''TWS_SCANNER_HOT_BY_PRICE'', SCANNER_HOT_BY_PRICE),
    (''TWS_SCANNER_HOT_BY_PRICE_RANGE'', SCANNER_HOT_BY_PRICE_RANGE),
    (''TWS_SCANNER_HOT_BY_VOLUME'', SCANNER_HOT_BY_VOLUME),
    (''TWS_SCANNER_HOT_VOLUME'', SCANNER_HOT_VOLUME),
    (''TWS_SCANNER_LIMIT_UP_DOWN'', SCANNER_LIMIT_UP_DOWN),
    (''TWS_SCANNER_LOWEST_SLB_ASK'', SCANNER_LOWEST_SLB_ASK),
    (''TWS_SCANNER_LOW_BOND_BID_CURRENT_YIELD_ALL'', SCANNER_LOW_BOND_BID_CURRENT_YIELD_ALL),
    (''TWS_SCANNER_LOW_BOND_BID_YIELD_ALL'', SCANNER_LOW_BOND_BID_YIELD_ALL),
    (''TWS_SCANNER_LOW_BOND_DEBT_2_BOOK_RATIO'', SCANNER_LOW_BOND_DEBT_2_BOOK_RATIO),
    (''TWS_SCANNER_LOW_BOND_DEBT_2_EQUITY_RATIO'', SCANNER_LOW_BOND_DEBT_2_EQUITY_RATIO),
    (''TWS_SCANNER_LOW_BOND_DEBT_2_TAN_BOOK_RATIO'', SCANNER_LOW_BOND_DEBT_2_TAN_BOOK_RATIO),
    (''TWS_SCANNER_LOW_BOND_EQUITY_2_BOOK_RATIO'', SCANNER_LOW_BOND_EQUITY_2_BOOK_RATIO),
    (''TWS_SCANNER_LOW_BOND_EQUITY_2_TAN_BOOK_RATIO'', SCANNER_LOW_BOND_EQUITY_2_TAN_BOOK_RATIO),
    (''TWS_SCANNER_LOW_BOND_SPREAD_ALL'', SCANNER_LOW_BOND_SPREAD_ALL),
    (''TWS_SCANNER_LOW_COUPON_RATE'', SCANNER_LOW_COUPON_RATE),
    (''TWS_SCANNER_LOW_GROWTH_RATE'', SCANNER_LOW_GROWTH_RATE),
    (''TWS_SCANNER_LOW_MOODY_RATING_ALL'', SCANNER_LOW_MOODY_RATING_ALL),
    (''TWS_SCANNER_LOW_OPEN_GAP'', SCANNER_LOW_OPEN_GAP),
    (''TWS_SCANNER_LOW_OPT_IMP_VOLAT'', SCANNER_LOW_OPT_IMP_VOLAT),
    (''TWS_SCANNER_LOW_OPT_IMP_VOLAT_OVER_HIST'', SCANNER_LOW_OPT_IMP_VOLAT_OVER_HIST),
    (''TWS_SCANNER_LOW_OPT_OPEN_INTEREST_PUT_CALL_RATIO'', SCANNER_LOW_OPT_OPEN_INTEREST_PUT_CALL_RATIO),
    (''TWS_SCANNER_LOW_OPT_OPEN_INT_PUT_CALL_RATIO'', SCANNER_LOW_OPT_OPEN_INT_PUT_CALL_RATIO),
    (''TWS_SCANNER_LOW_OPT_VOLUME_PUT_CALL_RATIO'', SCANNER_LOW_OPT_VOLUME_PUT_CALL_RATIO),
    (''TWS_SCANNER_LOW_PE_RATIO'', SCANNER_LOW_PE_RATIO),
    (''TWS_SCANNER_LOW_PRICE_2_BOOK_RATIO'', SCANNER_LOW_PRICE_2_BOOK_RATIO),
    (''TWS_SCANNER_LOW_PRICE_2_TAN_BOOK_RATIO'', SCANNER_LOW_PRICE_2_TAN_BOOK_RATIO),
    (''TWS_SCANNER_LOW_QUICK_RATIO'', SCANNER_LOW_QUICK_RATIO),
    (''TWS_SCANNER_LOW_RETURN_ON_EQUITY'', SCANNER_LOW_RETURN_ON_EQUITY),
    (''TWS_SCANNER_LOW_SYNTH_ASK_REV_NAT_YIELD'', SCANNER_LOW_SYNTH_ASK_REV_NAT_YIELD),
    (''TWS_SCANNER_LOW_VS_13W_HL'', SCANNER_LOW_VS_13W_HL),
    (''TWS_SCANNER_LOW_VS_26W_HL'', SCANNER_LOW_VS_26W_HL),
    (''TWS_SCANNER_LOW_VS_52W_HL'', SCANNER_LOW_VS_52W_HL),
    (''TWS_SCANNER_LOW_WAR_REL_IMP_VOLAT'', SCANNER_LOW_WAR_REL_IMP_VOLAT),
    (''TWS_SCANNER_MOST_ACTIVE'', SCANNER_MOST_ACTIVE),
    (''TWS_SCANNER_MOST_ACTIVE_AVG_USD'', SCANNER_MOST_ACTIVE_AVG_USD),
    (''TWS_SCANNER_MOST_ACTIVE_USD'', SCANNER_MOST_ACTIVE_USD),
    (''TWS_SCANNER_NEAR_MATURITY_DATE'', SCANNER_NEAR_MATURITY_DATE),
    (''TWS_SCANNER_NOT_OPEN'', SCANNER_NOT_OPEN),
    (''TWS_SCANNER_OPT_OPEN_INTEREST_MOST_ACTIVE'', SCANNER_OPT_OPEN_INTEREST_MOST_ACTIVE),
    (''TWS_SCANNER_OPT_VOLUME_MOST_ACTIVE'', SCANNER_OPT_VOLUME_MOST_ACTIVE),
    (''TWS_SCANNER_PMONITOR_AVAIL_CONTRACTS'', SCANNER_PMONITOR_AVAIL_CONTRACTS),
    (''TWS_SCANNER_PMONITOR_CTT'', SCANNER_PMONITOR_CTT),
    (''TWS_SCANNER_PMONITOR_RFQ'', SCANNER_PMONITOR_RFQ),
    (''TWS_SCANNER_TOP_OPEN_PERC_GAIN'', SCANNER_TOP_OPEN_PERC_GAIN),
    (''TWS_SCANNER_TOP_OPEN_PERC_LOSE'', SCANNER_TOP_OPEN_PERC_LOSE),
    (''TWS_SCANNER_TOP_OPT_IMP_VOLAT_GAIN'', SCANNER_TOP_OPT_IMP_VOLAT_GAIN),
    (''TWS_SCANNER_TOP_OPT_IMP_VOLAT_LOSE'', SCANNER_TOP_OPT_IMP_VOLAT_LOSE),
    (''TWS_SCANNER_TOP_PERC_GAIN'', SCANNER_TOP_PERC_GAIN),
    (''TWS_SCANNER_TOP_PERC_LOSE'', SCANNER_TOP_PERC_LOSE),
    (''TWS_SCANNER_TOP_PRICE_RANGE'', SCANNER_TOP_PRICE_RANGE),
    (''TWS_SCANNER_TOP_TRADE_COUNT'', SCANNER_TOP_TRADE_COUNT),
    (''TWS_SCANNER_TOP_TRADE_RATE'', SCANNER_TOP_TRADE_RATE),
    (''TWS_SCANNER_TOP_VOLUME_RATE'', SCANNER_TOP_VOLUME_RATE),
    (''TWS_SCANNER_WSH_NEXT_ANALYST_MEETING'', SCANNER_WSH_NEXT_ANALYST_MEETING),
    (''TWS_SCANNER_WSH_NEXT_EARNINGS'', SCANNER_WSH_NEXT_EARNINGS),
    (''TWS_SCANNER_WSH_NEXT_EVENT'', SCANNER_WSH_NEXT_EVENT),
    (''TWS_SCANNER_WSH_NEXT_MAJOR_EVENT'', SCANNER_WSH_NEXT_MAJOR_EVENT),
    (''TWS_SCANNER_WSH_PREV_ANALYST_MEETING'', SCANNER_WSH_PREV_ANALYST_MEETING),
    (''TWS_SCANNER_WSH_PREV_EARNINGS'', SCANNER_WSH_PREV_EARNINGS),
    (''TWS_SCANNER_WSH_PREV_EVENT'', SCANNER_WSH_PREV_EVENT)]"

definition scanner_from_tws :: "(string \<Rightarrow> string \<Rightarrow> bool) \<Rightarrow> (string \<Rightarrow> string) \<Rightarrow> string \<Rightarrow> tws_scanner_type_t option \<Rightarrow> tws_scanner_type_t option" where
  "scanner_from_tws same M typ d = first_match (\<lambda>m. same typ (M m)) scanner_cases d"

fun action_to_tws :: "tws_action_code_t option \<Rightarrow> string option" where
  "action_to_tws (Some ACTION_BUY) = Some ''BUY''"
| "action_to_tws (Some ACTION_SELL) = Some ''SELL''"
| "action_to_tws (Some ACTION_SSHORT) = Some ''SSHORT''"
| "action_to_tws (Some ACTION_SSHORTX) = Some ''SSHORTX''"
| "action_to_tws _ = None"

definition action_from_tws :: "(string \<Rightarrow> string \<Rightarrow> bool) \<Rightarrow> string \<Rightarrow> tws_action_code_t option \<Rightarrow> tws_action_code_t option" where
  "action_from_tws same typ d = first_match (same typ)
     [(''BUY'', ACTION_BUY), (''SELL'', ACTION_SELL), (''SSHORT'', ACTION_SSHORT), (''SSHORTX'', ACTION_SSHORTX)] d"

text \<open>The short sale slot is a number; the default value that is handed in is not looked at.\<close>

definition slot_from_tws :: "u32 \<Rightarrow> tws_short_sale_slot_type_t \<Rightarrow> tws_short_sale_slot_type_t" where
  "slot_from_tws v d = (if v = 1 then SSS_CLEARING_BROKER else if v = 2 then SSS_THIRD_PARTY else SSS_UNKNOWN)"

fun slot_code :: "tws_short_sale_slot_type_t \<Rightarrow> u32" where
  "slot_code SSS_UNKNOWN = 0"
| "slot_code SSS_CLEARING_BROKER = 1"
| "slot_code SSS_THIRD_PARTY = 2"

section \<open>Round trips\<close>

lemma first_match_own:
  assumes "list_all (\<lambda>(m, v). f v = m) cs" "t \<in> set (map snd cs)" "\<And>v. P (f v) \<longleftrightarrow> v = t"
  shows "first_match P cs d = Some t"
  using assms(1,2)
proof (induction cs)
  case (Cons c cs)
  then show ?case
    by (cases c) (auto simp: assms(3) simp del: set_map)
qed simp

lemma order_cases_own: "list_all (\<lambda>(m, v). order_macro v = m) order_cases"
  by (simp add: order_cases_def)

lemma order_cases_all: "t \<in> set (map snd order_cases)"
  by (cases t; simp add: order_cases_def)

lemma scanner_cases_own: "list_all (\<lambda>(m, v). scanner_macro v = m) scanner_cases"
  by (simp add: scanner_cases_def)

lemma scanner_cases_all: "t \<in> set (map snd scanner_cases)"
  by (cases t; simp add: scanner_cases_def)

lemma order_cases_distinct: "distinct (map fst order_cases)"
  by (simp add: order_cases_def)

lemma scanner_cases_distinct: "distinct (map fst scanner_cases)"
  by (simp add: scanner_cases_def)

text \<open>The macros are pairwise different, because the table that names them has no name twice.\<close>

lemma own_inj:
  assumes "list_all (\<lambda>(m, v). f v = m) cs" "\<And>v. v \<in> set (map snd cs)" "distinct (map fst cs)"
  shows "f v = f v' \<longleftrightarrow> v = v'"
proof
  assume eq: "f v = f v'"
  have mem: "(f u, u) \<in> set cs" for u
    using assms(2) [of u] assms(1) by (auto simp: list_all_iff)
  show "v = v'"
    using eq_key_imp_eq_value [OF assms(3) mem [of v]] mem [of v'] eq by simp
qed simp

lemmas order_macro_inj = own_inj [OF order_cases_own order_cases_all order_cases_distinct]
lemmas scanner_macro_inj = own_inj [OF scanner_cases_own scanner_cases_all scanner_cases_distinct]

lemma first_match_Some: "first_match P cs None = Some v \<Longrightarrow> list_all (\<lambda>(m, v). f v = m) cs \<Longrightarrow> P (f v)"
  by (induction cs) (auto split: if_splits prod.splits)

end
