(* ===== verification/ApiNames.thy ===== *)
theory ApiNames
  imports ApiEnums
begin

text \<open>The conversions between the enumerations and their API texts are inverse to each other.\<close>

section \<open>Properties\<close>

text \<open>When the API's texts differ for \<open>mg_strcasecmp\<close>, every order type, every scanner type and every
  action code but the unknown one is recovered from its text, and a text that is recognised is the
  text of the value it is recognised as.\<close>

theorem api_names_travel_back:
  assumes "\<forall>t t'. same (M (order_macro t)) (M (order_macro t')) \<longleftrightarrow> t = t'"
    and "\<forall>t t'. same (M (scanner_macro t)) (M (scanner_macro t')) \<longleftrightarrow> t = t'"
    and "\<forall>a \<in> {''BUY'', ''SELL'', ''SSHORT'', ''SSHORTX''}. \<forall>b \<in> {''BUY'', ''SELL'', ''SSHORT'', ''SSHORTX''}. same a b \<longleftrightarrow> a = b"
  shows "map_option (\<lambda>s. order_from_tws same M s d1) (order_to_tws M (Some ot)) = Some (Some ot) \<and>
    map_option (\<lambda>s. scanner_from_tws same M s d2) (scanner_to_tws M (Some st)) = Some (Some st) \<and>
    (ac \<noteq> ACTION_UNKNOWN \<longrightarrow> map_option (\<lambda>s. action_from_tws same s d3) (action_to_tws (Some ac)) = Some (Some ac)) \<and>
    (order_from_tws same M s None = Some ot \<longrightarrow> same s (M (order_macro ot))) \<and>
    (scanner_from_tws same M s None = Some st \<longrightarrow> same s (M (scanner_macro st)))"
proof (intro conjI impI)
  show "map_option (\<lambda>s. order_from_tws same M s d1) (order_to_tws M (Some ot)) = Some (Some ot)"
    unfolding order_to_tws_def order_from_tws_def option.case option.map option.inject
    by (rule first_match_own [OF order_cases_own order_cases_all]) (unfold assms(1) [rule_format], rule eq_commute)
  show "map_option (\<lambda>s. scanner_from_tws same M s d2) (scanner_to_tws M (Some st)) = Some (Some st)"
    unfolding scanner_to_tws_def scanner_from_tws_def option.case option.map option.inject
    by (rule first_match_own [OF scanner_cases_own scanner_cases_all]) (unfold assms(2) [rule_format], rule eq_commute)
  show "map_option (\<lambda>s. action_from_tws same s d3) (action_to_tws (Some ac)) = Some (Some ac)" if "ac \<noteq> ACTION_UNKNOWN"
    using that assms(3) by (cases ac) (simp_all add: action_from_tws_def)
  show "same s (M (order_macro ot))" if "order_from_tws same M s None = Some ot"
    using first_match_Some [OF _ order_cases_own] that by (simp add: order_from_tws_def)
  show "same s (M (scanner_macro st))" if "scanner_from_tws same M s None = Some st"
    using first_match_Some [OF _ scanner_cases_own] that by (simp add: scanner_from_tws_def)
qed

theorem api_names_travel_back_witness:
  "map_option (\<lambda>s. order_from_tws (=) id s None) (order_to_tws id (Some ORDER_BOX_TOP)) = Some (Some ORDER_BOX_TOP)"
proof -
  have "\<forall>t t'. id (order_macro t) = id (order_macro t') \<longleftrightarrow> t = t'"
    using order_macro_inj by (metis id_apply)
  moreover have "\<forall>t t'. id (scanner_macro t) = id (scanner_macro t') \<longleftrightarrow> t = t'"
    using scanner_macro_inj by (metis id_apply)
  moreover have "\<forall>a \<in> {''BUY'', ''SELL'', ''SSHORT'', ''SSHORTX''}. \<forall>b \<in> {''BUY'', ''SELL'', ''SSHORT'', ''SSHORTX''}. a = b \<longleftrightarrow> a = b"
    by simp
  ultimately show ?thesis
    by (rule api_names_travel_back [THEN conjunct1])
qed

end
