(* ===== verification/OptionalValue.thy ===== *)
theory OptionalValue
  imports Prelude
begin

text \<open>The template \<open>optional_value\<close> of \<open>tws_data_structures.h\<close>: a value with a validity flag. Its
  default constructor leaves the value uninitialised, and reading an invalid value stores the default
  in it. That neither can be observed is the refinement below, on which the option types of the other
  theories rest.\<close>

section \<open>The class\<close>

record 'a optional_value =
  m_stored_value :: 'a
  m_is_valid :: bool

text \<open>\<open>junk\<close> is what the memory of the value happens to hold.\<close>

definition ov_new :: "'a \<Rightarrow> 'a optional_value" where
  "ov_new junk = \<lparr>m_stored_value = junk, m_is_valid = False\<rparr>"

definition ov_of :: "'a \<Rightarrow> 'a optional_value" where
  "ov_of v = \<lparr>m_stored_value = v, m_is_valid = True\<rparr>"

definition ov_clear :: "'a optional_value \<Rightarrow> 'a optional_value" where
  "ov_clear o1 = o1\<lparr>m_is_valid := False\<rparr>"

definition ov_set :: "'a \<Rightarrow> 'a optional_value \<Rightarrow> 'a optional_value" where
  "ov_set v o1 = o1\<lparr>m_is_valid := True, m_stored_value := v\<rparr>"

definition ov_assign :: "'a optional_value \<Rightarrow> 'a optional_value \<Rightarrow> 'a optional_value" where
  "ov_assign v o1 = o1\<lparr>m_is_valid := m_is_valid v, m_stored_value := m_stored_value v\<rparr>"

definition ov_value :: "'a \<Rightarrow> 'a optional_value \<Rightarrow> 'a \<times> 'a optional_value" where
  "ov_value usr_default o1 = (let o2 = (if \<not> m_is_valid o1 then o1\<lparr>m_stored_value := usr_default\<rparr> else o1)
     in (m_stored_value o2, o2))"

definition ov_is :: "'a optional_value \<Rightarrow> 'a \<Rightarrow> bool" where
  "ov_is o1 v = (if m_is_valid o1 then m_stored_value o1 = v else False)"

definition ov_eq :: "'a optional_value \<Rightarrow> 'a optional_value \<Rightarrow> bool" where
  "ov_eq o1 v = (if m_is_valid o1 = m_is_valid v
     then if \<not> m_is_valid o1 then True else m_stored_value o1 = m_stored_value v
     else False)"

section \<open>The contract\<close>

text \<open>What the users of an optional value rely on: a view of it as an option, and what each operation
  does to the view.\<close>

locale optional_store =
  fixes view :: "'s \<Rightarrow> 'a option"
    and new :: "'a \<Rightarrow> 's"
    and put :: "'a \<Rightarrow> 's \<Rightarrow> 's"
    and clear :: "'s \<Rightarrow> 's"
    and assign :: "'s \<Rightarrow> 's \<Rightarrow> 's"
    and read :: "'a \<Rightarrow> 's \<Rightarrow> 'a \<times> 's"
    and eq :: "'s \<Rightarrow> 's \<Rightarrow> bool"
  assumes view_new: "view (new junk) = None"
    and view_put: "view (put v s) = Some v"
    and view_clear: "view (clear s) = None"
    and view_assign: "view (assign t s) = view t"
    and read_view: "fst (read d s) = (case view s of None \<Rightarrow> d | Some v \<Rightarrow> v)"
    and view_read: "view (snd (read d s)) = view s"
    and eq_view: "eq s t \<longleftrightarrow> view s = view t"

context optional_store begin

lemma read_put: "fst (read d (put v s)) = v"
  by (simp add: read_view view_put)

lemma read_again: "fst (read e (snd (read d s))) = fst (read e s)"
  by (simp add: read_view view_read)

lemma eq_put: "eq (put v s) (put w t) \<longleftrightarrow> v = w"
  by (simp add: eq_view view_put)

lemma eq_new: "eq (new j) (clear s)"
  by (simp add: eq_view view_new view_clear)

lemma eq_equiv: "equivp eq"
  by (intro equivpI reflpI sympI transpI) (simp_all add: eq_view)

end

section \<open>The class keeps the contract\<close>

definition ov_view :: "'a optional_value \<Rightarrow> 'a option" where
  "ov_view o1 = (if m_is_valid o1 then Some (m_stored_value o1) else None)"

interpretation ov: optional_store ov_view ov_new ov_set ov_clear ov_assign ov_value ov_eq
  by unfold_locales
    (auto simp: ov_view_def ov_new_def ov_set_def ov_clear_def ov_assign_def ov_value_def ov_eq_def Let_def)


section \<open>Programs over an optional value\<close>

text \<open>A list of operations, each of which may give a result: \<open>Op_compare\<close> compares with another optional
  value, \<open>Op_is\<close> with a plain one, \<open>Op_assign\<close> assigns another one.\<close>

datatype 'a opt_op = Op_put 'a | Op_clear | Op_assign "'a optional_value" | Op_read 'a | Op_compare "'a optional_value" | Op_is 'a

datatype 'a opt_result = No_result | Value 'a | Answer bool

fun ov_step :: "'a opt_op \<Rightarrow> 'a optional_value \<Rightarrow> 'a opt_result \<times> 'a optional_value" where
  "ov_step (Op_put v) s = (No_result, ov_set v s)"
| "ov_step Op_clear s = (No_result, ov_clear s)"
| "ov_step (Op_assign t) s = (No_result, ov_assign t s)"
| "ov_step (Op_read d) s = (Value (fst (ov_value d s)), snd (ov_value d s))"
| "ov_step (Op_compare t) s = (Answer (ov_eq s t), s)"
| "ov_step (Op_is v) s = (Answer (ov_is s v), s)"

fun ov_run :: "'a opt_op list \<Rightarrow> 'a optional_value \<Rightarrow> 'a opt_result list \<times> 'a optional_value" where
  "ov_run [] s = ([], s)"
| "ov_run (p # ps) s = (let (r, s1) = ov_step p s; (rs, s2) = ov_run ps s1 in (r # rs, s2))"

text \<open>The same programs on an option.\<close>

fun opt_step :: "'a opt_op \<Rightarrow> 'a option \<Rightarrow> 'a opt_result \<times> 'a option" where
  "opt_step (Op_put v) a = (No_result, Some v)"
| "opt_step Op_clear a = (No_result, None)"
| "opt_step (Op_assign t) a = (No_result, ov_view t)"
| "opt_step (Op_read d) a = (Value (case a of None \<Rightarrow> d | Some v \<Rightarrow> v), a)"
| "opt_step (Op_compare t) a = (Answer (a = ov_view t), a)"
| "opt_step (Op_is v) a = (Answer (a = Some v), a)"

fun opt_run :: "'a opt_op list \<Rightarrow> 'a option \<Rightarrow> 'a opt_result list \<times> 'a option" where
  "opt_run [] a = ([], a)"
| "opt_run (p # ps) a = (let (r, a1) = opt_step p a; (rs, a2) = opt_run ps a1 in (r # rs, a2))"

lemma ov_is_view: "ov_is s v \<longleftrightarrow> ov_view s = Some v"
  by (simp add: ov_is_def ov_view_def)

lemma step_refines: "fst (ov_step p s) = fst (opt_step p (ov_view s)) \<and> ov_view (snd (ov_step p s)) = snd (opt_step p (ov_view s))"
  by (cases p) (simp_all add: ov.view_put ov.view_clear ov.view_assign ov.read_view ov.view_read ov.eq_view ov_is_view)

lemma run_refines: "fst (ov_run ps s) = fst (opt_run ps (ov_view s)) \<and> ov_view (snd (ov_run ps s)) = snd (opt_run ps (ov_view s))"
proof (induction ps arbitrary: s)
  case (Cons p ps)
  then show ?case
    using step_refines [of p s] by (simp add: Let_def split_beta)
qed simp

section \<open>Properties\<close>

text \<open>An optional value refines an option: every program gives the same results on it as on the
  option it stands for and leaves it standing for the same option. In particular the junk that the
  default constructor leaves in the value and the defaults that reads store in it never show.\<close>

theorem optional_value_refines_option:
  "fst (ov_run ps s) = fst (opt_run ps (ov_view s)) \<and> ov_view (snd (ov_run ps s)) = snd (opt_run ps (ov_view s)) \<and>
   fst (ov_run ps (ov_new junk)) = fst (ov_run ps (ov_new junk'))"
  using run_refines by (metis ov.view_new)

end
