(* ===== verification/ApiStructs.thy ===== *)
theory ApiStructs
  imports ApiEnums
begin

text \<open>The classes of \<open>tws_data_structures.h\<close> that wrap the structs of the TWS API: building one from
  an API struct (the constructors), preparing an API struct from one (\<open>prep_for_tws\<close>), and \<open>equals\<close>.
  An optional value is an option, which theory \<open>OptionalValue\<close> justifies. The fields of one kind that
  a struct treats alike, one statement per field, are a function from the names of the fields, and the
  statements are the list of these names in the order of the code.\<close>

section \<open>Values\<close>

text \<open>A double is its bits: it is false as a condition when all but the sign are zero. A C string is
  \<open>None\<close> for the null pointer; an array is the null pointer or its elements, with its length beside it.\<close>

type_synonym double = "64 word"

definition double_true :: "double \<Rightarrow> bool" where
  "double_true d \<longleftrightarrow> push_bit 1 d \<noteq> 0"

definition is_nan :: "double \<Rightarrow> bool" where
  "is_nan d \<longleftrightarrow> 0x7FF0000000000000 < take_bit 63 d"

definition double_eq :: "double \<Rightarrow> double \<Rightarrow> bool" where
  "double_eq a b \<longleftrightarrow> \<not> is_nan a \<and> \<not> is_nan b \<and> (a = b \<or> \<not> double_true a \<and> \<not> double_true b)"

definition array_items :: "'a list option \<Rightarrow> int \<Rightarrow> 'a list res" where
  "array_items p n = (case p of
     None \<Rightarrow> Ok []
   | Some xs \<Rightarrow> if n \<le> 0 then Ok [] else if nat n \<le> length xs then Ok (take (nat n) xs) else Bad Dangling)"

fun rmap :: "('a \<Rightarrow> 'b res) \<Rightarrow> 'a list \<Rightarrow> 'b list res" where
  "rmap f [] = Ok []"
| "rmap f (x # xs) = rbind (f x) (\<lambda>y. rbind (rmap f xs) (\<lambda>ys. Ok (y # ys)))"

text \<open>The assignments of the constructors: of a number that is not zero, of a text that is not
  empty, of a text that is not the null pointer; the constructor of a string class reads the null
  pointer as the empty text.\<close>

definition take_double :: "double \<Rightarrow> double option" where
  "take_double d = (if double_true d then Some d else None)"

definition take_int :: "u32 \<Rightarrow> u32 option" where
  "take_int i = (if i \<noteq> 0 then Some i else None)"

definition take_text :: "string option \<Rightarrow> string option" where
  "take_text s = (case s of None \<Rightarrow> None | Some t \<Rightarrow> if t = [] then None else Some t)"

definition ib_string :: "string option \<Rightarrow> string" where
  "ib_string s = (case s of None \<Rightarrow> [] | Some t \<Rightarrow> t)"

text \<open>The assignments of \<open>prep_for_tws\<close>: a valid value replaces what the API's initialisation left.
  \<open>tws_strcpy\<close> gets the destination's old text and the source pointer.\<close>

definition give :: "'a \<Rightarrow> 'a option \<Rightarrow> 'a" where
  "give dst v = (case v of None \<Rightarrow> dst | Some x \<Rightarrow> x)"

type_synonym strcpy = "string option \<Rightarrow> string option \<Rightarrow> string option res"

fun give_texts :: "strcpy \<Rightarrow> 'f list \<Rightarrow> ('f \<Rightarrow> string option) \<Rightarrow> ('f \<Rightarrow> string option) \<Rightarrow> ('f \<Rightarrow> string option) res" where
  "give_texts cpy [] dst src = Ok dst"
| "give_texts cpy (f # fs) dst src =
     rbind (case src f of None \<Rightarrow> Ok (dst f) | Some s \<Rightarrow> cpy (dst f) (Some s)) (\<lambda>v.
     give_texts cpy fs (dst(f := v)) src)"

text \<open>What \<open>tws_strcpy\<close> is documented to do.\<close>

definition copies :: "strcpy \<Rightarrow> bool" where
  "copies cpy \<longleftrightarrow> (\<forall>d s. cpy d (Some s) = Ok (Some s))"

lemma give_texts_copies:
  "copies cpy \<Longrightarrow> give_texts cpy fs dst src =
    Ok (\<lambda>f. if f \<in> set fs \<and> src f \<noteq> None then src f else dst f)"
  by (induction fs arbitrary: dst) (auto simp: copies_def fun_eq_iff split: option.splits)

lemma give_texts_all:
  "copies cpy \<Longrightarrow> (\<And>f. f \<in> set fs) \<Longrightarrow> give_texts cpy fs dst src = Ok (\<lambda>f. if src f \<noteq> None then src f else dst f)"
  by (simp add: give_texts_copies)

section \<open>Contracts\<close>

record ib_under_comp =
  u_price :: double
  u_delta :: double
  u_conid :: u32

definition new_under_comp :: ib_under_comp where
  "new_under_comp = \<lparr>u_price = 0, u_delta = 0, u_conid = 0\<rparr>"

text \<open>The API's \<open>under_comp\<close> has the same three fields.\<close>

definition under_comp_of :: "ib_under_comp option \<Rightarrow> ib_under_comp" where
  "under_comp_of s = (case s of None \<Rightarrow> new_under_comp
     | Some t \<Rightarrow> new_under_comp\<lparr>u_price := u_price t, u_delta := u_delta t, u_conid := u_conid t\<rparr>)"

definition under_comp_equals :: "ib_under_comp \<Rightarrow> ib_under_comp option \<Rightarrow> bool" where
  "under_comp_equals a s = (case s of None \<Rightarrow> False
     | Some b \<Rightarrow> double_eq (u_price a) (u_price b) \<and> double_eq (u_delta a) (u_delta b) \<and> u_conid a = u_conid b)"

record tr_comboleg =
  tl_action :: "string option"
  tl_exchange :: "string option"
  tl_designated_location :: "string option"
  tl_conid :: u32
  tl_ratio :: u32
  tl_open_close :: u32
  tl_short_sale_slot :: u32
  tl_exempt_code :: u32

record ib_comboleg =
  co_action :: "tws_action_code_t option"
  co_exchange :: "string option"
  co_designated_location :: "string option"
  co_conid :: "u32 option"
  co_ratio :: "u32 option"
  co_open_close :: "u32 option"
  co_short_sale_slot :: "tws_short_sale_slot_type_t option"
  co_exempt_code :: "u32 option"

definition new_comboleg :: "u32 \<Rightarrow> ib_comboleg" where
  "new_comboleg COMBOLEG_UNKNOWN = \<lparr>co_action = Some ACTION_UNKNOWN, co_exchange = None, co_designated_location = None,
     co_conid = Some 0, co_ratio = Some 0, co_open_close = Some COMBOLEG_UNKNOWN, co_short_sale_slot = Some SSS_UNKNOWN,
     co_exempt_code = Some 0\<rparr>"

definition known_action :: "tws_action_code_t option \<Rightarrow> tws_action_code_t" where
  "known_action a = (case a of None \<Rightarrow> ACTION_UNKNOWN | Some x \<Rightarrow> x)"

text \<open>A leg is copied without a check for null pointers.\<close>

definition comboleg_of :: "(string \<Rightarrow> string \<Rightarrow> bool) \<Rightarrow> tr_comboleg \<Rightarrow> ib_comboleg res" where
  "comboleg_of same s = (case (tl_action s, tl_exchange s, tl_designated_location s) of
     (Some a, Some e, Some l) \<Rightarrow>
       Ok \<lparr>co_action = Some (known_action (action_from_tws same a (Some ACTION_UNKNOWN))), co_exchange = Some e,
         co_designated_location = Some l, co_conid = Some (tl_conid s), co_ratio = Some (tl_ratio s),
         co_open_close = Some (tl_open_close s), co_short_sale_slot = Some (slot_from_tws (tl_short_sale_slot s) SSS_UNKNOWN),
         co_exempt_code = Some (tl_exempt_code s)\<rparr>
   | _ \<Rightarrow> Bad Dangling)"

definition comboleg_equals :: "ib_comboleg \<Rightarrow> ib_comboleg option \<Rightarrow> bool" where
  "comboleg_equals a s = (case s of None \<Rightarrow> False
     | Some b \<Rightarrow> co_action a = co_action b \<and> co_exchange a = co_exchange b \<and>
         co_designated_location a = co_designated_location b \<and> co_conid a = co_conid b \<and> co_ratio a = co_ratio b \<and>
         co_open_close a = co_open_close b \<and> co_short_sale_slot a = co_short_sale_slot b \<and> co_exempt_code a = co_exempt_code b)"

datatype contract_text =
    C_symbol | C_sectype | C_exchange | C_primary_exch | C_expiry | C_currency | C_right | C_local_symbol
  | C_multiplier | C_combolegs_descrip | C_secid_type | C_secid

definition contract_texts :: "contract_text list" where
  "contract_texts = [C_symbol, C_sectype, C_exchange, C_primary_exch, C_expiry, C_currency, C_right, C_local_symbol, C_multiplier,
    C_combolegs_descrip, C_secid_type, C_secid]"

record tr_contract =
  tc_undercomp :: "ib_under_comp option"
  tc_strike :: double
  tc_text :: "contract_text \<Rightarrow> string option"
  tc_comboleg :: "tr_comboleg list option"
  tc_num_combolegs :: int
  tc_conid :: u32
  tc_include_expired :: bool

record ib_contract =
  c_undercomp :: "ib_under_comp option"
  c_strike :: "double option"
  c_text :: "contract_text \<Rightarrow> string option"
  c_comboleg :: "ib_comboleg list"
  c_conid :: "u32 option"
  c_include_expired :: "bool option"
  c_tws_data :: "tr_contract option"

definition new_contract :: ib_contract where
  "new_contract = \<lparr>c_undercomp = None, c_strike = None, c_text = (\<lambda>_. None), c_comboleg = [], c_conid = None,
     c_include_expired = None, c_tws_data = None\<rparr>"

text \<open>The constructor: \<open>c_undercomp\<close> is initialised with an \<open>ib_under_comp\<close> made of the pointer, so that
  it is valid whatever the pointer is.\<close>

definition contract_of :: "(string \<Rightarrow> string \<Rightarrow> bool) \<Rightarrow> tr_contract \<Rightarrow> ib_contract res" where
  "contract_of same s = rbind (array_items (tc_comboleg s) (tc_num_combolegs s)) (\<lambda>ls.
     rbind (rmap (comboleg_of same) ls) (\<lambda>legs.
     Ok \<lparr>c_undercomp = Some (under_comp_of (tc_undercomp s)), c_strike = take_double (tc_strike s),
       c_text = (\<lambda>f. take_text (tc_text s f)), c_comboleg = legs, c_conid = take_int (tc_conid s),
       c_include_expired = (if tc_include_expired s then Some True else None), c_tws_data = None\<rparr>))"

text \<open>The functions of the API: what its initialisations leave in a struct, and \<open>tws_strcpy\<close>.\<close>

record contract_api =
  tws_init_contract :: tr_contract
  tws_init_tr_comboleg :: tr_comboleg
  tws_strcpy :: strcpy

text \<open>The string members of a leg are taken as pointers, which are never null; an invalid number
  reads as 0.\<close>

definition comboleg_prep :: "contract_api \<Rightarrow> ib_comboleg \<Rightarrow> tr_comboleg res" where
  "comboleg_prep api leg = (let cl = tws_init_tr_comboleg api in
     rbind (case co_action leg of None \<Rightarrow> Ok (tl_action cl)
            | Some a \<Rightarrow> tws_strcpy api (tl_action cl) (action_to_tws (Some a))) (\<lambda>act.
     rbind (tws_strcpy api (tl_exchange cl) (Some (give [] (co_exchange leg)))) (\<lambda>exch.
     rbind (tws_strcpy api (tl_designated_location cl) (Some (give [] (co_designated_location leg)))) (\<lambda>loc.
     Ok \<lparr>tl_action = act, tl_exchange = exch, tl_designated_location = loc,
       tl_conid = (if give 0 (co_conid leg) \<noteq> 0 then give 0 (co_conid leg) else tl_conid cl),
       tl_ratio = (if give 0 (co_ratio leg) \<noteq> 0 then give 0 (co_ratio leg) else tl_ratio cl),
       tl_open_close = (if give 0 (co_open_close leg) \<noteq> 0 then give 0 (co_open_close leg) else tl_open_close cl),
       tl_short_sale_slot =
         (if slot_code (give SSS_UNKNOWN (co_short_sale_slot leg)) \<noteq> 0
          then slot_code (give SSS_UNKNOWN (co_short_sale_slot leg)) else tl_short_sale_slot cl),
       tl_exempt_code = (if give 0 (co_exempt_code leg) \<noteq> 0 then give 0 (co_exempt_code leg) else tl_exempt_code cl)\<rparr>))))"

definition contract_prep :: "contract_api \<Rightarrow> ib_contract \<Rightarrow> ib_contract res" where
  "contract_prep api c = (let dst = tws_init_contract api in
     rbind (give_texts (tws_strcpy api) contract_texts (tc_text dst) (c_text c)) (\<lambda>texts.
     rbind (rmap (comboleg_prep api) (c_comboleg c)) (\<lambda>legs.
     Ok (c\<lparr>c_tws_data := Some
       \<lparr>tc_undercomp = (case c_undercomp c of None \<Rightarrow> tc_undercomp dst | Some u \<Rightarrow> Some u),
        tc_strike = give (tc_strike dst) (c_strike c), tc_text = texts,
        tc_comboleg = (if legs = [] then None else Some legs), tc_num_combolegs = int (length (c_comboleg c)),
        tc_conid = give (tc_conid dst) (c_conid c),
        tc_include_expired = give (tc_include_expired dst) (c_include_expired c)\<rparr>\<rparr>))))"

definition contract_cleanup :: "ib_contract \<Rightarrow> ib_contract" where
  "contract_cleanup c = c\<lparr>c_tws_data := None\<rparr>"

definition contract_to_tws :: "ib_contract \<Rightarrow> tr_contract option" where
  "contract_to_tws c = c_tws_data c"

definition contract_equals :: "ib_contract \<Rightarrow> ib_contract option \<Rightarrow> bool" where
  "contract_equals a s = (case s of None \<Rightarrow> False
     | Some b \<Rightarrow>
         if give 0 (c_conid a) \<noteq> 0 \<and> c_conid a = c_conid b then True
         else list_all (\<lambda>f. c_text a f = c_text b f) contract_texts \<and> c_conid a = c_conid b)"

section \<open>Contract details\<close>

type_synonym tag_value = "string \<times> string"

datatype details_text =
    D_market_name | D_trading_class | D_order_types | D_valid_exchanges | D_cusip | D_maturity | D_issue_date
  | D_ratings | D_bond_type | D_coupon_type | D_desc_append | D_next_option_date | D_next_option_type | D_notes
  | D_long_name | D_contract_month | D_industry | D_category | D_subcategory | D_timezone_id | D_trading_hours
  | D_liquid_hours | D_ev_rule

definition details_compared :: "details_text list" where
  "details_compared = [D_market_name, D_trading_class, D_order_types, D_valid_exchanges, D_cusip, D_maturity, D_issue_date, D_ratings,
    D_bond_type, D_coupon_type, D_desc_append, D_notes, D_long_name, D_contract_month, D_industry, D_category,
    D_subcategory, D_timezone_id, D_trading_hours, D_liquid_hours, D_ev_rule]"

record tr_contract_details =
  td_summary :: tr_contract
  td_mintick :: double
  td_coupon :: double
  td_ev_multiplier :: double
  td_text :: "details_text \<Rightarrow> string option"
  td_sec_id_list :: "(string option \<times> string option) list option"
  td_sec_id_list_count :: int
  td_price_magnifier :: u32
  td_under_conid :: u32
  td_convertible :: bool
  td_callable :: bool
  td_putable :: bool
  td_next_option_partial :: bool

record ib_contract_details =
  d_summary :: ib_contract
  d_mintick :: double
  d_coupon :: double
  d_ev_multiplier :: double
  d_text :: "details_text \<Rightarrow> string"
  d_sec_id_list :: "tag_value list"
  d_price_magnifier :: u32
  d_under_conid :: u32
  d_convertible :: bool
  d_callable :: bool
  d_putable :: bool
  d_next_option_partial :: bool

definition new_contract_details :: ib_contract_details where
  "new_contract_details = \<lparr>d_summary = new_contract, d_mintick = 0, d_coupon = 0, d_ev_multiplier = 0,
     d_text = (\<lambda>_. []), d_sec_id_list = [], d_price_magnifier = 0, d_under_conid = 0, d_convertible = False,
     d_callable = False, d_putable = False, d_next_option_partial = False\<rparr>"

definition tag_value_of :: "string option \<times> string option \<Rightarrow> tag_value" where
  "tag_value_of t = (ib_string (fst t), ib_string (snd t))"

definition contract_details_of :: "(string \<Rightarrow> string \<Rightarrow> bool) \<Rightarrow> tr_contract_details \<Rightarrow> ib_contract_details res" where
  "contract_details_of same s = rbind (contract_of same (td_summary s)) (\<lambda>summary.
     rbind (array_items (td_sec_id_list s) (td_sec_id_list_count s)) (\<lambda>tags.
     Ok \<lparr>d_summary = summary, d_mintick = td_mintick s, d_coupon = td_coupon s, d_ev_multiplier = td_ev_multiplier s,
       d_text = (\<lambda>f. ib_string (td_text s f)), d_sec_id_list = map tag_value_of tags,
       d_price_magnifier = td_price_magnifier s, d_under_conid = td_under_conid s, d_convertible = td_convertible s,
       d_callable = td_callable s, d_putable = td_putable s, d_next_option_partial = td_next_option_partial s\<rparr>))"

definition contract_details_equals :: "ib_contract_details \<Rightarrow> ib_contract_details option \<Rightarrow> bool" where
  "contract_details_equals a s = (case s of None \<Rightarrow> False
     | Some b \<Rightarrow> contract_equals (d_summary a) (Some (d_summary b)) \<and>
         list_all (\<lambda>f. d_text a f = d_text b f) details_compared \<and>
         d_price_magnifier a = d_price_magnifier b \<and> d_under_conid a = d_under_conid b \<and>
         d_convertible a = d_convertible b \<and> d_callable a = d_callable b \<and> d_putable a = d_putable b)"

section \<open>Equality of contracts\<close>

lemma contract_texts_all: "f \<in> set contract_texts"
  by (cases f) (simp_all add: contract_texts_def)

lemma contract_equals_iff:
  "contract_equals a (Some b) \<longleftrightarrow> c_conid a = c_conid b \<and> (give 0 (c_conid a) \<noteq> 0 \<or> c_text a = c_text b)"
  using contract_texts_all by (auto simp: contract_equals_def list_all_iff fun_eq_iff)

lemma contract_equals_equiv:
  "equivp (\<lambda>a b. contract_equals a (Some b))"
  by (intro equivpI reflpI sympI transpI) (auto simp: contract_equals_iff)

lemma contract_details_equals_equiv: "equivp (\<lambda>a b. contract_details_equals a (Some b))"
  by (intro equivpI reflpI sympI transpI)
    (auto simp: contract_details_equals_def contract_equals_iff list_all_iff)

section \<open>Contracts to the API and back\<close>

text \<open>An API whose initialisations leave all fields empty, and contracts as the constructor makes
  them: valid values are not zero and not empty, and every leg has a known action.\<close>

definition blank_api :: "strcpy \<Rightarrow> contract_api" where
  "blank_api cpy = \<lparr>tws_init_contract =
      \<lparr>tc_undercomp = None, tc_strike = 0, tc_text = (\<lambda>_. None), tc_comboleg = None, tc_num_combolegs = 0, tc_conid = 0,
       tc_include_expired = False\<rparr>,
     tws_init_tr_comboleg = \<lparr>tl_action = None, tl_exchange = None, tl_designated_location = None, tl_conid = 0, tl_ratio = 0,
       tl_open_close = 0, tl_short_sale_slot = 0, tl_exempt_code = 0\<rparr>,
     tws_strcpy = cpy\<rparr>"

lemma blank_api_sel [simp]:
  "tws_strcpy (blank_api cpy) = cpy" "tc_undercomp (tws_init_contract (blank_api cpy)) = None"
  "tc_strike (tws_init_contract (blank_api cpy)) = 0" "tc_text (tws_init_contract (blank_api cpy)) = (\<lambda>_. None)"
  "tc_conid (tws_init_contract (blank_api cpy)) = 0" "tc_include_expired (tws_init_contract (blank_api cpy)) = False"
  by (simp_all add: blank_api_def)

definition leg_ok :: "ib_comboleg \<Rightarrow> bool" where
  "leg_ok l \<longleftrightarrow> (case co_action l of None \<Rightarrow> False | Some a \<Rightarrow> a \<noteq> ACTION_UNKNOWN) \<and> co_exchange l \<noteq> None \<and>
     co_designated_location l \<noteq> None \<and> co_conid l \<noteq> None \<and> co_ratio l \<noteq> None \<and> co_open_close l \<noteq> None \<and>
     co_short_sale_slot l \<noteq> None \<and> co_exempt_code l \<noteq> None"

definition contract_ok :: "ib_contract \<Rightarrow> bool" where
  "contract_ok c \<longleftrightarrow> (case c_strike c of None \<Rightarrow> True | Some d \<Rightarrow> double_true d) \<and>
     (\<forall>f. c_text c f \<noteq> Some []) \<and> c_conid c \<noteq> Some 0 \<and> c_include_expired c \<noteq> Some False \<and> list_all leg_ok (c_comboleg c)"

definition same_texts :: "(string \<Rightarrow> string \<Rightarrow> bool) \<Rightarrow> bool" where
  "same_texts same \<longleftrightarrow> (\<forall>a \<in> {''BUY'', ''SELL'', ''SSHORT'', ''SSHORTX''}. \<forall>b \<in> {''BUY'', ''SELL'', ''SSHORT'', ''SSHORTX''}.
     same a b \<longleftrightarrow> a = b)"

lemma leg_travels_back:
  assumes "copies cpy" "same_texts same" "leg_ok l"
  shows "\<exists>t. comboleg_prep (blank_api cpy) l = Ok t \<and> comboleg_of same t = Ok l"
proof -
  obtain a e loc cid r oc sl ex where l: "l = \<lparr>co_action = Some a, co_exchange = Some e, co_designated_location = Some loc,
      co_conid = Some cid, co_ratio = Some r, co_open_close = Some oc, co_short_sale_slot = Some sl, co_exempt_code = Some ex\<rparr>"
    and a: "a \<noteq> ACTION_UNKNOWN"
    using assms(3) by (cases l) (auto simp: leg_ok_def split: option.splits)
  obtain s where s: "action_to_tws (Some a) = Some s"
    and known: "known_action (action_from_tws same s (Some ACTION_UNKNOWN)) = a"
    using a assms(2) by (cases a) (simp_all add: action_from_tws_def same_texts_def known_action_def)
  have sl: "slot_from_tws (slot_code sl) SSS_UNKNOWN = sl"
    by (cases sl) (simp_all add: slot_from_tws_def)
  show ?thesis
    using assms(1) s known sl
    by (auto simp: l comboleg_prep_def blank_api_def comboleg_of_def copies_def give_def Let_def)
qed

lemma legs_travel_back:
  assumes "copies cpy" "same_texts same" "list_all leg_ok ls"
  shows "\<exists>ts. rmap (comboleg_prep (blank_api cpy)) ls = Ok ts \<and> rmap (comboleg_of same) ts = Ok ls \<and> length ts = length ls"
  using assms(3)
proof (induction ls)
  case (Cons l ls)
  then obtain t ts where "comboleg_prep (blank_api cpy) l = Ok t" "comboleg_of same t = Ok l"
    "rmap (comboleg_prep (blank_api cpy)) ls = Ok ts" "rmap (comboleg_of same) ts = Ok ls" "length ts = length ls"
    using leg_travels_back [OF assms(1,2), of l] by auto
  then show ?case
    by simp
qed simp

lemma take_give:
  "v \<noteq> Some [] \<Longrightarrow> take_text (if v \<noteq> None then v else None) = v"
  by (cases v) (auto simp: take_text_def)

lemma array_items_all: "array_items (if ts = [] then None else Some ts) (int (length ts)) = Ok ts"
  by (simp add: array_items_def)

text \<open>A leg without a known action has no text for it, and the null pointer is what is copied.\<close>

lemma unknown_action_copies_null:
  assumes "co_action l = Some ACTION_UNKNOWN" "tws_strcpy api (tl_action (tws_init_tr_comboleg api)) None = Bad e"
  shows "comboleg_prep api l = Bad e"
  using assms by (simp add: comboleg_prep_def Let_def)

definition plain_strcpy :: strcpy where
  "plain_strcpy d s = (case s of None \<Rightarrow> Bad Dangling | Some t \<Rightarrow> Ok (Some t))"

lemma plain_strcpy_copies: "copies plain_strcpy"
  by (simp add: copies_def plain_strcpy_def)

definition a_spread :: ib_contract where
  "a_spread = new_contract\<lparr>c_text := (\<lambda>f. if f = C_symbol then Some ''USD'' else None), c_conid := Some 7, c_comboleg :=
     [\<lparr>co_action = Some ACTION_SELL, co_exchange = Some ''SMART'', co_designated_location = Some [], co_conid = Some 8,
       co_ratio = Some 1, co_open_close = Some 0, co_short_sale_slot = Some SSS_UNKNOWN, co_exempt_code = Some 0\<rparr>]\<rparr>"

section \<open>Properties\<close>

text \<open>C38: the equality of contracts, which takes two contracts for the same when they have the same
  contract identifier, and the equality of contract details are equivalence relations, and nothing
  equals the null pointer.\<close>

theorem contract_equality_is_equivalence:
  "equivp (\<lambda>a b. contract_equals a (Some b)) \<and> equivp (\<lambda>a b. contract_details_equals a (Some b)) \<and>
   \<not> contract_equals c None \<and> \<not> contract_details_equals d None"
  using contract_equals_equiv contract_details_equals_equiv
  by (simp add: contract_equals_def contract_details_equals_def)

text \<open>A contract whose valid fields are not empty and whose legs are complete survives the way into
  the API's struct and back: everything returns but an absent delta neutral component, which comes
  back as one of zeros.\<close>

theorem contract_travels_back:
  assumes "copies cpy" "same_texts same" "contract_ok c"
  shows "\<exists>c' t. contract_prep (blank_api cpy) c = Ok c' \<and> contract_to_tws c' = Some t \<and>
    contract_of same t = Ok (c\<lparr>c_undercomp := Some (under_comp_of (c_undercomp c)), c_tws_data := None\<rparr>)"
proof -
  obtain legs where legs: "rmap (comboleg_prep (blank_api cpy)) (c_comboleg c) = Ok legs"
      "rmap (comboleg_of same) legs = Ok (c_comboleg c)" "length legs = length (c_comboleg c)"
    using legs_travel_back [OF assms(1,2)] assms(3) by (auto simp: contract_ok_def)
  have texts: "take_text (if c_text c f \<noteq> None then c_text c f else None) = c_text c f" for f
    using assms(3) by (intro take_give) (simp add: contract_ok_def)
  have rest: "take_double (give 0 (c_strike c)) = c_strike c" "take_int (give 0 (c_conid c)) = c_conid c"
    "(if give False (c_include_expired c) then Some True else None) = c_include_expired c"
    using assms(3) by (auto simp: contract_ok_def take_double_def take_int_def give_def double_true_def split: option.splits)
  have given: "give_texts cpy contract_texts (\<lambda>_. None) (c_text c) = Ok (\<lambda>f. if c_text c f \<noteq> None then c_text c f else None)"
    by (rule give_texts_all [OF assms(1) contract_texts_all])
  define t where "t = \<lparr>tc_undercomp = c_undercomp c, tc_strike = give 0 (c_strike c),
      tc_text = (\<lambda>f. if c_text c f \<noteq> None then c_text c f else None), tc_comboleg = (if legs = [] then None else Some legs),
      tc_num_combolegs = int (length (c_comboleg c)), tc_conid = give 0 (c_conid c),
      tc_include_expired = give False (c_include_expired c)\<rparr>"
  have undercomp: "(case c_undercomp c of None \<Rightarrow> tc_undercomp (tws_init_contract (blank_api cpy)) | Some u \<Rightarrow> Some u) = c_undercomp c"
    by (simp split: option.splits)
  have "contract_prep (blank_api cpy) c = Ok (c\<lparr>c_tws_data := Some t\<rparr>)"
    using legs(1) given undercomp by (simp add: contract_prep_def t_def Let_def)
  moreover have "contract_of same t = Ok (c\<lparr>c_undercomp := Some (under_comp_of (c_undercomp c)), c_tws_data := None\<rparr>)"
    using legs(2) texts rest array_items_all [of legs] legs(3) by (simp add: contract_of_def t_def)
  ultimately show ?thesis
    by (simp add: contract_to_tws_def)
qed

theorem contract_travels_back_witness:
  "\<exists>c' t. contract_prep (blank_api plain_strcpy) a_spread = Ok c' \<and> contract_to_tws c' = Some t \<and>
     contract_of (=) t = Ok (a_spread\<lparr>c_undercomp := Some new_under_comp\<rparr>)"
proof -
  have "same_texts (=)" "contract_ok a_spread"
    by (simp_all add: same_texts_def contract_ok_def a_spread_def new_contract_def leg_ok_def)
  moreover have "a_spread\<lparr>c_undercomp := Some (under_comp_of (c_undercomp a_spread)), c_tws_data := None\<rparr> =
      a_spread\<lparr>c_undercomp := Some new_under_comp\<rparr>"
    by (simp add: a_spread_def new_contract_def under_comp_of_def)
  ultimately show ?thesis
    using contract_travels_back [OF plain_strcpy_copies, of "(=)" a_spread] by simp
qed

text \<open>Every contract that comes from the API is sent back with a delta neutral component, also
  when it had none: the constructor makes the optional component valid from a null pointer.\<close>

theorem contract_gains_a_delta_neutral_component:
  assumes "contract_of same t = Ok c" "contract_prep api c = Ok c'" "contract_to_tws c' = Some t'"
  shows "tc_undercomp t' = Some (under_comp_of (tc_undercomp t))"
  using assms by (auto simp: contract_of_def contract_prep_def contract_to_tws_def Let_def res_simps)

theorem contract_gains_a_delta_neutral_component_witness:
  "\<exists>c c' t'. contract_of (=) (tws_init_contract (blank_api plain_strcpy)) = Ok c \<and>
     contract_prep (blank_api plain_strcpy) c = Ok c' \<and> contract_to_tws c' = Some t' \<and> tc_undercomp t' = Some new_under_comp"
proof -
  let ?t = "tws_init_contract (blank_api plain_strcpy)"
  obtain c where c: "contract_of (=) ?t = Ok c" "c_comboleg c = []"
    by (simp add: contract_of_def blank_api_def array_items_def)
  obtain c' t' where "contract_prep (blank_api plain_strcpy) c = Ok c'" "contract_to_tws c' = Some t'"
    using c(2) by (simp add: contract_prep_def contract_to_tws_def blank_api_def Let_def give_texts_all [OF plain_strcpy_copies contract_texts_all])
  then show ?thesis
    using c contract_gains_a_delta_neutral_component [OF c(1)] by (auto simp: under_comp_of_def blank_api_def)
qed

end
