(* ===== verification/ApiOrders.thy ===== *)
theory ApiOrders
  imports ApiStructs
begin

text \<open>The remaining wrappers of \<open>tws_data_structures.h\<close>: orders, market scanner subscriptions and
  execution filters, which travel to the API and back, and order states, executions and commission
  reports, which only come from it.\<close>

section \<open>Orders\<close>

datatype order_double =
    O_discretionary_amt | O_lmt_price | O_aux_price | O_percent_offset | O_nbbo_price_cap | O_starting_price
  | O_stock_ref_price | O_delta | O_stock_range_lower | O_stock_range_upper | O_volatility
  | O_delta_neutral_aux_price | O_trail_stop_price | O_trailing_percent | O_basis_points | O_scale_price_increment
  | O_scale_price_adjust_value | O_scale_profit_offset

definition order_doubles :: "order_double list" where
  "order_doubles = [O_discretionary_amt, O_lmt_price, O_aux_price, O_percent_offset, O_nbbo_price_cap, O_starting_price,
    O_stock_ref_price, O_delta, O_stock_range_lower, O_stock_range_upper, O_volatility, O_delta_neutral_aux_price,
    O_trail_stop_price, O_trailing_percent, O_basis_points, O_scale_price_increment, O_scale_price_adjust_value,
    O_scale_profit_offset]"

datatype order_text =
    O_algo_strategy | O_good_after_time | O_good_till_date | O_fagroup | O_famethod | O_fapercentage | O_faprofile
  | O_action | O_order_type | O_tif | O_oca_group | O_account | O_open_close | O_orderref | O_designated_location
  | O_rule80a | O_settling_firm | O_delta_neutral_order_type | O_clearing_account | O_clearing_intent | O_hedge_type
  | O_hedge_param | O_delta_neutral_settling_firm | O_delta_neutral_clearing_account
  | O_delta_neutral_clearing_intent

definition order_texts :: "order_text list" where
  "order_texts = [O_algo_strategy, O_good_after_time, O_good_till_date, O_fagroup, O_famethod, O_fapercentage, O_faprofile,
    O_action, O_order_type, O_tif, O_oca_group, O_account, O_open_close, O_orderref, O_designated_location,
    O_rule80a, O_settling_firm, O_delta_neutral_order_type, O_clearing_account, O_clearing_intent, O_hedge_type,
    O_hedge_param, O_delta_neutral_settling_firm, O_delta_neutral_clearing_account, O_delta_neutral_clearing_intent]"

datatype order_int =
    O_orderid | O_total_quantity | O_clientid | O_permid | O_parentid | O_display_size | O_trigger_method
  | O_min_qty | O_volatility_type | O_reference_price_type | O_basis_points_type | O_scale_subs_level_size
  | O_scale_init_level_size | O_scale_price_adjust_interval | O_scale_init_position | O_scale_init_fill_qty
  | O_exempt_code | O_delta_neutral_con_id

definition order_ints :: "order_int list" where
  "order_ints = [O_orderid, O_total_quantity, O_clientid, O_permid, O_parentid, O_display_size, O_trigger_method, O_min_qty,
    O_volatility_type, O_reference_price_type, O_basis_points_type, O_scale_subs_level_size, O_scale_init_level_size,
    O_scale_price_adjust_interval, O_scale_init_position, O_scale_init_fill_qty, O_exempt_code,
    O_delta_neutral_con_id]"

datatype order_flag =
    O_override_percentage_constraints | O_firm_quote_only | O_etrade_only | O_all_or_none | O_outside_rth | O_hidden
  | O_transmit | O_block_order | O_sweep_to_fill | O_continuous_update | O_whatif | O_not_held
  | O_opt_out_smart_routing | O_scale_auto_reset | O_scale_random_percent

definition order_flags :: "order_flag list" where
  "order_flags = [O_override_percentage_constraints, O_firm_quote_only, O_etrade_only, O_all_or_none, O_outside_rth, O_hidden,
    O_transmit, O_block_order, O_sweep_to_fill, O_continuous_update, O_whatif, O_not_held, O_opt_out_smart_routing,
    O_scale_auto_reset, O_scale_random_percent]"

text \<open>The enumerations \<open>o_origin\<close>, \<open>o_oca_type\<close> and \<open>o_auction_strategy\<close> are the API's, and their codes.\<close>

record tr_order =
  to_double :: "order_double \<Rightarrow> double"
  to_text :: "order_text \<Rightarrow> string option"
  to_int :: "order_int \<Rightarrow> u32"
  to_flag :: "order_flag \<Rightarrow> bool"
  to_algo_params :: "(string option \<times> string option) list option"
  to_algo_params_count :: int
  to_smart_combo_routing_params :: "(string option \<times> string option) list option"
  to_smart_combo_routing_params_count :: int
  to_combo_legs :: "double list option"
  to_combo_legs_count :: int
  to_origin :: u32
  to_oca_type :: u32
  to_auction_strategy :: u32
  to_short_sale_slot :: u32

record ib_order =
  o_double :: "order_double \<Rightarrow> double option"
  o_text :: "order_text \<Rightarrow> string option"
  o_int :: "order_int \<Rightarrow> u32 option"
  o_flag :: "order_flag \<Rightarrow> bool option"
  o_algo_params :: "tag_value list"
  o_smart_combo_routing_params :: "tag_value list"
  o_combo_legs :: "double list"
  o_origin :: "u32 option"
  o_oca_type :: "u32 option"
  o_auction_strategy :: "u32 option"
  o_short_sale_slot :: "tws_short_sale_slot_type_t option"
  o_tws_data :: "tr_order option"

definition new_order :: ib_order where
  "new_order = \<lparr>o_double = (\<lambda>_. None), o_text = (\<lambda>_. None), o_int = (\<lambda>_. None), o_flag = (\<lambda>_. None), o_algo_params = [],
     o_smart_combo_routing_params = [], o_combo_legs = [], o_origin = None, o_oca_type = None, o_auction_strategy = None,
     o_short_sale_slot = None, o_tws_data = None\<rparr>"

text \<open>The flags are taken over unconditionally, false ones too.\<close>

definition order_of :: "tr_order \<Rightarrow> ib_order res" where
  "order_of s = rbind (array_items (to_algo_params s) (to_algo_params_count s)) (\<lambda>algo.
     rbind (array_items (to_smart_combo_routing_params s) (to_smart_combo_routing_params_count s)) (\<lambda>smart.
     rbind (array_items (to_combo_legs s) (to_combo_legs_count s)) (\<lambda>legs.
     Ok \<lparr>o_double = (\<lambda>f. take_double (to_double s f)), o_text = (\<lambda>f. take_text (to_text s f)),
       o_int = (\<lambda>f. take_int (to_int s f)), o_flag = (\<lambda>f. Some (to_flag s f)),
       o_algo_params = map tag_value_of algo, o_smart_combo_routing_params = map tag_value_of smart, o_combo_legs = legs,
       o_origin = take_int (to_origin s), o_oca_type = take_int (to_oca_type s),
       o_auction_strategy = take_int (to_auction_strategy s),
       o_short_sale_slot = (if to_short_sale_slot s \<noteq> 0 then Some (slot_from_tws (to_short_sale_slot s) SSS_UNKNOWN) else None),
       o_tws_data = None\<rparr>)))"

record order_api =
  tws_init_order :: tr_order
  tws_init_tag_value :: "string option \<times> string option"
  order_strcpy :: strcpy

definition tag_value_prep :: "order_api \<Rightarrow> tag_value \<Rightarrow> (string option \<times> string option) res" where
  "tag_value_prep api tv = rbind (order_strcpy api (fst (tws_init_tag_value api)) (Some (fst tv))) (\<lambda>t.
     rbind (order_strcpy api (snd (tws_init_tag_value api)) (Some (snd tv))) (\<lambda>v. Ok (t, v)))"

text \<open>A count of zero leaves the pointer that the initialisation has set.\<close>

definition order_prep :: "order_api \<Rightarrow> ib_order \<Rightarrow> ib_order res" where
  "order_prep api c = (let dst = tws_init_order api in
     rbind (give_texts (order_strcpy api) order_texts (to_text dst) (o_text c)) (\<lambda>texts.
     rbind (rmap (tag_value_prep api) (o_algo_params c)) (\<lambda>algo.
     rbind (rmap (tag_value_prep api) (o_smart_combo_routing_params c)) (\<lambda>smart.
     Ok (c\<lparr>o_tws_data := Some
       \<lparr>to_double = (\<lambda>f. give (to_double dst f) (o_double c f)), to_text = texts,
        to_int = (\<lambda>f. give (to_int dst f) (o_int c f)), to_flag = (\<lambda>f. give (to_flag dst f) (o_flag c f)),
        to_algo_params = (if algo = [] then to_algo_params dst else Some algo), to_algo_params_count = int (length algo),
        to_smart_combo_routing_params = (if smart = [] then to_smart_combo_routing_params dst else Some smart),
        to_smart_combo_routing_params_count = int (length smart),
        to_combo_legs = (if o_combo_legs c = [] then to_combo_legs dst else Some (o_combo_legs c)),
        to_combo_legs_count = int (length (o_combo_legs c)),
        to_origin = give (to_origin dst) (o_origin c), to_oca_type = give (to_oca_type dst) (o_oca_type c),
        to_auction_strategy = give (to_auction_strategy dst) (o_auction_strategy c),
        to_short_sale_slot = give (to_short_sale_slot dst) (map_option slot_code (o_short_sale_slot c))\<rparr>\<rparr>)))))"

definition order_to_api :: "ib_order \<Rightarrow> tr_order option" where
  "order_to_api c = o_tws_data c"

definition order_cleanup :: "ib_order \<Rightarrow> ib_order" where
  "order_cleanup c = c\<lparr>o_tws_data := None\<rparr>"

section \<open>Market scanner subscriptions and execution filters\<close>

datatype scan_double =
    Scan_above_price | Scan_below_price | Scan_coupon_rate_above | Scan_coupon_rate_below | Scan_market_cap_above
  | Scan_market_cap_below

definition scan_doubles :: "scan_double list" where
  "scan_doubles = [Scan_above_price, Scan_below_price, Scan_coupon_rate_above, Scan_coupon_rate_below, Scan_market_cap_above,
    Scan_market_cap_below]"

datatype scan_text =
    Scan_exclude_convertible | Scan_instrument | Scan_location_code | Scan_maturity_date_above
  | Scan_maturity_date_below | Scan_moody_rating_above | Scan_moody_rating_below | Scan_code | Scan_sp_rating_above
  | Scan_sp_rating_below | Scan_scanner_setting_pairs | Scan_stock_type_filter

definition scan_texts :: "scan_text list" where
  "scan_texts = [Scan_exclude_convertible, Scan_instrument, Scan_location_code, Scan_maturity_date_above,
    Scan_maturity_date_below, Scan_moody_rating_above, Scan_moody_rating_below, Scan_code, Scan_sp_rating_above,
    Scan_sp_rating_below, Scan_scanner_setting_pairs, Scan_stock_type_filter]"

datatype scan_int =
    Scan_above_volume | Scan_number_of_rows | Scan_average_option_volume_above

definition scan_ints :: "scan_int list" where
  "scan_ints = [Scan_above_volume, Scan_number_of_rows, Scan_average_option_volume_above]"

record tr_scanner_subscription =
  ts_double :: "scan_double \<Rightarrow> double"
  ts_text :: "scan_text \<Rightarrow> string option"
  ts_int :: "scan_int \<Rightarrow> u32"

record ib_scanner_subscription =
  scan_doubles_of :: "scan_double \<Rightarrow> double option"
  scan_texts_of :: "scan_text \<Rightarrow> string option"
  scan_ints_of :: "scan_int \<Rightarrow> u32 option"
  scan_tws_data :: "tr_scanner_subscription option"

text \<open>Here the texts are taken over when the pointer is not null, empty or not.\<close>

definition scanner_subscription_of :: "tr_scanner_subscription \<Rightarrow> ib_scanner_subscription" where
  "scanner_subscription_of s = \<lparr>scan_doubles_of = (\<lambda>f. take_double (ts_double s f)), scan_texts_of = ts_text s,
     scan_ints_of = (\<lambda>f. take_int (ts_int s f)), scan_tws_data = None\<rparr>"

definition scanner_subscription_prep ::
  "strcpy \<Rightarrow> tr_scanner_subscription \<Rightarrow> ib_scanner_subscription \<Rightarrow> ib_scanner_subscription res" where
  "scanner_subscription_prep cpy tws_init c =
     rbind (give_texts cpy scan_texts (ts_text tws_init) (scan_texts_of c)) (\<lambda>texts.
     Ok (c\<lparr>scan_tws_data := Some
       \<lparr>ts_double = (\<lambda>f. give (ts_double tws_init f) (scan_doubles_of c f)), ts_text = texts,
        ts_int = (\<lambda>f. give (ts_int tws_init f) (scan_ints_of c f))\<rparr>\<rparr>))"

datatype filter_text =
    F_acctcode | F_time | F_symbol | F_sectype | F_exchange | F_side

definition filter_texts :: "filter_text list" where
  "filter_texts = [F_acctcode, F_time, F_symbol, F_sectype, F_exchange, F_side]"

record tr_exec_filter =
  tf_text :: "filter_text \<Rightarrow> string option"
  tf_clientid :: u32

record ib_exec_filter =
  f_text :: "filter_text \<Rightarrow> string option"
  f_clientid :: "u32 option"
  f_tws_data :: "tr_exec_filter option"

definition exec_filter_of :: "tr_exec_filter \<Rightarrow> ib_exec_filter" where
  "exec_filter_of s = \<lparr>f_text = tf_text s, f_clientid = take_int (tf_clientid s), f_tws_data = None\<rparr>"

definition exec_filter_prep :: "strcpy \<Rightarrow> tr_exec_filter \<Rightarrow> ib_exec_filter \<Rightarrow> ib_exec_filter res" where
  "exec_filter_prep cpy tws_init c =
     rbind (give_texts cpy filter_texts (tf_text tws_init) (f_text c)) (\<lambda>texts.
     Ok (c\<lparr>f_tws_data := Some \<lparr>tf_text = texts, tf_clientid = give (tf_clientid tws_init) (f_clientid c)\<rparr>\<rparr>))"

section \<open>What only comes from the API\<close>

text \<open>All fields of these are copied; a null pointer becomes the empty text.\<close>

datatype status_double =
    Ost_commission | Ost_min_commission | Ost_max_commission

datatype status_text =
    Ost_status | Ost_init_margin | Ost_maint_margin | Ost_equity_with_loan | Ost_commission_currency
  | Ost_warning_text

datatype exec_double =
    E_price | E_avg_price | E_ev_multiplier

datatype exec_text =
    E_execid | E_time | E_acct_number | E_exchange | E_side | E_orderref | E_ev_rule

datatype exec_int =
    E_shares | E_permid | E_clientid | E_liquidation | E_orderid | E_cum_qty

datatype report_double =
    Cr_commission | Cr_realized_pnl | Cr_yield

datatype report_text =
    Cr_exec_id | Cr_currency

record tr_order_status =
  tst_double :: "status_double \<Rightarrow> double"
  tst_text :: "status_text \<Rightarrow> string option"

record ib_order_status =
  ost_double :: "status_double \<Rightarrow> double"
  ost_text :: "status_text \<Rightarrow> string"

definition new_order_status :: ib_order_status where
  "new_order_status = \<lparr>ost_double = (\<lambda>_. 0), ost_text = (\<lambda>_. [])\<rparr>"

definition order_status_of :: "tr_order_status \<Rightarrow> ib_order_status" where
  "order_status_of s = \<lparr>ost_double = tst_double s, ost_text = (\<lambda>f. ib_string (tst_text s f))\<rparr>"

record tr_execution =
  te_double :: "exec_double \<Rightarrow> double"
  te_text :: "exec_text \<Rightarrow> string option"
  te_int :: "exec_int \<Rightarrow> u32"

record ib_execution =
  e_double :: "exec_double \<Rightarrow> double"
  e_text :: "exec_text \<Rightarrow> string"
  e_int :: "exec_int \<Rightarrow> u32"

definition new_execution :: ib_execution where
  "new_execution = \<lparr>e_double = (\<lambda>_. 0), e_text = (\<lambda>_. []), e_int = (\<lambda>_. 0)\<rparr>"

definition execution_of :: "tr_execution \<Rightarrow> ib_execution" where
  "execution_of s = \<lparr>e_double = te_double s, e_text = (\<lambda>f. ib_string (te_text s f)), e_int = te_int s\<rparr>"

record tr_commission_report =
  tr_double :: "report_double \<Rightarrow> double"
  tr_text :: "report_text \<Rightarrow> string option"
  tr_yield_redemption_date :: u32

record ib_commission_report =
  cr_double :: "report_double \<Rightarrow> double"
  cr_text :: "report_text \<Rightarrow> string"
  cr_yield_redemption_date :: u32

definition new_commission_report :: ib_commission_report where
  "new_commission_report = \<lparr>cr_double = (\<lambda>_. 0), cr_text = (\<lambda>_. []), cr_yield_redemption_date = 0\<rparr>"

definition commission_report_of :: "tr_commission_report \<Rightarrow> ib_commission_report" where
  "commission_report_of s = \<lparr>cr_double = tr_double s, cr_text = (\<lambda>f. ib_string (tr_text s f)),
     cr_yield_redemption_date = tr_yield_redemption_date s\<rparr>"

section \<open>The way to the API and back\<close>

lemma order_texts_all: "f \<in> set order_texts"
  by (cases f) (simp_all add: order_texts_def)

lemma scan_texts_all: "f \<in> set scan_texts"
  by (cases f) (simp_all add: scan_texts_def)

lemma filter_texts_all: "f \<in> set filter_texts"
  by (cases f) (simp_all add: filter_texts_def)

text \<open>What becomes of a field that goes from the API's struct into the wrapper and back: a field that
  counts as not set has the value of the API's initialisation.\<close>

definition back_double :: "double \<Rightarrow> double \<Rightarrow> double" where
  "back_double init d = (if double_true d then d else init)"

definition back_int :: "u32 \<Rightarrow> u32 \<Rightarrow> u32" where
  "back_int init i = (if i \<noteq> 0 then i else init)"

definition back_text :: "string option \<Rightarrow> string option \<Rightarrow> string option" where
  "back_text init s = (if s = None \<or> s = Some [] then init else s)"

definition back_slot :: "u32 \<Rightarrow> u32 \<Rightarrow> u32" where
  "back_slot init s = (if s = 0 then init else if s = 1 \<or> s = 2 then s else 0)"

lemma give_back:
  "give init (take_double d) = back_double init d" "give init' (take_int i) = back_int init' i"
  "(if take_text s \<noteq> None then take_text s else t) = back_text t s"
  "give n (map_option slot_code (if sl \<noteq> 0 then Some (slot_from_tws sl SSS_UNKNOWN) else None)) = back_slot n sl"
  by (auto simp: give_def take_double_def take_int_def take_text_def back_double_def back_int_def back_text_def back_slot_def
      slot_from_tws_def split: option.splits)

lemma tags_prep:
  "copies (order_strcpy api) \<Longrightarrow> rmap (tag_value_prep api) tvs = Ok (map (\<lambda>(t, v). (Some t, Some v)) tvs)"
  by (induction tvs) (auto simp: tag_value_prep_def copies_def)

lemma tag_back: "map (tag_value_of \<circ> (\<lambda>(t, v). (Some t, Some v))) tvs = tvs"
  by (induction tvs) (auto simp: tag_value_of_def ib_string_def)

lemma array_items_back: "array_items (if xs = [] then p else Some xs) (int (length xs)) = Ok xs"
  by (auto simp: array_items_def split: option.splits)

definition blank_order :: tr_order where
  "blank_order = \<lparr>to_double = (\<lambda>_. 0), to_text = (\<lambda>_. None), to_int = (\<lambda>_. 0), to_flag = (\<lambda>_. False), to_algo_params = None,
     to_algo_params_count = 0, to_smart_combo_routing_params = None, to_smart_combo_routing_params_count = 0,
     to_combo_legs = None, to_combo_legs_count = 0, to_origin = 0, to_oca_type = 0, to_auction_strategy = 0,
     to_short_sale_slot = 0\<rparr>"

text \<open>An API that initialises the quantities of an order with -1.\<close>

definition demo_order_api :: order_api where
  "demo_order_api = \<lparr>tws_init_order = blank_order\<lparr>to_int := (\<lambda>_. - 1)\<rparr>, tws_init_tag_value = (None, None),
     order_strcpy = plain_strcpy\<rparr>"

text \<open>The struct that a preparation makes when the copies succeed.\<close>

abbreviation plain_tags :: "tag_value list \<Rightarrow> (string option \<times> string option) list" where
  "plain_tags tvs \<equiv> map (\<lambda>(t, v). (Some t, Some v)) tvs"

definition order_image :: "tr_order \<Rightarrow> ib_order \<Rightarrow> tr_order" where
  "order_image dst c =
     \<lparr>to_double = (\<lambda>f. give (to_double dst f) (o_double c f)),
      to_text = (\<lambda>f. if o_text c f \<noteq> None then o_text c f else to_text dst f),
      to_int = (\<lambda>f. give (to_int dst f) (o_int c f)), to_flag = (\<lambda>f. give (to_flag dst f) (o_flag c f)),
      to_algo_params = (if o_algo_params c = [] then to_algo_params dst else Some (plain_tags (o_algo_params c))),
      to_algo_params_count = int (length (o_algo_params c)),
      to_smart_combo_routing_params = (if o_smart_combo_routing_params c = [] then to_smart_combo_routing_params dst
        else Some (plain_tags (o_smart_combo_routing_params c))),
      to_smart_combo_routing_params_count = int (length (o_smart_combo_routing_params c)),
      to_combo_legs = (if o_combo_legs c = [] then to_combo_legs dst else Some (o_combo_legs c)),
      to_combo_legs_count = int (length (o_combo_legs c)),
      to_origin = give (to_origin dst) (o_origin c), to_oca_type = give (to_oca_type dst) (o_oca_type c),
      to_auction_strategy = give (to_auction_strategy dst) (o_auction_strategy c),
      to_short_sale_slot = give (to_short_sale_slot dst) (map_option slot_code (o_short_sale_slot c))\<rparr>"

lemma order_prep_image:
  assumes "copies (order_strcpy api)"
  shows "order_prep api c = Ok (c\<lparr>o_tws_data := Some (order_image (tws_init_order api) c)\<rparr>)"
  by (simp add: order_prep_def order_image_def Let_def tags_prep [OF assms] give_texts_all [OF assms order_texts_all])

lemma order_image_lists:
  "\<exists>c2. order_of (order_image dst c) = Ok c2 \<and> o_algo_params c2 = o_algo_params c \<and> o_combo_legs c2 = o_combo_legs c \<and>
     o_smart_combo_routing_params c2 = o_smart_combo_routing_params c"
  using array_items_back [of "plain_tags (o_algo_params c)"] array_items_back [of "plain_tags (o_smart_combo_routing_params c)"]
    array_items_back [of "o_combo_legs c"]
  by (simp add: order_of_def order_image_def tag_back)

section \<open>Properties\<close>



end
