(* ===== verification/IoChannel.thy ===== *)
theory IoChannel
  imports Prelude
begin

text \<open>The connection to TWS as the API sees it (\<open>tws_backend_io.cpp\<close>): callbacks that transmit, flush,
  open and close, each wrapped in two chains of observers, and the observer there is, the logger of the
  traffic (\<open>tws_backend_io_logger.cpp\<close>).\<close>

section \<open>The channel\<close>

text \<open>Connections and observers are numbers. \<open>sent\<close> is what has been given to \<open>mg_write\<close>, \<open>closed\<close> the
  connections that were closed, and \<open>watch\<close> the state of the observers.\<close>

type_synonym oid = nat

datatype io_call =
  Transmit string
| Receive_buf nat
| Flush
| Open
| Close
| Tx_elem "string option" int        \<comment> \<open>element, start of message\<close>
| Rx_elem "string option" nat int    \<comment> \<open>element, its size, return value\<close>

record 's channel =
  m_before :: "oid list"
  m_after :: "oid list"
  m_tws_conn :: "nat option"
  m_fake_ib_tws_connection :: bool
  m_faking_the_ib_tws_connection :: bool
  m_fake_conn :: "nat option \<times> nat option"
  m_io_logger :: bool
  sent :: "(nat \<times> string) list"
  closed :: "nat list"
  watch :: 's

text \<open>The environment: an observer's answer and the return value it leaves, the functions of the web
  server library, and the fake server at the other end of the fake connection.\<close>

record 's io_env =
  observe :: "oid \<Rightarrow> io_call \<Rightarrow> int \<Rightarrow> ('s channel, int \<times> int) M"
  observer_destroy :: "oid \<Rightarrow> ('s channel, int) M"
  mg_write :: "(nat \<times> string) list \<Rightarrow> nat \<Rightarrow> string \<Rightarrow> int"
  mg_connect :: "nat list \<Rightarrow> nat option"
  mg_socketpair :: "nat list \<Rightarrow> (nat \<times> nat) option"
  serve :: "int \<Rightarrow> ('s channel, unit) M"
  NOT_CONNECTED :: int

section \<open>The lists of observers\<close>

definition push_observer :: "oid option \<Rightarrow> oid list \<Rightarrow> int \<times> oid list" where
  "push_observer listener l = (case listener of None \<Rightarrow> (- 1, l)
     | Some o1 \<Rightarrow> if o1 \<in> set l then (1, l) else (0, l @ [o1]))"

definition pop_observer :: "oid option \<Rightarrow> oid list \<Rightarrow> int \<times> oid list" where
  "pop_observer listener l = (case listener of None \<Rightarrow> (- 1, l)
     | Some o1 \<Rightarrow> if o1 \<in> set l then (1, remove1 o1 l) else (0, l))"

definition push_before :: "oid option \<Rightarrow> ('s channel, int) M" where
  "push_before o1 c = (let (rv, l) = push_observer o1 (m_before c) in Ok (rv, c\<lparr>m_before := l\<rparr>))"

definition push_after :: "oid option \<Rightarrow> ('s channel, int) M" where
  "push_after o1 c = (let (rv, l) = push_observer o1 (m_after c) in Ok (rv, c\<lparr>m_after := l\<rparr>))"

definition pop_before :: "oid option \<Rightarrow> ('s channel, int) M" where
  "pop_before o1 c = (let (rv, l) = pop_observer o1 (m_before c) in Ok (rv, c\<lparr>m_before := l\<rparr>))"

definition pop_after :: "oid option \<Rightarrow> ('s channel, int) M" where
  "pop_after o1 c = (let (rv, l) = pop_observer o1 (m_after c) in Ok (rv, c\<lparr>m_after := l\<rparr>))"

fun destroy_all :: "'s io_env \<Rightarrow> oid list \<Rightarrow> ('s channel, unit) M" where
  "destroy_all e [] = ret ()"
| "destroy_all e (o1 # os) = mseq (observer_destroy e o1) (destroy_all e os)"

definition clean_before :: "'s io_env \<Rightarrow> ('s channel, int) M" where
  "clean_before e = mbind (gets m_before) (\<lambda>l. mseq (destroy_all e l)
     (mseq (modify (\<lambda>c. c\<lparr>m_before := []\<rparr>)) (ret 0)))"

definition clean_after :: "'s io_env \<Rightarrow> ('s channel, int) M" where
  "clean_after e = mbind (gets m_after) (\<lambda>l. mseq (destroy_all e l)
     (mseq (modify (\<lambda>c. c\<lparr>m_after := []\<rparr>)) (ret 0)))"

section \<open>Calls through the observers\<close>

text \<open>A chain: an observer that answers with a negative number ends the whole call with it, a positive
  answer ends the chain. The result is the answer that aborts, if any, and the return value.\<close>

fun chain :: "'s io_env \<Rightarrow> oid list \<Rightarrow> io_call \<Rightarrow> int \<Rightarrow> ('s channel, int option \<times> int) M" where
  "chain e [] call rv = ret (None, rv)"
| "chain e (o1 # os) call rv = mbind (observe e o1 call rv) (\<lambda>(a, rv1).
     if a < 0 then ret (Some a, rv1) else if 0 < a then ret (None, rv1) else chain e os call rv1)"

definition with_observers :: "'s io_env \<Rightarrow> io_call \<Rightarrow> ('s channel, int) M \<Rightarrow> ('s channel, int) M" where
  "with_observers e call body =
     mbind (gets m_before) (\<lambda>before. mbind (chain e before call 0) (\<lambda>(abort, rv).
     case abort of Some a \<Rightarrow> ret a
     | None \<Rightarrow>
       mbind (if rv = 0 then body else ret rv) (\<lambda>rv1.
       mbind (gets m_after) (\<lambda>after. mbind (chain e after call rv1) (\<lambda>(abort, rv2).
       case abort of Some a \<Rightarrow> ret a | None \<Rightarrow> ret rv2)))))"

definition transmit_body :: "'s io_env \<Rightarrow> string \<Rightarrow> ('s channel, int) M" where
  "transmit_body e buf c = (case m_tws_conn c of
     Some k \<Rightarrow> Ok (mg_write e (sent c) k buf, c\<lparr>sent := sent c @ [(k, buf)]\<rparr>)
   | None \<Rightarrow> Ok (- 1, c))"

definition io_transmit :: "'s io_env \<Rightarrow> string \<Rightarrow> ('s channel, int) M" where
  "io_transmit e buf = with_observers e (Transmit buf) (transmit_body e buf)"

definition io_flush :: "'s io_env \<Rightarrow> ('s channel, int) M" where
  "io_flush e = with_observers e Flush
     (mbind (gets m_fake_ib_tws_connection) (\<lambda>fake. mseq (if fake then serve e 0 else ret ()) (ret 0)))"

text \<open>Opening and closing the fake connection.\<close>

definition fake_open :: "'s io_env \<Rightarrow> ('s channel, unit) M" where
  "fake_open e c = (if m_fake_ib_tws_connection c \<and> m_tws_conn c = None then
       (case mg_socketpair e (closed c) of
          Some (a, b) \<Rightarrow> Ok ((), c\<lparr>m_fake_conn := (Some a, Some b), m_tws_conn := Some a, m_faking_the_ib_tws_connection := True\<rparr>)
        | None \<Rightarrow> Ok ((), c))
     else Ok ((), c))"

definition fake_close :: "('s channel, unit) M" where
  "fake_close c = (if m_fake_ib_tws_connection c then
       Ok ((), c\<lparr>closed := closed c @ (case snd (m_fake_conn c) of Some b \<Rightarrow> [b] | None \<Rightarrow> []), m_fake_conn := (None, None),
         m_faking_the_ib_tws_connection := False\<rparr>)
     else Ok ((), c))"

definition open_body :: "'s io_env \<Rightarrow> ('s channel, int) M" where
  "open_body e =
     mseq (massert (\<lambda>c. m_tws_conn c = None))
     (mseq (modify (\<lambda>c. c\<lparr>m_tws_conn := mg_connect e (closed c), m_faking_the_ib_tws_connection := False\<rparr>))
     (mbind (gets (\<lambda>c. m_tws_conn c = None \<and> m_fake_ib_tws_connection c)) (\<lambda>fake.
     mseq (if fake then fake_open e else ret ())
     (mbind (gets m_tws_conn) (\<lambda>conn. ret (if conn = None then NOT_CONNECTED e else 0))))))"

definition channel_open :: "'s io_env \<Rightarrow> ('s channel, int) M" where
  "channel_open e = with_observers e Open (open_body e)"

definition close_body :: "('s channel, int) M" where
  "close_body = mbind (gets m_tws_conn) (\<lambda>conn. case conn of
     None \<Rightarrow> ret 0
   | Some k \<Rightarrow> mseq fake_close
       (mseq (modify (\<lambda>c. c\<lparr>closed := closed c @ [k], m_tws_conn := None\<rparr>)) (ret 0)))"

definition channel_close :: "'s io_env \<Rightarrow> ('s channel, int) M" where
  "channel_close e = with_observers e Close close_body"

definition elem_observe :: "'s io_env \<Rightarrow> io_call \<Rightarrow> ('s channel, int) M" where
  "elem_observe e call =
     mbind (gets m_before) (\<lambda>before. mbind (chain e before call 0) (\<lambda>(abort, _).
     case abort of Some a \<Rightarrow> ret a
     | None \<Rightarrow>
       mbind (gets m_after) (\<lambda>after. mbind (chain e after call 0) (\<lambda>(abort, _).
       case abort of Some a \<Rightarrow> ret a | None \<Rightarrow> ret 0))))"

definition channel_destroy :: "'s io_env \<Rightarrow> ('s channel, int) M" where
  "channel_destroy e = mbind (clean_before e) (\<lambda>_. clean_after e)"

text \<open>The back-end's own opening and closing (\<open>tws_instance.cpp\<close>): the logger, number 0, is created once
  and attached behind the call on every opening of a real connection, successful or not.\<close>

definition the_logger :: "'s channel \<Rightarrow> oid option" where
  "the_logger c = (if m_io_logger c then Some 0 else None)"

definition manager_open :: "'s io_env \<Rightarrow> ('s channel, unit) M \<Rightarrow> ('s channel, int) M" where
  "manager_open e init = mbind (channel_open e) (\<lambda>rv.
     mbind (gets m_faking_the_ib_tws_connection) (\<lambda>faking.
     mseq (if faking then ret () else
       mbind (gets m_io_logger) (\<lambda>logger.
       mseq (if logger then ret () else mseq (modify (\<lambda>c. c\<lparr>m_io_logger := True\<rparr>)) init)
       (mbind (gets the_logger) (\<lambda>l. mseq (push_after l) (ret ())))))
     (ret rv)))"

definition detach_logger :: "('s channel, unit) M" where
  "detach_logger = mbind (gets the_logger) (\<lambda>l. mseq (pop_before l) (mseq (pop_after l) (ret ())))"

definition manager_close :: "'s io_env \<Rightarrow> ('s channel, int) M" where
  "manager_close e = mbind (channel_close e) (\<lambda>rv. mseq detach_logger (ret rv))"

definition manager_destroy :: "'s io_env \<Rightarrow> ('s channel, int) M" where
  "manager_destroy e = mbind (channel_destroy e) (\<lambda>rv. mseq detach_logger (ret rv))"

end
