(* ===== verification/IoLogger.thy ===== *)
theory IoLogger
  imports IoChannel
begin

text \<open>The logger of the traffic with TWS (\<open>tws_backend_io_logger.cpp\<close>), an observer of the channel: it
  collects the elements of the messages that are sent and received and writes them to a log.\<close>

section \<open>State\<close>

text \<open>The log is a list of entries; each names the file, the time, the direction and the text that
  \<open>mg_write2log\<close> gets. The members that nobody reads (\<open>m_tx_msg_row\<close>, \<open>m_app_manager\<close>) are left out.\<close>

datatype direction = TX | RX

record log_entry =
  log_file :: string
  log_time :: int
  log_direction :: direction
  log_text :: string

record logger =
  m_tx_msg_id :: string
  m_tx_msg_buffer :: string
  m_pending_tx_msg :: int
  m_tx_timestamp :: int
  m_tx_log_file :: string
  m_rx_msg_id :: string
  m_rx_msg_buffer :: string
  m_pending_rx_msg :: int
  m_rx_timestamp :: int
  m_rx_log_file :: string
  m_init_phase :: bool
  logs :: "log_entry list"

text \<open>The clock, the configuration, the names of the API's messages and the path that the web server
  library makes of a message name and a time are the environment.\<close>

record log_env =
  time_now :: "logger \<Rightarrow> int"
  m_tws_log_traffic :: bool
  TWS_NO_TX_MESSAGE :: int
  TWS_NO_RX_MESSAGE :: int
  tws_outgoing_msg_name :: "int \<Rightarrow> string"
  tws_incoming_msg_name :: "int \<Rightarrow> string"
  atoi :: "string \<Rightarrow> int"
  mg_get_logfile_path :: "string \<Rightarrow> int \<Rightarrow> string"

definition logger_init :: "log_env \<Rightarrow> logger \<Rightarrow> logger" where
  "logger_init e l = l\<lparr>m_init_phase := True, m_tx_timestamp := time_now e l, m_rx_timestamp := time_now e l,
     m_tx_msg_id := ''init'', m_rx_msg_id := ''init''\<rparr>"

definition new_logger :: "log_env \<Rightarrow> logger" where
  "new_logger e = \<lparr>m_tx_msg_id = [], m_tx_msg_buffer = [], m_pending_tx_msg = TWS_NO_TX_MESSAGE e, m_tx_timestamp = 0,
     m_tx_log_file = [], m_rx_msg_id = [], m_rx_msg_buffer = [], m_pending_rx_msg = TWS_NO_RX_MESSAGE e, m_rx_timestamp = 0,
     m_rx_log_file = [], m_init_phase = True, logs = []\<rparr>"

section \<open>Writing\<close>

text \<open>\<open>conn\<close>: whether the channel has a connection. The file name is kept until the next message, but not
  when there is no connection.\<close>

definition write_tx_msg :: "log_env \<Rightarrow> bool \<Rightarrow> logger \<Rightarrow> logger" where
  "write_tx_msg e conn l = (if m_tws_log_traffic e then
     let l1 = (if m_tx_log_file l = [] then l\<lparr>m_tx_log_file := mg_get_logfile_path e (m_tx_msg_id l) (m_tx_timestamp l)\<rparr> else l);
         l2 = l1\<lparr>logs := logs l1 @ [\<lparr>log_file = m_tx_log_file l1, log_time = m_tx_timestamp l1, log_direction = TX,
           log_text = m_tx_msg_buffer l1\<rparr>]\<rparr>;
         l3 = (if \<not> conn then l2\<lparr>m_tx_log_file := []\<rparr> else l2) in
     l3\<lparr>m_tx_msg_buffer := []\<rparr> else l)"

definition write_rx_msg :: "log_env \<Rightarrow> bool \<Rightarrow> logger \<Rightarrow> logger" where
  "write_rx_msg e conn l = (if m_tws_log_traffic e then
     let l1 = (if m_rx_log_file l = [] then l\<lparr>m_rx_log_file := mg_get_logfile_path e (m_rx_msg_id l) (m_rx_timestamp l)\<rparr> else l);
         l2 = l1\<lparr>logs := logs l1 @ [\<lparr>log_file = m_rx_log_file l1, log_time = m_rx_timestamp l1, log_direction = RX,
           log_text = m_rx_msg_buffer l1\<rparr>]\<rparr>;
         l3 = (if \<not> conn then l2\<lparr>m_rx_log_file := []\<rparr> else l2) in
     l3\<lparr>m_rx_msg_buffer := []\<rparr> else l)"

section \<open>Observing\<close>

definition add_tx :: "string \<Rightarrow> logger \<Rightarrow> logger" where
  "add_tx s l = l\<lparr>m_tx_msg_buffer := m_tx_msg_buffer l @ s @ [CHR 0x0A]\<rparr>"

definition add_rx :: "string \<Rightarrow> logger \<Rightarrow> logger" where
  "add_rx s l = l\<lparr>m_rx_msg_buffer := m_rx_msg_buffer l @ s @ [CHR 0x0A]\<rparr>"

definition log_tx_elem :: "log_env \<Rightarrow> bool \<Rightarrow> string option \<Rightarrow> int \<Rightarrow> logger \<Rightarrow> logger res" where
  "log_tx_elem e conn elem start l =
     rbind (if start \<noteq> TWS_NO_TX_MESSAGE e then
       if elem \<noteq> None \<or> \<not> conn then Bad Assert_failed
       else
         let l1 = (if m_init_phase l then write_rx_msg e conn (write_tx_msg e conn l) else l) in
         Ok (l1\<lparr>m_init_phase := False, m_tx_msg_id := ''TX.'' @ tws_outgoing_msg_name e start, m_pending_tx_msg := start,
           m_tx_timestamp := time_now e l1, m_tx_log_file := []\<rparr>)
     else Ok l) (\<lambda>l2. Ok (case elem of None \<Rightarrow> l2 | Some s \<Rightarrow> add_tx s l2))"

text \<open>An element that is a null pointer of some size starts a received message: \<open>atoi\<close> reads it.\<close>

definition log_rx_elem :: "log_env \<Rightarrow> bool \<Rightarrow> string option \<Rightarrow> nat \<Rightarrow> logger \<Rightarrow> logger res" where
  "log_rx_elem e conn elem elem_size l =
     rbind (if \<not> m_init_phase l then
       if elem = None \<and> elem_size = 0 then
         Ok ((if m_rx_msg_buffer l \<noteq> [] then write_rx_msg e conn l else l)\<lparr>m_pending_rx_msg := TWS_NO_RX_MESSAGE e\<rparr>)
       else if m_pending_rx_msg l = TWS_NO_RX_MESSAGE e then
         if \<not> conn then Bad Assert_failed
         else (case elem of None \<Rightarrow> Bad Dangling
           | Some s \<Rightarrow> Ok (l\<lparr>m_pending_rx_msg := atoi e s, m_rx_msg_id := ''RX.'' @ tws_incoming_msg_name e (atoi e s),
               m_rx_timestamp := time_now e l, m_rx_log_file := []\<rparr>))
       else Ok l
     else Ok l) (\<lambda>l2. Ok (case elem of None \<Rightarrow> l2 | Some s \<Rightarrow> add_rx s l2))"

definition log_close :: "log_env \<Rightarrow> bool \<Rightarrow> logger \<Rightarrow> logger" where
  "log_close e conn l =
     (let l1 = (if m_tx_msg_buffer l \<noteq> [] then write_tx_msg e conn l else l) in
      if m_rx_msg_buffer l1 \<noteq> [] then write_rx_msg e conn l1 else l1)"

text \<open>All calls of the observer; none of them touches the return value, and all answer 0.\<close>

fun logger_call :: "log_env \<Rightarrow> bool \<Rightarrow> io_call \<Rightarrow> logger \<Rightarrow> logger res" where
  "logger_call e conn (Transmit buf) l = Ok l"
| "logger_call e conn (Receive_buf n) l = Ok l"
| "logger_call e conn Flush l = Ok (if \<not> m_init_phase l then write_tx_msg e conn l else l)"
| "logger_call e conn Open l = Ok (l\<lparr>m_pending_tx_msg := TWS_NO_TX_MESSAGE e, m_pending_rx_msg := TWS_NO_RX_MESSAGE e,
     m_tx_timestamp := time_now e l, m_rx_timestamp := time_now e l\<rparr>)"
| "logger_call e conn Close l = Ok (log_close e conn l)"
| "logger_call e conn (Tx_elem elem start) l = log_tx_elem e conn elem start l"
| "logger_call e conn (Rx_elem elem n rv) l = log_rx_elem e conn elem n l"

definition logger_observe :: "log_env \<Rightarrow> io_call \<Rightarrow> int \<Rightarrow> (logger channel, int \<times> int) M" where
  "logger_observe e call rv c = rbind (logger_call e (m_tws_conn c \<noteq> None) call (watch c)) (\<lambda>l.
     Ok ((0, rv), c\<lparr>watch := l\<rparr>))"

section \<open>Nothing gets lost\<close>

fun logger_run :: "log_env \<Rightarrow> (bool \<times> io_call) list \<Rightarrow> logger \<Rightarrow> logger res" where
  "logger_run e [] l = Ok l"
| "logger_run e ((conn, call) # cs) l = rbind (logger_call e conn call l) (logger_run e cs)"

text \<open>What has been logged in a direction, and what the calls have shown of it.\<close>

definition logged :: "direction \<Rightarrow> logger \<Rightarrow> string" where
  "logged d l = concat (map log_text (filter (\<lambda>x. log_direction x = d) (logs l)))"

fun shown_tx :: "io_call \<Rightarrow> string" where
  "shown_tx (Tx_elem (Some s) start) = s @ [CHR 0x0A]"
| "shown_tx _ = []"

fun shown_rx :: "io_call \<Rightarrow> string" where
  "shown_rx (Rx_elem (Some s) n rv) = s @ [CHR 0x0A]"
| "shown_rx _ = []"

definition all_tx :: "logger \<Rightarrow> string" where
  "all_tx l = logged TX l @ m_tx_msg_buffer l"

definition all_rx :: "logger \<Rightarrow> string" where
  "all_rx l = logged RX l @ m_rx_msg_buffer l"

lemma write_all [simp]:
  "all_tx (write_tx_msg e conn l) = all_tx l" "all_rx (write_tx_msg e conn l) = all_rx l"
  "all_tx (write_rx_msg e conn l) = all_tx l" "all_rx (write_rx_msg e conn l) = all_rx l"
  by (simp_all add: all_tx_def all_rx_def logged_def write_tx_msg_def write_rx_msg_def Let_def)

lemma write_off:
  "\<not> m_tws_log_traffic e \<Longrightarrow> write_tx_msg e conn l = l" "\<not> m_tws_log_traffic e \<Longrightarrow> write_rx_msg e conn l = l"
  by (simp_all add: write_tx_msg_def write_rx_msg_def)

lemma add_all [simp]:
  "all_tx (add_tx s l) = all_tx l @ s @ [CHR 0x0A]" "all_rx (add_tx s l) = all_rx l"
  "all_tx (add_rx s l) = all_tx l" "all_rx (add_rx s l) = all_rx l @ s @ [CHR 0x0A]"
  by (simp_all add: all_tx_def all_rx_def logged_def add_tx_def add_rx_def)

lemma all_upd [simp]:
  "all_tx (l\<lparr>m_init_phase := b\<rparr>) = all_tx l" "all_rx (l\<lparr>m_init_phase := b\<rparr>) = all_rx l"
  "all_tx (l\<lparr>m_tx_msg_id := t\<rparr>) = all_tx l" "all_rx (l\<lparr>m_tx_msg_id := t\<rparr>) = all_rx l"
  "all_tx (l\<lparr>m_pending_tx_msg := i\<rparr>) = all_tx l" "all_rx (l\<lparr>m_pending_tx_msg := i\<rparr>) = all_rx l"
  "all_tx (l\<lparr>m_tx_timestamp := i\<rparr>) = all_tx l" "all_rx (l\<lparr>m_tx_timestamp := i\<rparr>) = all_rx l"
  "all_tx (l\<lparr>m_tx_log_file := t\<rparr>) = all_tx l" "all_rx (l\<lparr>m_tx_log_file := t\<rparr>) = all_rx l"
  "all_tx (l\<lparr>m_rx_msg_id := t\<rparr>) = all_tx l" "all_rx (l\<lparr>m_rx_msg_id := t\<rparr>) = all_rx l"
  "all_tx (l\<lparr>m_pending_rx_msg := i\<rparr>) = all_tx l" "all_rx (l\<lparr>m_pending_rx_msg := i\<rparr>) = all_rx l"
  "all_tx (l\<lparr>m_rx_timestamp := i\<rparr>) = all_tx l" "all_rx (l\<lparr>m_rx_timestamp := i\<rparr>) = all_rx l"
  "all_tx (l\<lparr>m_rx_log_file := t\<rparr>) = all_tx l" "all_rx (l\<lparr>m_rx_log_file := t\<rparr>) = all_rx l"
  by (simp_all add: all_tx_def all_rx_def logged_def)

lemma call_all:
  assumes "logger_call e conn call l = Ok l'"
  shows "all_tx l' = all_tx l @ shown_tx call \<and> all_rx l' = all_rx l @ shown_rx call"
  using assms by (cases call)
    (auto simp: log_close_def log_tx_elem_def log_rx_elem_def Let_def res_simps split: if_splits option.splits)

lemma call_off:
  assumes "\<not> m_tws_log_traffic e" "logger_call e conn call l = Ok l'"
  shows "logs l' = logs l"
  using assms(2) by (cases call)
    (auto simp: log_close_def log_tx_elem_def log_rx_elem_def Let_def res_simps write_off [OF assms(1)] add_tx_def add_rx_def
      split: if_splits option.splits)

lemma run_all:
  "logger_run e cs l = Ok l' \<Longrightarrow>
    all_tx l' = all_tx l @ concat (map (shown_tx \<circ> snd) cs) \<and> all_rx l' = all_rx l @ concat (map (shown_rx \<circ> snd) cs) \<and>
    (\<not> m_tws_log_traffic e \<longrightarrow> logs l' = logs l)"
proof (induction e cs l rule: logger_run.induct)
  case (2 e conn call cs l)
  then obtain l1 where "logger_call e conn call l = Ok l1" "logger_run e cs l1 = Ok l'"
    by (auto simp: res_simps)
  then show ?case
    using 2(1) call_all [of e conn call l l1] call_off [of e conn call l l1] by auto
qed simp

section \<open>The logger does not interfere\<close>

text \<open>A channel whose observers are loggers, and calls on which the logger never gives up.\<close>

definition only_logger :: "log_env \<Rightarrow> logger io_env \<Rightarrow> bool" where
  "only_logger le e \<longleftrightarrow> (\<forall>o1 call rv. observe e o1 call rv = logger_observe le call rv)"

definition harmless :: "io_call \<Rightarrow> bool" where
  "harmless call \<longleftrightarrow> (case call of Tx_elem _ _ \<Rightarrow> False | Rx_elem _ _ _ \<Rightarrow> False | _ \<Rightarrow> True)"

lemma logger_call_harmless: "harmless call \<Longrightarrow> \<exists>l'. logger_call le conn call l = Ok l'"
  by (cases call) (auto simp: harmless_def)

lemma logger_observe_harmless: "harmless call \<Longrightarrow> \<exists>l. logger_observe le call rv c = Ok ((0, rv), c\<lparr>watch := l\<rparr>)"
  using logger_call_harmless [of call le "m_tws_conn c \<noteq> None" "watch c"] by (auto simp: logger_observe_def)

lemma chain_harmless:
  "only_logger le e \<Longrightarrow> harmless call \<Longrightarrow> \<exists>l. chain e os call rv c = Ok ((None, rv), c\<lparr>watch := l\<rparr>)"
proof (induction os arbitrary: c)
  case Nil
  show ?case
    by (intro exI [of _ "watch c"]) (simp add: ret_def)
next
  case (Cons o1 os)
  obtain l1 where l1: "logger_observe le call rv c = Ok ((0, rv), c\<lparr>watch := l1\<rparr>)"
    using logger_observe_harmless [OF Cons.prems(2)] by blast
  obtain l where "chain e os call rv (c\<lparr>watch := l1\<rparr>) = Ok ((None, rv), c\<lparr>watch := l1, watch := l\<rparr>)"
    using Cons.IH [OF Cons.prems] by blast
  then show ?case
    using l1 Cons.prems(1) by (auto simp: only_logger_def M_defs)
qed

text \<open>A body that does not look at the observers' state.\<close>

definition blind :: "('s channel, 'a) M \<Rightarrow> bool" where
  "blind f \<longleftrightarrow> (\<forall>c l. f (c\<lparr>watch := l\<rparr>) = rbind (f c) (\<lambda>(x, c'). Ok (x, c'\<lparr>watch := l\<rparr>)))"

lemma with_logger:
  assumes "only_logger le e" "harmless call" "blind body" "body c = Ok (rv, c')"
  shows "\<exists>l. with_observers e call body c = Ok (rv, c'\<lparr>watch := l\<rparr>)"
proof -
  obtain l1 where l1: "chain e (m_before c) call 0 c = Ok ((None, 0), c\<lparr>watch := l1\<rparr>)"
    using chain_harmless [OF assms(1,2)] by blast
  have body: "body (c\<lparr>watch := l1\<rparr>) = Ok (rv, c'\<lparr>watch := l1\<rparr>)"
    using assms(3,4) by (simp add: blind_def)
  obtain l2 where "chain e (m_after c') call rv (c'\<lparr>watch := l1\<rparr>) = Ok ((None, rv), c'\<lparr>watch := l1, watch := l2\<rparr>)"
    using chain_harmless [OF assms(1,2)] by blast
  then show ?thesis
    using l1 body by (auto simp: with_observers_def M_defs)
qed

lemma blind_transmit: "blind (transmit_body e buf)"
  by (auto simp: blind_def transmit_body_def split: option.splits)

lemma blind_close: "blind close_body"
  by (auto simp: blind_def close_body_def fake_close_def M_defs split: option.splits)

lemma blind_open: "blind (open_body e)"
  by (auto simp: blind_def open_body_def fake_open_def M_defs split: option.splits if_splits prod.splits)


text \<open>Environments for the witnesses: messages are named by a letter, everything that is written
  arrives, and connection 5 can be opened.\<close>

definition demo_log :: log_env where
  "demo_log = \<lparr>time_now = (\<lambda>_. 100), m_tws_log_traffic = True, TWS_NO_TX_MESSAGE = 0, TWS_NO_RX_MESSAGE = 0,
     tws_outgoing_msg_name = (\<lambda>_. ''M''), tws_incoming_msg_name = (\<lambda>_. ''N''), atoi = (\<lambda>_. 9),
     mg_get_logfile_path = (\<lambda>name t. name)\<rparr>"

definition demo_io :: "logger io_env" where
  "demo_io = \<lparr>observe = (\<lambda>o1. logger_observe demo_log), observer_destroy = (\<lambda>_. ret 0), mg_write = (\<lambda>_ k s. int (length s)),
     mg_connect = (\<lambda>_. Some 5), mg_socketpair = (\<lambda>_. None), serve = (\<lambda>_. ret ()), NOT_CONNECTED = 504\<rparr>"

definition demo_channel :: "logger channel" where
  "demo_channel = \<lparr>m_before = [], m_after = [0], m_tws_conn = Some 5, m_fake_ib_tws_connection = False,
     m_faking_the_ib_tws_connection = False, m_fake_conn = (None, None), m_io_logger = True, sent = [], closed = [],
     watch = logger_init demo_log (new_logger demo_log)\<rparr>"

section \<open>Properties\<close>

text \<open>C21: the logger loses nothing and keeps the order: whatever calls it sees, what it has written to
  the log for a direction, followed by what it still holds, is the text of all elements it was shown
  of that direction, one per line. With logging switched off nothing is ever written, so that it holds
  all the traffic there ever was.\<close>

theorem logger_conserves_the_traffic:
  assumes "logger_run e cs (logger_init e (new_logger e)) = Ok l"
  shows "logged TX l @ m_tx_msg_buffer l = concat (map (shown_tx \<circ> snd) cs) \<and>
    logged RX l @ m_rx_msg_buffer l = concat (map (shown_rx \<circ> snd) cs) \<and>
    (if m_tws_log_traffic e then True else logs l = [] \<and> m_tx_msg_buffer l = concat (map (shown_tx \<circ> snd) cs))"
  using run_all [OF assms] by (auto simp: all_tx_def all_rx_def logged_def logger_init_def new_logger_def)

theorem logger_conserves_the_traffic_witness:
  "\<exists>l. logger_run demo_log [(True, Open), (True, Tx_elem None 7), (True, Tx_elem (Some ''7'') 0), (True, Flush),
       (True, Rx_elem (Some ''9'') 1 0), (True, Close)] (logger_init demo_log (new_logger demo_log)) = Ok l \<and>
     logged TX l @ m_tx_msg_buffer l = [CHR ''7'', CHR 0x0A] \<and> logged RX l @ m_rx_msg_buffer l = [CHR ''9'', CHR 0x0A]"
proof -
  let ?cs = "[(True, Open), (True, Tx_elem None 7), (True, Tx_elem (Some ''7'') 0), (True, Flush),
       (True, Rx_elem (Some ''9'') 1 0), (True, Close)]"
  obtain l where l: "logger_run demo_log ?cs (logger_init demo_log (new_logger demo_log)) = Ok l"
    by (simp add: log_tx_elem_def log_rx_elem_def demo_log_def Let_def write_tx_msg_def write_rx_msg_def new_logger_def
        logger_init_def add_tx_def)
  from logger_conserves_the_traffic [OF l] show ?thesis
    using l by (intro exI [of _ l]) simp
qed



end
