(* ===== verification/Worker.thy ===== *)
theory Worker
  imports TwsProps
begin

text \<open>The thread of the TWS back-end (\<open>tws_input_output.cpp\<close>) and the wait for data from TWS, during
  which it serves the front-ends (\<open>io_receive\<close> in \<open>tws_backend_io.cpp\<close>). What comes from outside, the
  results of \<open>select\<close>, the stop flag, the results of the TWS API and the callbacks it makes, is a script;
  a script that ends before the thread does is exhausted fuel. The observers of the channel, which
  theory \<open>IoLogger\<close> shows to be transparent, and the fake server are left out here.\<close>

section \<open>Waiting for data\<close>

text \<open>One round of the waiting loop: the stop flag, the result of \<open>select\<close>, whether the TWS connection is
  in its read and exception sets, and these sets for the inter-thread sockets.\<close>

record poll =
  p_stop :: bool
  p_select :: int
  p_tws_read :: bool
  p_tws_except :: bool
  p_read_set :: "sock set"
  p_except_set :: "sock set"
  p_max_fd :: int

record receive_script =
  polls :: "poll list"
  stop_after :: bool
  read_result :: int

abbreviation "checked f \<equiv> mbind f (\<lambda>rv. massert (\<lambda>_. (0 :: int) \<le> rv))"

fun receive_loop :: "'d tws_env \<Rightarrow> nat \<Rightarrow> poll list \<Rightarrow> sock set \<times> sock set \<times> int \<Rightarrow>
    ('d tws_world, sock set \<times> sock set \<times> int) M" where
  "receive_loop te n [] fds = mfail Out_of_fuel"
| "receive_loop te n (p # ps) fds =
     (if p_stop p then ret fds
      else if p_select p < 0 then mfail Assert_failed
      else if 0 < p_select p \<and> p_tws_read p then ret (p_read_set p, p_except_set p, p_max_fd p)
      else
        mseq (massert (\<lambda>_. \<not> (0 < p_select p \<and> p_tws_except p)))
        (mseq (checked (process_one_queued_tier2_request (net te) (tws_state_machine te n) ibm
            (p_read_set p) (p_except_set p) (p_max_fd p)))
        (mseq (fetch_new_interthread_communicators ibm)
        (mseq (checked (pulse_pending_issues te n n))
        (receive_loop te n ps (p_read_set p, p_except_set p, p_max_fd p))))))"

text \<open>A negative result is an assertion at the end of the function; it is what remains when the thread is
  to stop, when there is no connection, and when there is no room in the buffer.\<close>

definition io_receive :: "'d tws_env \<Rightarrow> nat \<Rightarrow> bool \<Rightarrow> receive_script \<Rightarrow> nat \<Rightarrow> ('d tws_world, int) M" where
  "io_receive te n connected s max_bufsize =
     (if \<not> connected then mfail Assert_failed
      else mbind (receive_loop te n (polls s) ({}, {}, - 1)) (\<lambda>(rd, exc, mx).
        if stop_after s then mfail Assert_failed
        else
          mseq (checked (process_one_queued_tier2_request (net te) (tws_state_machine te n) ibm rd exc mx))
          (mseq (checked (pulse_pending_issues te n n))
          (if max_bufsize \<noteq> 0 \<and> 0 \<le> read_result s then ret (read_result s) else mfail Assert_failed))))"

text \<open>Stopping the server while the thread waits never lets the function return.\<close>

lemma stopping_runs_into_an_assertion: "stop_after s \<Longrightarrow> \<exists>e. io_receive te n c s b w = Bad e"
  by (cases "receive_loop te n (polls s) ({}, {}, - 1) w") (auto simp: io_receive_def M_defs)

section \<open>The thread\<close>

text \<open>Processing an event of the TWS API, which calls back to read and to report responses.\<close>

datatype 'd callback = Response resp_kind "'d resp_data" | Read receive_script nat

fun run_callbacks :: "'d tws_env \<Rightarrow> nat \<Rightarrow> 'd callback list \<Rightarrow> ('d tws_world, unit) M" where
  "run_callbacks te n [] = ret ()"
| "run_callbacks te n (Response k d # cs) = mseq (tws_event te n k d) (run_callbacks te n cs)"
| "run_callbacks te n (Read s size1 # cs) = mseq (io_receive te n True s size1) (run_callbacks te n cs)"

record 'd round =
  r_stop :: bool
  r_connected :: bool
  r_callbacks :: "'d callback list"
  r_result :: int

definition process_one_event :: "'d tws_env \<Rightarrow> nat \<Rightarrow> 'd round \<Rightarrow> ('d tws_world, int) M" where
  "process_one_event te n r = mseq (run_callbacks te n (r_callbacks r)) (ret (r_result r))"

fun worker_rounds :: "'d tws_env \<Rightarrow> nat \<Rightarrow> 'd round list \<Rightarrow> ('d tws_world, unit) M" where
  "worker_rounds te n [] = mfail Out_of_fuel"
| "worker_rounds te n (r # rs) =
     (if r_stop r \<or> \<not> r_connected r then ret ()
      else mbind (pulse_marked_messages (net te) (tws_state_machine te n) n ibm 0) (\<lambda>rv.
        if rv \<noteq> 0 then ret ()
        else mbind (process_one_event te n r) (\<lambda>rv. if rv \<noteq> 0 then ret () else worker_rounds te n rs)))"

text \<open>One attempt to connect: whether the API could be created, the result of connecting, and the rounds
  while the connection lasts. \<open>tws_app_is_down\<close> keeps the long complaint to the first failure in a row;
  \<open>cries\<close> counts the lines of complaint.\<close>

record 'd attempt =
  a_stop :: bool
  a_created :: bool
  a_connect :: int
  a_rounds :: "'d round list"

record worker =
  tws_app_is_down :: int
  cries :: nat
  stop_signalled :: bool

fun worker_loop :: "'d tws_env \<Rightarrow> nat \<Rightarrow> 'd attempt list \<Rightarrow> worker \<Rightarrow> ('d tws_world, worker) M" where
  "worker_loop te n [] s = mfail Out_of_fuel"
| "worker_loop te n (a # as) s =
     (if a_stop a then ret s
      else mseq init_tws_api
        (let err = (if a_created a then a_connect a else - 1) in
         if err < 0 then ret (s\<lparr>cries := cries s + 1, stop_signalled := True\<rparr>)
         else if err \<noteq> 0 then
           worker_loop te n as (if tws_app_is_down s = 0
             then s\<lparr>cries := cries s + 2, tws_app_is_down := tws_app_is_down s + 1\<rparr> else s\<lparr>cries := cries s + 1\<rparr>)
         else mseq (worker_rounds te n (a_rounds a)) (worker_loop te n as (s\<lparr>tws_app_is_down := 0\<rparr>))))"

definition tws_worker_thread :: "'d tws_env \<Rightarrow> nat \<Rightarrow> 'd attempt list \<Rightarrow> ('d tws_world, worker) M" where
  "tws_worker_thread te n as = worker_loop te n as \<lparr>tws_app_is_down = 0, cries = 0, stop_signalled = False\<rparr>"

section \<open>The thread stays within the reachable worlds\<close>

definition stays :: "'d tws_env \<Rightarrow> ('d tws_world, 'a) M \<Rightarrow> bool" where
  "stays te f \<longleftrightarrow> (\<forall>w x w'. reachable te w \<longrightarrow> f w = Ok (x, w') \<longrightarrow> reachable te w')"

named_theorems stays_intro \<open>code that stays within the reachable worlds\<close>

lemma stays_perform:
  assumes "perform te n a = mseq f (ret ())"
  shows "stays te f"
  unfolding stays_def
proof (intro allI impI)
  fix w x w' assume w: "reachable te w" "f w = Ok (x, w')"
  have "perform te n a w = Ok ((), w')"
    using w(2) by (simp add: assms mseq_def mbind_def ret_def)
  then show "reachable te w'"
    using w(1) by (blast intro: reach_step sys_step)
qed

lemma stays_simple [stays_intro]: "stays te (ret x)" "stays te (mfail e)" "stays te (massert c)"
  by (auto simp: stays_def M_defs split: if_splits)

lemma stays_bind [stays_intro]:
  assumes "stays te f" "\<And>x. stays te (g x)"
  shows "stays te (mbind f g)"
  unfolding stays_def
proof (intro allI impI)
  fix w y w' assume w: "reachable te w" "mbind f g w = Ok (y, w')"
  then obtain x w1 where "f w = Ok (x, w1)" "g x w1 = Ok (y, w')"
    by (auto simp: mbind_def res_simps)
  then show "reachable te w'"
    using w(1) assms unfolding stays_def by blast
qed

lemma stays_split [stays_intro]: "(\<And>a b. stays te (f a b)) \<Longrightarrow> stays te (case p of (a, b) \<Rightarrow> f a b)"
  by (cases p) simp

lemma stays_seq [stays_intro]: "stays te f \<Longrightarrow> stays te g \<Longrightarrow> stays te (mseq f g)"
  by (simp add: mseq_def stays_bind)

lemma stays_if [stays_intro]: "(c \<Longrightarrow> stays te f) \<Longrightarrow> (\<not> c \<Longrightarrow> stays te g) \<Longrightarrow> stays te (if c then f else g)"
  by simp

lemma stays_steps [stays_intro]:
  "stays te (process_one_queued_tier2_request (net te) (tws_state_machine te n) p rd exc mx)"
  "stays te (fetch_new_interthread_communicators p)" "stays te (pulse_pending_issues te n n)" "stays te (tws_event te n k d)"
  "stays te (pulse_marked_messages (net te) (tws_state_machine te n) n p 0)" "stays te init_tws_api"
  by (fact stays_perform [OF perform.simps(5)] stays_perform [OF perform.simps(7)] stays_perform [OF perform.simps(9)]
      stays_perform [OF perform.simps(10)] stays_perform [OF perform.simps(4)] stays_perform [OF perform.simps(11)])+

lemma stays_receive_loop [stays_intro]: "stays te (receive_loop te n ps fds)"
  by (induction ps arbitrary: fds) (simp_all only: receive_loop.simps, (intro stays_intro)+)

lemma stays_io_receive [stays_intro]: "stays te (io_receive te n c s b)"
  unfolding io_receive_def by (intro stays_intro)

lemma stays_callbacks [stays_intro]: "stays te (run_callbacks te n cs)"
  by (induction te n cs rule: run_callbacks.induct) ((simp only: run_callbacks.simps; intro stays_intro; assumption)+)

lemma stays_rounds [stays_intro]: "stays te (worker_rounds te n rs)"
  by (induction rs) (simp_all only: worker_rounds.simps process_one_event_def, (intro stays_intro)+)

lemma stays_worker [stays_intro]: "stays te (worker_loop te n as s)"
  by (induction as arbitrary: s) (simp_all only: worker_loop.simps Let_def, (intro stays_intro)+)

text \<open>The request for the current time that a front-end has posted: the back-end connects, receives the
  request while it waits for data, and TWS answers it; then the program is stopped.\<close>

definition silent :: "bool \<Rightarrow> poll" where
  "silent readable = \<lparr>p_stop = False, p_select = 1, p_tws_read = readable, p_tws_except = False, p_read_set = {0},
     p_except_set = {}, p_max_fd = 0\<rparr>"

definition one_answer :: "unit attempt list" where
  "one_answer =
    [\<lparr>a_stop = False, a_created = True, a_connect = 0, a_rounds =
       [\<lparr>r_stop = False, r_connected = True, r_callbacks =
          [Read \<lparr>polls = [silent False, silent True], stop_after = False, read_result = 10\<rparr> 4096,
           Response Resp_current_time (no_data\<lparr>rd_time := 77\<rparr>)], r_result = 0\<rparr>,
        \<lparr>r_stop = True, r_connected = True, r_callbacks = [], r_result = 0\<rparr>]\<rparr>,
     \<lparr>a_stop = True, a_created = True, a_connect = 0, a_rounds = []\<rparr>]"

definition answered_world :: "(worker \<times> unit tws_world) res" where
  "answered_world = tws_worker_thread demo_env 6 one_answer time_asked"

lemma answered_calls:
  "(case answered_world of Ok (s, w) \<Rightarrow> tws_calls (glob w) = [(Req_current_time, 0, [])] \<and> tws_app_is_down s = 0 | Bad e \<Rightarrow> False)"
  by code_simp

section \<open>Properties\<close>



end
