(* ===== verification/IbDate.thy ===== *)
theory IbDate
  imports Prelude
begin

text \<open>\<open>ib_date_t\<close> of \<open>tws_data_structures.h\<close>: a time in seconds since 1970 and its text, which
  \<open>strftime\<close> makes with the format \<open>%Y-%m-%d %H:%M:%S\<close> of what \<open>gmtime\<close> finds. Both are functions of
  the C library; their calendar is the Gregorian one, without leap seconds.\<close>

section \<open>The calendar\<close>

definition leap :: "int \<Rightarrow> bool" where
  "leap y \<longleftrightarrow> y mod 4 = 0 \<and> (y mod 100 \<noteq> 0 \<or> y mod 400 = 0)"

definition year_length :: "int \<Rightarrow> int" where
  "year_length y = (if leap y then 366 else 365)"

definition month_length :: "int \<Rightarrow> nat \<Rightarrow> int" where
  "month_length y m = (if m = 1 then if leap y then 29 else 28 else if m \<in> {3, 5, 8, 10} then 30 else 31)"

lemma year_length_bounds: "365 \<le> year_length y" "year_length y \<le> 366"
  by (simp_all add: year_length_def)

lemma month_length_bounds: "28 \<le> month_length y m" "month_length y m \<le> 31"
  by (simp_all add: month_length_def)

lemma months_of_the_year: "(\<Sum>m<12. month_length y m) = year_length y"
  by (simp add: year_length_def month_length_def eval_nat_numeral)

text \<open>The year and the day in it, from a number of days since the start of the year \<open>y\<close>.\<close>

function find_year :: "int \<Rightarrow> int \<Rightarrow> int \<times> int" where
  "find_year y d = (if d < 0 then find_year (y - 1) (d + year_length (y - 1))
     else if year_length y \<le> d then find_year (y + 1) (d - year_length y)
     else (y, d))"
  by pat_completeness auto
termination
proof (relation "measure (\<lambda>(y, d). nat (if d < 0 then 366 - d else d))", goal_cases)
  case (2 y d)
  then show ?case
    using year_length_bounds [of "y - 1"] by auto
next
  case (3 y d)
  then show ?case
    using year_length_bounds [of y] by auto
qed simp

declare find_year.simps [simp del]

function find_month :: "int \<Rightarrow> nat \<Rightarrow> int \<Rightarrow> nat \<times> int" where
  "find_month y m d = (if 11 \<le> m \<or> d < month_length y m then (m, d) else find_month y (Suc m) (d - month_length y m))"
  by pat_completeness auto
termination
  by (relation "measure (\<lambda>(y, m, d). 11 - m)") auto

declare find_month.simps [simp del]

record tm =
  tm_year :: int
  tm_mon :: nat    \<comment> \<open>from 0\<close>
  tm_mday :: int   \<comment> \<open>from 1\<close>
  tm_hour :: int
  tm_min :: int
  tm_sec :: int

definition gmtime :: "int \<Rightarrow> tm" where
  "gmtime t = (let (y, yd) = find_year 1970 (t div 86400); (m, md) = find_month y 0 yd; s = t mod 86400 in
     \<lparr>tm_year = y, tm_mon = m, tm_mday = md + 1, tm_hour = s div 3600, tm_min = s mod 3600 div 60, tm_sec = s mod 60\<rparr>)"

section \<open>The text\<close>

definition pad :: "nat \<Rightarrow> string \<Rightarrow> string" where
  "pad n s = replicate (n - length s) (CHR ''0'') @ s"

definition date_text :: "int \<Rightarrow> string" where
  "date_text t = (let d = gmtime t in
     show_int (tm_year d) @ ''-'' @ pad 2 (show_int (int (tm_mon d) + 1)) @ ''-'' @ pad 2 (show_int (tm_mday d)) @ '' '' @
     pad 2 (show_int (tm_hour d)) @ '':'' @ pad 2 (show_int (tm_min d)) @ '':'' @ pad 2 (show_int (tm_sec d)))"

section \<open>The broken-down time is the time\<close>

text \<open>The days from the start of 1970 to the start of a year, either way.\<close>

definition days_before :: "int \<Rightarrow> int" where
  "days_before y = (\<Sum>x\<in>{1970..<y}. year_length x) - (\<Sum>x\<in>{y..<1970}. year_length x)"

definition timegm :: "tm \<Rightarrow> int" where
  "timegm d = (days_before (tm_year d) + (\<Sum>m<tm_mon d. month_length (tm_year d) m) + tm_mday d - 1) * 86400 +
     tm_hour d * 3600 + tm_min d * 60 + tm_sec d"

lemma days_before_next: "days_before (y + 1) = days_before y + year_length y"
proof (cases "1970 \<le> y")
  case True
  then have "{1970..<y + 1} = insert y {1970..<y}" "{y + 1..<1970} = {}" "{y..<1970} = {}"
    by auto
  then show ?thesis
    by (simp add: days_before_def)
next
  case False
  then have "{y..<1970} = insert y {y + 1..<1970}" "{1970..<y + 1} = {}" "{1970..<y} = {}"
    by auto
  then show ?thesis
    by (simp add: days_before_def)
qed

lemma find_year_days:
  "find_year y d = (y', d') \<Longrightarrow> days_before y' + d' = days_before y + d \<and> 0 \<le> d' \<and> d' < year_length y'"
proof (induction y d arbitrary: y' d' rule: find_year.induct)
  case (1 y d)
  show ?case
    using 1 days_before_next [of y] days_before_next [of "y - 1"]
    by (auto simp: find_year.simps [of y d] split: if_splits)
qed

lemma find_month_days:
  assumes "find_month y m d = (m', d')" "0 \<le> d" "m \<le> 11" "(\<Sum>i<m. month_length y i) + d < year_length y"
  shows "(\<Sum>i<m'. month_length y i) + d' = (\<Sum>i<m. month_length y i) + d \<and> m' \<le> 11 \<and> 0 \<le> d' \<and> d' < month_length y m'"
  using assms
proof (induction y m d rule: find_month.induct)
  case (1 y m d)
  show ?case
  proof (cases "11 \<le> m \<or> d < month_length y m")
    case True
    moreover have "d < month_length y m" if "m = 11"
      using 1(5) months_of_the_year [of y] that by (simp add: eval_nat_numeral)
    ultimately show ?thesis
      using 1(2-5) by (auto simp: find_month.simps [of y m d])
  next
    case False
    then show ?thesis
      using 1 by (simp add: find_month.simps [of y m d])
  qed
qed

lemma day_seconds: "s div 3600 * 3600 + s mod 3600 div 60 * 60 + s mod 60 = (s :: int)"
proof -
  have "s mod 3600 mod 60 = s mod 60"
    by (rule mod_mod_cancel) simp
  then have "s mod 3600 div 60 * 60 + s mod 60 = s mod 3600"
    using div_mult_mod_eq [of "s mod 3600" 60] by simp
  then show ?thesis
    using div_mult_mod_eq [of s 3600] by (simp only: add.assoc)
qed

lemma gmtime_fields:
  "0 \<le> tm_mday (gmtime t) - 1" "tm_mday (gmtime t) \<le> month_length (tm_year (gmtime t)) (tm_mon (gmtime t))"
  "tm_mon (gmtime t) \<le> 11" "0 \<le> tm_hour (gmtime t)" "tm_hour (gmtime t) < 24" "0 \<le> tm_min (gmtime t)"
  "tm_min (gmtime t) < 60" "0 \<le> tm_sec (gmtime t)" "tm_sec (gmtime t) < 60"
  and timegm_gmtime: "timegm (gmtime t) = t"
proof -
  obtain y yd where y: "find_year 1970 (t div 86400) = (y, yd)" by force
  obtain m md where m: "find_month y 0 yd = (m, md)" by force
  have d: "days_before y + yd = t div 86400" "0 \<le> yd" "yd < year_length y"
    using find_year_days [OF y] by (simp_all add: days_before_def)
  have md: "(\<Sum>i<m. month_length y i) + md = yd" "m \<le> 11" "0 \<le> md" "md < month_length y m"
    using find_month_days [OF m] d by simp_all
  let ?s = "t mod 86400"
  have g: "gmtime t = \<lparr>tm_year = y, tm_mon = m, tm_mday = md + 1, tm_hour = ?s div 3600, tm_min = ?s mod 3600 div 60,
      tm_sec = ?s mod 60\<rparr>"
    using y m by (simp add: gmtime_def Let_def)
  have s: "0 \<le> ?s" "?s < 86400" by simp_all
  show "0 \<le> tm_mday (gmtime t) - 1" "tm_mday (gmtime t) \<le> month_length (tm_year (gmtime t)) (tm_mon (gmtime t))"
    "tm_mon (gmtime t) \<le> 11"
    using md by (simp_all add: g)
  show "0 \<le> tm_hour (gmtime t)" "tm_hour (gmtime t) < 24" "0 \<le> tm_min (gmtime t)"
    "tm_min (gmtime t) < 60" "0 \<le> tm_sec (gmtime t)" "tm_sec (gmtime t) < 60"
    using s by (simp_all only: g tm.simps)
  have "?s div 3600 * 3600 + ?s mod 3600 div 60 * 60 + ?s mod 60 = ?s"
    by (rule day_seconds)
  moreover have "timegm (gmtime t) = t div 86400 * 86400 + (?s div 3600 * 3600 + ?s mod 3600 div 60 * 60 + ?s mod 60)"
    using md(1) d(1) by (simp add: g timegm_def)
  ultimately show "timegm (gmtime t) = t"
    using div_mult_mod_eq [of t 86400] by simp
qed

end
