(* ===== verification/FrontEnd.thy ===== *)
theory FrontEnd
  imports Worker WireSpec JsonOutput IbDate Registry
begin

text \<open>The threads of the web server (\<open>mongoose_event_handler.cpp\<close>): a web request for the time of the TWS
  server becomes a message to the back-end, the thread waits for its answer (\<open>wait_for_response\<close> in
  \<open>tier2_message.cpp\<close>) and writes it as a JSON text. While it waits the other threads go on: what they do
  is a script of actions of theory \<open>System\<close>.\<close>

section \<open>Waiting for the response\<close>

definition message_communicator :: "'d tws_env \<Rightarrow> mid \<Rightarrow> bool \<Rightarrow> ('d tws_world, cid option) M" where
  "message_communicator te m tx2rx =
     mseq (has_owner m)
     (mbind (deref m) (\<lambda>r. mbind (the_owner m) (\<lambda>p.
      if m_requester r \<noteq> m_receiver r then
        mbind (if tx2rx then get_interthread_communicator (net te) p (m_requester r) (m_receiver r)
               else get_interthread_communicator (net te) p (m_receiver r) (m_requester r)) (\<lambda>c. ret (Some c))
      else ret None)))"

text \<open>One round of the wait: the stop flag, what the other threads do before something can be read, and
  whether the wait for the socket ends with the socket readable or with the stop flag.\<close>

record 'd wait =
  w_stop :: bool
  w_others :: "'d action list"
  w_ready :: bool

fun wait_loop :: "'d tws_env \<Rightarrow> nat \<Rightarrow> mid \<Rightarrow> cid \<Rightarrow> 'd wait list \<Rightarrow> ('d tws_world, int) M" where
  "wait_loop te n m c [] = mfail Out_of_fuel"
| "wait_loop te n m c (s # ss) =
     (if w_stop s then ret (- 1)
      else mseq (performs te n (w_others s))
        (mbind (pop_one_message (net te) (tws_state_machine te n) c NO_MSG (w_ready s)) (\<lambda>(msg, _).
         case msg of
           None \<Rightarrow> ret (- 1)
         | Some m' \<Rightarrow> if m' = m then ret 0 else wait_loop te n m c ss)))"

definition still_under_way :: "request_state \<Rightarrow> bool" where
  "still_under_way s \<longleftrightarrow> s \<in> {MSG_INITIALIZED, EXEC_COMMAND, WAIT_FOR_TRANSMIT, COMMENCE_TRANSMIT,
     READY_TO_RECEIVE_RESPONSE, RESPONSE_PENDING}"

definition wait_for_response :: "'d tws_env \<Rightarrow> nat \<Rightarrow> mid \<Rightarrow> cid option \<Rightarrow> 'd wait list \<Rightarrow> ('d tws_world, int) M" where
  "wait_for_response te n m listen ws =
     mbind (deref m) (\<lambda>r.
     mseq (massert (\<lambda>_. m_requester r \<noteq> m_receiver r))
     (case listen of
        None \<Rightarrow> mfail Assert_failed
      | Some c \<Rightarrow>
          mseq (massert (\<lambda>w. m_receipient (comms w c) = m_requester r))
          (mbind (gets (does_own (m_requester r) m)) (\<lambda>own.
           if own \<and> \<not> still_under_way (m_now_state r) then ret 0 else wait_loop te n m c ws))))"

section \<open>A web request\<close>

datatype route = Server_time | Tickers_form | Not_ours

definition route_of :: "string \<Rightarrow> string \<Rightarrow> route" where
  "route_of req_method uri =
     (if take 5 uri = ''/tws/'' \<and> (req_method = ''GET'' \<or> req_method = ''POST'') then
        let u = drop 5 uri in
        if take 6 u = ''proxy/'' then if drop 6 u = ''server_time'' then Server_time else Not_ours
        else if take 7 u = ''upload/'' then if drop 7 u = ''tickers_form'' then Tickers_form else Not_ours
        else Not_ours
      else Not_ours)"

text \<open>The answer: a fixed head and what \<open>save_response\<close> writes between \<open>start\<close> and \<open>finish\<close>.\<close>

definition crlf :: string where
  "crlf = [CHR 0x0D, CHR 0x0A]"

definition answer_head :: string where
  "answer_head = ''HTTP/1.1 200 OK'' @ crlf @ ''Content-Type: application/json'' @ crlf @
     ''Cache-Control: no-cache'' @ crlf @ ''Connection: close'' @ crlf @ crlf"

definition save_to_channel :: "'d tws_class \<Rightarrow> (json_output, unit) M" where
  "save_to_channel k = (case save_response k of
     Some (name, t) \<Rightarrow> mseq json_bracket (mseq (add_sibling_string name (date_text t)) json_bracket)
   | None \<Rightarrow> ret ())"

definition write_answer :: "'d tws_class \<Rightarrow> string res" where
  "write_answer k = rbind (mseq json_start (mseq (save_to_channel k) json_finish) (new_json_output True))
     (\<lambda>(_, j). Ok (answer_head @ printed j))"

text \<open>Serving the time: \<open>p\<close> is the processor of the web connection. \<open>idle k\<close> is what the other threads do
  between this thread's steps \<open>k\<close> and \<open>k + 1\<close>. The result of the wait is not looked at.\<close>

definition serve_time :: "'d tws_env \<Rightarrow> nat \<Rightarrow> pid \<Rightarrow> (nat \<Rightarrow> 'd action list) \<Rightarrow> 'd wait list \<Rightarrow>
    ('d tws_world, string) M" where
  "serve_time te n p idle ws =
     mbind (new_request te (tws_state_machine te n) (Some p) (Some ibm) Req_current_time 0 []) (\<lambda>m.
     mseq (performs te n (idle 1))
     (mbind (message_communicator te m False) (\<lambda>c.
     mseq (performs te n (idle 2))
     (mseq (set_state (tws_state_machine te n) m EXEC_COMMAND)
     (mseq (performs te n (idle 3))
     (mseq (pulse (net te) (tws_state_machine te n) m)
     (mbind (wait_for_response te n m c ws) (\<lambda>_.
     mbind (deref m) (\<lambda>r.
     case write_answer (m_class r) of Ok s \<Rightarrow> ret s | Bad e \<Rightarrow> mfail e)))))))))"

section \<open>The uploaded form\<close>

text \<open>\<open>mg_read\<close> with the number of the call and the room in the buffer gives the bytes read, or fails;
  \<open>malloc\<close> says for a size whether the memory is there. \<open>BUFSIZ\<close> is the C library's.\<close>

datatype upload = Read_error | Out_of_memory | Posted string

definition BUFSIZ :: nat where "BUFSIZ = 8192"

fun read_posted :: "(nat \<Rightarrow> nat \<Rightarrow> string option) \<Rightarrow> (nat \<Rightarrow> bool) \<Rightarrow> nat \<Rightarrow> nat \<Rightarrow> nat \<Rightarrow> string \<Rightarrow> upload res" where
  "read_posted mg_read malloc 0 k bufsiz buf = Bad Out_of_fuel"
| "read_posted mg_read malloc (Suc fuel) k bufsiz buf =
     (case mg_read k (bufsiz - length buf) of
        None \<Rightarrow> Ok Read_error
      | Some s \<Rightarrow>
          if s = [] then Ok (Posted buf)
          else if bufsiz < length buf + length s then Bad Dangling
          else if bufsiz - length (buf @ s) < 2 then
            if malloc (2 * bufsiz) then read_posted mg_read malloc fuel (Suc k) (2 * bufsiz) (buf @ s)
            else Ok Out_of_memory
          else read_posted mg_read malloc fuel (Suc k) bufsiz (buf @ s))"

text \<open>The first size is the announced one, a negative number being a very large size.\<close>

definition read_form :: "(nat \<Rightarrow> nat \<Rightarrow> string option) \<Rightarrow> (nat \<Rightarrow> bool) \<Rightarrow> nat \<Rightarrow> int option \<Rightarrow> upload res" where
  "read_form mg_read malloc fuel content_length =
     (let announced = (case content_length of None \<Rightarrow> 0 | Some i \<Rightarrow> nat (i mod 2 ^ 64));
          bufsiz = max announced BUFSIZ in
      if malloc bufsiz then read_posted mg_read malloc fuel 0 bufsiz [] else Ok Out_of_memory)"

definition newline :: string where
  "newline = [CHR 0x0A]"

definition header_line :: "string \<times> string \<Rightarrow> string" where
  "header_line h = fst h @ replicate (40 - length (fst h)) (CHR '' '') @ '': '' @ snd h @ newline"

definition upload_page :: "(string \<times> string) list \<Rightarrow> string \<Rightarrow> string" where
  "upload_page headers posted_data =
     ''HTTP Request Headers'' @ newline @ ''===================='' @ newline @ newline @
     concat (map header_line headers) @ newline @ replicate 70 (CHR ''-'') @ newline @ newline @
     ''POSTed data'' @ newline @ ''============'' @ newline @ newline @ posted_data"

section \<open>The events of the web server\<close>

datatype mg_event =
  MG_NEW_REQUEST string string     \<comment> \<open>method, uri\<close>
| MG_REQUEST_COMPLETE
| MG_EXIT0
| MG_INIT0 int int                 \<comment> \<open>results of starting the back-end thread and the data tracker\<close>
| MG_INIT_CLIENT_CONN
| MG_EXIT_CLIENT_CONN
| MG_EVENT_LOG
| MG_HTTP_ERROR
| MG_OTHER

text \<open>Whether an event counts as processed, so that the web server does nothing more about it.\<close>

fun event_processed :: "mg_event \<Rightarrow> bool" where
  "event_processed (MG_NEW_REQUEST req_method uri) \<longleftrightarrow> route_of req_method uri \<noteq> Not_ours"
| "event_processed MG_EXIT0 \<longleftrightarrow> True"
| "event_processed (MG_INIT0 a b) \<longleftrightarrow> a = 0 \<and> b = 0"
| "event_processed _ \<longleftrightarrow> False"

text \<open>What an event does to the register of processors: only a new web connection enters it, and none
  leaves it. \<open>c\<close> is the connection.\<close>

definition event_registers :: "mg_event \<Rightarrow> conn \<Rightarrow> (registry, unit) M" where
  "event_registers e c = (if e = MG_INIT_CLIENT_CONN then mseq (register_frontend_thread c None) (ret ()) else ret ())"

section \<open>The web threads stay within the reachable worlds\<close>

lemma stays_performs [stays_intro]: "stays te (performs te n as)"
  unfolding stays_def by (auto intro: performs_reach)

lemma stays_comm [stays_intro]: "stays te (get_interthread_communicator (net te) p from to)"
  by (rule stays_perform [of te n "Find_comm p from to"]) simp

lemma stays_front [stays_intro]:
  "stays te (new_request te (tws_state_machine te n) (Some p) q k i args)"
  "stays te (set_state (tws_state_machine te n) m EXEC_COMMAND)"
  "stays te (pulse (net te) (tws_state_machine te n) m)"
  "stays te (pop_one_message (net te) (tws_state_machine te n) c mode ready)"
  by (rule stays_perform [of te n "New_request p q k i args"] stays_perform [of te n "Execute m"]
      stays_perform [of te n "Pulse m"] stays_perform [of te n "Pop c mode ready"]; simp)+

text \<open>Code that only looks at the world.\<close>

lemma stays_look [stays_intro]: "stays te (deref m)" "stays te (gets g)" "stays te (has_owner m)" "stays te (the_owner m)"
  by (auto simp: stays_def deref_def has_owner_def the_owner_def M_defs res_simps split: option.splits if_splits)

lemma stays_option [stays_intro]: "stays te f \<Longrightarrow> (\<And>x. stays te (g x)) \<Longrightarrow> stays te (case z of None \<Rightarrow> f | Some x \<Rightarrow> g x)"
  by (cases z) auto

lemma stays_res [stays_intro]: "(\<And>x. stays te (g x)) \<Longrightarrow> (\<And>e. stays te (h e)) \<Longrightarrow> stays te (case z of Ok x \<Rightarrow> g x | Bad e \<Rightarrow> h e)"
  by (cases z) auto

lemma stays_wait_loop [stays_intro]: "stays te (wait_loop te n m c ws)"
proof (induction ws)
  case (Cons s ss)
  show ?case
    unfolding wait_loop.simps by (intro stays_intro Cons.IH)
qed (simp, intro stays_intro)

lemma stays_serve: "stays te (serve_time te n p idle ws)"
  unfolding serve_time_def message_communicator_def wait_for_response_def by (intro stays_intro)

end
