(* ===== verification/ServeTime.thy ===== *)
theory ServeTime
  imports FrontEnd TwsSpec CancelSpec
begin

text \<open>What a web thread can rely on when it has the back-end serve a request: the wait for the answer ends
  with the answer, and a request for the time is answered with the time that TWS reports.\<close>

section \<open>An answer arrives\<close>

text \<open>A request of \<open>p\<close> to another processor in one of the states its requester handles.\<close>

definition answered_for :: "pid \<Rightarrow> 'd tws_class message \<Rightarrow> bool" where
  "answered_for p r \<longleftrightarrow> m_requester r = p \<and> m_receiver r \<noteq> p \<and> m_state_change_handlers r = [] \<and>
     (\<exists>k i args t. m_class r = Req k i args t) \<and> m_now_state r \<in> {RESPONSE_COMPLETE, TASK_COMPLETED, FAILED, ABORTED}"

definition arrived :: "pid \<Rightarrow> mid \<Rightarrow> 'd tws_world \<Rightarrow> 'd tws_world" where
  "arrived p m w = upd_msg m (\<lambda>r. enter_state (m_now_state r) (r\<lparr>m_owner := Some p\<rparr>)) (taken p m w)"

lemma arrived_sel [simp]:
  "sock_q (arrived p m w) = sock_q w" "comms (arrived p m w) = comms w" "glob (arrived p m w) = glob w"
  "owned (arrived p m w) = (owned w)(p := owned w p @ [m])" "pulsing (arrived p m w) = pulsing w"
  "msgs (arrived p m w) m' = (if m' = m then map_option (\<lambda>r. enter_state (m_now_state r) (r\<lparr>m_owner := Some p\<rparr>)) (msgs w m)
     else msgs w m')"
  by (simp_all add: arrived_def taken_def)

lemma req_f_ended:
  assumes "msgs w m = Some r" "m_owner r = Some p" "m_requester r \<noteq> ibm"
  shows "req_f_task_ended ex m w = Ok (0, w)"
  using assms by (simp add: req_f_task_ended_def the_owner_def M_defs deref_def)

lemma answered_settles:
  assumes "wf w" "msgs w m = Some r" "m_owner r = Some p" "answered_for p r" "p \<noteq> ibm"
  shows "tws_state_machine te (Suc n) m (m_now_state r) w = Ok (m_now_state r, upd_msg m (enter_state (m_now_state r)) w)"
proof -
  let ?w = "upd_msg m (enter_state (m_now_state r)) w"
  obtain k i args t where k: "m_class r = Req k i args t"
    using assms(4) by (auto simp: answered_for_def)
  obtain f where f: "stage (m_now_state r) = Some (Requester, f)" "m_now_state r \<noteq> DESTRUCTION"
      "f \<in> {F_response_complete, F_task_completed, F_task_failed, F_task_aborted}"
    using assms(4) by (auto simp: answered_for_def)
  have u: "msgs ?w m = Some (enter_state (m_now_state r) r)"
    using assms(2) by simp
  have "req_f te (tws_state_machine te n) f k m ?w = Ok (0, ?w)"
    using f(3) req_f_ended [OF u, of p "tws_state_machine te n"] assms(3-5) by (auto simp: answered_for_def M_defs)
  then have "h_f (tws_hooks te) (tws_state_machine te n) f m ?w = Ok (0, ?w)"
    using tws_f_req [OF u, of k i args t] k by simp
  then show ?thesis
    using exec_runs [OF handle_none [OF assms(2)] assms(2,3) f(1,2) _ _ u] assms(3,4)
    by (simp add: tws_state_machine_def answered_for_def party_pid_def)
qed

lemma arrives:
  assumes w: "wf w" and r: "msgs w m = Some r" "m_owner r = None" "answered_for p r" and p: "p \<noteq> ibm"
    and free: "\<forall>s. m \<notin> set (sock_q w s)"
  shows "set_current_owner (tws_state_machine te (Suc n)) m (Some p) w = Ok (Some p, arrived p m w)"
proof -
  let ?w = "set_owner m (Some p) (taken p m w)" and ?r = "r\<lparr>m_owner := Some p\<rparr>"
  have w1: "wf ?w"
    using inv_take [of "\<lambda>_. True" w m r ?w p] w r free by (simp add: winv_def)
  have m1: "msgs ?w m = Some ?r" "m_owner ?r = Some p" "answered_for p ?r"
    using r by (simp_all add: set_owner_def taken_def answered_for_def)
  have "upd_msg m (enter_state (m_now_state ?r)) ?w = arrived p m w"
    using r(1) by (simp add: arrived_def set_owner_def upd_msg_def taken_def fun_eq_iff)
  then have ex: "tws_state_machine te (Suc n) m (m_now_state r) ?w = Ok (m_now_state r, arrived p m w)"
    using answered_settles [OF w1 m1 p, of te n] by simp
  have "m \<notin> set (owned w p)"
    using w r by (auto simp: wf_def owner_ok_def)
  then have own: "own p m w = Ok (0, taken p m w)"
    using r by (auto simp: own_def M_defs deref_def does_own_def taken_def answered_for_def)
  show ?thesis
    using own r(1,2) ex m1(1)
    by (simp add: set_current_owner_def M_defs deref_def)
qed

lemma wf_arrived:
  assumes w: "wf w" and r: "msgs w m = Some r" "m_owner r = None" and free: "\<forall>s. m \<notin> set (sock_q w s)"
  shows "wf (arrived p m w)"
proof -
  have "wf (set_owner m (Some p) (taken p m w))"
    using inv_take [of "\<lambda>_. True" w m r _ p] w r free by (simp add: winv_def)
  from wf_enter [OF this, of m "m_now_state r"] show ?thesis
    using r(1) by (simp add: arrived_def set_owner_def upd_msg_def taken_def)
qed

section \<open>The wait ends\<close>

text \<open>Answers for \<open>p\<close>, in this order, are in the socket of a communicator.\<close>

definition on_the_way :: "pid \<Rightarrow> cid \<Rightarrow> mid list \<Rightarrow> 'd tws_world \<Rightarrow> bool" where
  "on_the_way p c q w \<longleftrightarrow> m_receipient (comms w c) = p \<and> sock_q w (m_receiving_socket (comms w c)) = q \<and>
     (\<forall>m \<in> set q. \<exists>r. msgs w m = Some r \<and> answered_for p r)"

lemma pop_arrives:
  assumes w: "wf w" and q: "on_the_way p c (m # q) w" and p: "p \<noteq> ibm"
  shows "\<exists>w'. pop_one_message (net te) (tws_state_machine te (Suc n)) c mode True w = Ok ((Some m, MSG_PENDING), w') \<and>
    wf w' \<and> on_the_way p c q w' \<and> comms w' = comms w \<and> owned w' p = owned w p @ [m] \<and>
    map_option m_class (msgs w' m) = map_option m_class (msgs w m)"
proof -
  define s where "s = m_receiving_socket (comms w c)"
  define w1 where "w1 = w\<lparr>sock_q := (sock_q w)(s := q)\<rparr>"
  have s: "sock_q w s = m # q" "m_receipient (comms w c) = p" "distinct (m # q)"
    using w q unfolding on_the_way_def s_def wf_def limbo_ok_def by metis+
  have w1: "wf w1" "\<forall>t. m \<notin> set (sock_q w1 t)"
    using inv_dequeue [of "\<lambda>_. True" w s m q w1] w s by (simp_all add: winv_def w1_def)
  obtain r where r: "msgs w1 m = Some r" "m_owner r = None" "answered_for p r"
    using w q s limbo_okD [of w m s] by (auto simp: wf_def on_the_way_def w1_def)
  have "pop_one_message (net te) (tws_state_machine te (Suc n)) c mode True w = Ok ((Some m, MSG_PENDING), arrived p m w1)"
    using s arrives [OF w1(1) r p w1(2), of te n] by (simp add: pop_one_message_def M_defs s_def w1_def)
  moreover have "wf (arrived p m w1)"
    by (rule wf_arrived [OF w1(1) r(1,2) w1(2)])
  moreover have "on_the_way p c q (arrived p m w1)"
    using q s(3) by (auto simp: on_the_way_def w1_def s_def)
  ultimately show ?thesis
    using r(1) by (intro exI [of _ "arrived p m w1"]) (simp add: w1_def)
qed

text \<open>A round in which the server does not stop, no other thread runs and the socket is readable.\<close>

definition undisturbed :: "'d wait \<Rightarrow> bool" where
  "undisturbed s \<longleftrightarrow> \<not> w_stop s \<and> w_others s = [] \<and> w_ready s"

lemma wait_loop_ends:
  assumes "wf w" "on_the_way p c (ms @ m # rest) w" "p \<noteq> ibm" "m \<notin> set ms"
    and "length ms < length ws" "\<forall>s \<in> set (take (Suc (length ms)) ws). undisturbed s"
  shows "\<exists>w'. wait_loop te (Suc n) m c ws w = Ok (0, w') \<and> on_the_way p c rest w' \<and>
    comms w' = comms w \<and> owned w' p = owned w p @ ms @ [m]"
  using assms
proof (induction ms arbitrary: w ws)
  case Nil
  then obtain s ss where "ws = s # ss" "undisturbed s"
    by (cases ws) auto
  moreover obtain w' where "pop_one_message (net te) (tws_state_machine te (Suc n)) c NO_MSG True w = Ok ((Some m, MSG_PENDING), w')"
      "on_the_way p c rest w'" "comms w' = comms w" "owned w' p = owned w p @ [m]"
    using pop_arrives [of w p c m rest te n NO_MSG] Nil by auto
  ultimately show ?case
    by (simp add: undisturbed_def M_defs)
next
  case (Cons a ms)
  then obtain s ss where s: "ws = s # ss" "undisturbed s"
    by (cases ws) auto
  obtain w1 where w1: "pop_one_message (net te) (tws_state_machine te (Suc n)) c NO_MSG True w = Ok ((Some a, MSG_PENDING), w1)"
      "wf w1" "on_the_way p c (ms @ m # rest) w1" "comms w1 = comms w" "owned w1 p = owned w p @ [a]"
    using pop_arrives [of w p c a "ms @ m # rest" te n NO_MSG] Cons.prems by auto
  then show ?case
    using Cons.IH [OF w1(2,3), of ss] Cons.prems s by (auto simp: undisturbed_def M_defs)
qed

section \<open>The stages of a request for the time\<close>

definition wire :: "'d tws_world \<Rightarrow> cid \<Rightarrow> pid \<Rightarrow> pid \<Rightarrow> bool" where
  "wire w c a b \<longleftrightarrow> c \<in> set (m_communicators w) \<and> m_sender (comms w c) = a \<and> m_receipient (comms w c) = b"

lemma wire_evolves: "evolves w w' \<Longrightarrow> wire w c a b \<Longrightarrow> wire w' c a b \<and> comms w' c = comms w c"
  by (auto simp: wire_def evolves_def comms_kept_def)

lemma wire_unique: "winv G w \<Longrightarrow> a \<noteq> b \<Longrightarrow> wire w c a b \<Longrightarrow> wire w d a b \<Longrightarrow> c = d"
  using comm_inv_unique [of w c d] by (auto simp: wire_def winv_def wf_def)

lemma wire_socket: "winv G w \<Longrightarrow> wire w c a b \<Longrightarrow> peer (m_sending_socket (comms w c)) = m_receiving_socket (comms w c)"
  by (auto simp: wire_def winv_def wf_def comm_inv_def comm_ok_def Let_def)

lemma wire_get:
  assumes w: "winv limit_ok w" and e: "\<And>s. env_socketpair e s = 0" and p: "p = a \<or> p = b"
  shows "\<exists>c w'. get_interthread_communicator e p a b w = Ok (c, w') \<and> winv limit_ok w' \<and> evolves w w' \<and>
    wire w' c a b \<and> comm_frame w w'"
proof -
  have wf: "wf w"
    by (rule winvD [OF w])
  obtain c w' where c: "get_interthread_communicator e p a b w = Ok (c, w')"
    using get_comm_Ok [OF wfD(5) [OF wf] e p] by blast
  show ?thesis
    using get_comm_matches [OF wf c] inv_comm_frame [OF w] c by (auto simp: wire_def)
qed

text \<open>The request of \<open>p\<close> in a state, with an owner, and with the time it keeps.\<close>

definition scene :: "pid \<Rightarrow> mid \<Rightarrow> request_state \<Rightarrow> pid option \<Rightarrow> int \<Rightarrow> 'd tws_world \<Rightarrow> bool" where
  "scene p m st po t w \<longleftrightarrow> winv limit_ok w \<and> (\<exists>r. msgs w m = Some r \<and> m_requester r = p \<and> m_receiver r = ibm \<and>
     m_state_change_handlers r = [] \<and> m_class r = Req Req_current_time 0 [] t \<and> m_now_state r = st \<and> m_owner r = po)"

lemma scene_winv: "scene p m st po t w \<Longrightarrow> winv limit_ok w"
  by (simp add: scene_def)

text \<open>What the back-end owns, and that nothing is marked there.\<close>

definition at_rest :: "mid list \<Rightarrow> 'd tws_world \<Rightarrow> bool" where
  "at_rest l w \<longleftrightarrow> owned w ibm = l \<and> pulsing w ibm = []"

lemma asks:
  fixes te :: "'d tws_env"
  assumes w: "winv limit_ok w" and p: "p \<noteq> ibm" and e: "\<And>s. env_socketpair (net te) s = 0"
  shows "\<exists>w'. new_request te (tws_state_machine te (Suc n)) (Some p) (Some ibm) Req_current_time 0 [] w = Ok (next_mid w, w') \<and>
    scene p (next_mid w) MSG_INITIALIZED (Some p) 0 w' \<and> evolves w w' \<and> owned w' ibm = owned w ibm \<and> pulsing w' = pulsing w \<and>
    sock_q w' = sock_q w"
proof -
  let ?m = "next_mid w" and ?ex = "tws_state_machine te (Suc n)"
  let ?new = "new_request te ?ex (Some p) (Some ibm) Req_current_time 0 []"
  define r where "r = \<lparr>m_requester = p, m_receiver = ibm, m_now_state = MSG_INITIALIZED, m_previous_state = INIT4PREV,
    m_owner = None, m_state_change_handlers = [], m_class = Req Req_current_time 0 [] 0 :: 'd tws_class\<rparr>"
  define w0 where "w0 = w\<lparr>next_mid := next_mid w + 1, msgs := (msgs w)(?m \<mapsto> r)\<rparr>"
  have w0: "winv limit_ok w0"
    using inv_alloc [OF w _ w0_def] by (simp add: r_def)
  obtain c w1 where c: "get_interthread_communicator (net te) p p ibm w0 = Ok (c, w1)" "winv limit_ok w1" "comm_frame w0 w1"
    using wire_get [OF w0 e, of p p ibm] by blast
  have w1: "msgs w1 ?m = Some r" "owned w1 = owned w" "pulsing w1 = pulsing w" "sock_q w1 = sock_q w"
    using c(3) by (simp_all add: comm_frame_def w0_def)
  have "?m \<notin> set (owned w1 p)"
    using winvD(1) [OF c(2)] w1(1) by (auto simp: wf_def owner_ok_def r_def)
  then have own: "set_current_owner ?ex ?m (Some p) w1 = Ok (Some p, arrived p ?m w1)"
    using w1(1)
    by (simp add: set_current_owner_def own_def tws_state_machine_def exec_state_body_def dispatch_state_def handle_state_change_def
        M_defs deref_def does_own_def set_owner_def has_owner_def the_owner_def r_def arrived_def taken_def upd_msg_def fun_eq_iff)
  then have new: "?new w = Ok (?m, arrived p ?m w1)"
    using c(1) p
    by (simp add: new_request_def new_message_def resolve_parties_def alloc_msg_def M_defs is_w_order_def r_def w0_def)
  moreover have "keeps (winv limit_ok) evolves ?new"
    by (intro keeps_intro ev_state_machine)
  ultimately have "winv limit_ok (arrived p ?m w1) \<and> evolves w (arrived p ?m w1)"
    using w by (blast dest: keeps_ok)
  then show ?thesis
    using new w1 p by (intro exI [of _ "arrived p ?m w1"]) (auto simp: scene_def r_def)
qed

lemma executes:
  assumes s: "scene p m MSG_INITIALIZED (Some p) t w" and p: "p \<noteq> ibm"
  shows "\<exists>w'. set_state (tws_state_machine te (Suc n)) m EXEC_COMMAND w = Ok (EXEC_COMMAND, w') \<and>
    scene p m EXEC_COMMAND (Some p) t w' \<and> evolves w w' \<and> owned w' = owned w \<and> pulsing w' ibm = pulsing w ibm \<and> sock_q w' = sock_q w"
proof -
  let ?ex = "tws_state_machine te (Suc n)"
  obtain r where r: "msgs w m = Some r" "m_requester r = p" "m_receiver r = ibm" "m_state_change_handlers r = []"
      "m_class r = Req Req_current_time 0 [] t" "m_now_state r = MSG_INITIALIZED" "m_owner r = Some p" and w: "winv limit_ok w"
    using s by (auto simp: scene_def)
  let ?w = "(upd_msg m (enter_state EXEC_COMMAND) w)\<lparr>pulsing := (pulsing w)(p := push_new m (pulsing w p))\<rparr>"
  have ex: "?ex m EXEC_COMMAND w = Ok (EXEC_COMMAND, ?w)"
    using exec_queues [OF handle_none [OF r(1,4)] r(1,7) winvD(1) [OF w], of EXEC_COMMAND Receiver F_exec_command] r p
    by (simp add: tws_state_machine_def party_pid_def)
  have m: "msgs ?w m = Some (enter_state EXEC_COMMAND r)"
    using r(1) by simp
  have set: "set_state ?ex m EXEC_COMMAND w = Ok (EXEC_COMMAND, ?w)"
    by (rule set_state_once [where ex = ?ex, OF r(1) _ ex m]) (simp_all add: r(6))
  moreover have "keeps (winv limit_ok) evolves (set_state ?ex m EXEC_COMMAND)"
    by (intro keeps_intro ev_state_machine)
  ultimately have "winv limit_ok ?w \<and> evolves w ?w"
    using w by (blast dest: keeps_ok)
  then show ?thesis
    using set m r p by (intro exI [of _ ?w]) (auto simp: scene_def)
qed

text \<open>A pulse carries the request to the other side.\<close>

lemma crosses:
  assumes s: "scene p m st (Some a) t w" and b: "b = (if st = RESPONSE_COMPLETE then p else ibm)" "a \<noteq> b"
    and st: "st \<in> {EXEC_COMMAND, RESPONSE_COMPLETE}"
    and e: "\<And>s. env_socketpair (net te) s = 0" "\<And>n. env_write (net te) n = sizeof_ptr"
  shows "\<exists>d w'. pulse (net te) (tws_state_machine te n) m w = Ok (0, w') \<and> scene p m st None t w' \<and> evolves w w' \<and> wire w' d a b \<and>
    owned w' = (owned w)(a := remove1 m (owned w a)) \<and> pulsing w' = (pulsing w)(a := remove1 m (pulsing w a)) \<and>
    (let q = m_receiving_socket (comms w' d) in sock_q w' = (sock_q w)(q := sock_q w q @ [m])) \<and>
    (\<forall>m'. m' \<noteq> m \<longrightarrow> msgs w' m' = msgs w m')"
proof -
  obtain r where r: "msgs w m = Some r" "m_requester r = p" "m_receiver r = ibm" "m_state_change_handlers r = []"
      "m_class r = Req Req_current_time 0 [] t" "m_now_state r = st" "m_owner r = Some a" and w: "winv limit_ok w"
    using s by (auto simp: scene_def)
  have target: "pulse_target r = b"
    using r b st by (auto simp: pulse_target_def)
  obtain d w1 where d: "get_interthread_communicator (net te) a a b w = Ok (d, w1)" "winv limit_ok w1" "evolves w w1" "wire w1 d a b"
      "comm_frame w w1"
    using wire_get [OF w e(1), of a a b] by blast
  define q where "q = m_receiving_socket (comms w1 d)"
  define w2 where "w2 = posted a m q w1"
  have w1: "msgs w1 = msgs w" "owned w1 = owned w" "pulsing w1 = pulsing w" "sock_q w1 = sock_q w"
    using d(5) by (simp_all add: comm_frame_def)
  have post: "post_message (net te) (tws_state_machine te n) d m w1 = Ok (0, w2)"
    using post_Ok [OF winvD(1) [OF d(2)], of m r a d "net te" "tws_state_machine te n"] w1 r e(2) d(4) wire_socket [OF d(2,4)]
    by (simp add: wire_def w2_def q_def)
  then have "pulse (net te) (tws_state_machine te n) m w = Ok (0, w2)"
    using d(1) r(1,7) b(2) target by (simp add: pulse_def has_owner_def the_owner_def M_defs deref_def)
  moreover have "keeps (winv limit_ok) evolves (pulse (net te) (tws_state_machine te n) m)"
    by (intro keeps_intro ev_state_machine)
  ultimately have k: "winv limit_ok w2" "evolves w w2" "pulse (net te) (tws_state_machine te n) m w = Ok (0, w2)"
    using w by (blast dest: keeps_ok)+
  have sel: "comms w2 = comms w1" "m_communicators w2 = m_communicators w1" "sock_q w2 = (sock_q w)(q := sock_q w q @ [m])"
    "owned w2 = (owned w)(a := remove1 m (owned w a))" "pulsing w2 = (pulsing w)(a := remove1 m (pulsing w a))"
    "msgs w2 m' = (if m' = m then Some (r\<lparr>m_owner := None\<rparr>) else msgs w m')" for m'
    using r(1) by (simp_all add: w2_def posted_def set_owner_def released_def Let_def w1)
  show ?thesis
    using k sel d(4) r by (intro exI [of _ d] exI [of _ w2]) (simp add: scene_def wire_def q_def Let_def)
qed

lemma transmitted_msg:
  "msgs w m = Some r \<Longrightarrow> \<exists>r'. msgs (transmitted m k i args w) m = Some r' \<and> m_requester r' = m_requester r \<and>
     m_receiver r' = m_receiver r \<and> m_owner r' = m_owner r \<and> m_class r' = m_class r \<and>
     m_state_change_handlers r' = m_state_change_handlers r \<and> m_now_state r' = READY_TO_RECEIVE_RESPONSE"
  by (simp add: transmitted_def call_logged_def)

lemma received:
  assumes s: "scene p m EXEC_COMMAND None t w" and idle: "at_rest [] w" and d: "wire w d p ibm"
    and q: "sock_q w (m_receiving_socket (comms w d)) = [m]" and p: "p \<noteq> ibm" and call: "\<And>n. tws_call te n = 0"
  shows "\<exists>w'. pop_one_message (net te) (tws_state_machine te (Suc (Suc (Suc (Suc n))))) d MSG_PENDING True w = Ok ((Some m, MSG_PENDING), w') \<and>
    scene p m READY_TO_RECEIVE_RESPONSE (Some ibm) t w' \<and> evolves w w' \<and> at_rest [m] w' \<and>
    sock_q w' = (sock_q w)(m_receiving_socket (comms w d) := [])"
proof -
  let ?ex = "tws_state_machine te (Suc (Suc (Suc (Suc n))))" and ?s = "m_receiving_socket (comms w d)"
  define w1 where "w1 = w\<lparr>sock_q := (sock_q w)(?s := [])\<rparr>"
  obtain r where r: "msgs w1 m = Some r" "m_requester r = p" "m_receiver r = ibm" "m_state_change_handlers r = []"
      "m_class r = Req Req_current_time 0 [] t" "m_now_state r = EXEC_COMMAND" "m_owner r = None" and w: "winv limit_ok w"
    using s by (auto simp: scene_def w1_def)
  have w1: "winv limit_ok w1" "\<forall>t. m \<notin> set (sock_q w1 t)"
    using inv_dequeue [OF w q w1_def] by simp_all
  define u where "u = set_owner m (Some ibm) (taken ibm m w1)"
  have u: "winv limit_ok u" "request_at_ibm m Req_current_time 0 [] EXEC_COMMAND [] u"
    using inv_take [OF w1(1) r(1,7) w1(2), of u ibm] r by (auto simp: u_def request_at_ibm_def set_owner_def taken_def)
  define v where "v = transmitted m Req_current_time 0 [] u"
  have ex: "?ex m EXEC_COMMAND u = Ok (READY_TO_RECEIVE_RESPONSE, v)"
    unfolding v_def by (rule transmit_exec [OF winvD(1) [OF u(1)] u(2)]) (simp_all add: call)
  obtain r' where r': "msgs v m = Some r'" "m_requester r' = p" "m_receiver r' = ibm" "m_state_change_handlers r' = []"
      "m_class r' = Req Req_current_time 0 [] t" "m_now_state r' = READY_TO_RECEIVE_RESPONSE" "m_owner r' = Some ibm"
    using transmitted_msg [of u m "r\<lparr>m_owner := Some ibm\<rparr>" Req_current_time 0 "[]"] r
    by (auto simp: u_def v_def set_owner_def taken_def)
  have "m \<notin> set (owned w1 ibm)"
    using idle by (simp add: at_rest_def w1_def)
  then have "set_current_owner ?ex m (Some ibm) w1 = Ok (Some ibm, v)"
    using r ex r' p
    by (simp add: set_current_owner_def own_def M_defs deref_def does_own_def u_def taken_def set_owner_def)
  then have pop: "pop_one_message (net te) ?ex d MSG_PENDING True w = Ok ((Some m, MSG_PENDING), v)"
    using q d by (simp add: pop_one_message_def M_defs w1_def wire_def)
  moreover have "keeps (winv limit_ok) evolves (pop_one_message (net te) ?ex d MSG_PENDING True)"
    by (intro keeps_intro ev_state_machine)
  ultimately have "winv limit_ok v \<and> evolves w v"
    using w by (blast dest: keeps_ok)
  moreover have "owned v ibm = [m]" "pulsing v = pulsing w" "sock_q v = (sock_q w)(?s := [])"
    using idle by (simp_all add: v_def u_def set_owner_def taken_def w1_def at_rest_def)
  ultimately show ?thesis
    using pop r' idle by (intro exI [of _ v]) (simp add: scene_def at_rest_def)
qed

text \<open>The message that carried the response is due for destruction.\<close>

definition used_up :: "mid \<Rightarrow> 'd tws_world \<Rightarrow> bool" where
  "used_up m w \<longleftrightarrow> (\<exists>r. msgs w m = Some r \<and> m_owner r = Some ibm \<and> m_requester r = ibm \<and> m_now_state r = DESTRUCTION)"

lemma response_used_up:
  assumes w: "wf w" and r: "msgs w m = Some r" "m_owner r = Some ibm" "m_requester r = ibm" "m_state_change_handlers r = []"
    and st: "m_class r = Resp k d" "m_now_state r \<noteq> DESTRUCTION"
  shows "set_state (tws_state_machine te (Suc n)) m DESTRUCTION w = Ok (DESTRUCTION, marked m (upd_msg m (enter_state DESTRUCTION) w))"
proof -
  let ?w = "upd_msg m (enter_state DESTRUCTION) w" and ?ex = "tws_state_machine te (Suc n)"
  have q: "queue_msg_for_pulsing ibm m ?w = Ok (if m \<in> set (pulsing w ibm) then 1 else 0, marked m ?w)"
    using queue_Ok [OF wf_enter [OF w], of m DESTRUCTION m "enter_state DESTRUCTION r" ibm] r by (simp add: marked_def)
  have f: "tws_f te (tws_state_machine te n) F_destruction_imminent m ?w = Ok (0, ?w)"
    using r(1) st by (simp add: tws_f_def M_defs deref_def)
  have "exec_state_body (tws_hooks te) (tws_state_machine te n) m DESTRUCTION w = Ok (DESTRUCTION, marked m ?w)"
    using handle_none [OF r(1,4), of "tws_hooks te" "tws_state_machine te n" DESTRUCTION] q f r
    by (simp add: exec_state_body_def M_defs deref_def has_owner_def the_owner_def dispatch_state_def party_pid_def)
  then have ex: "?ex m DESTRUCTION w = Ok (DESTRUCTION, marked m ?w)"
    by (simp add: tws_state_machine_def)
  show ?thesis
    by (rule set_state_enters [where ex = ?ex, OF r(1) st(2) ex]) (use r(1) in simp)
qed

lemma builds_response:
  assumes w: "winv limit_ok w"
  shows "\<exists>w'. new_message (net te) (tws_state_machine te (Suc n)) (Some ibm) None (Resp k d) w = Ok (next_mid w, w') \<and>
    winv limit_ok w' \<and> owned w' = (owned w)(ibm := owned w ibm @ [next_mid w]) \<and> pulsing w' = pulsing w \<and> sock_q w' = sock_q w \<and>
    (\<forall>m. m \<noteq> next_mid w \<longrightarrow> msgs w' m = msgs w m) \<and>
    (\<exists>r. msgs w' (next_mid w) = Some r \<and> m_owner r = Some ibm \<and> m_requester r = ibm \<and> m_state_change_handlers r = [] \<and>
      m_class r = Resp k d \<and> m_now_state r = MSG_INITIALIZED)"
proof -
  let ?new = "new_message (net te) (tws_state_machine te (Suc n)) (Some ibm) None (Resp k d)" and ?m = "next_mid w"
  have fresh: "next_mid w \<notin> set (owned w ibm)"
    using w by (auto simp: winv_def wf_def owner_ok_def alloc_ok_def)
  let ?r = "\<lparr>m_requester = ibm, m_receiver = ibm, m_now_state = MSG_INITIALIZED, m_previous_state = INIT4PREV,
    m_owner = None, m_state_change_handlers = [], m_class = Resp k d\<rparr>"
  let ?w = "arrived ibm ?m (w\<lparr>next_mid := next_mid w + 1, msgs := (msgs w)(?m \<mapsto> ?r)\<rparr>)"
  have new: "?new w = Ok (?m, ?w)"
    using fresh
    by (simp add: new_message_def resolve_parties_def alloc_msg_def set_current_owner_def own_def tws_state_machine_def
        exec_state_body_def dispatch_state_def handle_state_change_def M_defs deref_def does_own_def set_owner_def has_owner_def
        the_owner_def arrived_def taken_def upd_msg_def fun_eq_iff)
  moreover have "keeps (winv limit_ok) evolves ?new"
    by (intro keeps_intro ev_state_machine)
  ultimately have "winv limit_ok ?w"
    using w by (blast dest: keeps_ok)
  then show ?thesis
    using new by (intro exI [of _ ?w]) simp
qed

lemma reported:
  assumes s: "scene p m READY_TO_RECEIVE_RESPONSE (Some ibm) t w" and idle: "at_rest [m] w" and p: "p \<noteq> ibm"
  shows "\<exists>x w'. tws_event te (Suc n) Resp_current_time d w = Ok (0, w') \<and> scene p m RESPONSE_COMPLETE (Some ibm) (rd_time d) w' \<and>
    evolves w w' \<and> x \<noteq> m \<and> owned w' ibm = [m, x] \<and> pulsing w' ibm = [m, x] \<and> used_up x w' \<and> sock_q w' = sock_q w"
proof -
  let ?ex = "tws_state_machine te (Suc n)" and ?x = "next_mid w"
  obtain r where r: "msgs w m = Some r" "m_requester r = p" "m_receiver r = ibm" "m_state_change_handlers r = []"
      "m_class r = Req Req_current_time 0 [] t" "m_now_state r = READY_TO_RECEIVE_RESPONSE" "m_owner r = Some ibm"
    and w: "winv limit_ok w"
    using s by (auto simp: scene_def)
  then have x: "?x \<noteq> m"
    by (auto simp: winv_def wf_def alloc_ok_def)
  obtain w1 y where new: "new_message (net te) ?ex (Some ibm) None (Resp Resp_current_time d) w = Ok (?x, w1)"
    and w1: "winv limit_ok w1" "owned w1 ibm = [m, ?x]" "pulsing w1 = pulsing w" "sock_q w1 = sock_q w" "msgs w1 m = Some r"
    and y: "msgs w1 ?x = Some y" "m_owner y = Some ibm" "m_requester y = ibm" "m_state_change_handlers y = []"
      "m_class y = Resp Resp_current_time d" "m_now_state y = MSG_INITIALIZED"
    using builds_response [OF w, of te n Resp_current_time d] x idle r(1) by (auto simp: at_rest_def)
  define w2 where "w2 = time_kept m 0 [] (rd_time d) w1"
  have completed: "current_time_response ?ex m 0 [] Resp_current_time d w1 = Ok (0, w2)"
    using current_time_completed [OF winvD(1) [OF w1(1)] w1(5) r(7) _ r(4,6), of te n 0 "[]" d] r(2) p by (simp add: w2_def)
  then have req: "req_process_response te ?ex m ?x w1 = Ok (0, w2)"
    using w1(5) r(5) y by (simp add: req_process_response_def M_defs deref_def)
  have "keeps (winv limit_ok) evolves (req_process_response te ?ex m ?x)"
    by (intro keeps_intro ev_state_machine)
  then have w2: "winv limit_ok w2"
    using w1(1) req by (blast dest: keeps_ok)
  define w3 where "w3 = marked ?x (upd_msg ?x (enter_state DESTRUCTION) w2)"
  have destr: "set_state ?ex ?x DESTRUCTION w2 = Ok (DESTRUCTION, w3)"
    unfolding w3_def by (rule response_used_up [OF winvD(1) [OF w2], of _ y]) (use x y in \<open>simp_all add: w2_def\<close>)
  have "List.filter (awaits w1 ?x) [m, ?x] = [m]"
    using w1(5) r y by (simp add: awaits_def response_is_meant_for_us_def)
  then have "scan_queue_and_process te ?ex ?x w1 = Ok (0, w3)"
    using scan_queue_collects [OF winvD(1) [OF w1(1)] y(1), of te ?ex] w1(2) req destr by (simp add: M_defs int_or_def)
  then have event: "tws_event te (Suc n) Resp_current_time d w = Ok (0, w3)"
    using new y by (simp add: tws_event_def ibm_process_response_def M_defs deref_def)
  then have "winv limit_ok w3 \<and> evolves w w3"
    using keeps_ok [OF ev_tws_event w] by blast
  moreover have "owned w3 ibm = [m, ?x]" "pulsing w3 ibm = [m, ?x]" "sock_q w3 = sock_q w" "used_up ?x w3"
    using w1 idle x y by (simp_all add: w3_def w2_def marked_def at_rest_def push_new_def used_up_def)
  ultimately show ?thesis
    using event x w1(5) r by (intro exI [of _ ?x] exI [of _ w3]) (simp add: scene_def w3_def w2_def)
qed

lemma destroyed:
  assumes w: "wf w" and x: "used_up x w"
  shows "pulse e ex x w = Ok (0, (set_owner x None (released ibm x w))\<lparr>msgs := (msgs (set_owner x None (released ibm x w)))(x := None)\<rparr>)"
proof -
  obtain r where r: "msgs w x = Some r" "m_owner r = Some ibm" "m_requester r = ibm" "m_now_state r = DESTRUCTION"
    using x by (auto simp: used_up_def)
  then have "x \<in> set (owned w ibm)" "distinct (owned w ibm)"
    using w by (auto simp: wf_def owner_ok_def lists_ok_def)
  then show ?thesis
    using r by (simp add: pulse_def pulse_target_def M_defs deref_def has_owner_def the_owner_def release_def does_own_def
        delete_msg_def released_def set_owner_def)
qed

lemma sent_back:
  assumes s: "scene p m RESPONSE_COMPLETE (Some ibm) t w" and p: "p \<noteq> ibm"
    and x: "x \<noteq> m" "pulsing w ibm = [m, x]" "used_up x w"
    and e: "\<And>s. env_socketpair (net te) s = 0" "\<And>n. env_write (net te) n = sizeof_ptr"
  shows "\<exists>d w'. pulse_marked_messages (net te) (tws_state_machine te n) (Suc (Suc k)) ibm 0 w = Ok (0, w') \<and>
    scene p m RESPONSE_COMPLETE None t w' \<and> evolves w w' \<and> wire w' d ibm p \<and>
    (let q = m_receiving_socket (comms w' d) in sock_q w' = (sock_q w)(q := sock_q w q @ [m]))"
proof -
  let ?ex = "tws_state_machine te n"
  note w = scene_winv [OF s]
  define w0 where "w0 = w\<lparr>pulsing := (pulsing w)(ibm := [x])\<rparr>"
  have s0: "scene p m RESPONSE_COMPLETE (Some ibm) t w0"
    using s inv_pending [OF w x(2)] by (simp add: scene_def w0_def)
  obtain d w1 where w1: "pulse (net te) ?ex m w0 = Ok (0, w1)" "scene p m RESPONSE_COMPLETE None t w1" "wire w1 d ibm p"
      "pulsing w1 = (pulsing w0)(ibm := remove1 m (pulsing w0 ibm))" "\<forall>y. y \<noteq> m \<longrightarrow> msgs w1 y = msgs w0 y"
      "let q = m_receiving_socket (comms w1 d) in sock_q w1 = (sock_q w0)(q := sock_q w0 q @ [m])"
    using crosses [OF s0, of p te n] p e by auto
  have p1: "pulsing w1 ibm = [x]"
    using w1(4) x(1) by (simp add: w0_def)
  define w2 where "w2 = w1\<lparr>pulsing := (pulsing w1)(ibm := [])\<rparr>"
  have w2: "wf w2" "used_up x w2"
    using inv_pending [OF scene_winv [OF w1(2)] p1] x w1(5) by (simp_all add: winv_def w2_def used_up_def w0_def)
  define w3 where "w3 = (set_owner x None (released ibm x w2))\<lparr>msgs := (msgs (set_owner x None (released ibm x w2)))(x := None)\<rparr>"
  have w3: "pulse (net te) ?ex x w2 = Ok (0, w3)"
    using destroyed [OF w2] by (simp add: w3_def)
  have "pulsing w3 ibm = []"
    by (simp add: w3_def w2_def set_owner_def released_def)
  then have "pulse_marked_messages (net te) ?ex k ibm 0 w3 = Ok (0, w3)"
    by (subst pulse_marked_messages.simps) simp
  then have "pulse_marked_messages (net te) ?ex (Suc k) ibm 0 w1 = Ok (0, w3)"
    using pulse_marked_step [OF winvD(1) [OF scene_winv [OF w1(2)]] p1, of "net te" ?ex k 0] w3
    by (simp add: M_defs int_or_def w2_def)
  then have pm: "pulse_marked_messages (net te) ?ex (Suc (Suc k)) ibm 0 w = Ok (0, w3)"
    using pulse_marked_step [OF winvD(1) [OF w] x(2), of "net te" ?ex "Suc k" 0] w1(1)
    by (simp add: M_defs int_or_def w0_def)
  moreover have "keeps (winv limit_ok) evolves (pulse_marked_messages (net te) ?ex (Suc (Suc k)) ibm 0)"
    by (intro keeps_intro ev_state_machine)
  ultimately have "winv limit_ok w3 \<and> evolves w w3"
    using w by (blast dest: keeps_ok)
  moreover have "sock_q w3 = sock_q w1" "comms w3 = comms w1" "m_communicators w3 = m_communicators w1" "msgs w3 m = msgs w1 m"
      "sock_q w0 = sock_q w"
    using x(1) by (simp_all add: w3_def w2_def w0_def set_owner_def released_def)
  ultimately show ?thesis
    using pm w1(2,3,6) by (intro exI [of _ d] exI [of _ w3]) (simp add: scene_def wire_def)
qed

lemma answer_written:
  fixes k :: "'d tws_class"
  assumes "k = Req Req_current_time i args t"
  shows "write_answer k = Ok (answer_head @ render show_int [(''time'', JText (date_text t))])"
proof -
  let ?j = "new_json_output True"
  let ?j1 = "?j\<lparr>printed := printed ?j @ [CHR ''{'', CHR 0x0A], m_indent_level := 1, m_sibling_counter := 0, m_counter_stack := []\<rparr>"
  have j: "m_conn ?j"
    by (simp add: new_json_output_def)
  have start: "json_start ?j = Ok ((), ?j1)"
    using j by (simp add: json_start_def json_defs)
  have "mseq json_start (mseq (save_to_channel k) json_finish) ?j =
      write_document show_int [(''time'', JText (date_text t))] ?j"
    using add_text_wrote [of ?j1 1 "''time''"] start j assms
    by (simp add: save_to_channel_def write_document_def json_bracket_def add_sibling_string_def M_defs)
  then show ?thesis
    using document_wrote [of "new_json_output True" show_int "[(''time'', JText (date_text t))]"]
    by (simp add: write_answer_def new_json_output_def)
qed

section \<open>From the request to the answer\<close>

lemma request_goes_out:
  assumes w: "winv limit_ok w" "owned w ibm = []" "\<forall>s. sock_q w s = []" and p: "p \<noteq> ibm"
    and e: "\<And>s. env_socketpair (net te) s = 0" "\<And>n. env_write (net te) n = sizeof_ptr"
  shows "\<exists>m c d w1 w2 w3 w4. new_request te (tws_state_machine te (Suc n)) (Some p) (Some ibm) Req_current_time 0 [] w = Ok (m, w1) \<and>
    message_communicator te m False w1 = Ok (Some c, w2) \<and> set_state (tws_state_machine te (Suc n)) m EXEC_COMMAND w2 = Ok (EXEC_COMMAND, w3) \<and>
    pulse (net te) (tws_state_machine te (Suc n)) m w3 = Ok (0, w4) \<and> scene p m EXEC_COMMAND None 0 w4 \<and> at_rest [] w4 \<and>
    wire w4 c ibm p \<and> wire w4 d p ibm \<and> sock_q w4 = (\<lambda>_. [])(m_receiving_socket (comms w4 d) := [m])"
proof -
  let ?m = "next_mid w"
  have q: "sock_q w = (\<lambda>_. [])"
    using w(3) by auto
  have "set (pulsing w ibm) \<subseteq> set (owned w ibm)"
    using w(1) unfolding winv_def wf_def lists_ok_def by blast
  then have rest: "pulsing w ibm = []"
    using w(2) by simp
  obtain w1 where w1: "new_request te (tws_state_machine te (Suc n)) (Some p) (Some ibm) Req_current_time 0 [] w = Ok (?m, w1)"
      "scene p ?m MSG_INITIALIZED (Some p) 0 w1" "owned w1 ibm = []" "pulsing w1 ibm = []" "sock_q w1 = (\<lambda>_. [])"
    using asks [OF w(1) p e(1), of n] w(2) q rest by auto
  obtain r where r: "msgs w1 ?m = Some r" "m_requester r = p" "m_receiver r = ibm" "m_owner r = Some p"
    using w1(2) by (auto simp: scene_def)
  obtain c w2 where c: "get_interthread_communicator (net te) p ibm p w1 = Ok (c, w2)" "winv limit_ok w2" "wire w2 c ibm p" "comm_frame w1 w2"
    using wire_get [OF scene_winv [OF w1(2)] e(1), of p ibm p] by blast
  have comm: "message_communicator te ?m False w1 = Ok (Some c, w2)"
    using c(1) r p by (simp add: message_communicator_def has_owner_def the_owner_def M_defs deref_def)
  have s2: "scene p ?m MSG_INITIALIZED (Some p) 0 w2" and w2: "owned w2 ibm = []" "pulsing w2 ibm = []" "sock_q w2 = (\<lambda>_. [])"
    using w1 c(2,4) by (simp_all add: scene_def comm_frame_def)
  obtain w3 where w3: "set_state (tws_state_machine te (Suc n)) ?m EXEC_COMMAND w2 = Ok (EXEC_COMMAND, w3)"
      "scene p ?m EXEC_COMMAND (Some p) 0 w3" "evolves w2 w3" "owned w3 = owned w2" "pulsing w3 ibm = pulsing w2 ibm" "sock_q w3 = sock_q w2"
    using executes [OF s2 p, of te n] by blast
  obtain d w4 where w4: "pulse (net te) (tws_state_machine te (Suc n)) ?m w3 = Ok (0, w4)" "scene p ?m EXEC_COMMAND None 0 w4"
      "evolves w3 w4" "wire w4 d p ibm" "owned w4 = (owned w3)(p := remove1 ?m (owned w3 p))"
      "pulsing w4 = (pulsing w3)(p := remove1 ?m (pulsing w3 p))"
      "sock_q w4 = (sock_q w3)(m_receiving_socket (comms w4 d) := sock_q w3 (m_receiving_socket (comms w4 d)) @ [?m])"
    using crosses [OF w3(2), of ibm te "Suc n"] p e by (auto simp: Let_def)
  have "wire w4 c ibm p"
    using wire_evolves [OF evolves_trans [OF w3(3) w4(3)] c(3)] ..
  then show ?thesis
    using w1(1) comm w3(1) w4(1,2,4) w4(5-7) w3(4-6) w2 p
    by (intro exI [of _ ?m] exI [of _ c] exI [of _ d] exI [of _ w1] exI [of _ w2] exI [of _ w3] exI [of _ w4])
      (simp add: at_rest_def)
qed

text \<open>What the back-end does meanwhile: it receives the request, TWS reports the time, it pulses.\<close>

definition backend_turn :: "cid \<Rightarrow> 'd resp_data \<Rightarrow> 'd action list" where
  "backend_turn d dt = [Pop d MSG_PENDING True, Event Resp_current_time dt, Pulse_marked ibm]"

lemma backend_answers:
  assumes s: "scene p m EXEC_COMMAND None 0 w" "at_rest [] w" and d: "wire w c ibm p" "wire w d p ibm"
    and q: "sock_q w = (\<lambda>_. [])(m_receiving_socket (comms w d) := [m])" and p: "p \<noteq> ibm" and call: "\<And>n. tws_call te n = 0"
    and e: "\<And>s. env_socketpair (net te) s = 0" "\<And>n. env_write (net te) n = sizeof_ptr"
  shows "\<exists>w'. performs te (Suc (Suc (Suc (Suc n)))) (backend_turn d dt) w = Ok ((), w') \<and>
    scene p m RESPONSE_COMPLETE None (rd_time dt) w' \<and> on_the_way p c [m] w'"
proof -
  let ?n = "Suc (Suc (Suc (Suc n)))"
  obtain w1 where w1: "pop_one_message (net te) (tws_state_machine te ?n) d MSG_PENDING True w = Ok ((Some m, MSG_PENDING), w1)"
      "scene p m READY_TO_RECEIVE_RESPONSE (Some ibm) 0 w1" "evolves w w1" "at_rest [m] w1" "sock_q w1 = (\<lambda>_. [])"
    using received [OF s d(2) _ p call, of n] q by (auto simp: fun_eq_iff)
  obtain x w2 where w2: "tws_event te ?n Resp_current_time dt w1 = Ok (0, w2)" "scene p m RESPONSE_COMPLETE (Some ibm) (rd_time dt) w2"
      "evolves w1 w2" "x \<noteq> m" "pulsing w2 ibm = [m, x]" "used_up x w2" "sock_q w2 = sock_q w1"
    using reported [OF w1(2,4) p, of te "Suc (Suc (Suc n))" dt] by blast
  obtain d' w3 where w3: "pulse_marked_messages (net te) (tws_state_machine te ?n) ?n ibm 0 w2 = Ok (0, w3)"
      "scene p m RESPONSE_COMPLETE None (rd_time dt) w3" "evolves w2 w3" "wire w3 d' ibm p"
      "let q = m_receiving_socket (comms w3 d') in sock_q w3 = (sock_q w2)(q := sock_q w2 q @ [m])"
    using sent_back [OF w2(2) p w2(4-6) e, of ?n "Suc (Suc n)"] by blast
  have "wire w3 c ibm p"
    using wire_evolves [OF evolves_trans [OF evolves_trans [OF w1(3) w2(3)] w3(3)] d(1)] ..
  then have c: "wire w3 c ibm p" "d' = c"
    using wire_unique [OF scene_winv [OF w3(2)] _ w3(4)] p by auto
  have "on_the_way p c [m] w3"
    using c w3(2,5) w2(7) w1(5) p by (auto simp: on_the_way_def scene_def answered_for_def wire_def Let_def)
  then show ?thesis
    using w1(1) w2(1) w3(1,2) by (simp add: backend_turn_def M_defs)
qed

lemma limbo_not_owned: "winv G w \<Longrightarrow> msgs w m = Some r \<Longrightarrow> m_owner r = None \<Longrightarrow> \<not> does_own p m w"
  by (auto simp: winv_def wf_def owner_ok_def does_own_def)

lemma time_served:
  assumes w: "winv limit_ok w" "owned w ibm = []" "\<forall>s. sock_q w s = []" and p: "p \<noteq> ibm" and call: "\<And>n. tws_call te n = 0"
    and e: "\<And>s. env_socketpair (net te) s = 0" "\<And>n. env_write (net te) n = sizeof_ptr"
  shows "\<exists>d w'. serve_time te (Suc (Suc (Suc (Suc n)))) p (\<lambda>_. []) [\<lparr>w_stop = False, w_others = backend_turn d dt, w_ready = True\<rparr>] w =
    Ok (answer_head @ render show_int [(''time'', JText (date_text (rd_time dt)))], w')"
proof -
  let ?n = "Suc (Suc (Suc (Suc n)))"
  obtain m c d w1 w2 w3 w4 where out: "new_request te (tws_state_machine te ?n) (Some p) (Some ibm) Req_current_time 0 [] w = Ok (m, w1)"
    "message_communicator te m False w1 = Ok (Some c, w2)" "set_state (tws_state_machine te ?n) m EXEC_COMMAND w2 = Ok (EXEC_COMMAND, w3)"
    "pulse (net te) (tws_state_machine te ?n) m w3 = Ok (0, w4)" and w4: "scene p m EXEC_COMMAND None 0 w4" "at_rest [] w4"
    "wire w4 c ibm p" "wire w4 d p ibm" "sock_q w4 = (\<lambda>_. [])(m_receiving_socket (comms w4 d) := [m])"
    using request_goes_out [OF w p e, of "Suc (Suc (Suc n))"] by blast
  obtain w5 where w5: "performs te ?n (backend_turn d dt) w4 = Ok ((), w5)" "scene p m RESPONSE_COMPLETE None (rd_time dt) w5"
      "on_the_way p c [m] w5"
    using backend_answers [OF w4 p call e, of n dt] by blast
  obtain w6 where w6: "pop_one_message (net te) (tws_state_machine te ?n) c NO_MSG True w5 = Ok ((Some m, MSG_PENDING), w6)"
      "map_option m_class (msgs w6 m) = map_option m_class (msgs w5 m)"
    using pop_arrives [OF winvD(1) [OF scene_winv [OF w5(2)]] w5(3) p, of te "Suc (Suc (Suc n))" NO_MSG] by blast
  let ?ws = "[\<lparr>w_stop = False, w_others = backend_turn d dt, w_ready = True\<rparr>]"
  obtain r where r: "msgs w4 m = Some r" "m_requester r = p" "m_receiver r = ibm" "m_owner r = None"
    using w4(1) by (auto simp: scene_def)
  have "wait_for_response te ?n m (Some c) ?ws w4 = Ok (0, w6)"
    using r p w4(3) w5(1) w6(1) limbo_not_owned [OF scene_winv [OF w4(1)] r(1,4), of p]
    by (simp add: wait_for_response_def wire_def M_defs deref_def)
  moreover obtain r6 where r6: "msgs w6 m = Some r6" "m_class r6 = Req Req_current_time 0 [] (rd_time dt)"
    using w5(2) w6(2) by (auto simp: scene_def)
  ultimately have "serve_time te ?n p (\<lambda>_. []) ?ws w = Ok (answer_head @ render show_int [(''time'', JText (date_text (rd_time dt)))], w6)"
    using out r6(1) answer_written [OF r6(2)] r6(2) by (simp add: serve_time_def M_defs deref_def)
  then show ?thesis
    by blast
qed

text \<open>When the server stops before the answer has come, the thread goes on all the same.\<close>

lemma time_unanswered:
  assumes w: "winv limit_ok w" "owned w ibm = []" "\<forall>s. sock_q w s = []" and p: "p \<noteq> ibm" and stop: "w_stop s"
    and e: "\<And>s. env_socketpair (net te) s = 0" "\<And>n. env_write (net te) n = sizeof_ptr"
  shows "\<exists>w'. serve_time te (Suc n) p (\<lambda>_. []) (s # ss) w =
    Ok (answer_head @ render show_int [(''time'', JText ''1970-01-01 00:00:00'')], w')"
proof -
  obtain m c d w1 w2 w3 w4 where out: "new_request te (tws_state_machine te (Suc n)) (Some p) (Some ibm) Req_current_time 0 [] w = Ok (m, w1)"
    "message_communicator te m False w1 = Ok (Some c, w2)" "set_state (tws_state_machine te (Suc n)) m EXEC_COMMAND w2 = Ok (EXEC_COMMAND, w3)"
    "pulse (net te) (tws_state_machine te (Suc n)) m w3 = Ok (0, w4)" and w4: "scene p m EXEC_COMMAND None 0 w4" "wire w4 c ibm p"
    using request_goes_out [OF w p e, of n] by blast
  obtain r where r: "msgs w4 m = Some r" "m_requester r = p" "m_receiver r = ibm" "m_owner r = None" "m_class r = Req Req_current_time 0 [] 0"
    using w4(1) by (auto simp: scene_def)
  have "wait_for_response te (Suc n) m (Some c) (s # ss) w4 = Ok (- 1, w4)"
    using r w4(2) stop p limbo_not_owned [OF scene_winv [OF w4(1)] r(1,4), of p]
    by (simp add: wait_for_response_def wire_def M_defs deref_def)
  moreover have "date_text 0 = ''1970-01-01 00:00:00''"
    by code_simp
  ultimately show ?thesis
    using out r(1) answer_written [OF r(5)] by (simp add: serve_time_def M_defs deref_def r(5))
qed

section \<open>Properties\<close>

text \<open>C5: a web thread that waits for a request of its own which the back-end has concluded (answered, completed,
  failed or aborted) and sent back stops waiting: it takes the concluded requests that lie before it in the
  socket, then this one, owns them all from then on, in this order, leaves the rest in the socket, and needs one
  undisturbed round for each.\<close>

theorem answer_ends_the_wait:
  assumes "reachable te w" "on_the_way p c (ms @ m # rest) w" "p \<noteq> ibm"
    and "length ms < length ws" "\<forall>s \<in> set (take (Suc (length ms)) ws). undisturbed s"
  shows "\<exists>w'. wait_for_response te (Suc n) m (Some c) ws w = Ok (0, w') \<and> owned w' p = owned w p @ ms @ [m] \<and>
    sock_q w' (m_receiving_socket (comms w c)) = rest"
proof -
  note w = reachable_winv [OF assms(1)]
  let ?s = "m_receiving_socket (comms w c)"
  have q: "sock_q w ?s = ms @ m # rest" "m_receipient (comms w c) = p"
    using assms(2) by (simp_all add: on_the_way_def)
  have "distinct (sock_q w ?s)"
    using w unfolding winv_def wf_def limbo_ok_def by blast
  then have "m \<notin> set ms"
    using q by auto
  then obtain w' where w': "wait_loop te (Suc n) m c ws w = Ok (0, w')" "on_the_way p c rest w'" "comms w' = comms w"
      "owned w' p = owned w p @ ms @ [m]"
    using wait_loop_ends [OF winvD(1) [OF w] assms(2,3) _ assms(4,5), of te n] by blast
  obtain r where r: "msgs w m = Some r" "m_owner r = None" "m_requester r = p" "m_receiver r \<noteq> p"
    using limbo_okD [of w m ?s] w assms(2) q by (auto simp: winv_def wf_def on_the_way_def answered_for_def)
  have "wait_for_response te (Suc n) m (Some c) ws w = wait_loop te (Suc n) m c ws w"
    using r q(2) limbo_not_owned [OF w r(1,2), of p] by (simp add: wait_for_response_def M_defs deref_def)
  then show ?thesis
    using w' by (auto simp: on_the_way_def)
qed

text \<open>The request for the time of processor 1 in the world the program starts with, up to its answer's way back.\<close>

lemma demo_works: "env_socketpair (net demo_env) s = 0" "env_write (net demo_env) n = sizeof_ptr" "tws_call demo_env n = 0"
  by (simp_all add: demo_env_def demo_net_def)

lemma start_idle: "owned start_world ibm = []" "sock_q start_world s = []"
  by (simp_all add: start_world_def world_init_def)

lemma stays_communicator [stays_intro]: "stays te (message_communicator te m b)"
  unfolding message_communicator_def by (intro stays_intro)

lemma answer_on_the_way: "\<exists>w c m. reachable demo_env w \<and> on_the_way 1 c [m] w"
proof -
  have 1: "1 \<noteq> ibm"
    by (simp add: ibm_def)
  note start = reachable_winv [OF start_reach] start_idle(1)
  have "\<forall>s. sock_q start_world s = []"
    by (simp add: start_idle)
  then obtain m c d w1 w2 w3 w4 where out: "new_request demo_env (tws_state_machine demo_env 4) (Some 1) (Some ibm) Req_current_time 0 [] start_world = Ok (m, w1)"
    "message_communicator demo_env m False w1 = Ok (Some c, w2)" "set_state (tws_state_machine demo_env 4) m EXEC_COMMAND w2 = Ok (EXEC_COMMAND, w3)"
    "pulse (net demo_env) (tws_state_machine demo_env 4) m w3 = Ok (0, w4)" and w4: "scene 1 m EXEC_COMMAND None 0 w4" "at_rest [] w4"
    "wire w4 c ibm 1" "wire w4 d 1 ibm" "sock_q w4 = (\<lambda>_. [])(m_receiving_socket (comms w4 d) := [m])"
    using request_goes_out [OF start _ 1, of demo_env 3] by (auto simp: demo_works)
  obtain w5 where w5: "performs demo_env 4 (backend_turn d no_data) w4 = Ok ((), w5)" "on_the_way 1 c [m] w5"
    using backend_answers [OF w4 1, of demo_env 0 no_data] by (auto simp: demo_works numeral_eq_Suc)
  have "reachable demo_env w5"
    using start_reach out w5(1) stays_front stays_communicator stays_performs unfolding stays_def by metis
  then show ?thesis
    using w5(2) by blast
qed

theorem answer_ends_the_wait_witness:
  "\<exists>w c m w'. reachable demo_env w \<and> wait_for_response demo_env 1 m (Some c) [\<lparr>w_stop = False, w_others = [], w_ready = True\<rparr>] w = Ok (0, w') \<and>
     owned w' 1 = owned w 1 @ [m]"
proof -
  obtain w c m where w: "reachable demo_env w" "on_the_way 1 c ([] @ m # []) w"
    using answer_on_the_way by auto
  show ?thesis
    using answer_ends_the_wait [OF w, of "[\<lparr>w_stop = False, w_others = [], w_ready = True\<rparr>]" 0] w(1)
    by (auto simp: undisturbed_def ibm_def)
qed





text \<open>C16: a server that stops while a web thread waits for the time makes it answer all the same, with the status
  200 and the time 1970-01-01 00:00:00: the thread does not look at the result of the wait.\<close>

theorem stopping_answers_with_1970:
  assumes "reachable te w" "owned w ibm = []" "\<And>s. sock_q w s = []" "p \<noteq> ibm" "w_stop s"
    and "\<And>s. env_socketpair (net te) s = 0" "\<And>n. env_write (net te) n = sizeof_ptr"
  shows "\<exists>w'. serve_time te (Suc n) p (\<lambda>_. []) (s # ss) w =
    Ok (answer_head @ render show_int [(''time'', JText ''1970-01-01 00:00:00'')], w')"
  using time_unanswered [OF reachable_winv [OF assms(1)] assms(2) _ assms(4-7), of n ss] assms(3) by simp

theorem stopping_answers_with_1970_witness:
  "\<exists>w'. serve_time demo_env 1 2 (\<lambda>_. []) [\<lparr>w_stop = True, w_others = [], w_ready = False\<rparr>] start_world =
    Ok (answer_head @ render show_int [(''time'', JText ''1970-01-01 00:00:00'')], w')"
  using stopping_answers_with_1970 [OF start_reach start_idle, of 2 "\<lparr>w_stop = True, w_others = [], w_ready = False\<rparr>" 0 "[]"]
  by (simp add: demo_works ibm_def)

end
