(* ===== verification/CText.thy ===== *)
theory CText
  imports Prelude
begin

text \<open>Texts as the C library reads them: blanks, the end of a text, and \<open>atoi\<close>, which reads back what \<open>%d\<close> prints.\<close>

section \<open>Characters and numbers\<close>

definition NUL :: char where "NUL = CHR 0x00"

text \<open>\<open>atoi\<close> of the C library, for numbers that fit.\<close>

definition is_digit :: "char \<Rightarrow> bool" where
  "is_digit c \<longleftrightarrow> c \<in> set ''0123456789''"

definition is_blank :: "char \<Rightarrow> bool" where
  "is_blank c \<longleftrightarrow> c \<in> {CHR '' '', CHR 0x09, CHR 0x0A, CHR 0x0B, CHR 0x0C, CHR 0x0D}"

fun digits_value :: "int \<Rightarrow> string \<Rightarrow> int" where
  "digits_value v [] = v"
| "digits_value v (c # cs) = (if is_digit c then digits_value (10 * v + (of_char c - 48)) cs else v)"

definition c_atoi :: "string \<Rightarrow> int" where
  "c_atoi s = (case dropWhile is_blank s of
     [] \<Rightarrow> 0
   | c # cs \<Rightarrow> if c = CHR ''-'' then - digits_value 0 cs else if c = CHR ''+'' then digits_value 0 cs else digits_value 0 (c # cs))"

section \<open>Numbers are read back\<close>

definition digit :: "nat \<Rightarrow> char" where
  "digit n = char_of (48 + n)"

lemma digit_facts:
  assumes "n < 10"
  shows "of_char (digit n) = (48 + int n)" "is_digit (digit n)" "digit n \<notin> {CHR ''-'', CHR ''+'', NUL, CHR 0xEB, CHR 0xFA}" "\<not> is_blank (digit n)"
proof -
  show "of_char (digit n) = (48 + int n)"
    using assms unfolding digit_def by (subst of_nat_of_char [symmetric]) simp
  have "list_all (\<lambda>n. is_digit (digit n) \<and> digit n \<notin> {CHR ''-'', CHR ''+'', NUL, CHR 0xEB, CHR 0xFA} \<and> \<not> is_blank (digit n)) [0..<10]"
    by code_simp
  moreover have "n \<in> set [0..<10]"
    using assms by simp
  ultimately show "is_digit (digit n)" "digit n \<notin> {CHR ''-'', CHR ''+'', NUL, CHR 0xEB, CHR 0xFA}" "\<not> is_blank (digit n)"
    by (simp_all only: list_all_iff not_False_eq_True)
qed

lemma digits_rec: "digits n = (if n < 10 then [digit n] else digits (n div 10) @ [digit (n mod 10)])"
  unfolding digit_def by (rule digits.simps)

lemma digits_digits: "c \<in> set (digits n) \<Longrightarrow> \<exists>d < 10. c = digit d"
proof (induction n rule: digits.induct)
  case (1 n)
  show ?case
  proof (cases "n < 10")
    case True
    then show ?thesis
      using 1(2) by (auto simp: digits_rec [of n])
  next
    case False
    then have "c \<in> set (digits (n div 10)) \<or> c = digit (n mod 10)"
      using 1(2) by (auto simp: digits_rec [of n])
    then show ?thesis
      using 1(1) [OF False] by (auto intro: exI [of _ "n mod 10"])
  qed
qed

lemma digits_value_append: "\<forall>c \<in> set xs. is_digit c \<Longrightarrow> digits_value v (xs @ ys) = digits_value (digits_value v xs) ys"
  by (induction xs arbitrary: v) auto

lemma digits_value_digits: "digits_value 0 (digits n) = int n"
proof (induction n rule: digits.induct)
  case (1 n)
  have d: "\<forall>c \<in> set (digits k). is_digit c" for k
    using digits_digits [of _ k] digit_facts(2) by blast
  show ?case
  proof (cases "n < 10")
    case True
    then show ?thesis
      using digit_facts [of n] by (simp add: digits_rec [of n])
  next
    case False
    then have "digits_value 0 (digits n) = 10 * int (n div 10) + int (n mod 10)"
      using 1 d digit_facts [of "n mod 10"] by (simp add: digits_rec [of n] digits_value_append)
    then show ?thesis
      by (simp add: zdiv_int zmod_int)
  qed
qed

lemma c_atoi_show_int [simp]: "c_atoi (show_int i) = i"
proof -
  have "c_atoi (digits n) = int n" for n
  proof -
    obtain c cs where c: "digits n = c # cs"
      using digits_ne [of n] by (cases "digits n") blast+
    then obtain d where "d < 10" "c = digit d"
      using digits_digits [of c n] by auto
    then have "\<not> is_blank c" "c \<noteq> CHR ''-''" "c \<noteq> CHR ''+''"
      using digit_facts by auto
    then have "c_atoi (digits n) = digits_value 0 (digits n)"
      by (simp only: c_atoi_def c dropWhile.simps if_False list.case)
    then show ?thesis
      by (simp add: digits_value_digits)
  qed
  moreover have "c_atoi (CHR ''-'' # digits n) = - int n" for n
    by (simp add: c_atoi_def is_blank_def digits_value_digits)
  ultimately show ?thesis
    by (simp add: show_int_def)
qed
end
