(* ===== verification/FakeServer.thy ===== *)
theory FakeServer
  imports Requests IbDate CText
begin

text \<open>The fake TWS server (\<open>tws_fake_server.cpp\<close>) at the other end of a fake connection: it takes a request
  of the back-end apart and plays back an answer. Opening and closing of the connection is in theory
  \<open>IoChannel\<close>.\<close>

section \<open>Marks\<close>

definition EOM_magick :: string where
  "EOM_magick = [CHR 0xFA, CHR 0xC7, CHR ''!'', NUL]"

definition EOT_magick :: string where
  "EOT_magick = [NUL, CHR 0xEB, CHR 0xD6, CHR ''~'']"

section \<open>The tokenizer\<close>

text \<open>The memory is what has been read from the socket, followed by the end mark; \<open>strtok0\<close> keeps its position
  in a static pointer. Bytes behind the mark have not been written by anyone: reading them is an error.\<close>

definition strtok0 :: "string \<Rightarrow> nat option \<Rightarrow> (string option \<times> nat option) res" where
  "strtok0 mem p = (case p of
     None \<Rightarrow> Ok (None, None)
   | Some i \<Rightarrow>
       let rv = takeWhile (\<lambda>c. c \<noteq> NUL) (drop i mem); j = i + length rv + 1 in
       if length mem < j + length EOT_magick then Bad Dangling
       else if take (length EOT_magick) (drop j mem) = EOT_magick then Ok (Some rv, None)
       else Ok (Some rv, Some j))"

definition inttok0 :: "string \<Rightarrow> nat option \<Rightarrow> (int \<times> nat option) res" where
  "inttok0 mem p = rbind (strtok0 mem p) (\<lambda>(v, p'). Ok (case v of Some s \<Rightarrow> c_atoi s | None \<Rightarrow> 0, p'))"

definition at_eom :: "string option \<Rightarrow> bool" where
  "at_eom t \<longleftrightarrow> (case t of None \<Rightarrow> True | Some s \<Rightarrow> s @ [NUL] = EOM_magick)"

lemma strtok0_later: "strtok0 mem (Some i) = Ok (t, Some j) \<Longrightarrow> i < j \<and> j \<le> length mem"
  by (auto simp: strtok0_def Let_def EOT_magick_def split: if_splits)

text \<open>Skipping what is left of the message.\<close>

function slurp :: "string \<Rightarrow> string option \<Rightarrow> nat option \<Rightarrow> unit res" where
  "slurp mem t p = (if at_eom t then Ok () else rbind (strtok0 mem p) (\<lambda>(t', p'). slurp mem t' p'))"
  by pat_completeness auto
termination
proof (relation "measure (\<lambda>(mem, t, p). case p of Some i \<Rightarrow> Suc (Suc (length mem)) - i | None \<Rightarrow> if t = None then 0 else 1)", goal_cases)
  case (2 mem t p x t' p')
  show ?case
  proof (cases p)
    case None
    then show ?thesis
      using 2 by (cases t) (auto simp: strtok0_def at_eom_def)
  next
    case (Some i)
    then have "i \<le> length mem"
      using 2(2) by (auto simp: strtok0_def Let_def EOT_magick_def split: if_splits)
    then show ?thesis
      using 2(2,3) Some strtok0_later [of mem i t'] by (cases p') auto
  qed
qed simp

declare slurp.simps [simp del]

section \<open>Answers\<close>

text \<open>The numbers of the API, the clock, the files below the document root and the memory.\<close>

datatype doc_file = Unreadable nat | Contents string   \<comment> \<open>of a size; what it holds\<close>

record fake_env =
  api_out :: "req_kind \<Rightarrow> int"
  api_in :: "resp_kind \<Rightarrow> int"
  api_error :: "error_code \<Rightarrow> int"
  FAIL_NO_SCANNER_SUBSCRIPTION_FOUND :: int
  FAIL_SERVER_ERROR_PROCESSING_REQUEST :: int
  TWSCLIENT_VERSION :: int
  clock :: int
  document :: "string \<Rightarrow> doc_file option"
  has_memory :: "nat \<Rightarrow> bool"

text \<open>\<open>to_server\<close> is what is on the way to the fake server, \<open>answered_bytes\<close> all it has ever sent.\<close>

record fake =
  in_server_negotiation :: bool
  client_id :: int
  req_subscription_counter :: int
  cancel_subscription_counter :: int
  to_server :: string
  answered_bytes :: string

definition send :: "string \<Rightarrow> (fake, unit) M" where
  "send s = modify (\<lambda>f. f\<lparr>answered_bytes := answered_bytes f @ s\<rparr>)"

definition respond_text :: "string \<Rightarrow> (fake, unit) M" where
  "respond_text s = send (s @ [NUL])"

definition respond_int :: "int \<Rightarrow> (fake, unit) M" where
  "respond_int i = respond_text (show_int i)"

text \<open>\<open>strftime\<close> with \<open>%Y%m%d %H:%M:%S %z\<close> of a time from \<open>gmtime\<close>.\<close>

definition respond_time :: "int \<Rightarrow> (fake, unit) M" where
  "respond_time t = (let d = gmtime t in
     respond_text (show_int (tm_year d) @ pad 2 (show_int (int (tm_mon d) + 1)) @ pad 2 (show_int (tm_mday d)) @ '' '' @
       pad 2 (show_int (tm_hour d)) @ '':'' @ pad 2 (show_int (tm_min d)) @ '':'' @ pad 2 (show_int (tm_sec d)) @ '' +0000''))"

fun sends :: "(fake, unit) M list \<Rightarrow> (fake, unit) M" where
  "sends [] = ret ()"
| "sends (x # xs) = mseq x (sends xs)"

definition respond_with_file :: "fake_env \<Rightarrow> string \<Rightarrow> (fake, unit) M" where
  "respond_with_file e uri = mseq (case document e uri of Some (Contents s) \<Rightarrow> send s | _ \<Rightarrow> ret ()) (send [NUL])"

text \<open>\<open>printf\<close> with numbers as arguments: a conversion that is not there, or not for a number, is undefined.\<close>

fun fill :: "string \<Rightarrow> int list \<Rightarrow> string option" where
  "fill [] args = Some []"
| "fill [c] args = (if c = CHR ''%'' then None else Some [c])"
| "fill (c # d # s) args = (if c \<noteq> CHR ''%'' then map_option (Cons c) (fill (d # s) args)
     else if d = CHR ''%'' then map_option (Cons d) (fill s args)
     else if d = CHR ''d'' then (case args of [] \<Rightarrow> None | a # as \<Rightarrow> map_option (append (show_int a)) (fill s as))
     else None)"

fun lines_to_fields :: "string \<Rightarrow> string" where
  "lines_to_fields [] = []"
| "lines_to_fields (c # s) =
     (if c = CHR 0x0D then if s \<noteq> [] \<and> hd s = CHR 0x0A then lines_to_fields s else NUL # lines_to_fields s
      else if c = CHR 0x0A then NUL # lines_to_fields s
      else c # lines_to_fields s)"

definition respond_with_messages_file :: "fake_env \<Rightarrow> string \<Rightarrow> int list \<Rightarrow> (fake, int) M" where
  "respond_with_messages_file e path args =
     (case document e path of
        None \<Rightarrow> ret (- 1)
      | Some (Unreadable len) \<Rightarrow> if has_memory e (len + 1) then ret 0 else ret (- 1)
      | Some (Contents s) \<Rightarrow>
          if \<not> has_memory e (length s + 1) then ret (- 1)
          else if s = [] then ret 0
          else case fill (takeWhile (\<lambda>c. c \<noteq> NUL) s) args of
            None \<Rightarrow> mfail Dangling
          | Some t \<Rightarrow> mseq (send (lines_to_fields t)) (ret (int (length (lines_to_fields t)))))"

section \<open>The requests\<close>

abbreviation lift_res :: "'a res \<Rightarrow> ('w, 'a) M" where
  "lift_res r \<equiv> (\<lambda>w. rbind r (\<lambda>x. Ok (x, w)))"

definition error_report :: "fake_env \<Rightarrow> int \<Rightarrow> int \<Rightarrow> string \<Rightarrow> (fake, unit) M" where
  "error_report e ticker code text =
     sends [respond_int (api_in e Resp_error), respond_int 2, respond_int ticker, respond_int code, respond_text text]"

definition farm_msgs :: "(error_code \<times> string) list" where
  "farm_msgs = [
     (FAIL_MARKET_DATA_FARM_CONNECTED, ''Market data farm connection is OK:eurofarm''),
     (FAIL_HISTORICAL_DATA_FARM_CONNECTED, ''HMDS data farm connection is OK:euhmds''),
     (FAIL_HISTORICAL_DATA_FARM_CONNECTED, ''HMDS data farm connection is OK:hkhmds''),
     (FAIL_HISTORICAL_DATA_FARM_CONNECTED, ''HMDS data farm connection is OK:ushmds'')]"

text \<open>The two messages of the negotiation.\<close>

definition fake_version :: "fake_env \<Rightarrow> (fake, unit) M" where
  "fake_version e = mseq (modify (\<lambda>f. f\<lparr>in_server_negotiation := True\<rparr>)) (sends [respond_int 666, respond_time (clock e)])"

definition fake_welcome :: "fake_env \<Rightarrow> int \<Rightarrow> (fake, unit) M" where
  "fake_welcome e mcode =
     mseq (modify (\<lambda>f. f\<lparr>client_id := mcode\<rparr>))
     (mseq (sends [respond_int (api_in e Resp_managed_accounts), respond_int 1, respond_text ''FAKE12345''])
     (mseq (sends [respond_int (api_in e Resp_next_valid_id), respond_int 1, respond_int 1])
     (mseq (sends (map (\<lambda>(code, text). error_report e (- 1) (api_error e code) text) farm_msgs))
     (modify (\<lambda>f. f\<lparr>in_server_negotiation := False\<rparr>)))))"

text \<open>A scanner subscription: its ticker, the number of rows, instrument, location and scan code.\<close>

definition fake_rejects :: "fake_env \<Rightarrow> int \<Rightarrow> (fake, unit) M" where
  "fake_rejects e ticker = mbind (gets (\<lambda>f. cancel_subscription_counter f mod 3 = 0 \<and> 7 \<le> req_subscription_counter f)) (\<lambda>b.
     if b then error_report e ticker (FAIL_SERVER_ERROR_PROCESSING_REQUEST e)
       ''Error processing request:-'id' : cause - Only 10 simultaneous API scanner subscriptions are allowed.''
     else error_report e ticker (api_error e FAIL_HISTORICAL_MARKET_DATA_SERVICE)
       ''Historical Market Data Service error message:duplicate scan subscription'')"

definition recording :: "string \<Rightarrow> string" where
  "recording scancode = ''faking_it/RX.scanner_data.'' @ scancode @ ''.txt''"

definition fake_subscription :: "fake_env \<Rightarrow> string \<Rightarrow> nat option \<Rightarrow> (fake, string option \<times> nat option) M" where
  "fake_subscription e mem p =
     mbind (lift_res (strtok0 mem p)) (\<lambda>(t, p).
     case t of
       None \<Rightarrow> ret (t, p)
     | Some s \<Rightarrow>
         mbind (lift_res (inttok0 mem p)) (\<lambda>(maxrows, p).
         mbind (lift_res (strtok0 mem p)) (\<lambda>(instrument, p).
         mbind (lift_res (strtok0 mem p)) (\<lambda>(scanloc, p).
         mbind (lift_res (strtok0 mem p)) (\<lambda>(scancode, p).
         mseq (modify (\<lambda>f. f\<lparr>req_subscription_counter := req_subscription_counter f + 1\<rparr>))
         (case scancode of
            None \<Rightarrow> mfail Dangling
          | Some scan \<Rightarrow>
              mbind (respond_with_messages_file e (recording scan) [c_atoi s, c_atoi s]) (\<lambda>rv.
              mseq (if rv < 0 then fake_rejects e (c_atoi s) else ret ()) (ret (t, p)))))))))"

definition fake_cancel_subscription :: "fake_env \<Rightarrow> string \<Rightarrow> nat option \<Rightarrow> (fake, string option \<times> nat option) M" where
  "fake_cancel_subscription e mem p =
     mbind (lift_res (strtok0 mem p)) (\<lambda>(t, p).
     case t of
       None \<Rightarrow> ret (t, p)
     | Some s \<Rightarrow>
         mseq (modify (\<lambda>f. f\<lparr>cancel_subscription_counter := cancel_subscription_counter f + 1\<rparr>))
         (mbind (gets (\<lambda>f. cancel_subscription_counter f mod 2 = 1)) (\<lambda>odd.
          mseq (if odd then error_report e (c_atoi s) (FAIL_NO_SCANNER_SUBSCRIPTION_FOUND e)
                  (''No scanner subscription found for ticker id:'' @ show_int (c_atoi s))
                else ret ()) (ret (t, p)))))"

text \<open>The dispatch on the code of the message. \<open>t\<close> is the token of the version, \<open>p\<close> the position behind it. All
  other classes, and codes that are none, are assertions.\<close>

definition fake_request :: "fake_env \<Rightarrow> string \<Rightarrow> string option \<Rightarrow> nat option \<Rightarrow> int \<Rightarrow>
    (fake, string option \<times> nat option) M" where
  "fake_request e mem t p code =
     (if code = api_out e Req_scanner_subscription then fake_subscription e mem p
      else if code = api_out e Cancel_scanner_subscription then fake_cancel_subscription e mem p
      else if code = api_out e Req_scanner_parameters then
        mseq (sends [respond_int (api_in e Resp_scanner_parameters), respond_int 1,
          respond_with_file e ''faking_it/scanner-parameters.xml'']) (ret (t, p))
      else if code = api_out e Req_current_time then
        mseq (sends [respond_int (api_in e Resp_current_time), respond_int 1, respond_int (clock e)]) (ret (t, p))
      else mfail Assert_failed)"

definition fake_message :: "fake_env \<Rightarrow> string \<Rightarrow> (fake, unit) M" where
  "fake_message e received =
     (let mem = received @ EOT_magick in
      mbind (lift_res (strtok0 mem (Some 0))) (\<lambda>(t0, p).
      case t0 of
        None \<Rightarrow> mfail Dangling
      | Some s \<Rightarrow>
          mbind (lift_res (strtok0 mem p)) (\<lambda>(t, p).
          mbind (gets in_server_negotiation) (\<lambda>negotiating.
          if c_atoi s = TWSCLIENT_VERSION e \<and> at_eom t \<and> \<not> negotiating then fake_version e
          else if at_eom t \<and> negotiating then fake_welcome e (c_atoi s)
          else
            mseq (modify (\<lambda>f. f\<lparr>in_server_negotiation := False\<rparr>))
            (mbind (fake_request e mem t p (c_atoi s)) (\<lambda>(t, p). lift_res (slurp mem t p)))))))"

section \<open>The loop\<close>

text \<open>What one round finds: the server is stopping, \<open>select\<close> fails, nothing is there, or so many bytes can be
  read. \<open>k\<close> is \<open>loopcount\<close>, \<open>old\<close> the number of bytes sent before the call.\<close>

datatype fake_round = Stopping | Select_failed | No_data | Data nat

fun fake_rounds :: "fake_env \<Rightarrow> nat \<Rightarrow> nat \<Rightarrow> fake_round list \<Rightarrow> (fake, unit) M" where
  "fake_rounds e old 0 rs = ret ()"
| "fake_rounds e old (Suc k) [] = mbind (gets (\<lambda>f. old < length (answered_bytes f))) (\<lambda>sent.
     if sent then ret () else mfail Out_of_fuel)"
| "fake_rounds e old (Suc k) (r # rs) =
     (if r = Stopping then ret ()
      else mbind (gets (\<lambda>f. old < length (answered_bytes f))) (\<lambda>sent.
        if sent then ret ()
        else case r of
          Data n \<Rightarrow> mbind (gets (\<lambda>f. take (min n 4096) (to_server f))) (\<lambda>buf.
            mseq (modify (\<lambda>f. f\<lparr>to_server := drop (length buf) (to_server f)\<rparr>))
            (if buf = [] then fake_rounds e old k rs
             else mseq (fake_message e buf) (fake_rounds e old 2 rs)))
        | _ \<Rightarrow> ret ()))"

text \<open>With mode 0, which a flush asks for, the end mark of the message is written first.\<close>

definition fake_ib_tws_server :: "fake_env \<Rightarrow> int \<Rightarrow> fake_round list \<Rightarrow> (fake, unit) M" where
  "fake_ib_tws_server e mode rs =
     mbind (gets (\<lambda>f. length (answered_bytes f))) (\<lambda>old.
     mseq (if mode = 0 then modify (\<lambda>f. f\<lparr>to_server := to_server f @ EOM_magick\<rparr>) else ret ())
     (fake_rounds e old 3 rs))"

end
