(* ===== verification/FakeSpec.thy ===== *)
theory FakeSpec
  imports FakeServer TwsSpec
begin

text \<open>What the fake server does with the messages of the back-end: its tokenizer gives back the fields a message
  is made of, it refines a contract on these fields, and it knows the requests that the back-end transmits.\<close>

section \<open>Fields\<close>

text \<open>A field of a message holds neither the separator nor a byte of an end mark.\<close>

definition plain_field :: "string \<Rightarrow> bool" where
  "plain_field s \<longleftrightarrow> set s \<inter> {NUL, CHR 0xEB, CHR 0xFA} = {}"

lemma show_int_plain [simp]: "plain_field (show_int i)"
proof -
  have "c \<notin> {NUL, CHR 0xEB, CHR 0xFA}" if c: "c \<in> set (digits n)" for c n
  proof -
    obtain d where "d < 10" "c = digit d"
      using digits_digits [OF c] by blast
    then show ?thesis
      using digit_facts(3) [of d] by (simp only: insert_iff) simp
  qed
  then have "plain_field (digits n)" for n
    by (auto simp: plain_field_def)
  moreover have "plain_field (CHR ''-'' # s) = plain_field s" for s
    by (simp add: plain_field_def NUL_def)
  ultimately show ?thesis
    by (simp add: show_int_def)
qed

section \<open>The tokens of a request\<close>

definition encode :: "string list \<Rightarrow> string" where
  "encode fs = concat (map (\<lambda>s. s @ [NUL]) fs)"

lemma encode_simps [simp]: "encode [] = []" "encode (s # fs) = s @ NUL # encode fs" "encode (fs @ gs) = encode fs @ encode gs"
  by (simp_all add: encode_def)

lemma EOT_length: "length EOT_magick = 4"
  by (simp add: EOT_magick_def)

lemma strtok0_field:
  assumes "drop i mem = s @ NUL # rest" "NUL \<notin> set s" "4 \<le> length rest"
  shows "strtok0 mem (Some i) = Ok (Some s, if take 4 rest = EOT_magick then None else Some (i + length s + 1))"
    and "drop (i + length s + 1) mem = rest"
proof -
  have "drop (length s + 1) (drop i mem) = rest"
    by (simp add: assms(1))
  then show rest: "drop (i + length s + 1) mem = rest"
    by (simp add: add.commute add.left_commute)
  have tw: "takeWhile (\<lambda>c. c \<noteq> NUL) (drop i mem) = s"
    using assms(2) unfolding assms(1) by (subst takeWhile_append2) auto
  have "length (drop i mem) = length s + 1 + length rest"
    using assms(1) by simp
  then have "\<not> length mem < i + length s + 1 + 4"
    using assms(3) by simp
  then show "strtok0 mem (Some i) = Ok (Some s, if take 4 rest = EOT_magick then None else Some (i + length s + 1))"
    using rest by (simp add: strtok0_def Let_def tw EOT_length)
qed

text \<open>The tokenizer stands before the fields \<open>fs\<close>, the end mark of the message and whatever else has been read.\<close>

definition tokens_at :: "string \<Rightarrow> nat option \<Rightarrow> string list \<Rightarrow> bool" where
  "tokens_at mem p fs \<longleftrightarrow> (\<exists>i later. p = Some i \<and> drop i mem = encode fs @ EOM_magick @ later @ EOT_magick) \<and>
     (\<forall>s \<in> set fs. plain_field s)"

abbreviation EOM :: string where
  "EOM \<equiv> [CHR 0xFA, CHR 0xC7, CHR ''!'']"

lemma not_at_eot: "\<forall>s \<in> set fs. plain_field s \<Longrightarrow> take 4 (encode fs @ EOM_magick @ later) \<noteq> EOT_magick"
proof (cases fs)
  case (Cons s fs')
  assume p: "\<forall>s \<in> set fs. plain_field s"
  show ?thesis
  proof (cases s)
    case Nil
    have "hd (encode fs' @ EOM_magick @ later) \<noteq> CHR 0xEB"
    proof (cases fs')
      case (Cons a as)
      then show ?thesis
        using p \<open>fs = s # fs'\<close> by (cases a) (auto simp: plain_field_def NUL_def)
    qed (simp add: EOM_magick_def)
    moreover have "encode fs' @ EOM_magick @ later \<noteq> []"
      by (simp add: EOM_magick_def)
    ultimately show ?thesis
      using Cons Nil by (cases "encode fs' @ EOM_magick @ later") (auto simp: EOT_magick_def take_Cons')
  next
    case (Cons c cs)
    then show ?thesis
      using p \<open>fs = s # fs'\<close> by (auto simp: EOT_magick_def plain_field_def take_Cons')
  qed
qed (simp add: EOM_magick_def EOT_magick_def NUL_def)

lemma token_field:
  assumes "tokens_at mem p (s # fs)"
  shows "\<exists>p'. strtok0 mem p = Ok (Some s, p') \<and> tokens_at mem p' fs"
proof -
  obtain i later where i: "p = Some i" "drop i mem = s @ NUL # encode fs @ EOM_magick @ later @ EOT_magick"
    and f: "plain_field s" "\<forall>s \<in> set fs. plain_field s"
    using assms by (auto simp: tokens_at_def)
  have s: "NUL \<notin> set s" "4 \<le> length (encode fs @ EOM_magick @ later @ EOT_magick)"
    using f(1) by (auto simp: plain_field_def EOM_magick_def)
  show ?thesis
    using strtok0_field [OF i(2) s] not_at_eot [OF f(2), of "later @ EOT_magick"] i(1) f(2)
    by (auto simp: tokens_at_def)
qed

lemma token_eom:
  assumes "tokens_at mem p []"
  shows "\<exists>p'. strtok0 mem p = Ok (Some EOM, p')"
proof -
  obtain i later where i: "p = Some i" "drop i mem = EOM @ NUL # (later @ EOT_magick)"
    using assms by (auto simp: tokens_at_def EOM_magick_def)
  have "NUL \<notin> set EOM"
    by (simp add: NUL_def)
  then show ?thesis
    using strtok0_field(1) [OF i(2)] i(1) by (auto simp: EOT_magick_def)
qed

lemma at_eom_simps [simp]: "at_eom None" "at_eom (Some EOM)" "plain_field s \<Longrightarrow> \<not> at_eom (Some s)"
  by (auto simp: at_eom_def EOM_magick_def plain_field_def)

lemma slurp_Ok: "tokens_at mem p fs \<Longrightarrow> slurp mem t p = Ok ()"
proof (induction fs arbitrary: t p)
  case Nil
  then obtain p' where "strtok0 mem p = Ok (Some EOM, p')"
    using token_eom by blast
  then show ?case
    by (subst slurp.simps) (simp add: slurp.simps [of mem "Some EOM"])
next
  case (Cons s fs)
  then obtain p' where "strtok0 mem p = Ok (Some s, p')" "tokens_at mem p' fs"
    using token_field by blast
  then show ?case
    using Cons.IH by (subst slurp.simps) simp
qed

lemma slurp_eom: "slurp mem (Some EOM) p = Ok ()"
  by (subst slurp.simps) simp

section \<open>What the fake server does with a request\<close>

definition request_bytes :: "fake_env \<Rightarrow> req_kind \<Rightarrow> int \<Rightarrow> string list \<Rightarrow> string" where
  "request_bytes e k version args = encode (show_int (api_out e k) # show_int version # args) @ EOM_magick"

text \<open>The contract: on the fields of a request, without the bytes they travel in.\<close>

definition fake_contract :: "fake_env \<Rightarrow> req_kind \<Rightarrow> string list \<Rightarrow> (fake, unit) M" where
  "fake_contract e k args =
     mseq (modify (\<lambda>f. f\<lparr>in_server_negotiation := False\<rparr>))
     (case k of
        Req_scanner_subscription \<Rightarrow>
          (let ticker = c_atoi (args ! 0) in
           mseq (modify (\<lambda>f. f\<lparr>req_subscription_counter := req_subscription_counter f + 1\<rparr>))
           (mbind (respond_with_messages_file e (recording (args ! 4)) [ticker, ticker]) (\<lambda>rv.
            if rv < 0 then fake_rejects e ticker else ret ())))
      | Cancel_scanner_subscription \<Rightarrow>
          (let ticker = c_atoi (args ! 0) in
           mseq (modify (\<lambda>f. f\<lparr>cancel_subscription_counter := cancel_subscription_counter f + 1\<rparr>))
           (mbind (gets (\<lambda>f. cancel_subscription_counter f mod 2 = 1)) (\<lambda>odd.
            if odd then error_report e ticker (FAIL_NO_SCANNER_SUBSCRIPTION_FOUND e)
              (''No scanner subscription found for ticker id:'' @ show_int ticker)
            else ret ())))
      | Req_scanner_parameters \<Rightarrow> sends [respond_int (api_in e Resp_scanner_parameters), respond_int 1,
          respond_with_file e ''faking_it/scanner-parameters.xml'']
      | Req_current_time \<Rightarrow> sends [respond_int (api_in e Resp_current_time), respond_int 1, respond_int (clock e)]
      | _ \<Rightarrow> mfail Assert_failed)"

definition enough_args :: "req_kind \<Rightarrow> string list \<Rightarrow> bool" where
  "enough_args k args \<longleftrightarrow> (k = Req_scanner_subscription \<longrightarrow> 5 \<le> length args) \<and>
     (k = Cancel_scanner_subscription \<longrightarrow> 1 \<le> length args) \<and> (\<forall>s \<in> set args. plain_field s)"

lemma then_slurp:
  assumes "slurp mem t p = Ok ()"
  shows "mbind (mbind r (\<lambda>rv. mseq (g rv) (ret (t, p)))) (\<lambda>(t, p). lift_res (slurp mem t p)) = mbind r g"
proof
  fix f
  show "mbind (mbind r (\<lambda>rv. mseq (g rv) (ret (t, p)))) (\<lambda>(t, p). lift_res (slurp mem t p)) f = mbind r g f"
  proof (cases "r f")
    case (Ok x)
    then show ?thesis
      using assms by (cases x, cases "g (fst x) (snd x)") (auto simp: M_defs)
  qed (simp add: M_defs)
qed

lemma then_slurp_unit:
  fixes r :: "(fake, unit) M"
  assumes "slurp mem t p = Ok ()"
  shows "mbind (mseq r (ret (t, p))) (\<lambda>(t, p) w. rbind (slurp mem t p) (\<lambda>_. Ok ((), w))) = r"
proof
  fix f
  show "mbind (mseq r (ret (t, p))) (\<lambda>(t, p) w. rbind (slurp mem t p) (\<lambda>_. Ok ((), w))) f = r f"
    using assms by (cases "r f") (auto simp: M_defs)
qed

lemma mbind_fail: "mbind (mfail err) g = mfail err"
  by (simp add: M_defs fun_eq_iff)

lemma mseq_modify: "mseq (modify h) g f = g (h f)"
  by (simp add: M_defs)

lemma mbind_step: "r f = Ok (x, f') \<Longrightarrow> mbind r g f = g x f'"
  by (simp add: mbind_def)

lemma subscription_contract:
  assumes "tokens_at mem p (t # rows # instr # loc # scan # fs)"
  shows "mbind (fake_subscription e mem p) (\<lambda>(t, p). lift_res (slurp mem t p)) f =
    (let ticker = c_atoi t in
     mseq (modify (\<lambda>f. f\<lparr>req_subscription_counter := req_subscription_counter f + 1\<rparr>))
     (mbind (respond_with_messages_file e (recording scan) [ticker, ticker]) (\<lambda>rv.
      if rv < 0 then fake_rejects e ticker else ret ()))) f"
proof -
  obtain p1 p2 p3 p4 p5 where p: "strtok0 mem p = Ok (Some t, p1)" "strtok0 mem p1 = Ok (Some rows, p2)" "strtok0 mem p2 = Ok (Some instr, p3)"
      "strtok0 mem p3 = Ok (Some loc, p4)" "strtok0 mem p4 = Ok (Some scan, p5)" "tokens_at mem p5 fs"
    using assms token_field by meson
  let ?f = "f\<lparr>req_subscription_counter := req_subscription_counter f + 1\<rparr>" and ?path = "recording scan"
  have "fake_subscription e mem p f = mbind (respond_with_messages_file e ?path [c_atoi t, c_atoi t])
      (\<lambda>rv. mseq (if rv < 0 then fake_rejects e (c_atoi t) else ret ()) (ret (Some t, p5))) ?f"
    using p by (simp only: fake_subscription_def inttok0_def) (simp add: mseq_def modify_def mbind_step)
  then have "mbind (fake_subscription e mem p) (\<lambda>(t, p). lift_res (slurp mem t p)) f =
      mbind (mbind (respond_with_messages_file e ?path [c_atoi t, c_atoi t])
      (\<lambda>rv. mseq (if rv < 0 then fake_rejects e (c_atoi t) else ret ()) (ret (Some t, p5)))) (\<lambda>(t, p). lift_res (slurp mem t p)) ?f"
    by (simp only: mbind_def)
  then show ?thesis
    by (simp only: then_slurp [OF slurp_Ok [OF p(6)]]) (simp only: Let_def mseq_def mbind_def modify_def rbind.simps prod.case)
qed
lemma cancel_contract:
  assumes "tokens_at mem p (t # fs)"
  shows "mbind (fake_cancel_subscription e mem p) (\<lambda>(t, p). lift_res (slurp mem t p)) f =
    (let ticker = c_atoi t in
     mseq (modify (\<lambda>f. f\<lparr>cancel_subscription_counter := cancel_subscription_counter f + 1\<rparr>))
     (mbind (gets (\<lambda>f. cancel_subscription_counter f mod 2 = 1)) (\<lambda>odd.
      if odd then error_report e ticker (FAIL_NO_SCANNER_SUBSCRIPTION_FOUND e)
        (''No scanner subscription found for ticker id:'' @ show_int ticker)
      else ret ()))) f"
proof -
  obtain p1 where p: "strtok0 mem p = Ok (Some t, p1)" "tokens_at mem p1 fs"
    using token_field [OF assms] by blast
  let ?f = "f\<lparr>cancel_subscription_counter := cancel_subscription_counter f + 1\<rparr>"
  let ?odd = "mbind (gets (\<lambda>f. cancel_subscription_counter f mod 2 = 1))"
  let ?g = "\<lambda>odd. if odd then error_report e (c_atoi t) (FAIL_NO_SCANNER_SUBSCRIPTION_FOUND e)
       (''No scanner subscription found for ticker id:'' @ show_int (c_atoi t)) else ret ()"
  have "fake_cancel_subscription e mem p f = ?odd (\<lambda>odd. mseq (?g odd) (ret (Some t, p1))) ?f"
    using p by (simp only: fake_cancel_subscription_def) (simp add: mseq_def modify_def mbind_step)
  then have "mbind (fake_cancel_subscription e mem p) (\<lambda>(t, p). lift_res (slurp mem t p)) f =
      mbind (?odd (\<lambda>odd. mseq (?g odd) (ret (Some t, p1)))) (\<lambda>(t, p). lift_res (slurp mem t p)) ?f"
    by (simp only: mbind_def)
  then show ?thesis
    by (simp only: then_slurp [OF slurp_Ok [OF p(2)]]) (simp only: Let_def mseq_def mbind_def modify_def rbind.simps prod.case)
qed

text \<open>The codes of the requests that the fake server knows are no codes of others.\<close>

definition distinct_codes :: "fake_env \<Rightarrow> bool" where
  "distinct_codes e \<longleftrightarrow> (\<forall>k h. transmits h \<longrightarrow> api_out e k = api_out e h \<longrightarrow> k = h)"

lemma message_contract:
  assumes e: "distinct_codes e" and args: "enough_args k args"
  shows "fake_message e (request_bytes e k v args @ later) f = fake_contract e k args f"
proof -
  define mem where "mem = (request_bytes e k v args @ later) @ EOT_magick"
  have "tokens_at mem (Some 0) (show_int (api_out e k) # show_int v # args)"
    using args by (auto simp: tokens_at_def mem_def request_bytes_def enough_args_def)
  then obtain p1 p where p: "strtok0 mem (Some 0) = Ok (Some (show_int (api_out e k)), p1)" "strtok0 mem p1 = Ok (Some (show_int v), p)"
      "tokens_at mem p args"
    using token_field by meson
  let ?f = "f\<lparr>in_server_negotiation := False\<rparr>"
  let ?rest = "mbind (fake_request e mem (Some (show_int v)) p (api_out e k)) (\<lambda>(t, p). lift_res (slurp mem t p))"
  have msg: "fake_message e (request_bytes e k v args @ later) f = ?rest ?f"
    unfolding fake_message_def Let_def mem_def [symmetric] using p by (simp add: mseq_def modify_def gets_def mbind_step)
  have code [simp]: "transmits b \<Longrightarrow> api_out e a = api_out e b \<longleftrightarrow> a = b" for a b
    using e by (auto simp: distinct_codes_def)
  have [simp]: "transmits Req_scanner_subscription" "transmits Cancel_scanner_subscription" "transmits Req_scanner_parameters"
      "transmits Req_current_time"
    by (simp_all add: transmits_def)
  have slurped: "slurp mem (Some (show_int v)) p = Ok ()"
    by (rule slurp_Ok [OF p(3)])
  have "?rest ?f = fake_contract e k args f"
  proof (cases "k = Req_scanner_subscription")
    case True
    then obtain t rows instr loc scan fs where a: "args = t # rows # instr # loc # scan # fs"
      using args by (cases args; cases "tl args"; cases "tl (tl args)"; cases "tl (tl (tl args))"; cases "tl (tl (tl (tl args)))")
        (auto simp: enough_args_def)
    show ?thesis
      using subscription_contract [OF p(3) [unfolded a], of e ?f] True
      by (simp add: fake_request_def fake_contract_def a mseq_modify)
  next
    case False
    note ns = this
    show ?thesis
    proof (cases "k = Cancel_scanner_subscription")
      case True
      then obtain t fs where a: "args = t # fs"
        using args by (cases args) (auto simp: enough_args_def)
      show ?thesis
        using cancel_contract [OF p(3) [unfolded a], of e ?f] True
        by (simp add: fake_request_def fake_contract_def a mseq_modify)
    next
      case False
      then show ?thesis
        using ns
        by (cases k) (simp_all add: fake_request_def fake_contract_def then_slurp_unit [OF slurped] mseq_modify mbind_fail mfail_def)
    qed
  qed
  then show ?thesis
    using msg by simp
qed

section \<open>Answers are always possible\<close>

definition answers :: "(fake, 'a) M \<Rightarrow> bool" where
  "answers r \<longleftrightarrow> (\<forall>f. \<exists>x f'. r f = Ok (x, f'))"

lemma answersI: "(\<And>f. \<exists>x f'. r f = Ok (x, f')) \<Longrightarrow> answers r"
  by (simp add: answers_def)

lemma answers_basic: "answers (ret x)" "answers (modify g)" "answers (gets h)" "answers (send s)" "answers (respond_text s)" "answers (respond_int i)"
  by (simp_all add: answers_def send_def respond_text_def respond_int_def M_defs)

lemma answers_bind: "answers r \<Longrightarrow> (\<And>x. answers (g x)) \<Longrightarrow> answers (mbind r g)"
  unfolding answers_def mbind_def by (metis prod.case rbind.simps(1))

lemma answers_seq: "answers r \<Longrightarrow> answers g \<Longrightarrow> answers (mseq r g)"
  by (simp add: mseq_def answers_bind)

lemma answers_sends: "\<forall>r \<in> set rs. answers r \<Longrightarrow> answers (sends rs)"
  by (induction rs) (simp_all add: answers_basic answers_seq)

lemma answers_report: "answers (error_report e t c s)"
  unfolding error_report_def by (rule answers_sends) (simp add: answers_basic)

lemma answers_file: "answers (respond_with_file e uri)"
  unfolding respond_with_file_def
  by (intro answers_seq answers_basic) (auto intro: answers_basic split: option.split doc_file.split)

text \<open>The recorded messages are formats that can be filled with the ticker.\<close>

definition formats_ok :: "fake_env \<Rightarrow> bool" where
  "formats_ok e \<longleftrightarrow> (\<forall>scan s t. document e (recording scan) = Some (Contents s) \<longrightarrow>
     fill (takeWhile (\<lambda>c. c \<noteq> NUL) s) [t, t] \<noteq> None)"

lemma answers_messages:
  assumes "formats_ok e"
  shows "answers (respond_with_messages_file e (recording scan) [t, t])"
  using assms unfolding respond_with_messages_file_def formats_ok_def
  by (auto intro!: answers_basic answers_seq split: option.split doc_file.split) (metis option.distinct(1))

lemma contract_answers:
  assumes "formats_ok e" "transmits k"
  shows "answers (fake_contract e k args)"
proof -
  have "answers (fake_rejects e t)" for t
    unfolding fake_rejects_def by (intro answers_bind answers_basic) (simp add: answers_report)
  then show ?thesis
    using assms
    by (auto simp: fake_contract_def transmits_def Let_def
        intro!: answers_seq answers_bind answers_basic answers_sends answers_messages answers_report answers_file)
qed

lemma contract_refuses: "\<not> transmits k \<Longrightarrow> fake_contract e k args f = Bad Assert_failed"
  by (cases k) (simp_all add: fake_contract_def transmits_def mseq_modify mfail_def)

section \<open>The negotiation\<close>

lemma version_message:
  assumes "\<not> in_server_negotiation f"
  shows "fake_message e (encode [show_int (TWSCLIENT_VERSION e)] @ EOM_magick @ later) f = fake_version e f"
    and "in_server_negotiation g \<Longrightarrow> fake_message e (encode [show_int i] @ EOM_magick @ later) g = fake_welcome e i g"
proof -
  have first: "\<exists>p1 p2. strtok0 ((encode [show_int n] @ EOM_magick @ later) @ EOT_magick) (Some 0) = Ok (Some (show_int n), p1) \<and>
      strtok0 ((encode [show_int n] @ EOM_magick @ later) @ EOT_magick) p1 = Ok (Some EOM, p2)" for n
  proof -
    let ?mem = "(encode [show_int n] @ EOM_magick @ later) @ EOT_magick"
    have "tokens_at ?mem (Some 0) [show_int n]"
      by (auto simp: tokens_at_def)
    then obtain p1 where "strtok0 ?mem (Some 0) = Ok (Some (show_int n), p1)" "tokens_at ?mem p1 []"
      using token_field by blast
    then show ?thesis
      using token_eom by blast
  qed
  show "fake_message e (encode [show_int (TWSCLIENT_VERSION e)] @ EOM_magick @ later) f = fake_version e f"
    using first [of "TWSCLIENT_VERSION e"] assms unfolding fake_message_def Let_def
    by (auto simp: gets_def mbind_step simp del: append_assoc)
  show "fake_message e (encode [show_int i] @ EOM_magick @ later) g = fake_welcome e i g" if "in_server_negotiation g"
    using first [of i] that unfolding fake_message_def Let_def
    by (auto simp: gets_def mbind_step simp del: append_assoc)
qed

lemma sends_Ok: "sends (map respond_text ts) f = Ok ((), f\<lparr>answered_bytes := answered_bytes f @ encode ts\<rparr>)"
  by (induction ts arbitrary: f) (simp_all add: respond_text_def send_def M_defs)

definition farm_fields :: "fake_env \<Rightarrow> string list" where
  "farm_fields e = concat (map (\<lambda>(code, text). [show_int (api_in e Resp_error), show_int 2, show_int (- 1), show_int (api_error e code), text]) farm_msgs)"

lemma report_Ok:
  "error_report e t c s f = Ok ((), f\<lparr>answered_bytes := answered_bytes f @
     encode [show_int (api_in e Resp_error), show_int 2, show_int t, show_int c, s]\<rparr>)"
  using sends_Ok [of "[show_int (api_in e Resp_error), show_int 2, show_int t, show_int c, s]" f]
  by (simp add: error_report_def respond_int_def)

lemma welcome_Ok:
  "fake_welcome e i f = Ok ((), f\<lparr>client_id := i, in_server_negotiation := False, answered_bytes := answered_bytes f @
     encode ([show_int (api_in e Resp_managed_accounts), show_int 1, ''FAKE12345'', show_int (api_in e Resp_next_valid_id), show_int 1, show_int 1] @
       farm_fields e)\<rparr>)"
  by (simp add: fake_welcome_def farm_msgs_def farm_fields_def report_Ok respond_int_def respond_text_def send_def M_defs)

lemma version_Ok: "\<exists>f'. fake_version e f = Ok ((), f') \<and> in_server_negotiation f'"
  by (simp add: fake_version_def respond_int_def respond_time_def respond_text_def send_def Let_def M_defs)

text \<open>What the back-end makes of the farm reports.\<close>

definition farms_reported :: "('d tws_world, unit) M" where
  "farms_reported = foldr (\<lambda>(code, text). mseq (farm_event code text)) farm_msgs (ret ())"

lemma farm_names:
  "after_last_colon ''Market data farm connection is OK:eurofarm'' = Some ''eurofarm''"
  "after_last_colon ''HMDS data farm connection is OK:euhmds'' = Some ''euhmds''"
  "after_last_colon ''HMDS data farm connection is OK:hkhmds'' = Some ''hkhmds''"
  "after_last_colon ''HMDS data farm connection is OK:ushmds'' = Some ''ushmds''"
  by code_simp+

lemma farms_reported_Ok:
  "\<exists>w'. farms_reported w = Ok ((), w') \<and> m_rt_providers (glob w') = m_rt_providers (glob w) @ [''eurofarm''] \<and>
     m_hist_providers (glob w') = m_hist_providers (glob w) @ [''euhmds'', ''hkhmds'', ''ushmds'']"
  by (simp add: farms_reported_def farm_msgs_def M_defs farm_event_cases(1) [OF farm_names(1)] farm_event_cases(3) [OF farm_names(2)]
      farm_event_cases(3) [OF farm_names(3)] farm_event_cases(3) [OF farm_names(4)])

section \<open>Properties\<close>

text \<open>C27: the fake server, which works on the bytes it has read, refines its contract on the fields of a request:
  whatever the fields are (but for the bytes of the end marks), the answer and the new state are those of the
  contract. Whatever has been read behind the end mark of the request has no influence: a second request that is
  read together with the first one is lost.\<close>

theorem fake_server_refines_its_contract:
  assumes "distinct_codes e" "enough_args k args"
  shows "fake_message e (request_bytes e k version args @ later) f = fake_contract e k args f"
  by (rule message_contract [OF assms])

text \<open>Numbers for the witnesses; the document root is empty.\<close>

definition demo_out :: "req_kind \<Rightarrow> int" where
  "demo_out k = (if k = Req_scanner_subscription then 22 else if k = Cancel_scanner_subscription then 23
     else if k = Req_scanner_parameters then 24 else if k = Req_current_time then 49 else 0)"

definition demo_fake :: fake_env where
  "demo_fake = \<lparr>api_out = demo_out, api_in = (\<lambda>k. if k = Resp_current_time then 49 else 4), api_error = (\<lambda>_. 162),
     FAIL_NO_SCANNER_SUBSCRIPTION_FOUND = 365, FAIL_SERVER_ERROR_PROCESSING_REQUEST = 322, TWSCLIENT_VERSION = 54,
     clock = 1000, document = (\<lambda>_. None), has_memory = (\<lambda>_. True)\<rparr>"

definition idle_fake :: fake where
  "idle_fake = \<lparr>in_server_negotiation = False, client_id = 0, req_subscription_counter = 0, cancel_subscription_counter = 0,
     to_server = '''', answered_bytes = ''''\<rparr>"

lemma demo_codes: "distinct_codes demo_fake"
  by (auto simp: distinct_codes_def demo_fake_def demo_out_def transmits_def)

theorem fake_server_refines_its_contract_witness:
  "fake_message demo_fake (request_bytes demo_fake Req_current_time 1 [] @ ''lost'') idle_fake =
     Ok ((), idle_fake\<lparr>answered_bytes := encode [''49'', ''1'', ''1000'']\<rparr>)"
proof -
  have "fake_contract demo_fake Req_current_time [] idle_fake = Ok ((), idle_fake\<lparr>answered_bytes := encode [''49'', ''1'', ''1000'']\<rparr>)"
    by code_simp
  then show ?thesis
    using fake_server_refines_its_contract [OF demo_codes, of Req_current_time "[]" 1 "''lost''" idle_fake]
    by (simp add: enough_args_def)
qed


lemma demo_formats: "formats_ok demo_fake"
  by (simp add: formats_ok_def demo_fake_def)


text \<open>After the two messages of the negotiation the fake server has sent the account, the first order number and
  four reports of data farms; and these reports are such that the back-end which receives them knows a market data
  farm and three historical data farms, so that it can ask for the scanner parameters.\<close>

theorem negotiation_reports_both_kinds_of_farms:
  assumes "\<not> in_server_negotiation f"
  shows "\<exists>f1 f2 w'. fake_message e (encode [show_int (TWSCLIENT_VERSION e)] @ EOM_magick @ later) f = Ok ((), f1) \<and>
    fake_message e (encode [show_int i] @ EOM_magick @ later') f1 = Ok ((), f2) \<and> client_id f2 = i \<and> \<not> in_server_negotiation f2 \<and>
    answered_bytes f2 = answered_bytes f1 @ encode ([show_int (api_in e Resp_managed_accounts), show_int 1, ''FAKE12345'',
      show_int (api_in e Resp_next_valid_id), show_int 1, show_int 1] @ farm_fields e) \<and>
    farms_reported w = Ok ((), w') \<and> m_rt_providers (glob w') = m_rt_providers (glob w) @ [''eurofarm''] \<and>
    m_hist_providers (glob w') = m_hist_providers (glob w) @ [''euhmds'', ''hkhmds'', ''ushmds'']"
proof -
  obtain f1 where f1: "fake_version e f = Ok ((), f1)" "in_server_negotiation f1"
    using version_Ok by blast
  show ?thesis
    using version_message [OF assms, where e = e] f1 farms_reported_Ok [of w]
    by (auto simp: welcome_Ok simp del: encode_simps(2))
qed

theorem negotiation_reports_both_kinds_of_farms_witness:
  "\<exists>f1 f2 w'. fake_message demo_fake (encode [''54''] @ EOM_magick) idle_fake = Ok ((), f1) \<and>
     fake_message demo_fake (encode [''7''] @ EOM_magick) f1 = Ok ((), f2) \<and> client_id f2 = 7 \<and>
     farms_reported start_world = Ok ((), w') \<and> m_hist_providers (glob w') = [''euhmds'', ''hkhmds'', ''ushmds'']"
proof -
  have "show_int 54 = ''54''" "show_int 7 = ''7''"
    by code_simp+
  moreover have "\<not> in_server_negotiation idle_fake" "TWSCLIENT_VERSION demo_fake = 54" "m_hist_providers (glob start_world) = []"
    by (simp_all add: idle_fake_def demo_fake_def start_world_def world_init_def glob_init_def)
  ultimately show ?thesis
    using negotiation_reports_both_kinds_of_farms [of idle_fake demo_fake "[]" 7 "[]" start_world] by auto
qed

text \<open>A flush of a request that fits the buffer is answered in one round.\<close>

lemma flush_is_answered:
  assumes "distinct_codes e" "enough_args k args" "to_server f @ EOM_magick = request_bytes e k version args"
    and "length (request_bytes e k version args) \<le> n" "n \<le> 4096"
    and "fake_contract e k args (f\<lparr>to_server := []\<rparr>) = Ok ((), f')" "length (answered_bytes f) < length (answered_bytes f')"
  shows "fake_ib_tws_server e 0 (Data n # rs) f = Ok ((), f')"
proof -
  have "fake_message e (request_bytes e k version args) (f\<lparr>to_server := []\<rparr>) = Ok ((), f')"
    using message_contract [OF assms(1,2), of version "[]"] assms(6) by simp
  moreover have "request_bytes e k version args \<noteq> []"
    by (simp add: request_bytes_def)
  moreover have "fake_rounds e (length (answered_bytes f)) 2 rs f' = Ok ((), f')"
    using assms(7) by (cases rs) (auto simp: numeral_2_eq_2 M_defs)
  ultimately show ?thesis
    using assms(3-5) by (simp add: fake_ib_tws_server_def numeral_3_eq_3 M_defs)
qed

text \<open>A part of a request that ends inside its first field: the tokenizer looks for the end mark behind what has
  been read.\<close>

theorem cut_request_reads_behind_the_buffer:
  assumes "NUL \<notin> set part"
  shows "fake_message e part f = Bad Dangling"
proof -
  have "takeWhile (\<lambda>c. c \<noteq> NUL) (part @ EOT_magick) = part"
    using assms by (subst takeWhile_append2) (auto simp: EOT_magick_def)
  then show ?thesis
    by (simp add: fake_message_def strtok0_def M_defs EOT_length Let_def)
qed

text \<open>The recorded answers are used as formats, although they hold percentages.\<close>

theorem percentage_is_no_format: "fill (''+29.79%'' @ [CHR 0x0A] @ rest) args = None"
  by (simp add: fill.simps)

end
