(* ===== verification/Options.thy ===== *)
theory Options
  imports CText
begin

text \<open>The options of the program: the defaults, the configuration file and the command line
  (\<open>tws_if_main.cpp\<close>), and what becomes of them in the configuration of the connection to TWS
  (\<open>mongoose_utils.cpp\<close>, \<open>tws_config_struct.h\<close>).\<close>

section \<open>How a start may end\<close>

text \<open>\<open>die\<close> with its message, the usage text, an exit with the status of the password tool, or memory behind the
  end of an array that is read.\<close>

datatype 'a startup = Go 'a | Die string | Usage | Exit_status bool | Overrun

fun sbind :: "'a startup \<Rightarrow> ('a \<Rightarrow> 'b startup) \<Rightarrow> 'b startup" where
  "sbind (Go x) f = f x"
| "sbind (Die s) f = Die s"
| "sbind Usage f = Usage"
| "sbind (Exit_status b) f = Exit_status b"
| "sbind Overrun f = Overrun"

lemma sbind_Go_iff [res_simps]: "sbind m f = Go y \<longleftrightarrow> (\<exists>x. m = Go x \<and> f x = Go y)"
  by (cases m) auto

section \<open>The table of options\<close>

text \<open>Pairs of a name and a value, up to the first null pointer. \<open>mg_get_option_long_name\<close> belongs to the web
  server library.\<close>

type_synonym options = "(string \<times> string) list"

definition MAX_OPTIONS :: nat where
  "MAX_OPTIONS = 1 + 27 * 3"

definition default_options :: options where
  "default_options = [
     (''document_root'', ''./html''),
     (''listening_ports'', ''8081''),
     (''num_threads'', ''5''),
     (''error_log_file'', ''./log/%Y/%m/tws_ib_if_srv-%Y%m%d.%H-IP-%[s]-%[p]-error.log''),
     (''access_log_file'', ''./log/%Y/%m/tws_ib_if_srv-%Y%m%d.%H-IP-%[s]-%[p]-access.log''),
     (''index_files'', ''default.html''),
     (''ssi_pattern'', ''**.html$|**.htm|**.shtml$|**.shtm$''),
     (''enable_keep_alive'', ''yes''),
     (''keep_alive_timeout'', ''5''),
     (''tws_ip_address'', ''127.0.0.1''),
     (''tws_ip_port'', ''6789''),
     (''tws_connect_id'', ''7''),
     (''tws_poll_delay'', ''10''),
     (''tws_reconnect_delay'', ''10000''),
     (''tws_log_traffic'', ''true''),
     (''tws_traffic_log_file'', ''./log/TWS-IO/%Y/%m/%Y%m%d.%H%M%S-%[U].log''),
     (''database_file'', ''./ib_tws_if.hamsterdb''),
     (''gists_document_root'', ''./'')]"

fun option_loop :: "nat \<Rightarrow> options \<Rightarrow> string \<Rightarrow> string \<Rightarrow> options startup" where
  "option_loop 0 os name value = Die ''Too many options specified''"
| "option_loop (Suc k) [] name value = Go [(name, value)]"
| "option_loop (Suc k) (ov # os) name value =
     (if fst ov = name then Go ((name, value) # os)
      else sbind (option_loop k os name value) (\<lambda>os'. Go (ov # os')))"

definition long_name :: "(string \<Rightarrow> string option) \<Rightarrow> string \<Rightarrow> string" where
  "long_name mg_get_option_long_name name = (case mg_get_option_long_name name of Some l \<Rightarrow> l | None \<Rightarrow> name)"

definition set_option :: "(string \<Rightarrow> string option) \<Rightarrow> options \<Rightarrow> string \<Rightarrow> string \<Rightarrow> options startup" where
  "set_option ln os name value = option_loop MAX_OPTIONS os (long_name ln name) value"

fun set_options :: "(string \<Rightarrow> string option) \<Rightarrow> (string \<times> string) list \<Rightarrow> options \<Rightarrow> options startup" where
  "set_options ln [] os = Go os"
| "set_options ln (nv # nvs) os = sbind (set_option ln os (fst nv) (snd nv)) (set_options ln nvs)"

section \<open>The configuration file\<close>

definition MAX_CONF_FILE_LINE_SIZE :: nat where
  "MAX_CONF_FILE_LINE_SIZE = 8 * 1024"

definition LF :: char where "LF = CHR 0x0A"

text \<open>\<open>fgets\<close>: up to the end of the line, or as much as the buffer takes. \<open>room\<close> is what is left of the buffer.\<close>

fun fgets_lines :: "nat \<Rightarrow> string \<Rightarrow> string \<Rightarrow> string list" where
  "fgets_lines room acc [] = (if acc = [] then [] else [acc])"
| "fgets_lines room acc (c # s) =
     (if c = LF then (acc @ [c]) # fgets_lines (MAX_CONF_FILE_LINE_SIZE - 1) [] s
      else if room \<le> 1 then (acc @ [c]) # fgets_lines (MAX_CONF_FILE_LINE_SIZE - 1) [] s
      else fgets_lines (room - 1) (acc @ [c]) s)"

text \<open>\<open>sscanf\<close> with \<open>%s %[^\r\n#]\<close>: the number of conversions, -1 when the text ends before the first one.\<close>

definition scan_option :: "string \<Rightarrow> int \<times> string \<times> string" where
  "scan_option line =
     (let s = dropWhile is_blank (takeWhile (\<lambda>c. c \<noteq> NUL) line);
          opt = takeWhile (\<lambda>c. \<not> is_blank c) s;
          v = takeWhile (\<lambda>c. c \<notin> {CHR 0x0D, LF, CHR ''#''}) (dropWhile is_blank (dropWhile (\<lambda>c. \<not> is_blank c) s)) in
      if s = [] then (- 1, [], []) else if v = [] then (1, opt, []) else (2, opt, v))"

text \<open>A line of the file sets an option, is a comment, or ends the program. The mark at the start of a UTF-8 file
  only moves a pointer that is not used.\<close>

definition config_line :: "(string \<Rightarrow> string option) \<Rightarrow> string \<Rightarrow> options \<Rightarrow> options startup" where
  "config_line ln line os =
     (if take 1 line = ''#'' then Go os
      else case scan_option line of (n, opt, val) \<Rightarrow>
        if n = 0 then Go os
        else if n = 2 then set_option ln os opt val
        else Die ''line is invalid'')"

fun config_lines :: "(string \<Rightarrow> string option) \<Rightarrow> string list \<Rightarrow> options \<Rightarrow> options startup" where
  "config_lines ln [] os = Go os"
| "config_lines ln (l # ls) os = sbind (config_line ln l os) (config_lines ln ls)"

section \<open>The command line\<close>

text \<open>\<open>argv\<close> starts with the name of the program. \<open>mg_fopen\<close> gives the text of a file.\<close>

definition CONFIG_FILE :: string where "CONFIG_FILE = ''mongoose.conf''"

definition config_file_name :: "char \<Rightarrow> nat \<Rightarrow> string list \<Rightarrow> string" where
  "config_file_name DIRSEP PATH_MAX argv = take (PATH_MAX - 1)
     (if length argv = 2 then argv ! 1
      else if DIRSEP \<notin> set (hd argv) then CONFIG_FILE
      else rev (dropWhile (\<lambda>c. c \<noteq> DIRSEP) (rev (hd argv))) @ CONFIG_FILE)"

fun command_line :: "(string \<Rightarrow> string option) \<Rightarrow> string list \<Rightarrow> options \<Rightarrow> options startup" where
  "command_line ln [] os = Go os"
| "command_line ln [a] os = Usage"
| "command_line ln (a # v # as) os =
     (if take 1 a \<noteq> ''-'' then Usage else sbind (set_option ln os (drop 1 a) v) (command_line ln as))"

definition process_command_line_arguments :: "(string \<Rightarrow> string option) \<Rightarrow> (string \<Rightarrow> string option) \<Rightarrow> char \<Rightarrow> nat \<Rightarrow>
    string list \<Rightarrow> options startup" where
  "process_command_line_arguments ln mg_fopen DIRSEP PATH_MAX argv =
     (let fp = mg_fopen (config_file_name DIRSEP PATH_MAX argv) in
      if length argv = 2 \<and> fp = None then Die ''Cannot open config file''
      else sbind (set_options ln default_options []) (\<lambda>os.
           sbind (case fp of None \<Rightarrow> Go os
             | Some s \<Rightarrow> config_lines ln (fgets_lines (MAX_CONF_FILE_LINE_SIZE - 1) [] s) os)
           (command_line ln (tl argv))))"

text \<open>Starting the web server: \<open>mg_start\<close> says whether the options are good. Before that the password tool and the
  usage text can be asked for; afterwards the table is freed up to its null pointer.\<close>

definition start_mongoose :: "(string \<Rightarrow> string option) \<Rightarrow> (string \<Rightarrow> string option) \<Rightarrow> char \<Rightarrow> nat \<Rightarrow>
    (string list \<Rightarrow> bool) \<Rightarrow> (options \<Rightarrow> bool) \<Rightarrow> string list \<Rightarrow> options startup" where
  "start_mongoose ln mg_fopen DIRSEP PATH_MAX mg_modify_passwords_file mg_start argv =
     (if 1 < length argv \<and> take 2 (argv ! 1) = ''-A'' then
        (if length argv \<noteq> 6 then Usage else Exit_status (mg_modify_passwords_file (drop 2 argv)))
      else if length argv = 2 \<and> argv ! 1 \<in> {''-h'', ''--help''} then Usage
      else sbind (process_command_line_arguments ln mg_fopen DIRSEP PATH_MAX argv) (\<lambda>os.
        if MAX_OPTIONS \<le> length os then Overrun
        else if mg_start os then Go os
        else Die ''Failed to start Mongoose''))"

definition verify_document_root :: "(string \<Rightarrow> bool option) \<Rightarrow> string \<Rightarrow> unit startup" where
  "verify_document_root mg_stat root = (if mg_stat root = Some True then Go () else Die ''Invalid root directory'')"

section \<open>The configuration of the connection\<close>

record tws_conn_cfg =
  m_ip_address :: "string option"
  m_port :: int
  m_our_id_code :: int
  m_backend_poll_period :: int
  m_backend_reconnect_delay :: int
  m_tws_log_traffic :: bool
  m_tws_traffic_log_file :: "string option"
  m_gists_document_root :: "string option"
  m_database_path :: "string option"   \<comment> \<open>of the database manager\<close>

definition new_tws_conn_cfg :: tws_conn_cfg where
  "new_tws_conn_cfg = \<lparr>m_ip_address = None, m_port = 0, m_our_id_code = 0, m_backend_poll_period = 0,
     m_backend_reconnect_delay = 0, m_tws_log_traffic = False, m_tws_traffic_log_file = None,
     m_gists_document_root = None, m_database_path = None\<rparr>"

definition starts_with_letter :: "char \<Rightarrow> char \<Rightarrow> string \<Rightarrow> bool" where
  "starts_with_letter small large s \<longleftrightarrow> s \<noteq> [] \<and> (hd s = small \<or> hd s = large)"

definition log_traffic_of :: "string \<Rightarrow> bool" where
  "log_traffic_of value =
     (let t = starts_with_letter (CHR ''t'') (CHR ''T'') value; f = starts_with_letter (CHR ''f'') (CHR ''F'') value in
      if t \<or> f then t else c_atoi value \<noteq> 0)"

definition option_decode :: "string \<Rightarrow> string \<Rightarrow> tws_conn_cfg \<Rightarrow> int \<times> tws_conn_cfg" where
  "option_decode name value cfg =
     (if name = ''tws_ip_address'' then (1, cfg\<lparr>m_ip_address := Some value\<rparr>)
      else if name = ''tws_ip_port'' then
        let portno = c_atoi value in if 0 < portno then (1, cfg\<lparr>m_port := portno\<rparr>) else (0, cfg)
      else if name = ''tws_connect_id'' then
        let tws_id = c_atoi value in if 0 < tws_id then (1, cfg\<lparr>m_our_id_code := tws_id\<rparr>) else (0, cfg)
      else if name = ''tws_poll_delay'' then
        let poll_period = c_atoi value in if 0 < poll_period then (1, cfg\<lparr>m_backend_poll_period := poll_period\<rparr>) else (0, cfg)
      else if name = ''tws_reconnect_delay'' then
        let reconnect_delay = c_atoi value in
        if 0 < reconnect_delay then (1, cfg\<lparr>m_backend_reconnect_delay := reconnect_delay\<rparr>) else (0, cfg)
      else if name = ''tws_log_traffic'' then (1, cfg\<lparr>m_tws_log_traffic := log_traffic_of value\<rparr>)
      else if name = ''tws_traffic_log_file'' then (1, cfg\<lparr>m_tws_traffic_log_file := Some value\<rparr>)
      else if name = ''database_file'' then (1, cfg\<lparr>m_database_path := Some value\<rparr>)
      else if name = ''gists_document_root'' then (1, cfg\<lparr>m_gists_document_root := Some value\<rparr>)
      else (0, cfg))"

text \<open>\<open>mg_get_option\<close> belongs to the web server library.\<close>

definition mg_get_option_ex :: "(string \<Rightarrow> string option) \<Rightarrow> string \<Rightarrow> string option \<Rightarrow> string option" where
  "mg_get_option_ex mg_get_option name default_value = (case mg_get_option name of None \<Rightarrow> default_value | Some v \<Rightarrow> Some v)"

definition mg_get_option_int :: "(string \<Rightarrow> string option) \<Rightarrow> string \<Rightarrow> int \<Rightarrow> int" where
  "mg_get_option_int mg_get_option name default_value = (case mg_get_option name of None \<Rightarrow> default_value | Some v \<Rightarrow> c_atoi v)"

definition option_get :: "tws_conn_cfg \<Rightarrow> string option \<Rightarrow> string \<Rightarrow> string option" where
  "option_get cfg uri name =
     (case uri of
        Some u \<Rightarrow> if take 6 u = ''/gist-'' \<and> name = ''document_root'' then m_gists_document_root cfg else None
      | None \<Rightarrow> None)"

section \<open>The table is a finite map\<close>

lemma option_loop_map:
  assumes "option_loop k os n v = Go os'" "distinct (map fst os)"
  shows "map_of os' = (map_of os)(n \<mapsto> v) \<and> distinct (map fst os') \<and> set (map fst os') = insert n (set (map fst os)) \<and>
    (length os \<le> k \<longrightarrow> length os' \<le> k)"
  using assms
proof (induction k os n v arbitrary: os' rule: option_loop.induct)
  case (3 k ov os n v)
  show ?case
  proof (cases "fst ov = n")
    case True
    then have os': "os' = (n, v) # os"
      using 3(2) by simp
    show ?thesis
      using True 3(3) by (cases ov) (auto simp: os')
  next
    case False
    then obtain os1 where os1: "option_loop k os n v = Go os1" "os' = ov # os1"
      using 3(2) by (auto simp: res_simps)
    have IH: "map_of os1 = (map_of os)(n \<mapsto> v) \<and> distinct (map fst os1) \<and> set (map fst os1) = insert n (set (map fst os)) \<and>
        (length os \<le> k \<longrightarrow> length os1 \<le> k)"
      by (rule 3(1) [OF False os1(1)]) (use 3(3) in simp)
    have "map_of os' = (map_of (ov # os))(n \<mapsto> v)"
      using IH False by (cases ov) (auto simp: os1(2) fun_upd_twist)
    then show ?thesis
      using IH False 3(3) os1(2) by auto
  qed
qed auto

lemma option_loop_Go: "length os < k \<or> n \<in> fst ` set os \<and> length os \<le> k \<Longrightarrow> \<exists>os'. option_loop k os n v = Go os'"
proof (induction k os n v rule: option_loop.induct)
  case (3 k ov os n v)
  show ?case
  proof (cases "fst ov = n")
    case False
    then obtain os' where "option_loop k os n v = Go os'"
      using 3 by auto
    then show ?thesis
      using False by simp
  qed simp
qed auto

definition table_ok :: "options \<Rightarrow> bool" where
  "table_ok os \<longleftrightarrow> distinct (map fst os) \<and> length os \<le> MAX_OPTIONS"

definition resolved :: "(string \<Rightarrow> string option) \<Rightarrow> (string \<times> string) list \<Rightarrow> (string \<times> string) list" where
  "resolved ln = map (\<lambda>nv. (long_name ln (fst nv), snd nv))"

lemma set_options_map:
  assumes "set_options ln nvs os = Go os'" "table_ok os"
  shows "map_of os' = map_of os ++ map_of (rev (resolved ln nvs)) \<and> table_ok os'"
  using assms
proof (induction nvs arbitrary: os)
  case (Cons nv nvs)
  obtain os1 where os1: "set_option ln os (fst nv) (snd nv) = Go os1" "set_options ln nvs os1 = Go os'"
    using Cons.prems(1) by (auto simp: res_simps)
  have 1: "map_of os1 = (map_of os)(long_name ln (fst nv) \<mapsto> snd nv)" "table_ok os1"
    using option_loop_map [of MAX_OPTIONS os "long_name ln (fst nv)" "snd nv" os1] os1(1) Cons.prems(2)
    by (auto simp: set_option_def table_ok_def)
  show ?case
    using Cons.IH [OF os1(2) 1(2)] 1(1) by (auto simp: resolved_def fun_eq_iff map_add_def split: option.split)
qed (simp add: resolved_def)

text \<open>What the lines of a file and the flags of a command line set.\<close>

definition line_setting :: "string \<Rightarrow> (string \<times> string) list" where
  "line_setting line = (if take 1 line = ''#'' then [] else case scan_option line of (n, opt, val) \<Rightarrow> [(opt, val)])"

definition config_settings :: "string \<Rightarrow> (string \<times> string) list" where
  "config_settings s = concat (map line_setting (fgets_lines (MAX_CONF_FILE_LINE_SIZE - 1) [] s))"

fun flag_settings :: "string list \<Rightarrow> (string \<times> string) list" where
  "flag_settings (a # v # as) = (drop 1 a, v) # flag_settings as"
| "flag_settings _ = []"

lemma scan_option_range: "fst (scan_option l) \<in> {- 1, 1, 2}"
  by (simp add: scan_option_def Let_def)

lemma config_line_sets: "config_line ln l os = Go os' \<Longrightarrow> set_options ln (line_setting l) os = Go os'"
  using scan_option_range [of l] by (auto simp: config_line_def line_setting_def split: if_splits prod.splits)

lemma set_options_append: "set_options ln (xs @ ys) os = sbind (set_options ln xs os) (set_options ln ys)"
proof (induction xs arbitrary: os)
  case (Cons x xs)
  then show ?case
    by (cases "set_option ln os (fst x) (snd x)") simp_all
qed simp

lemma config_lines_set: "config_lines ln ls os = Go os' \<Longrightarrow> set_options ln (concat (map line_setting ls)) os = Go os'"
proof (induction ls arbitrary: os)
  case (Cons l ls)
  then obtain os1 where "config_line ln l os = Go os1" "config_lines ln ls os1 = Go os'"
    by (auto simp: res_simps)
  then show ?case
    using Cons.IH config_line_sets by (simp add: set_options_append)
qed simp

lemma command_line_sets: "command_line ln as os = Go os' \<Longrightarrow> set_options ln (flag_settings as) os = Go os'"
  by (induction ln as os arbitrary: os' rule: command_line.induct) (auto simp: res_simps split: if_splits)

lemma processed_options:
  assumes "process_command_line_arguments ln mg_fopen sep pmax argv = Go os"
  shows "set_options ln (default_options @ (case mg_fopen (config_file_name sep pmax argv) of None \<Rightarrow> [] | Some s \<Rightarrow> config_settings s) @
    flag_settings (tl argv)) [] = Go os"
proof -
  let ?fp = "mg_fopen (config_file_name sep pmax argv)"
  obtain os1 os2 where 1: "set_options ln default_options [] = Go os1"
      "(case ?fp of None \<Rightarrow> Go os1 | Some s \<Rightarrow> config_lines ln (fgets_lines (MAX_CONF_FILE_LINE_SIZE - 1) [] s) os1) = Go os2"
      "command_line ln (tl argv) os2 = Go os"
    using assms by (auto simp: process_command_line_arguments_def Let_def res_simps split: if_splits)
  have "set_options ln (case ?fp of None \<Rightarrow> [] | Some s \<Rightarrow> config_settings s) os1 = Go os2"
    using 1(2) config_lines_set by (auto simp: config_settings_def split: option.splits)
  then show ?thesis
    using 1(1) command_line_sets [OF 1(3)] by (simp add: set_options_append)
qed

section \<open>The configuration\<close>

definition cfg_ok :: "tws_conn_cfg \<Rightarrow> bool" where
  "cfg_ok cfg \<longleftrightarrow> 0 < m_port cfg \<and> 0 < m_our_id_code cfg \<and> 0 < m_backend_poll_period cfg \<and> 0 < m_backend_reconnect_delay cfg \<and>
     m_ip_address cfg \<noteq> None \<and> m_tws_traffic_log_file cfg \<noteq> None \<and> m_gists_document_root cfg \<noteq> None \<and> m_database_path cfg \<noteq> None"

definition decode_all :: "(string \<times> string) list \<Rightarrow> tws_conn_cfg \<Rightarrow> tws_conn_cfg" where
  "decode_all = fold (\<lambda>nv cfg. snd (option_decode (fst nv) (snd nv) cfg))"

lemma option_decode_keeps: "cfg_ok cfg \<Longrightarrow> cfg_ok (snd (option_decode name value cfg))"
  by (simp add: cfg_ok_def option_decode_def Let_def)

lemma decode_all_keeps: "cfg_ok cfg \<Longrightarrow> cfg_ok (decode_all nvs cfg)"
  by (induction nvs arbitrary: cfg) (simp_all add: decode_all_def option_decode_keeps)

lemma option_decode_refuses: "option_decode name value cfg = (r, cfg') \<Longrightarrow> r = 0 \<and> cfg' = cfg \<or> r = 1"
  by (auto simp: option_decode_def Let_def split: if_splits)

lemma defaults_ok: "cfg_ok (decode_all default_options new_tws_conn_cfg)"
  by code_simp

section \<open>Properties\<close>

lemma option_loop_new:
  assumes "n \<notin> fst ` set os" "length os < k"
  shows "option_loop k os n v = Go (os @ [(n, v)])"
  using assms by (induction k os n v rule: option_loop.induct) auto

lemma set_options_new:
  assumes "distinct (map fst (os @ nvs))" "length (os @ nvs) \<le> MAX_OPTIONS"
  shows "set_options (\<lambda>_. None) nvs os = Go (os @ nvs)"
  using assms
proof (induction nvs arbitrary: os)
  case (Cons nv nvs)
  have "set_option (\<lambda>_. None) os (fst nv) (snd nv) = Go (os @ [nv])"
    using Cons.prems option_loop_new [of "fst nv" os MAX_OPTIONS "snd nv"] by (auto simp: set_option_def long_name_def)
  then show ?case
    using Cons.IH [of "os @ [nv]"] Cons.prems by simp
qed simp

lemma default_options_distinct: "distinct (map fst default_options)"
  by code_simp

lemma default_options_length: "length default_options = 18"
  by (simp add: default_options_def)

lemma default_options_set: "set_options (\<lambda>_. None) default_options [] = Go default_options"
  using set_options_new [of "[]" default_options] default_options_distinct
  by (simp add: default_options_length MAX_OPTIONS_def)

definition demo_argv :: "string list" where
  "demo_argv = [''gateway'', ''-num_threads'', ''3'']"

lemma demo_options_exist:
  "\<exists>os. process_command_line_arguments (\<lambda>_. None) (\<lambda>_. None) (CHR ''/'') 4096 demo_argv = Go os"
  using option_loop_Go [of default_options MAX_OPTIONS "''num_threads''" "''3''"]
  by (auto simp: process_command_line_arguments_def demo_argv_def default_options_set set_option_def long_name_def
      default_options_length MAX_OPTIONS_def)

text \<open>C24: the table of options that the program starts with is a finite map with each name once: for every name, an
  abbreviated one standing for its long form, the value is the last one that is set, by the command line before the
  configuration file before the defaults.\<close>

theorem last_setting_wins:
  assumes "process_command_line_arguments ln mg_fopen sep pmax argv = Go os"
  shows "map_of os = map_of (rev (resolved ln (default_options @
      (case mg_fopen (config_file_name sep pmax argv) of None \<Rightarrow> [] | Some s \<Rightarrow> config_settings s) @ flag_settings (tl argv)))) \<and>
    distinct (map fst os) \<and> length os \<le> MAX_OPTIONS"
  using set_options_map [OF processed_options [OF assms]] by (simp add: table_ok_def)

theorem last_setting_wins_witness:
  "\<exists>os. process_command_line_arguments (\<lambda>_. None) (\<lambda>_. None) (CHR ''/'') 4096 demo_argv = Go os \<and>
     map_of os ''num_threads'' = Some ''3'' \<and> map_of os ''document_root'' = Some ''./html''"
proof -
  obtain os where os: "process_command_line_arguments (\<lambda>_. None) (\<lambda>_. None) (CHR ''/'') 4096 demo_argv = Go os"
    using demo_options_exist by blast
  have "map_of (rev (resolved (\<lambda>_. None) (default_options @ [] @ flag_settings (tl demo_argv)))) ''num_threads'' = Some ''3'' \<and>
      map_of (rev (resolved (\<lambda>_. None) (default_options @ [] @ flag_settings (tl demo_argv)))) ''document_root'' = Some ''./html''"
    by code_simp
  then show ?thesis
    using last_setting_wins [OF os] os by auto
qed

text \<open>C25: a command line of one argument is taken for the name of a configuration file, as the usage text says, and for
  a flag without a value as well: whatever the file is, the program does not start.\<close>

theorem config_file_argument_never_starts:
  assumes "length argv = 2"
  shows "start_mongoose ln mg_fopen sep pmax passwd mg_start argv \<noteq> Go os"
proof -
  obtain prog a where argv: "argv = [prog, a]"
    using assms by (auto simp: numeral_2_eq_2 length_Suc_conv)
  have "process_command_line_arguments ln mg_fopen sep pmax argv \<noteq> Go os'" for os'
    by (auto simp: process_command_line_arguments_def Let_def argv res_simps)
  then show ?thesis
    by (auto simp: start_mongoose_def res_simps split: if_splits)
qed

theorem config_file_argument_never_starts_witness:
  "start_mongoose (\<lambda>_. None) (\<lambda>_. Some ''tws_ip_port 7496'') (CHR ''/'') 4096 (\<lambda>_. True) (\<lambda>_. True) [''gateway'', ''my.conf''] \<noteq> Go []"
  by (rule config_file_argument_never_starts) simp

text \<open>C1: a line without anything but blanks in the configuration file, which the comment wants to be ignored, ends the
  program: \<open>sscanf\<close> reports the end of the text, not that it converted nothing.\<close>

theorem blank_line_never_starts:
  assumes "mg_fopen (config_file_name sep pmax argv) = Some s" "line \<in> set (fgets_lines (MAX_CONF_FILE_LINE_SIZE - 1) [] s)"
    and "\<forall>c \<in> set line. is_blank c"
  shows "process_command_line_arguments ln mg_fopen sep pmax argv \<noteq> Go os"
proof -
  have "dropWhile is_blank (takeWhile (\<lambda>c. c \<noteq> NUL) line) = []"
    using assms(3) by (auto simp: dropWhile_eq_Nil_conv dest: set_takeWhileD)
  moreover have "take 1 line \<noteq> ''#''"
    using assms(3) by (cases line) (auto simp: is_blank_def)
  ultimately have line: "config_line ln line os1 = Die ''line is invalid''" for os1
    by (simp add: config_line_def scan_option_def)
  have "config_lines ln ls os1 \<noteq> Go os2" if "line \<in> set ls" for ls os1 os2
    using that line by (induction ls arbitrary: os1) (auto simp: res_simps)
  then have "config_lines ln (fgets_lines (MAX_CONF_FILE_LINE_SIZE - 1) [] s) os1 \<noteq> Go os2" for os1 os2
    using assms(2) by blast
  then show ?thesis
    using assms(1) by (auto simp: process_command_line_arguments_def Let_def res_simps)
qed

theorem blank_line_never_starts_witness:
  "process_command_line_arguments (\<lambda>_. None) (\<lambda>_. Some (''tws_ip_port 7496'' @ [LF, LF])) (CHR ''/'') 4096 [''gateway''] \<noteq> Go []"
proof (rule blank_line_never_starts [OF refl])
  show "[LF] \<in> set (fgets_lines (MAX_CONF_FILE_LINE_SIZE - 1) [] (''tws_ip_port 7496'' @ [LF, LF]))"
    by code_simp
  show "\<forall>c \<in> set [LF]. is_blank c"
    by (simp add: LF_def is_blank_def)
qed

text \<open>C26: once the defaults have been decoded, no option that is decoded later can make the configuration of the
  connection invalid: ports, identifiers and delays stay positive and the texts stay there. A value that is refused
  changes nothing.\<close>

theorem configuration_stays_valid:
  "cfg_ok (decode_all nvs (decode_all default_options new_tws_conn_cfg)) \<and>
   (option_decode name value cfg = (r, cfg') \<longrightarrow> r = 0 \<and> cfg' = cfg \<or> r = 1)"
  using decode_all_keeps [OF defaults_ok] option_decode_refuses by blast

theorem configuration_stays_valid_witness:
  "0 < m_port (decode_all [(''tws_ip_port'', ''-5'')] (decode_all default_options new_tws_conn_cfg)) \<and>
   option_decode ''tws_ip_port'' ''-5'' new_tws_conn_cfg = (0, new_tws_conn_cfg)"
proof -
  have "option_decode ''tws_ip_port'' ''-5'' new_tws_conn_cfg = (0, new_tws_conn_cfg)"
    by code_simp
  then show ?thesis
    using configuration_stays_valid [of "[(''tws_ip_port'', ''-5'')]" "''tws_ip_port''" "''-5''" new_tws_conn_cfg 0 new_tws_conn_cfg]
    by (simp add: cfg_ok_def)
qed

text \<open>A table that is full has no null pointer to end it, so that reading it goes on behind it.\<close>

theorem full_table_overruns:
  assumes "process_command_line_arguments ln mg_fopen sep pmax argv = Go os" "length os = MAX_OPTIONS"
    and "length argv \<noteq> 2" "1 < length argv \<Longrightarrow> take 2 (argv ! 1) \<noteq> ''-A''"
  shows "start_mongoose ln mg_fopen sep pmax passwd mg_start argv = Overrun"
  using assms by (auto simp: start_mongoose_def)

end
