(* ===== verification/StartUp.thy ===== *)
theory StartUp
  imports Options FrontEnd
begin

text \<open>What the program adds to the web server (\<open>tws_if_main.cpp\<close>): pages written in Markdown, the callback for
  the events of the server, and the main loop, on a system other than Windows.\<close>

section \<open>Markdown pages\<close>

text \<open>What is written to the connection. The library gives the text of a code and the dates; it writes the answer to
  a failure itself when the page is not part of another one.\<close>

datatype conn_out = Printed string | Http_error int | Written string

record md_env =
  mg_fopen :: "string \<Rightarrow> string option"
  sd_bufgrow :: "nat \<Rightarrow> nat option"          \<comment> \<open>the room after growing to a size\<close>
  sd_markdown :: "string \<Rightarrow> string option"   \<comment> \<open>what the text is rendered as\<close>
  response_code_text :: "int \<Rightarrow> string"
  gmt_time_string :: "int \<Rightarrow> string"
  connection_header :: string
  mg_write :: "string \<Rightarrow> int"
  os_error :: string

definition report_markdown_failure :: "md_env \<Rightarrow> bool \<Rightarrow> int \<Rightarrow> string \<Rightarrow> conn_out list \<times> int" where
  "report_markdown_failure env is_inline_production response_code text =
     (if is_inline_production then
        [Printed (''<h1 style='' @ [CHR 0x22] @ ''color: red;'' @ [CHR 0x22] @ ''>Error: '' @ show_int response_code @ '' - '' @
           response_code_text env response_code @ ''</h1>'' @ newline), Printed text]
      else [Http_error response_code], - 1)"

text \<open>The status of the file as the server found it.\<close>

record mgstat =
  st_size :: nat
  st_mtime :: nat
  is_directory :: bool

fun hex_digits :: "nat \<Rightarrow> string" where
  "hex_digits n = (if n < 16 then [''0123456789abcdef'' ! n] else hex_digits (n div 16) @ [''0123456789abcdef'' ! (n mod 16)])"

definition markdown_head :: "md_env \<Rightarrow> int \<Rightarrow> mgstat \<Rightarrow> nat \<Rightarrow> string" where
  "markdown_head env curtime st cl =
     ''HTTP/1.1 200 '' @ response_code_text env 200 @ crlf @
     ''Date: '' @ gmt_time_string env curtime @ crlf @
     ''Last-Modified: '' @ gmt_time_string env (int (st_mtime st)) @ crlf @
     ''Etag: '' @ [CHR 0x22] @ hex_digits (st_mtime st) @ ''.'' @ hex_digits (st_size st) @ [CHR 0x22] @ crlf @
     ''Content-Type: text/html'' @ crlf @
     ''Content-Length: '' @ show_int (int cl) @ crlf @
     ''Connection: '' @ connection_header env @ crlf @ crlf"

definition serve_a_markdown_page :: "md_env \<Rightarrow> string \<Rightarrow> string \<Rightarrow> string \<Rightarrow> int \<Rightarrow> mgstat \<Rightarrow> bool \<Rightarrow> conn_out list \<times> int" where
  "serve_a_markdown_page env phys_path uri request_method curtime st is_inline_production =
     (let failure = report_markdown_failure env is_inline_production in
      case mg_fopen env phys_path of
        None \<Rightarrow> failure 404 (''Unable to open input file: ['' @ uri @ ''] '' @ os_error env)
      | Some file_text \<Rightarrow>
        (case sd_bufgrow env (st_size st) of
           None \<Rightarrow> failure 500 (''Out of memory while loading Markdown input file: ['' @ uri @ '']'')
         | Some asize \<Rightarrow>
           (let ib = take asize file_text in
            if ib = [] then failure 500 (''Cannot read from input file: ['' @ uri @ ''] '' @ os_error env)
            else
              case sd_markdown env ib of
                None \<Rightarrow> failure 500 (''Out of memory while processing Markdown input file: ['' @ uri @ '']'')
              | Some ob \<Rightarrow>
                if \<not> is_inline_production then
                  (let head = Printed (markdown_head env curtime st (length ob)) in
                   if request_method \<noteq> ''HEAD'' then ([head, Written ob], mg_write env ob) else ([head], int (length ob)))
                else ([Written ob], mg_write env ob))))"

section \<open>The callback\<close>

text \<open>\<open>mg_stat\<close> gives the status of a file, \<open>is_markdown\<close> says whether the path matches
  \<open>**.md$|**.wiki$\<close>. A request has the path of its file, its uri and its method. The result is what has been
  written, and whether the server has nothing left to do with the event.\<close>

datatype web_event =
  Init0 string int int                 \<comment> \<open>document root, results of starting the threads\<close>
| New_request string string string     \<comment> \<open>path, uri, method\<close>
| Ssi_include string string string
| Other_event mg_event

fun event_of :: "web_event \<Rightarrow> mg_event" where
  "event_of (Init0 root a b) = MG_INIT0 a b"
| "event_of (New_request phys_path uri req_method) = MG_NEW_REQUEST req_method uri"
| "event_of (Ssi_include phys_path uri req_method) = MG_OTHER"
| "event_of (Other_event e) = e"

definition found_file :: "(string \<Rightarrow> mgstat option) \<Rightarrow> string \<Rightarrow> mgstat option" where
  "found_file mg_stat phys_path = (case mg_stat phys_path of Some st \<Rightarrow> if is_directory st then None else Some st | None \<Rightarrow> None)"

fun page_for :: "(string \<Rightarrow> mgstat option) \<Rightarrow> web_event \<Rightarrow> (mgstat \<times> bool \<times> string \<times> string \<times> string) option" where
  "page_for mg_stat (New_request phys_path uri req_method) =
     (case found_file mg_stat phys_path of Some st \<Rightarrow> Some (st, False, phys_path, uri, req_method) | None \<Rightarrow> None)"
| "page_for mg_stat (Ssi_include phys_path uri req_method) =
     (case found_file mg_stat phys_path of Some st \<Rightarrow> Some (st, True, phys_path, uri, req_method) | None \<Rightarrow> None)"
| "page_for mg_stat _ = None"

fun init_root :: "(string \<Rightarrow> mgstat option) \<Rightarrow> web_event \<Rightarrow> unit startup" where
  "init_root mg_stat (Init0 root a b) = verify_document_root (\<lambda>p. case mg_stat p of Some st \<Rightarrow> Some (is_directory st) | None \<Rightarrow> None) root"
| "init_root mg_stat _ = Go ()"

definition event_callback :: "md_env \<Rightarrow> (string \<Rightarrow> mgstat option) \<Rightarrow> (string \<Rightarrow> bool) \<Rightarrow> int \<Rightarrow> web_event \<Rightarrow>
    (conn_out list \<times> bool) startup" where
  "event_callback env mg_stat is_markdown curtime e =
     sbind (init_root mg_stat e) (\<lambda>_.
       case page_for mg_stat e of
         Some (st, is_inline, phys_path, uri, req_method) \<Rightarrow>
           if is_markdown phys_path then Go (fst (serve_a_markdown_page env phys_path uri req_method curtime st is_inline), True)
           else Go ([], False)
       | None \<Rightarrow> Go ([], event_processed (event_of e)))"

section \<open>The main loop\<close>

text \<open>What the loop sees of the exit flag, a signal handler's number, and of the stop flag; the number of its pauses.\<close>

fun main_loop :: "(int \<times> bool) list \<Rightarrow> nat option" where
  "main_loop [] = None"
| "main_loop ((exit_flag, stop_flag) # seen) =
     (if exit_flag = 0 \<and> \<not> stop_flag then map_option Suc (main_loop seen) else Some 0)"

section \<open>Lemmas\<close>

lemma main_loop_least: "main_loop seen = Some n \<longleftrightarrow> n < length seen \<and> (\<forall>i < n. seen ! i = (0, False)) \<and> seen ! n \<noteq> (0, False)"
proof (induction seen arbitrary: n)
  case (Cons p seen)
  obtain e s where p: "p = (e, s)"
    by (cases p)
  show ?case
    by (cases n) (auto simp: p Cons.IH less_Suc_eq_0_disj)
qed simp

text \<open>A file that exists is what is served: the requests of the program's own below its path are never looked at.\<close>

theorem file_hides_the_request:
  assumes "mg_stat phys_path = Some st" "\<not> is_directory st" "\<not> is_markdown phys_path"
  shows "event_callback env mg_stat is_markdown curtime (New_request phys_path uri req_method) = Go ([], False)"
  using assms by (simp add: event_callback_def found_file_def)

text \<open>Otherwise the event goes on to the program's own handler.\<close>

theorem request_without_file_is_routed:
  assumes "found_file mg_stat phys_path = None"
  shows "event_callback env mg_stat is_markdown curtime (New_request phys_path uri req_method) =
    Go ([], route_of req_method uri \<noteq> Not_ours)"
  using assms by (simp add: event_callback_def)

end
