(* ===== verification/RequestData.thy ===== *)
theory RequestData
  imports Requests ApiOrders IbDate
begin

text \<open>The data of the request classes of \<open>tws_request.h\<close> and the \<open>tx\<close> methods of
  \<open>tws_request.cpp\<close>: what every request holds, and the call of the TWS API that transmits it. The life of a
  request as a message, its state, its number and the texts of its arguments, is in the theories from \<open>Requests\<close>
  on; here the arguments have their types. A class without members of its own is its base class.\<close>

section \<open>The members of the classes\<close>

text \<open>The constructor of \<open>ib_ticker_list\<close> leaves \<open>t_mdoff\<close> as it is.\<close>

record ib_ticker_list =
  t_mdoff :: bool
  t_list :: "int list"

record tws_request_w_ticker_message =
  m_ticker_id :: int

record tws_request_w_order_message =
  m_order_id :: int

record ib_msg_req_scanner_subscription = tws_request_w_ticker_message +
  ss_subscription :: ib_scanner_subscription

record ib_msg_req_mkt_data = tws_request_w_ticker_message +
  md_contract :: ib_contract
  md_generic_tick_list :: ib_ticker_list
  md_snapshot :: int

record ib_msg_req_historical_data = tws_request_w_ticker_message +
  hd_contract :: ib_contract
  hd_end_date_time :: int
  hd_duration :: string
  hd_bar_size_setting :: string
  hd_what_to_show :: string
  hd_use_rth :: int
  hd_format_date :: int

record ib_msg_exercise_options = tws_request_w_ticker_message +
  eo_contract :: ib_contract
  eo_exercise_action :: int
  eo_exercise_quantity :: int
  eo_account :: string
  eo_exc_override :: int

record ib_msg_place_order = tws_request_w_order_message +
  po_contract :: ib_contract
  po_order :: ib_order

record ib_msg_req_account_updates =
  au_subscribe :: int
  au_acct_code :: string

record ib_msg_req_executions = tws_request_w_ticker_message +
  ex_filter :: ib_exec_filter

record ib_msg_req_ids =
  id_num_ids :: int

record ib_msg_req_contract_details = tws_request_w_ticker_message +
  cd_contract :: ib_contract

record ib_msg_req_mkt_depth = tws_request_w_ticker_message +
  dp_contract :: ib_contract
  dp_num_rows :: int

record ib_msg_req_news_bulletins =
  nb_all_msgs :: int

record ib_msg_set_server_log_level =
  sl_level :: int

record ib_msg_req_auto_open_orders =
  ao_auto_bind :: int

record ib_msg_request_fa =
  fa_fa_data_type :: int

record ib_msg_replace_fa =
  rf_fa_data_type :: int
  rf_cxml :: string

record ib_msg_req_fundamental_data = tws_request_w_ticker_message +
  fd_contract :: ib_contract
  fd_report_type :: string

record ib_msg_calculate_implied_volatility = tws_request_w_ticker_message +
  iv_contract :: ib_contract
  iv_option_price :: double
  iv_under_price :: double

record ib_msg_calculate_option_price = tws_request_w_ticker_message +
  op_contract :: ib_contract
  op_volatility :: double
  op_under_price :: double

record ib_msg_req_market_data_type =
  mt_market_data_type :: int

record ib_msg_request_realtime_bars = tws_request_w_ticker_message +
  rb_contract :: ib_contract
  rb_bar_size :: int
  rb_what_to_show :: string
  rb_use_rth :: int

section \<open>The constructors\<close>

text \<open>The number \<open>i\<close> is the one given, or the next of the identifier source when that is 0: that choice is part of
  \<open>new_request\<close> of theory \<open>TwsInstance\<close>. Texts are null terminated, and a null pointer gives the empty text.\<close>

definition new_req_scanner_subscription :: "int \<Rightarrow> ib_scanner_subscription \<Rightarrow> ib_msg_req_scanner_subscription"
    where
  "new_req_scanner_subscription i subscription = \<lparr>m_ticker_id = i, ss_subscription = subscription\<rparr>"

definition new_req_mkt_data :: "int \<Rightarrow> ib_contract \<Rightarrow> ib_ticker_list \<Rightarrow> int \<Rightarrow> ib_msg_req_mkt_data" where
  "new_req_mkt_data i contract generic_tick_list snapshot = \<lparr>m_ticker_id = i, md_contract = contract,
     md_generic_tick_list = generic_tick_list, md_snapshot = snapshot\<rparr>"

definition new_req_historical_data :: "int \<Rightarrow> ib_contract \<Rightarrow> int \<Rightarrow> string option \<Rightarrow> string option \<Rightarrow> string option \<Rightarrow>
    int \<Rightarrow> int \<Rightarrow> ib_msg_req_historical_data" where
  "new_req_historical_data i contract end_date_time duration bar_size_setting what_to_show use_rth format_date =
     \<lparr>m_ticker_id = i, hd_contract = contract, hd_end_date_time = end_date_time, hd_duration = ib_string
     duration, hd_bar_size_setting = ib_string bar_size_setting, hd_what_to_show = ib_string what_to_show,
     hd_use_rth = use_rth, hd_format_date = format_date\<rparr>"

definition new_exercise_options :: "int \<Rightarrow> ib_contract \<Rightarrow> int \<Rightarrow> int \<Rightarrow> string option \<Rightarrow> int \<Rightarrow>
    ib_msg_exercise_options" where
  "new_exercise_options i contract exercise_action exercise_quantity account exc_override = \<lparr>m_ticker_id = i,
     eo_contract = contract, eo_exercise_action = exercise_action, eo_exercise_quantity = exercise_quantity,
     eo_account = ib_string account, eo_exc_override = exc_override\<rparr>"

definition new_place_order :: "int \<Rightarrow> ib_contract \<Rightarrow> ib_order \<Rightarrow> ib_msg_place_order" where
  "new_place_order i contract order = \<lparr>m_order_id = i, po_contract = contract, po_order = order\<rparr>"

definition new_req_account_updates :: "int \<Rightarrow> string option \<Rightarrow> ib_msg_req_account_updates" where
  "new_req_account_updates subscribe acct_code = \<lparr>au_subscribe = subscribe, au_acct_code = ib_string acct_code\<rparr>"

definition new_req_executions :: "int \<Rightarrow> ib_exec_filter \<Rightarrow> ib_msg_req_executions" where
  "new_req_executions i flt = \<lparr>m_ticker_id = i, ex_filter = flt\<rparr>"

definition new_req_ids :: "int \<Rightarrow> ib_msg_req_ids" where
  "new_req_ids num_ids = \<lparr>id_num_ids = num_ids\<rparr>"

definition new_req_contract_details :: "int \<Rightarrow> ib_contract \<Rightarrow> ib_msg_req_contract_details" where
  "new_req_contract_details i contract = \<lparr>m_ticker_id = i, cd_contract = contract\<rparr>"

definition new_req_mkt_depth :: "int \<Rightarrow> ib_contract \<Rightarrow> int \<Rightarrow> ib_msg_req_mkt_depth" where
  "new_req_mkt_depth i contract num_rows = \<lparr>m_ticker_id = i, dp_contract = contract, dp_num_rows = num_rows\<rparr>"

definition new_req_news_bulletins :: "int \<Rightarrow> ib_msg_req_news_bulletins" where
  "new_req_news_bulletins all_msgs = \<lparr>nb_all_msgs = all_msgs\<rparr>"

definition new_set_server_log_level :: "int \<Rightarrow> ib_msg_set_server_log_level" where
  "new_set_server_log_level level = \<lparr>sl_level = level\<rparr>"

definition new_req_auto_open_orders :: "int \<Rightarrow> ib_msg_req_auto_open_orders" where
  "new_req_auto_open_orders auto_bind = \<lparr>ao_auto_bind = auto_bind\<rparr>"

definition new_request_fa :: "int \<Rightarrow> ib_msg_request_fa" where
  "new_request_fa fa_data_type = \<lparr>fa_fa_data_type = fa_data_type\<rparr>"

definition new_replace_fa :: "int \<Rightarrow> string option \<Rightarrow> ib_msg_replace_fa" where
  "new_replace_fa fa_data_type cxml = \<lparr>rf_fa_data_type = fa_data_type, rf_cxml = ib_string cxml\<rparr>"

definition new_req_fundamental_data :: "int \<Rightarrow> ib_contract \<Rightarrow> string option \<Rightarrow> ib_msg_req_fundamental_data" where
  "new_req_fundamental_data i contract report_type = \<lparr>m_ticker_id = i, fd_contract = contract, fd_report_type =
     ib_string report_type\<rparr>"

definition new_calculate_implied_volatility :: "int \<Rightarrow> ib_contract \<Rightarrow> double \<Rightarrow> double \<Rightarrow>
    ib_msg_calculate_implied_volatility" where
  "new_calculate_implied_volatility i contract option_price under_price = \<lparr>m_ticker_id = i, iv_contract =
     contract, iv_option_price = option_price, iv_under_price = under_price\<rparr>"

definition new_calculate_option_price :: "int \<Rightarrow> ib_contract \<Rightarrow> double \<Rightarrow> double \<Rightarrow> ib_msg_calculate_option_price"
    where
  "new_calculate_option_price i contract volatility under_price = \<lparr>m_ticker_id = i, op_contract = contract,
     op_volatility = volatility, op_under_price = under_price\<rparr>"

definition new_req_market_data_type :: "int \<Rightarrow> ib_msg_req_market_data_type" where
  "new_req_market_data_type market_data_type = \<lparr>mt_market_data_type = market_data_type\<rparr>"

definition new_request_realtime_bars :: "int \<Rightarrow> ib_contract \<Rightarrow> int \<Rightarrow> string option \<Rightarrow> int \<Rightarrow>
    ib_msg_request_realtime_bars" where
  "new_request_realtime_bars i contract bar_size what_to_show use_rth = \<lparr>m_ticker_id = i, rb_contract =
     contract, rb_bar_size = bar_size, rb_what_to_show = ib_string what_to_show, rb_use_rth = use_rth\<rparr>"

section \<open>Calls of the API\<close>

text \<open>A call is the function of the API, named by the class that calls it, with its arguments after the instance
  handle. The structs are pointers.\<close>

datatype api_arg =
  A_int (the_int: int)
| A_text (the_text: string)
| A_double (the_double: double)
| A_contract (the_contract: "tr_contract option")
| A_order (the_order: "tr_order option")
| A_subscription (the_subscription: "tr_scanner_subscription option")
| A_filter (the_filter: "tr_exec_filter option")

type_synonym api_call = "req_kind \<times> api_arg list"

record tx_api =
  tx_contracts :: contract_api
  tx_orders :: order_api
  tx_subscription :: tr_scanner_subscription
  tx_filter :: tr_exec_filter

definition scan_cleanup :: "ib_scanner_subscription \<Rightarrow> ib_scanner_subscription" where
  "scan_cleanup c = c\<lparr>scan_tws_data := None\<rparr>"

definition filter_cleanup :: "ib_exec_filter \<Rightarrow> ib_exec_filter" where
  "filter_cleanup c = c\<lparr>f_tws_data := None\<rparr>"

text \<open>\<open>tx\<close> of every class: prepare the structs, call the API, clean up.\<close>

definition transmit_req_scanner_parameters :: api_call where
  "transmit_req_scanner_parameters = (Req_scanner_parameters, [])"

definition transmit_req_scanner_subscription :: "tx_api \<Rightarrow> ib_msg_req_scanner_subscription \<Rightarrow> (api_call \<times>
    ib_msg_req_scanner_subscription) res" where
  "transmit_req_scanner_subscription a q =
     rbind (scanner_subscription_prep (tws_strcpy (tx_contracts a)) (tx_subscription a) (ss_subscription q)) (\<lambda>subscription.
     Ok ((Req_scanner_subscription, [A_int (m_ticker_id q), A_subscription (scan_tws_data subscription)]),
       q\<lparr>ss_subscription := scan_cleanup subscription\<rparr>))"

definition transmit_cancel_scanner_subscription :: "tx_api \<Rightarrow> tws_request_w_ticker_message \<Rightarrow> (api_call \<times>
    tws_request_w_ticker_message) res" where
  "transmit_cancel_scanner_subscription a q =
     Ok ((Cancel_scanner_subscription, [A_int (m_ticker_id q)]), q)"

definition transmit_req_mkt_data :: "tx_api \<Rightarrow> ib_msg_req_mkt_data \<Rightarrow> (api_call \<times> ib_msg_req_mkt_data) res" where
  "transmit_req_mkt_data a q =
     rbind (contract_prep (tx_contracts a) (md_contract q)) (\<lambda>contract.
     Ok ((Req_mkt_data, [A_int (m_ticker_id q), A_contract (contract_to_tws contract), A_text (ticker_list_text
          (t_list (md_generic_tick_list q)) (t_mdoff (md_generic_tick_list q))), A_int (md_snapshot q)]),
       q\<lparr>md_contract := contract_cleanup contract\<rparr>))"

definition transmit_req_historical_data :: "tx_api \<Rightarrow> ib_msg_req_historical_data \<Rightarrow> (api_call \<times>
    ib_msg_req_historical_data) res" where
  "transmit_req_historical_data a q =
     rbind (contract_prep (tx_contracts a) (hd_contract q)) (\<lambda>contract.
     Ok ((Req_historical_data, [A_int (m_ticker_id q), A_contract (contract_to_tws contract), A_text (date_text
          (hd_end_date_time q)), A_text (hd_duration q), A_text (hd_bar_size_setting q), A_text (hd_what_to_show
          q), A_int (hd_use_rth q), A_int (hd_format_date q)]),
       q\<lparr>hd_contract := contract_cleanup contract\<rparr>))"

definition transmit_cancel_historical_data :: "tx_api \<Rightarrow> tws_request_w_ticker_message \<Rightarrow> (api_call \<times>
    tws_request_w_ticker_message) res" where
  "transmit_cancel_historical_data a q =
     Ok ((Cancel_historical_data, [A_int (m_ticker_id q)]), q)"

definition transmit_cancel_mkt_data :: "tx_api \<Rightarrow> tws_request_w_ticker_message \<Rightarrow> (api_call \<times>
    tws_request_w_ticker_message) res" where
  "transmit_cancel_mkt_data a q =
     Ok ((Cancel_mkt_data, [A_int (m_ticker_id q)]), q)"

definition transmit_exercise_options :: "tx_api \<Rightarrow> ib_msg_exercise_options \<Rightarrow> (api_call \<times> ib_msg_exercise_options)
    res" where
  "transmit_exercise_options a q =
     rbind (contract_prep (tx_contracts a) (eo_contract q)) (\<lambda>contract.
     Ok ((Exercise_options, [A_int (m_ticker_id q), A_contract (contract_to_tws contract), A_int
          (eo_exercise_action q), A_int (eo_exercise_quantity q), A_text (eo_account q), A_int (eo_exc_override
          q)]),
       q\<lparr>eo_contract := contract_cleanup contract\<rparr>))"

definition transmit_place_order :: "tx_api \<Rightarrow> ib_msg_place_order \<Rightarrow> (api_call \<times> ib_msg_place_order) res" where
  "transmit_place_order a q =
     rbind (contract_prep (tx_contracts a) (po_contract q)) (\<lambda>contract.
     rbind (order_prep (tx_orders a) (po_order q)) (\<lambda>order.
     Ok ((Place_order, [A_int (m_order_id q), A_contract (contract_to_tws contract), A_order (order_to_api
          order)]),
       q\<lparr>po_contract := contract_cleanup contract, po_order := order_cleanup order\<rparr>)))"

definition transmit_cancel_order :: "tx_api \<Rightarrow> tws_request_w_order_message \<Rightarrow> (api_call \<times>
    tws_request_w_order_message) res" where
  "transmit_cancel_order a q =
     Ok ((Cancel_order, [A_int (m_order_id q)]), q)"

definition transmit_req_open_orders :: api_call where
  "transmit_req_open_orders = (Req_open_orders, [])"

definition transmit_req_account_updates :: "tx_api \<Rightarrow> ib_msg_req_account_updates \<Rightarrow> (api_call \<times>
    ib_msg_req_account_updates) res" where
  "transmit_req_account_updates a q =
     Ok ((Req_account_updates, [A_int (au_subscribe q), A_text (au_acct_code q)]), q)"

definition transmit_req_executions :: "tx_api \<Rightarrow> ib_msg_req_executions \<Rightarrow> (api_call \<times> ib_msg_req_executions) res"
    where
  "transmit_req_executions a q =
     rbind (exec_filter_prep (tws_strcpy (tx_contracts a)) (tx_filter a) (ex_filter q)) (\<lambda>flt.
     Ok ((Req_executions, [A_int (m_ticker_id q), A_filter (f_tws_data flt)]),
       q\<lparr>ex_filter := filter_cleanup flt\<rparr>))"

definition transmit_req_ids :: "tx_api \<Rightarrow> ib_msg_req_ids \<Rightarrow> (api_call \<times> ib_msg_req_ids) res" where
  "transmit_req_ids a q =
     Ok ((Req_ids, [A_int (id_num_ids q)]), q)"

definition transmit_req_contract_details :: "tx_api \<Rightarrow> ib_msg_req_contract_details \<Rightarrow> (api_call \<times>
    ib_msg_req_contract_details) res" where
  "transmit_req_contract_details a q =
     rbind (contract_prep (tx_contracts a) (cd_contract q)) (\<lambda>contract.
     Ok ((Req_contract_details, [A_int (m_ticker_id q), A_contract (contract_to_tws contract)]),
       q\<lparr>cd_contract := contract_cleanup contract\<rparr>))"

definition transmit_req_mkt_depth :: "tx_api \<Rightarrow> ib_msg_req_mkt_depth \<Rightarrow> (api_call \<times> ib_msg_req_mkt_depth) res"
    where
  "transmit_req_mkt_depth a q =
     rbind (contract_prep (tx_contracts a) (dp_contract q)) (\<lambda>contract.
     Ok ((Req_mkt_depth, [A_int (m_ticker_id q), A_contract (contract_to_tws contract), A_int (dp_num_rows q)]),
       q\<lparr>dp_contract := contract_cleanup contract\<rparr>))"

definition transmit_cancel_mkt_depth :: "tx_api \<Rightarrow> tws_request_w_ticker_message \<Rightarrow> (api_call \<times>
    tws_request_w_ticker_message) res" where
  "transmit_cancel_mkt_depth a q =
     Ok ((Cancel_mkt_depth, [A_int (m_ticker_id q)]), q)"

definition transmit_req_news_bulletins :: "tx_api \<Rightarrow> ib_msg_req_news_bulletins \<Rightarrow> (api_call \<times>
    ib_msg_req_news_bulletins) res" where
  "transmit_req_news_bulletins a q =
     Ok ((Req_news_bulletins, [A_int (nb_all_msgs q)]), q)"

definition transmit_cancel_news_bulletins :: api_call where
  "transmit_cancel_news_bulletins = (Cancel_news_bulletins, [])"

definition transmit_set_server_log_level :: "tx_api \<Rightarrow> ib_msg_set_server_log_level \<Rightarrow> (api_call \<times>
    ib_msg_set_server_log_level) res" where
  "transmit_set_server_log_level a q =
     Ok ((Set_server_log_level, [A_int (sl_level q)]), q)"

definition transmit_req_auto_open_orders :: "tx_api \<Rightarrow> ib_msg_req_auto_open_orders \<Rightarrow> (api_call \<times>
    ib_msg_req_auto_open_orders) res" where
  "transmit_req_auto_open_orders a q =
     Ok ((Req_auto_open_orders, [A_int (ao_auto_bind q)]), q)"

definition transmit_req_all_open_orders :: api_call where
  "transmit_req_all_open_orders = (Req_all_open_orders, [])"

definition transmit_req_managed_accts :: api_call where
  "transmit_req_managed_accts = (Req_managed_accts, [])"

definition transmit_request_fa :: "tx_api \<Rightarrow> ib_msg_request_fa \<Rightarrow> (api_call \<times> ib_msg_request_fa) res" where
  "transmit_request_fa a q =
     Ok ((Request_fa, [A_int (fa_fa_data_type q)]), q)"

definition transmit_replace_fa :: "tx_api \<Rightarrow> ib_msg_replace_fa \<Rightarrow> (api_call \<times> ib_msg_replace_fa) res" where
  "transmit_replace_fa a q =
     Ok ((Replace_fa, [A_int (rf_fa_data_type q), A_text (rf_cxml q)]), q)"

definition transmit_req_current_time :: api_call where
  "transmit_req_current_time = (Req_current_time, [])"

definition transmit_req_fundamental_data :: "tx_api \<Rightarrow> ib_msg_req_fundamental_data \<Rightarrow> (api_call \<times>
    ib_msg_req_fundamental_data) res" where
  "transmit_req_fundamental_data a q =
     rbind (contract_prep (tx_contracts a) (fd_contract q)) (\<lambda>contract.
     Ok ((Req_fundamental_data, [A_int (m_ticker_id q), A_contract (contract_to_tws contract), A_text
          (fd_report_type q)]),
       q\<lparr>fd_contract := contract_cleanup contract\<rparr>))"

definition transmit_cancel_fundamental_data :: "tx_api \<Rightarrow> tws_request_w_ticker_message \<Rightarrow> (api_call \<times>
    tws_request_w_ticker_message) res" where
  "transmit_cancel_fundamental_data a q =
     Ok ((Cancel_fundamental_data, [A_int (m_ticker_id q)]), q)"

definition transmit_calculate_implied_volatility :: "tx_api \<Rightarrow> ib_msg_calculate_implied_volatility \<Rightarrow> (api_call \<times>
    ib_msg_calculate_implied_volatility) res" where
  "transmit_calculate_implied_volatility a q =
     rbind (contract_prep (tx_contracts a) (iv_contract q)) (\<lambda>contract.
     Ok ((Calculate_implied_volatility, [A_int (m_ticker_id q), A_contract (contract_to_tws contract), A_double
          (iv_option_price q), A_double (iv_under_price q)]),
       q\<lparr>iv_contract := contract_cleanup contract\<rparr>))"

definition transmit_cancel_calculate_implied_volatility :: "tx_api \<Rightarrow> tws_request_w_ticker_message \<Rightarrow> (api_call \<times>
    tws_request_w_ticker_message) res" where
  "transmit_cancel_calculate_implied_volatility a q =
     Ok ((Cancel_calculate_implied_volatility, [A_int (m_ticker_id q)]), q)"

definition transmit_calculate_option_price :: "tx_api \<Rightarrow> ib_msg_calculate_option_price \<Rightarrow> (api_call \<times>
    ib_msg_calculate_option_price) res" where
  "transmit_calculate_option_price a q =
     rbind (contract_prep (tx_contracts a) (op_contract q)) (\<lambda>contract.
     Ok ((Calculate_option_price, [A_int (m_ticker_id q), A_contract (contract_to_tws contract), A_double
          (op_volatility q), A_double (op_under_price q)]),
       q\<lparr>op_contract := contract_cleanup contract\<rparr>))"

definition transmit_cancel_calculate_option_price :: "tx_api \<Rightarrow> tws_request_w_ticker_message \<Rightarrow> (api_call \<times>
    tws_request_w_ticker_message) res" where
  "transmit_cancel_calculate_option_price a q =
     Ok ((Cancel_calculate_option_price, [A_int (m_ticker_id q)]), q)"

definition transmit_req_global_cancel :: api_call where
  "transmit_req_global_cancel = (Req_global_cancel, [])"

definition transmit_req_market_data_type :: "tx_api \<Rightarrow> ib_msg_req_market_data_type \<Rightarrow> (api_call \<times>
    ib_msg_req_market_data_type) res" where
  "transmit_req_market_data_type a q =
     Ok ((Req_market_data_type, [A_int (mt_market_data_type q)]), q)"

definition transmit_request_realtime_bars :: "tx_api \<Rightarrow> ib_msg_request_realtime_bars \<Rightarrow> (api_call \<times>
    ib_msg_request_realtime_bars) res" where
  "transmit_request_realtime_bars a q =
     rbind (contract_prep (tx_contracts a) (rb_contract q)) (\<lambda>contract.
     Ok ((Request_realtime_bars, [A_int (m_ticker_id q), A_contract (contract_to_tws contract), A_int
          (rb_bar_size q), A_text (rb_what_to_show q), A_int (rb_use_rth q)]),
       q\<lparr>rb_contract := contract_cleanup contract\<rparr>))"

definition transmit_cancel_realtime_bars :: "tx_api \<Rightarrow> tws_request_w_ticker_message \<Rightarrow> (api_call \<times>
    tws_request_w_ticker_message) res" where
  "transmit_cancel_realtime_bars a q =
     Ok ((Cancel_realtime_bars, [A_int (m_ticker_id q)]), q)"

section \<open>A request of any class\<close>

datatype (plugins only:) ib_request =
  Msg_req_scanner_parameters
| Msg_req_scanner_subscription ib_msg_req_scanner_subscription
| Msg_cancel_scanner_subscription tws_request_w_ticker_message
| Msg_req_mkt_data ib_msg_req_mkt_data
| Msg_req_historical_data ib_msg_req_historical_data
| Msg_cancel_historical_data tws_request_w_ticker_message
| Msg_cancel_mkt_data tws_request_w_ticker_message
| Msg_exercise_options ib_msg_exercise_options
| Msg_place_order ib_msg_place_order
| Msg_cancel_order tws_request_w_order_message
| Msg_req_open_orders
| Msg_req_account_updates ib_msg_req_account_updates
| Msg_req_executions ib_msg_req_executions
| Msg_req_ids ib_msg_req_ids
| Msg_req_contract_details ib_msg_req_contract_details
| Msg_req_mkt_depth ib_msg_req_mkt_depth
| Msg_cancel_mkt_depth tws_request_w_ticker_message
| Msg_req_news_bulletins ib_msg_req_news_bulletins
| Msg_cancel_news_bulletins
| Msg_set_server_log_level ib_msg_set_server_log_level
| Msg_req_auto_open_orders ib_msg_req_auto_open_orders
| Msg_req_all_open_orders
| Msg_req_managed_accts
| Msg_request_fa ib_msg_request_fa
| Msg_replace_fa ib_msg_replace_fa
| Msg_req_current_time
| Msg_req_fundamental_data ib_msg_req_fundamental_data
| Msg_cancel_fundamental_data tws_request_w_ticker_message
| Msg_calculate_implied_volatility ib_msg_calculate_implied_volatility
| Msg_cancel_calculate_implied_volatility tws_request_w_ticker_message
| Msg_calculate_option_price ib_msg_calculate_option_price
| Msg_cancel_calculate_option_price tws_request_w_ticker_message
| Msg_req_global_cancel
| Msg_req_market_data_type ib_msg_req_market_data_type
| Msg_request_realtime_bars ib_msg_request_realtime_bars
| Msg_cancel_realtime_bars tws_request_w_ticker_message

fun request_kind :: "ib_request \<Rightarrow> req_kind" where
  "request_kind Msg_req_scanner_parameters = Req_scanner_parameters"
| "request_kind (Msg_req_scanner_subscription q) = Req_scanner_subscription"
| "request_kind (Msg_cancel_scanner_subscription q) = Cancel_scanner_subscription"
| "request_kind (Msg_req_mkt_data q) = Req_mkt_data"
| "request_kind (Msg_req_historical_data q) = Req_historical_data"
| "request_kind (Msg_cancel_historical_data q) = Cancel_historical_data"
| "request_kind (Msg_cancel_mkt_data q) = Cancel_mkt_data"
| "request_kind (Msg_exercise_options q) = Exercise_options"
| "request_kind (Msg_place_order q) = Place_order"
| "request_kind (Msg_cancel_order q) = Cancel_order"
| "request_kind Msg_req_open_orders = Req_open_orders"
| "request_kind (Msg_req_account_updates q) = Req_account_updates"
| "request_kind (Msg_req_executions q) = Req_executions"
| "request_kind (Msg_req_ids q) = Req_ids"
| "request_kind (Msg_req_contract_details q) = Req_contract_details"
| "request_kind (Msg_req_mkt_depth q) = Req_mkt_depth"
| "request_kind (Msg_cancel_mkt_depth q) = Cancel_mkt_depth"
| "request_kind (Msg_req_news_bulletins q) = Req_news_bulletins"
| "request_kind Msg_cancel_news_bulletins = Cancel_news_bulletins"
| "request_kind (Msg_set_server_log_level q) = Set_server_log_level"
| "request_kind (Msg_req_auto_open_orders q) = Req_auto_open_orders"
| "request_kind Msg_req_all_open_orders = Req_all_open_orders"
| "request_kind Msg_req_managed_accts = Req_managed_accts"
| "request_kind (Msg_request_fa q) = Request_fa"
| "request_kind (Msg_replace_fa q) = Replace_fa"
| "request_kind Msg_req_current_time = Req_current_time"
| "request_kind (Msg_req_fundamental_data q) = Req_fundamental_data"
| "request_kind (Msg_cancel_fundamental_data q) = Cancel_fundamental_data"
| "request_kind (Msg_calculate_implied_volatility q) = Calculate_implied_volatility"
| "request_kind (Msg_cancel_calculate_implied_volatility q) = Cancel_calculate_implied_volatility"
| "request_kind (Msg_calculate_option_price q) = Calculate_option_price"
| "request_kind (Msg_cancel_calculate_option_price q) = Cancel_calculate_option_price"
| "request_kind Msg_req_global_cancel = Req_global_cancel"
| "request_kind (Msg_req_market_data_type q) = Req_market_data_type"
| "request_kind (Msg_request_realtime_bars q) = Request_realtime_bars"
| "request_kind (Msg_cancel_realtime_bars q) = Cancel_realtime_bars"

fun request_number :: "ib_request \<Rightarrow> int" where
  "request_number (Msg_req_scanner_subscription q) = m_ticker_id q"
| "request_number (Msg_cancel_scanner_subscription q) = m_ticker_id q"
| "request_number (Msg_req_mkt_data q) = m_ticker_id q"
| "request_number (Msg_req_historical_data q) = m_ticker_id q"
| "request_number (Msg_cancel_historical_data q) = m_ticker_id q"
| "request_number (Msg_cancel_mkt_data q) = m_ticker_id q"
| "request_number (Msg_exercise_options q) = m_ticker_id q"
| "request_number (Msg_place_order q) = m_order_id q"
| "request_number (Msg_cancel_order q) = m_order_id q"
| "request_number (Msg_req_executions q) = m_ticker_id q"
| "request_number (Msg_req_contract_details q) = m_ticker_id q"
| "request_number (Msg_req_mkt_depth q) = m_ticker_id q"
| "request_number (Msg_cancel_mkt_depth q) = m_ticker_id q"
| "request_number (Msg_req_fundamental_data q) = m_ticker_id q"
| "request_number (Msg_cancel_fundamental_data q) = m_ticker_id q"
| "request_number (Msg_calculate_implied_volatility q) = m_ticker_id q"
| "request_number (Msg_cancel_calculate_implied_volatility q) = m_ticker_id q"
| "request_number (Msg_calculate_option_price q) = m_ticker_id q"
| "request_number (Msg_cancel_calculate_option_price q) = m_ticker_id q"
| "request_number (Msg_request_realtime_bars q) = m_ticker_id q"
| "request_number (Msg_cancel_realtime_bars q) = m_ticker_id q"
| "request_number _ = 0"

definition on_request :: "('q \<Rightarrow> ib_request) \<Rightarrow> (api_call \<times> 'q) res \<Rightarrow> (api_call \<times> ib_request) res" where
  "on_request con r = rbind r (\<lambda>(call, q). Ok (call, con q))"

fun transmit :: "tx_api \<Rightarrow> ib_request \<Rightarrow> (api_call \<times> ib_request) res" where
  "transmit a Msg_req_scanner_parameters = Ok (transmit_req_scanner_parameters, Msg_req_scanner_parameters)"
| "transmit a (Msg_req_scanner_subscription q) = on_request Msg_req_scanner_subscription (transmit_req_scanner_subscription a q)"
| "transmit a (Msg_cancel_scanner_subscription q) = on_request Msg_cancel_scanner_subscription (transmit_cancel_scanner_subscription a q)"
| "transmit a (Msg_req_mkt_data q) = on_request Msg_req_mkt_data (transmit_req_mkt_data a q)"
| "transmit a (Msg_req_historical_data q) = on_request Msg_req_historical_data (transmit_req_historical_data a q)"
| "transmit a (Msg_cancel_historical_data q) = on_request Msg_cancel_historical_data (transmit_cancel_historical_data a q)"
| "transmit a (Msg_cancel_mkt_data q) = on_request Msg_cancel_mkt_data (transmit_cancel_mkt_data a q)"
| "transmit a (Msg_exercise_options q) = on_request Msg_exercise_options (transmit_exercise_options a q)"
| "transmit a (Msg_place_order q) = on_request Msg_place_order (transmit_place_order a q)"
| "transmit a (Msg_cancel_order q) = on_request Msg_cancel_order (transmit_cancel_order a q)"
| "transmit a Msg_req_open_orders = Ok (transmit_req_open_orders, Msg_req_open_orders)"
| "transmit a (Msg_req_account_updates q) = on_request Msg_req_account_updates (transmit_req_account_updates a q)"
| "transmit a (Msg_req_executions q) = on_request Msg_req_executions (transmit_req_executions a q)"
| "transmit a (Msg_req_ids q) = on_request Msg_req_ids (transmit_req_ids a q)"
| "transmit a (Msg_req_contract_details q) = on_request Msg_req_contract_details (transmit_req_contract_details a q)"
| "transmit a (Msg_req_mkt_depth q) = on_request Msg_req_mkt_depth (transmit_req_mkt_depth a q)"
| "transmit a (Msg_cancel_mkt_depth q) = on_request Msg_cancel_mkt_depth (transmit_cancel_mkt_depth a q)"
| "transmit a (Msg_req_news_bulletins q) = on_request Msg_req_news_bulletins (transmit_req_news_bulletins a q)"
| "transmit a Msg_cancel_news_bulletins = Ok (transmit_cancel_news_bulletins, Msg_cancel_news_bulletins)"
| "transmit a (Msg_set_server_log_level q) = on_request Msg_set_server_log_level (transmit_set_server_log_level a q)"
| "transmit a (Msg_req_auto_open_orders q) = on_request Msg_req_auto_open_orders (transmit_req_auto_open_orders a q)"
| "transmit a Msg_req_all_open_orders = Ok (transmit_req_all_open_orders, Msg_req_all_open_orders)"
| "transmit a Msg_req_managed_accts = Ok (transmit_req_managed_accts, Msg_req_managed_accts)"
| "transmit a (Msg_request_fa q) = on_request Msg_request_fa (transmit_request_fa a q)"
| "transmit a (Msg_replace_fa q) = on_request Msg_replace_fa (transmit_replace_fa a q)"
| "transmit a Msg_req_current_time = Ok (transmit_req_current_time, Msg_req_current_time)"
| "transmit a (Msg_req_fundamental_data q) = on_request Msg_req_fundamental_data (transmit_req_fundamental_data a q)"
| "transmit a (Msg_cancel_fundamental_data q) = on_request Msg_cancel_fundamental_data (transmit_cancel_fundamental_data a q)"
| "transmit a (Msg_calculate_implied_volatility q) = on_request Msg_calculate_implied_volatility (transmit_calculate_implied_volatility a q)"
| "transmit a (Msg_cancel_calculate_implied_volatility q) = on_request Msg_cancel_calculate_implied_volatility (transmit_cancel_calculate_implied_volatility a q)"
| "transmit a (Msg_calculate_option_price q) = on_request Msg_calculate_option_price (transmit_calculate_option_price a q)"
| "transmit a (Msg_cancel_calculate_option_price q) = on_request Msg_cancel_calculate_option_price (transmit_cancel_calculate_option_price a q)"
| "transmit a Msg_req_global_cancel = Ok (transmit_req_global_cancel, Msg_req_global_cancel)"
| "transmit a (Msg_req_market_data_type q) = on_request Msg_req_market_data_type (transmit_req_market_data_type a q)"
| "transmit a (Msg_request_realtime_bars q) = on_request Msg_request_realtime_bars (transmit_request_realtime_bars a q)"
| "transmit a (Msg_cancel_realtime_bars q) = on_request Msg_cancel_realtime_bars (transmit_cancel_realtime_bars a q)"

end
