(* ===== verification/RequestSpec.thy ===== *)
theory RequestSpec
  imports RequestData
begin

text \<open>What TWS can tell of a request from the call that transmits it: everything. The call is read back argument by
  argument, the structs by the constructors of \<open>ApiStructs\<close> and \<open>ApiOrders\<close>.\<close>

section \<open>Reading a call\<close>

text \<open>Whether two names of an action are the same, and the reading of a ticker list and of a date, which the sources
  leave to the API and to the web server library.\<close>

record reader =
  p_same :: "string \<Rightarrow> string \<Rightarrow> bool"
  p_ticks :: "string \<Rightarrow> ib_ticker_list"
  p_date :: "string \<Rightarrow> int"

fun read_call :: "reader \<Rightarrow> api_call \<Rightarrow> ib_request res" where
  "read_call p (Req_scanner_parameters, as) = Ok Msg_req_scanner_parameters"
| "read_call p (Req_scanner_subscription, as) =
     Ok (Msg_req_scanner_subscription \<lparr>m_ticker_id = the_int (as ! 0), ss_subscription = scanner_subscription_of
        (the (the_subscription (as ! 1)))\<rparr>)"
| "read_call p (Cancel_scanner_subscription, as) =
     Ok (Msg_cancel_scanner_subscription \<lparr>m_ticker_id = the_int (as ! 0)\<rparr>)"
| "read_call p (Req_mkt_data, as) =
     rbind (contract_of (p_same p) (the (the_contract (as ! 1)))) (\<lambda>contract. Ok (Msg_req_mkt_data \<lparr>m_ticker_id
        = the_int (as ! 0), md_contract = contract, md_generic_tick_list = p_ticks p (the_text (as ! 2)),
        md_snapshot = the_int (as ! 3)\<rparr>))"
| "read_call p (Req_historical_data, as) =
     rbind (contract_of (p_same p) (the (the_contract (as ! 1)))) (\<lambda>contract. Ok (Msg_req_historical_data
        \<lparr>m_ticker_id = the_int (as ! 0), hd_contract = contract, hd_end_date_time = p_date p (the_text (as !
        2)), hd_duration = the_text (as ! 3), hd_bar_size_setting = the_text (as ! 4), hd_what_to_show =
        the_text (as ! 5), hd_use_rth = the_int (as ! 6), hd_format_date = the_int (as ! 7)\<rparr>))"
| "read_call p (Cancel_historical_data, as) =
     Ok (Msg_cancel_historical_data \<lparr>m_ticker_id = the_int (as ! 0)\<rparr>)"
| "read_call p (Cancel_mkt_data, as) =
     Ok (Msg_cancel_mkt_data \<lparr>m_ticker_id = the_int (as ! 0)\<rparr>)"
| "read_call p (Exercise_options, as) =
     rbind (contract_of (p_same p) (the (the_contract (as ! 1)))) (\<lambda>contract. Ok (Msg_exercise_options
        \<lparr>m_ticker_id = the_int (as ! 0), eo_contract = contract, eo_exercise_action = the_int (as ! 2),
        eo_exercise_quantity = the_int (as ! 3), eo_account = the_text (as ! 4), eo_exc_override = the_int (as !
        5)\<rparr>))"
| "read_call p (Place_order, as) =
     rbind (contract_of (p_same p) (the (the_contract (as ! 1)))) (\<lambda>contract. rbind (order_of (the (the_order
        (as ! 2)))) (\<lambda>order. Ok (Msg_place_order \<lparr>m_order_id = the_int (as ! 0), po_contract = contract,
        po_order = order\<rparr>)))"
| "read_call p (Cancel_order, as) =
     Ok (Msg_cancel_order \<lparr>m_order_id = the_int (as ! 0)\<rparr>)"
| "read_call p (Req_open_orders, as) = Ok Msg_req_open_orders"
| "read_call p (Req_account_updates, as) =
     Ok (Msg_req_account_updates \<lparr>au_subscribe = the_int (as ! 0), au_acct_code = the_text (as ! 1)\<rparr>)"
| "read_call p (Req_executions, as) =
     Ok (Msg_req_executions \<lparr>m_ticker_id = the_int (as ! 0), ex_filter = exec_filter_of (the (the_filter (as !
        1)))\<rparr>)"
| "read_call p (Req_ids, as) =
     Ok (Msg_req_ids \<lparr>id_num_ids = the_int (as ! 0)\<rparr>)"
| "read_call p (Req_contract_details, as) =
     rbind (contract_of (p_same p) (the (the_contract (as ! 1)))) (\<lambda>contract. Ok (Msg_req_contract_details
        \<lparr>m_ticker_id = the_int (as ! 0), cd_contract = contract\<rparr>))"
| "read_call p (Req_mkt_depth, as) =
     rbind (contract_of (p_same p) (the (the_contract (as ! 1)))) (\<lambda>contract. Ok (Msg_req_mkt_depth \<lparr>m_ticker_id
        = the_int (as ! 0), dp_contract = contract, dp_num_rows = the_int (as ! 2)\<rparr>))"
| "read_call p (Cancel_mkt_depth, as) =
     Ok (Msg_cancel_mkt_depth \<lparr>m_ticker_id = the_int (as ! 0)\<rparr>)"
| "read_call p (Req_news_bulletins, as) =
     Ok (Msg_req_news_bulletins \<lparr>nb_all_msgs = the_int (as ! 0)\<rparr>)"
| "read_call p (Cancel_news_bulletins, as) = Ok Msg_cancel_news_bulletins"
| "read_call p (Set_server_log_level, as) =
     Ok (Msg_set_server_log_level \<lparr>sl_level = the_int (as ! 0)\<rparr>)"
| "read_call p (Req_auto_open_orders, as) =
     Ok (Msg_req_auto_open_orders \<lparr>ao_auto_bind = the_int (as ! 0)\<rparr>)"
| "read_call p (Req_all_open_orders, as) = Ok Msg_req_all_open_orders"
| "read_call p (Req_managed_accts, as) = Ok Msg_req_managed_accts"
| "read_call p (Request_fa, as) =
     Ok (Msg_request_fa \<lparr>fa_fa_data_type = the_int (as ! 0)\<rparr>)"
| "read_call p (Replace_fa, as) =
     Ok (Msg_replace_fa \<lparr>rf_fa_data_type = the_int (as ! 0), rf_cxml = the_text (as ! 1)\<rparr>)"
| "read_call p (Req_current_time, as) = Ok Msg_req_current_time"
| "read_call p (Req_fundamental_data, as) =
     rbind (contract_of (p_same p) (the (the_contract (as ! 1)))) (\<lambda>contract. Ok (Msg_req_fundamental_data
        \<lparr>m_ticker_id = the_int (as ! 0), fd_contract = contract, fd_report_type = the_text (as ! 2)\<rparr>))"
| "read_call p (Cancel_fundamental_data, as) =
     Ok (Msg_cancel_fundamental_data \<lparr>m_ticker_id = the_int (as ! 0)\<rparr>)"
| "read_call p (Calculate_implied_volatility, as) =
     rbind (contract_of (p_same p) (the (the_contract (as ! 1)))) (\<lambda>contract. Ok
        (Msg_calculate_implied_volatility \<lparr>m_ticker_id = the_int (as ! 0), iv_contract = contract,
        iv_option_price = the_double (as ! 2), iv_under_price = the_double (as ! 3)\<rparr>))"
| "read_call p (Cancel_calculate_implied_volatility, as) =
     Ok (Msg_cancel_calculate_implied_volatility \<lparr>m_ticker_id = the_int (as ! 0)\<rparr>)"
| "read_call p (Calculate_option_price, as) =
     rbind (contract_of (p_same p) (the (the_contract (as ! 1)))) (\<lambda>contract. Ok (Msg_calculate_option_price
        \<lparr>m_ticker_id = the_int (as ! 0), op_contract = contract, op_volatility = the_double (as ! 2),
        op_under_price = the_double (as ! 3)\<rparr>))"
| "read_call p (Cancel_calculate_option_price, as) =
     Ok (Msg_cancel_calculate_option_price \<lparr>m_ticker_id = the_int (as ! 0)\<rparr>)"
| "read_call p (Req_global_cancel, as) = Ok Msg_req_global_cancel"
| "read_call p (Req_market_data_type, as) =
     Ok (Msg_req_market_data_type \<lparr>mt_market_data_type = the_int (as ! 0)\<rparr>)"
| "read_call p (Request_realtime_bars, as) =
     rbind (contract_of (p_same p) (the (the_contract (as ! 1)))) (\<lambda>contract. Ok (Msg_request_realtime_bars
        \<lparr>m_ticker_id = the_int (as ! 0), rb_contract = contract, rb_bar_size = the_int (as ! 2), rb_what_to_show
        = the_text (as ! 3), rb_use_rth = the_int (as ! 4)\<rparr>))"
| "read_call p (Cancel_realtime_bars, as) =
     Ok (Msg_cancel_realtime_bars \<lparr>m_ticker_id = the_int (as ! 0)\<rparr>)"
| "read_call p (Fetch_tws_info, as) = Bad Assert_failed"

section \<open>Requests that can be read back\<close>

text \<open>Values that are set are not zero or empty, as the constructors from the API's structs make them.\<close>

definition order_ok :: "ib_order \<Rightarrow> bool" where
  "order_ok c \<longleftrightarrow> (\<forall>f. case o_double c f of None \<Rightarrow> True | Some d \<Rightarrow> double_true d) \<and> (\<forall>f. o_text c f \<noteq> Some []) \<and>
     (\<forall>f. o_int c f \<noteq> Some 0) \<and> (\<forall>f. o_flag c f \<noteq> None) \<and> o_origin c \<noteq> Some 0 \<and> o_oca_type c \<noteq> Some 0 \<and>
     o_auction_strategy c \<noteq> Some 0 \<and> o_short_sale_slot c \<noteq> Some SSS_UNKNOWN"

definition subscription_ok :: "ib_scanner_subscription \<Rightarrow> bool" where
  "subscription_ok c \<longleftrightarrow> (\<forall>f. case scan_doubles_of c f of None \<Rightarrow> True | Some d \<Rightarrow> double_true d) \<and> (\<forall>f. scan_ints_of c f \<noteq> Some 0)"

definition filter_ok :: "ib_exec_filter \<Rightarrow> bool" where
  "filter_ok c \<longleftrightarrow> f_clientid c \<noteq> Some 0"

fun request_ok :: "reader \<Rightarrow> ib_request \<Rightarrow> bool" where
  "request_ok p (Msg_req_scanner_subscription q) \<longleftrightarrow> subscription_ok (ss_subscription q)"
| "request_ok p (Msg_req_mkt_data q) \<longleftrightarrow> contract_ok (md_contract q) \<and> p_ticks p (ticker_list_text (t_list (md_generic_tick_list q)) (t_mdoff (md_generic_tick_list q))) = md_generic_tick_list q"
| "request_ok p (Msg_req_historical_data q) \<longleftrightarrow> contract_ok (hd_contract q) \<and> p_date p (date_text (hd_end_date_time q)) = hd_end_date_time q"
| "request_ok p (Msg_exercise_options q) \<longleftrightarrow> contract_ok (eo_contract q)"
| "request_ok p (Msg_place_order q) \<longleftrightarrow> contract_ok (po_contract q) \<and> order_ok (po_order q)"
| "request_ok p (Msg_req_executions q) \<longleftrightarrow> filter_ok (ex_filter q)"
| "request_ok p (Msg_req_contract_details q) \<longleftrightarrow> contract_ok (cd_contract q)"
| "request_ok p (Msg_req_mkt_depth q) \<longleftrightarrow> contract_ok (dp_contract q)"
| "request_ok p (Msg_req_fundamental_data q) \<longleftrightarrow> contract_ok (fd_contract q)"
| "request_ok p (Msg_calculate_implied_volatility q) \<longleftrightarrow> contract_ok (iv_contract q)"
| "request_ok p (Msg_calculate_option_price q) \<longleftrightarrow> contract_ok (op_contract q)"
| "request_ok p (Msg_request_realtime_bars q) \<longleftrightarrow> contract_ok (rb_contract q)"
| "request_ok p _ \<longleftrightarrow> True"

text \<open>The contract that is read back has a delta neutral component in any case, and no request keeps the API's struct.\<close>

definition read_contract :: "ib_contract \<Rightarrow> ib_contract" where
  "read_contract c = c\<lparr>c_undercomp := Some (under_comp_of (c_undercomp c)), c_tws_data := None\<rparr>"

fun read_request :: "ib_request \<Rightarrow> ib_request" where
  "read_request (Msg_req_scanner_subscription q) = Msg_req_scanner_subscription (q\<lparr>ss_subscription := scan_cleanup (ss_subscription q)\<rparr>)"
| "read_request (Msg_req_mkt_data q) = Msg_req_mkt_data (q\<lparr>md_contract := read_contract (md_contract q)\<rparr>)"
| "read_request (Msg_req_historical_data q) = Msg_req_historical_data (q\<lparr>hd_contract := read_contract (hd_contract q)\<rparr>)"
| "read_request (Msg_exercise_options q) = Msg_exercise_options (q\<lparr>eo_contract := read_contract (eo_contract q)\<rparr>)"
| "read_request (Msg_place_order q) = Msg_place_order (q\<lparr>po_contract := read_contract (po_contract q), po_order := order_cleanup (po_order q)\<rparr>)"
| "read_request (Msg_req_executions q) = Msg_req_executions (q\<lparr>ex_filter := filter_cleanup (ex_filter q)\<rparr>)"
| "read_request (Msg_req_contract_details q) = Msg_req_contract_details (q\<lparr>cd_contract := read_contract (cd_contract q)\<rparr>)"
| "read_request (Msg_req_mkt_depth q) = Msg_req_mkt_depth (q\<lparr>dp_contract := read_contract (dp_contract q)\<rparr>)"
| "read_request (Msg_req_fundamental_data q) = Msg_req_fundamental_data (q\<lparr>fd_contract := read_contract (fd_contract q)\<rparr>)"
| "read_request (Msg_calculate_implied_volatility q) = Msg_calculate_implied_volatility (q\<lparr>iv_contract := read_contract (iv_contract q)\<rparr>)"
| "read_request (Msg_calculate_option_price q) = Msg_calculate_option_price (q\<lparr>op_contract := read_contract (op_contract q)\<rparr>)"
| "read_request (Msg_request_realtime_bars q) = Msg_request_realtime_bars (q\<lparr>rb_contract := read_contract (rb_contract q)\<rparr>)"
| "read_request r = r"

fun cleaned :: "ib_request \<Rightarrow> ib_request" where
  "cleaned (Msg_req_scanner_subscription q) = Msg_req_scanner_subscription (q\<lparr>ss_subscription := scan_cleanup (ss_subscription q)\<rparr>)"
| "cleaned (Msg_req_mkt_data q) = Msg_req_mkt_data (q\<lparr>md_contract := contract_cleanup (md_contract q)\<rparr>)"
| "cleaned (Msg_req_historical_data q) = Msg_req_historical_data (q\<lparr>hd_contract := contract_cleanup (hd_contract q)\<rparr>)"
| "cleaned (Msg_exercise_options q) = Msg_exercise_options (q\<lparr>eo_contract := contract_cleanup (eo_contract q)\<rparr>)"
| "cleaned (Msg_place_order q) = Msg_place_order (q\<lparr>po_contract := contract_cleanup (po_contract q), po_order := order_cleanup (po_order q)\<rparr>)"
| "cleaned (Msg_req_executions q) = Msg_req_executions (q\<lparr>ex_filter := filter_cleanup (ex_filter q)\<rparr>)"
| "cleaned (Msg_req_contract_details q) = Msg_req_contract_details (q\<lparr>cd_contract := contract_cleanup (cd_contract q)\<rparr>)"
| "cleaned (Msg_req_mkt_depth q) = Msg_req_mkt_depth (q\<lparr>dp_contract := contract_cleanup (dp_contract q)\<rparr>)"
| "cleaned (Msg_req_fundamental_data q) = Msg_req_fundamental_data (q\<lparr>fd_contract := contract_cleanup (fd_contract q)\<rparr>)"
| "cleaned (Msg_calculate_implied_volatility q) = Msg_calculate_implied_volatility (q\<lparr>iv_contract := contract_cleanup (iv_contract q)\<rparr>)"
| "cleaned (Msg_calculate_option_price q) = Msg_calculate_option_price (q\<lparr>op_contract := contract_cleanup (op_contract q)\<rparr>)"
| "cleaned (Msg_request_realtime_bars q) = Msg_request_realtime_bars (q\<lparr>rb_contract := contract_cleanup (rb_contract q)\<rparr>)"
| "cleaned r = r"

text \<open>An API whose initialisations leave all fields empty.\<close>

definition blank_tx :: "strcpy \<Rightarrow> tx_api" where
  "blank_tx cpy = \<lparr>tx_contracts = blank_api cpy,
     tx_orders = \<lparr>tws_init_order = blank_order, tws_init_tag_value = (None, None), order_strcpy = cpy\<rparr>,
     tx_subscription = \<lparr>ts_double = (\<lambda>_. 0), ts_text = (\<lambda>_. None), ts_int = (\<lambda>_. 0)\<rparr>,
     tx_filter = \<lparr>tf_text = (\<lambda>_. None), tf_clientid = 0\<rparr>\<rparr>"

lemma blank_tx_sel [simp]:
  "tx_contracts (blank_tx cpy) = blank_api cpy" "order_strcpy (tx_orders (blank_tx cpy)) = cpy"
  "tws_init_order (tx_orders (blank_tx cpy)) = blank_order"
  by (simp_all add: blank_tx_def)

section \<open>The structs are read back\<close>

lemma contract_read:
  assumes "copies cpy" "same_texts same" "contract_ok c"
  shows "\<exists>t. contract_prep (blank_api cpy) c = Ok (c\<lparr>c_tws_data := Some t\<rparr>) \<and> contract_of same t = Ok (read_contract c)"
proof -
  obtain c' t where 1: "contract_prep (blank_api cpy) c = Ok c'" "contract_to_tws c' = Some t" "contract_of same t = Ok (read_contract c)"
    using contract_travels_back [OF assms] by (auto simp: read_contract_def)
  moreover have "c' = c\<lparr>c_tws_data := Some t\<rparr>"
    using 1(1,2) by (auto simp: contract_prep_def contract_to_tws_def Let_def res_simps)
  ultimately show ?thesis
    by blast
qed

lemma take_give_back:
  "(case v of None \<Rightarrow> True | Some d \<Rightarrow> double_true d) \<Longrightarrow> take_double (give 0 v) = v"
  "i \<noteq> Some 0 \<Longrightarrow> take_int (give 0 i) = i"
  by (auto simp: take_double_def take_int_def give_def double_true_def split: option.splits)

lemma flag_back: "b \<noteq> None \<Longrightarrow> Some (give False b) = b"
  by (auto simp: give_def)

lemma given_texts: "(\<lambda>f. if \<exists>y. g f = Some y then g f else None) = g"
  by (auto simp: fun_eq_iff)

lemma slot_read:
  assumes "s \<noteq> Some SSS_UNKNOWN"
  shows "(let n = give 0 (map_option slot_code s) in if n \<noteq> 0 then Some (slot_from_tws n SSS_UNKNOWN) else None) = s"
proof (cases s)
  case (Some x)
  then show ?thesis
    using assms by (cases x) (simp_all add: slot_from_tws_def give_def)
qed (simp add: give_def)

lemma tags_items: "array_items (if xs = [] then p else Some (plain_tags xs)) (int (length xs)) = Ok (plain_tags xs)"
  using array_items_back [of "plain_tags xs" p] by simp

lemma order_read:
  assumes "copies cpy" "order_ok c"
  shows "\<exists>t. order_prep (tx_orders (blank_tx cpy)) c = Ok (c\<lparr>o_tws_data := Some t\<rparr>) \<and> order_of t = Ok (order_cleanup c)"
proof -
  let ?t = "order_image blank_order c"
  have texts: "take_text (if o_text c f \<noteq> None then o_text c f else None) = o_text c f" for f
    using assms(2) by (intro take_give) (simp add: order_ok_def)
  have nums: "take_double (give 0 (o_double c f)) = o_double c f" "take_int (give 0 (o_int c g)) = o_int c g"
    "Some (give False (o_flag c h)) = o_flag c h" "take_int (give 0 (o_origin c)) = o_origin c"
    "take_int (give 0 (o_oca_type c)) = o_oca_type c" "take_int (give 0 (o_auction_strategy c)) = o_auction_strategy c" for f g h
    using assms(2) unfolding order_ok_def by (blast intro!: take_give_back flag_back)+
  have slot: "(if give 0 (map_option slot_code (o_short_sale_slot c)) \<noteq> 0
      then Some (slot_from_tws (give 0 (map_option slot_code (o_short_sale_slot c))) SSS_UNKNOWN) else None) = o_short_sale_slot c"
    using slot_read [of "o_short_sale_slot c"] assms(2) by (simp add: order_ok_def Let_def)
  have "c\<lparr>o_tws_data := None\<rparr> = \<lparr>o_double = o_double c, o_text = o_text c, o_int = o_int c, o_flag = o_flag c,
      o_algo_params = o_algo_params c, o_smart_combo_routing_params = o_smart_combo_routing_params c,
      o_combo_legs = o_combo_legs c, o_origin = o_origin c, o_oca_type = o_oca_type c,
      o_auction_strategy = o_auction_strategy c, o_short_sale_slot = o_short_sale_slot c, o_tws_data = None\<rparr>"
    by (cases c) simp
  then have "order_of ?t = Ok (order_cleanup c)"
    unfolding order_of_def order_image_def blank_order_def order_cleanup_def
    by (simp only: tr_order.simps array_items_back tags_items rbind.simps texts nums slot tag_back list.map_comp)
  then show ?thesis
    using order_prep_image [of "tx_orders (blank_tx cpy)" c] assms(1) by auto
qed

lemma subscription_read:
  assumes "copies cpy" "subscription_ok c"
  shows "\<exists>t. scanner_subscription_prep cpy (tx_subscription (blank_tx cpy)) c = Ok (c\<lparr>scan_tws_data := Some t\<rparr>) \<and>
    scanner_subscription_of t = scan_cleanup c"
proof -
  let ?t = "\<lparr>ts_double = \<lambda>f. give 0 (scan_doubles_of c f), ts_text = scan_texts_of c, ts_int = \<lambda>f. give 0 (scan_ints_of c f)\<rparr>"
  have "take_double (give 0 (scan_doubles_of c f)) = scan_doubles_of c f" "take_int (give 0 (scan_ints_of c g)) = scan_ints_of c g" for f g
    using assms(2) by (auto simp: subscription_ok_def take_give_back)
  then have "scanner_subscription_of ?t = scan_cleanup c"
    by (intro ib_scanner_subscription.equality) (simp_all add: scanner_subscription_of_def scan_cleanup_def)
  then show ?thesis
    by (intro exI [of _ ?t]) (simp add: scanner_subscription_prep_def blank_tx_def
        give_texts_all [OF assms(1) scan_texts_all] given_texts)
qed

lemma filter_read:
  assumes "copies cpy" "filter_ok c"
  shows "\<exists>t. exec_filter_prep cpy (tx_filter (blank_tx cpy)) c = Ok (c\<lparr>f_tws_data := Some t\<rparr>) \<and> exec_filter_of t = filter_cleanup c"
proof -
  let ?t = "\<lparr>tf_text = f_text c, tf_clientid = give 0 (f_clientid c)\<rparr>"
  have "exec_filter_of ?t = filter_cleanup c"
    using assms(2) by (intro ib_exec_filter.equality) (simp_all add: exec_filter_of_def filter_cleanup_def filter_ok_def take_give_back)
  then show ?thesis
    by (intro exI [of _ ?t]) (simp add: exec_filter_prep_def blank_tx_def give_texts_all [OF assms(1) filter_texts_all] given_texts)
qed

section \<open>Properties\<close>

lemmas transmit_defs =
  transmit_req_scanner_parameters_def transmit_req_scanner_subscription_def
  transmit_cancel_scanner_subscription_def transmit_req_mkt_data_def transmit_req_historical_data_def
  transmit_cancel_historical_data_def transmit_cancel_mkt_data_def transmit_exercise_options_def
  transmit_place_order_def transmit_cancel_order_def transmit_req_open_orders_def
  transmit_req_account_updates_def transmit_req_executions_def transmit_req_ids_def
  transmit_req_contract_details_def transmit_req_mkt_depth_def transmit_cancel_mkt_depth_def
  transmit_req_news_bulletins_def transmit_cancel_news_bulletins_def transmit_set_server_log_level_def
  transmit_req_auto_open_orders_def transmit_req_all_open_orders_def transmit_req_managed_accts_def
  transmit_request_fa_def transmit_replace_fa_def transmit_req_current_time_def
  transmit_req_fundamental_data_def transmit_cancel_fundamental_data_def
  transmit_calculate_implied_volatility_def transmit_cancel_calculate_implied_volatility_def
  transmit_calculate_option_price_def transmit_cancel_calculate_option_price_def transmit_req_global_cancel_def
  transmit_req_market_data_type_def transmit_request_realtime_bars_def transmit_cancel_realtime_bars_def

text \<open>The struct that a preparation makes.\<close>

definition struct_of :: "('s \<Rightarrow> 't option) \<Rightarrow> 's res \<Rightarrow> 't option" where
  "struct_of sel r = (case r of Ok s \<Rightarrow> sel s | Bad e \<Rightarrow> None)"

lemma contract_struct:
  assumes "copies cpy" "contract_ok c"
  shows "contract_prep (blank_api cpy) c =
    Ok (c\<lparr>c_tws_data := struct_of c_tws_data (contract_prep (blank_api cpy) c)\<rparr>)"
  using contract_read [OF assms(1) _ assms(2), of "(=)"] by (auto simp: struct_of_def same_texts_def)

lemma contract_struct_read:
  assumes "copies cpy" "same_texts same" "contract_ok c"
  shows "contract_of same (the (struct_of c_tws_data (contract_prep (blank_api cpy) c))) = Ok (read_contract c)"
  using contract_read [OF assms] by (auto simp: struct_of_def)

lemma order_struct:
  assumes "copies cpy" "order_ok c"
  shows "order_prep (tx_orders (blank_tx cpy)) c =
      Ok (c\<lparr>o_tws_data := struct_of o_tws_data (order_prep (tx_orders (blank_tx cpy)) c)\<rparr>)"
    "order_of (the (struct_of o_tws_data (order_prep (tx_orders (blank_tx cpy)) c))) = Ok (order_cleanup c)"
  using order_read [OF assms] by (auto simp: struct_of_def)

lemma subscription_struct:
  assumes "copies cpy" "subscription_ok c"
  shows "scanner_subscription_prep cpy (tx_subscription (blank_tx cpy)) c =
      Ok (c\<lparr>scan_tws_data := struct_of scan_tws_data (scanner_subscription_prep cpy (tx_subscription (blank_tx cpy)) c)\<rparr>)"
    "scanner_subscription_of (the (struct_of scan_tws_data (scanner_subscription_prep cpy (tx_subscription (blank_tx cpy)) c))) =
      scan_cleanup c"
  using subscription_read [OF assms] by (auto simp: struct_of_def)

lemma filter_struct:
  assumes "copies cpy" "filter_ok c"
  shows "exec_filter_prep cpy (tx_filter (blank_tx cpy)) c =
      Ok (c\<lparr>f_tws_data := struct_of f_tws_data (exec_filter_prep cpy (tx_filter (blank_tx cpy)) c)\<rparr>)"
    "exec_filter_of (the (struct_of f_tws_data (exec_filter_prep cpy (tx_filter (blank_tx cpy)) c))) = filter_cleanup c"
  using filter_read [OF assms] by (auto simp: struct_of_def)

text \<open>A struct is taken out of the prepared data and put away again.\<close>

lemma put_away:
  "contract_to_tws (c\<lparr>c_tws_data := t\<rparr>) = t" "contract_cleanup (c\<lparr>c_tws_data := t\<rparr>) = contract_cleanup c"
  "order_to_api (k\<lparr>o_tws_data := u\<rparr>) = u" "order_cleanup (k\<lparr>o_tws_data := u\<rparr>) = order_cleanup k"
  "scan_cleanup (s\<lparr>scan_tws_data := v\<rparr>) = scan_cleanup s" "filter_cleanup (f\<lparr>f_tws_data := w\<rparr>) = filter_cleanup f"
  by (simp_all add: contract_to_tws_def contract_cleanup_def order_to_api_def order_cleanup_def scan_cleanup_def filter_cleanup_def)

lemmas struct_reads = contract_struct_read order_struct(2) subscription_struct(2) filter_struct(2)

text \<open>One preparation after the other in front of a call.\<close>

lemma after_contract:
  assumes "copies cpy" "contract_ok c"
  shows "rbind (contract_prep (blank_api cpy) c) g =
    g (c\<lparr>c_tws_data := struct_of c_tws_data (contract_prep (blank_api cpy) c)\<rparr>)"
  by (subst contract_struct [OF assms]) simp

lemma after_order:
  assumes "copies cpy" "order_ok c"
  shows "rbind (order_prep (tx_orders (blank_tx cpy)) c) g =
    g (c\<lparr>o_tws_data := struct_of o_tws_data (order_prep (tx_orders (blank_tx cpy)) c)\<rparr>)"
  by (subst order_struct(1) [OF assms]) simp

lemma after_subscription:
  assumes "copies cpy" "subscription_ok c"
  shows "rbind (scanner_subscription_prep cpy (tx_subscription (blank_tx cpy)) c) g =
    g (c\<lparr>scan_tws_data := struct_of scan_tws_data (scanner_subscription_prep cpy (tx_subscription (blank_tx cpy)) c)\<rparr>)"
  by (subst subscription_struct(1) [OF assms]) simp

lemma after_filter:
  assumes "copies cpy" "filter_ok c"
  shows "rbind (exec_filter_prep cpy (tx_filter (blank_tx cpy)) c) g =
    g (c\<lparr>f_tws_data := struct_of f_tws_data (exec_filter_prep cpy (tx_filter (blank_tx cpy)) c)\<rparr>)"
  by (subst filter_struct(1) [OF assms]) simp

lemmas after = after_contract after_order after_subscription after_filter


definition a_purchase :: ib_order where
  "a_purchase = new_order\<lparr>o_flag := (\<lambda>f. Some (f = O_transmit)),
     o_int := (\<lambda>f. if f = O_total_quantity then Some 100 else None), o_text := (\<lambda>f. if f = O_action then Some ''BUY'' else None)\<rparr>"


text \<open>A preparation does not look at what an earlier one has left, and changes nothing but the struct.\<close>

definition filled :: "('s \<Rightarrow> 't option) \<Rightarrow> ('s \<Rightarrow> 's res) \<Rightarrow> 's \<Rightarrow> 't option res" where
  "filled sel prep c = rbind (prep c) (\<lambda>c'. Ok (sel c'))"

lemma rbind_assoc: "rbind (rbind m f) g = rbind m (\<lambda>x. rbind (f x) g)"
  by (cases m) simp_all

lemma prep_shapes:
  "contract_prep a c = rbind (filled c_tws_data (contract_prep a) (contract_cleanup c)) (\<lambda>t. Ok (c\<lparr>c_tws_data := t\<rparr>))"
  "order_prep b k = rbind (filled o_tws_data (order_prep b) (order_cleanup k)) (\<lambda>t. Ok (k\<lparr>o_tws_data := t\<rparr>))"
  "scanner_subscription_prep cpy si s =
    rbind (filled scan_tws_data (scanner_subscription_prep cpy si) (scan_cleanup s)) (\<lambda>t. Ok (s\<lparr>scan_tws_data := t\<rparr>))"
  "exec_filter_prep cpy fi f = rbind (filled f_tws_data (exec_filter_prep cpy fi) (filter_cleanup f)) (\<lambda>t. Ok (f\<lparr>f_tws_data := t\<rparr>))"
  by (simp_all add: filled_def contract_prep_def contract_cleanup_def order_prep_def order_cleanup_def Let_def
      scanner_subscription_prep_def scan_cleanup_def exec_filter_prep_def filter_cleanup_def rbind_assoc)

lemma cleaned_twice:
  "contract_cleanup (contract_cleanup c) = contract_cleanup c" "order_cleanup (order_cleanup k) = order_cleanup k"
  "scan_cleanup (scan_cleanup s) = scan_cleanup s" "filter_cleanup (filter_cleanup f) = filter_cleanup f"
  by (simp_all add: contract_cleanup_def order_cleanup_def scan_cleanup_def filter_cleanup_def)

text \<open>C30: transmitting a request leaves it as it was but for the structs it may have kept, so that transmitting it once
  more makes the same call; the call starts with the number of the request in exactly the classes that have one.\<close>

theorem transmitting_again_makes_the_same_call:
  assumes "transmit a r = Ok (call, r')"
  shows "r' = cleaned r \<and> transmit a r' = Ok (call, r') \<and> fst call = request_kind r \<and>
    (is_w_ticker (request_kind r) \<or> is_w_order (request_kind r) \<longrightarrow> (\<exists>as. snd call = A_int (request_number r) # as))"
  using assms by (cases r) (auto simp: transmit_defs on_request_def res_simps is_w_order_def prep_shapes put_away cleaned_twice)

theorem transmitting_again_makes_the_same_call_witness:
  "transmit (blank_tx plain_strcpy) (Msg_cancel_order \<lparr>m_order_id = 7\<rparr>) = Ok ((Cancel_order, [A_int 7]), Msg_cancel_order \<lparr>m_order_id = 7\<rparr>) \<and>
   cleaned (Msg_cancel_order \<lparr>m_order_id = 7\<rparr>) = Msg_cancel_order \<lparr>m_order_id = 7\<rparr>"
proof -
  have "transmit (blank_tx plain_strcpy) (Msg_cancel_order \<lparr>m_order_id = 7\<rparr>) =
      Ok ((Cancel_order, [A_int 7]), Msg_cancel_order \<lparr>m_order_id = 7\<rparr>)"
    by (simp add: transmit_cancel_order_def on_request_def)
  then show ?thesis
    using transmitting_again_makes_the_same_call by force
qed

end
