(* ===== verification/ResponseData.thy ===== *)
theory ResponseData
  imports ApiOrders TwsResponses
begin

text \<open>The data of the response classes of \<open>tws_response.h\<close>: what every response holds of the event that fired
  it. The messages of theory \<open>TwsResponses\<close> keep of it what the program reads; here everything has its type, and
  the two are related. A class without members of its own is its base class.\<close>

section \<open>The members of the classes\<close>

record tws_response_w_ticker_message =
  r_ticker_id :: int

record ib_msg_resp_tick_price = tws_response_w_ticker_message +
  tp_field :: int
  tp_price :: double
  tp_can_auto_execute :: bool

record ib_msg_resp_tick_size = tws_response_w_ticker_message +
  ts_field :: int
  ts_size :: int

record ib_msg_resp_tick_option_computation = tws_response_w_ticker_message +
  to_type :: int
  to_implied_vol :: double
  to_delta :: double
  to_opt_price :: double
  to_pv_dividend :: double
  to_gamma :: double
  to_vega :: double
  to_theta :: double
  to_und_price :: double

record ib_msg_resp_tick_generic = tws_response_w_ticker_message +
  tg_type :: int
  tg_value :: double

record ib_msg_resp_tick_string = tws_response_w_ticker_message +
  tx_type :: int
  tx_value :: string

record ib_msg_resp_tick_efp = tws_response_w_ticker_message +
  te_tick_type :: int
  te_basis_points :: double
  te_formatted_basis_points :: string
  te_implied_futures_price :: double
  te_hold_days :: int
  te_future_expiry :: string
  te_dividend_impact :: double
  te_dividends_to_expiry :: double

record ib_msg_resp_order_status =
  os_order_id :: int
  os_status :: string
  os_filled :: int
  os_remaining :: int
  os_avg_fill_price :: double
  os_perm_id :: int
  os_parent_id :: int
  os_last_fill_price :: double
  os_client_id :: int
  os_why_held :: string

record ib_msg_resp_open_order =
  oo_order_id :: int
  oo_contract :: ib_contract
  oo_order :: ib_order
  oo_ost :: ib_order_status

record ib_msg_resp_update_account_value =
  av_key :: string
  av_val :: string
  av_currency :: string
  av_account_name :: string

record ib_msg_resp_update_portfolio =
  pf_contract :: ib_contract
  pf_position :: int
  pf_mkt_price :: double
  pf_mkt_value :: double
  pf_average_cost :: double
  pf_unrealized_pnl :: double
  pf_realized_pnl :: double
  pf_account_name :: string

record ib_msg_resp_update_account_time =
  at_time_stamp :: int

record ib_msg_resp_next_valid_id =
  nv_order_id :: int

record ib_msg_resp_contract_details = tws_response_w_ticker_message +
  cd_contract_details :: ib_contract_details

record ib_msg_resp_bond_contract_details = tws_response_w_ticker_message +
  bd_contract_details :: ib_contract_details

record ib_msg_resp_exec_details =
  ed_order_id :: int
  ed_contract :: ib_contract
  ed_execution :: ib_execution

record ib_msg_resp_error = tws_response_w_ticker_message +
  er_error_code :: int
  er_error_string :: string

record ib_msg_resp_update_mkt_depth = tws_response_w_ticker_message +
  md_position :: int
  md_operation :: int
  md_side :: int
  md_price :: double
  md_size :: int

record ib_msg_resp_update_mkt_depth_l2 = tws_response_w_ticker_message +
  ml_position :: int
  ml_market_maker :: string
  ml_operation :: int
  ml_side :: int
  ml_price :: double
  ml_size :: int

record ib_msg_resp_update_news_bulletin =
  nb_msgid :: int
  nb_msg_type :: int
  nb_news_msg :: string
  nb_origin_exch :: string

record ib_msg_resp_managed_accounts =
  ma_accounts_list :: string

record ib_msg_resp_receive_fa =
  fa_fa_data_type :: int
  fa_cxml :: string

record ib_msg_resp_historical_data = tws_response_w_ticker_message +
  hd_date :: string
  hd_open :: double
  hd_high :: double
  hd_low :: double
  hd_close :: double
  hd_volume :: int
  hd_bar_count :: int
  hd_wap :: double
  hd_has_gaps :: int

record ib_msg_resp_historical_data_end = tws_response_w_ticker_message +
  he_completion_from :: string
  he_completion_to :: string

record ib_msg_resp_scanner_parameters =
  sp_xml :: string

record ib_msg_resp_scanner_data = tws_response_w_ticker_message +
  sd_rank :: int
  sd_cd :: ib_contract_details
  sd_distance :: string
  sd_benchmark :: string
  sd_projection :: string
  sd_legs_str :: string

record ib_msg_resp_scanner_data_end = tws_response_w_ticker_message +
  se_num_elements :: int

record ib_msg_resp_scanner_data_start = tws_response_w_ticker_message +
  st_num_elements :: int

record ib_msg_resp_current_time =
  ct_time :: int

record ib_msg_resp_realtime_bar = tws_response_w_ticker_message +
  rb_time :: int
  rb_open :: double
  rb_high :: double
  rb_low :: double
  rb_close :: double
  rb_volume :: int
  rb_wap :: double
  rb_count :: int

record ib_msg_resp_fundamental_data = tws_response_w_ticker_message +
  fd_data :: string

record ib_msg_resp_delta_neutral_validation = tws_response_w_ticker_message +
  dn_und :: ib_under_comp

record ib_msg_resp_acct_download_end =
  ad_acct_name :: string

record ib_msg_resp_market_data_type = tws_response_w_ticker_message +
  dt_data_type :: int

record ib_msg_resp_commission_report =
  cr_report :: ib_commission_report

section \<open>The constructors\<close>

text \<open>The arguments are those of the callback for the event, in its order. Structs are copied by the constructors of
  \<open>ApiStructs\<close> and \<open>ApiOrders\<close>, where \<open>same\<close> says whether two names of an action are the same, null texts are
  empty, and the reading of a date, \<open>parse\<close>, is the web server library's.\<close>

definition new_resp_tick_price :: "int \<Rightarrow> int \<Rightarrow> double \<Rightarrow> int \<Rightarrow> ib_msg_resp_tick_price" where
  "new_resp_tick_price i field price can_auto_execute = \<lparr>r_ticker_id = i, tp_field = field, tp_price = price,
     tp_can_auto_execute = can_auto_execute \<noteq> 0\<rparr>"

definition new_resp_tick_size :: "int \<Rightarrow> int \<Rightarrow> int \<Rightarrow> ib_msg_resp_tick_size" where
  "new_resp_tick_size i field sz = \<lparr>r_ticker_id = i, ts_field = field, ts_size = sz\<rparr>"

definition new_resp_tick_option_computation :: "int \<Rightarrow> int \<Rightarrow> double \<Rightarrow> double \<Rightarrow> double \<Rightarrow> double \<Rightarrow> double \<Rightarrow> double
    \<Rightarrow> double \<Rightarrow> double \<Rightarrow> ib_msg_resp_tick_option_computation" where
  "new_resp_tick_option_computation i ty implied_vol delta opt_price pv_dividend gamma vega theta und_price =
     \<lparr>r_ticker_id = i, to_type = ty, to_implied_vol = implied_vol, to_delta = delta, to_opt_price = opt_price,
     to_pv_dividend = pv_dividend, to_gamma = gamma, to_vega = vega, to_theta = theta, to_und_price =
     und_price\<rparr>"

definition new_resp_tick_generic :: "int \<Rightarrow> int \<Rightarrow> double \<Rightarrow> ib_msg_resp_tick_generic" where
  "new_resp_tick_generic i ty v = \<lparr>r_ticker_id = i, tg_type = ty, tg_value = v\<rparr>"

definition new_resp_tick_string :: "int \<Rightarrow> int \<Rightarrow> string option \<Rightarrow> ib_msg_resp_tick_string" where
  "new_resp_tick_string i ty v = \<lparr>r_ticker_id = i, tx_type = ty, tx_value = ib_string v\<rparr>"

definition new_resp_tick_efp :: "int \<Rightarrow> int \<Rightarrow> double \<Rightarrow> string option \<Rightarrow> double \<Rightarrow> int \<Rightarrow> string option \<Rightarrow> double \<Rightarrow>
    double \<Rightarrow> ib_msg_resp_tick_efp" where
  "new_resp_tick_efp i tick_type basis_points formatted_basis_points implied_futures_price hold_days
     future_expiry dividend_impact dividends_to_expiry = \<lparr>r_ticker_id = i, te_tick_type = tick_type,
     te_basis_points = basis_points, te_formatted_basis_points = ib_string formatted_basis_points,
     te_implied_futures_price = implied_futures_price, te_hold_days = hold_days, te_future_expiry = ib_string
     future_expiry, te_dividend_impact = dividend_impact, te_dividends_to_expiry = dividends_to_expiry\<rparr>"

definition new_resp_order_status :: "int \<Rightarrow> string option \<Rightarrow> int \<Rightarrow> int \<Rightarrow> double \<Rightarrow> int \<Rightarrow> int \<Rightarrow> double \<Rightarrow> int \<Rightarrow>
    string option \<Rightarrow> ib_msg_resp_order_status" where
  "new_resp_order_status order_id status filled remaining avg_fill_price perm_id parent_id last_fill_price
     client_id why_held = \<lparr>os_order_id = order_id, os_status = ib_string status, os_filled = filled,
     os_remaining = remaining, os_avg_fill_price = avg_fill_price, os_perm_id = perm_id, os_parent_id =
     parent_id, os_last_fill_price = last_fill_price, os_client_id = client_id, os_why_held = ib_string
     why_held\<rparr>"

definition new_resp_open_order :: "(string \<Rightarrow> string \<Rightarrow> bool) \<Rightarrow> int \<Rightarrow> tr_contract \<Rightarrow> tr_order \<Rightarrow> tr_order_status \<Rightarrow>
    ib_msg_resp_open_order res" where
  "new_resp_open_order same order_id contract order ost =
     rbind (contract_of same contract) (\<lambda>contract'.
     rbind (order_of order) (\<lambda>order'.
     Ok \<lparr>oo_order_id = order_id, oo_contract = contract', oo_order = order', oo_ost = order_status_of ost\<rparr>))"

definition new_resp_update_account_value :: "string option \<Rightarrow> string option \<Rightarrow> string option \<Rightarrow> string option \<Rightarrow>
    ib_msg_resp_update_account_value" where
  "new_resp_update_account_value k vl currency account_name = \<lparr>av_key = ib_string k, av_val = ib_string vl,
     av_currency = ib_string currency, av_account_name = ib_string account_name\<rparr>"

definition new_resp_update_portfolio :: "(string \<Rightarrow> string \<Rightarrow> bool) \<Rightarrow> tr_contract \<Rightarrow> int \<Rightarrow> double \<Rightarrow> double \<Rightarrow> double
    \<Rightarrow> double \<Rightarrow> double \<Rightarrow> string option \<Rightarrow> ib_msg_resp_update_portfolio res" where
  "new_resp_update_portfolio same contract position mkt_price mkt_value average_cost unrealized_pnl realized_pnl account_name =
     rbind (contract_of same contract) (\<lambda>contract'.
     Ok \<lparr>pf_contract = contract', pf_position = position, pf_mkt_price = mkt_price, pf_mkt_value = mkt_value,
       pf_average_cost = average_cost, pf_unrealized_pnl = unrealized_pnl, pf_realized_pnl = realized_pnl,
       pf_account_name = ib_string account_name\<rparr>)"

definition new_resp_update_account_time :: "(string option \<Rightarrow> int) \<Rightarrow> string option \<Rightarrow>
    ib_msg_resp_update_account_time" where
  "new_resp_update_account_time parse time_stamp = \<lparr>at_time_stamp = parse time_stamp\<rparr>"

definition new_resp_next_valid_id :: "int \<Rightarrow> ib_msg_resp_next_valid_id" where
  "new_resp_next_valid_id order_id = \<lparr>nv_order_id = order_id\<rparr>"

definition new_resp_contract_details :: "(string \<Rightarrow> string \<Rightarrow> bool) \<Rightarrow> int \<Rightarrow> tr_contract_details \<Rightarrow>
    ib_msg_resp_contract_details res" where
  "new_resp_contract_details same i contract_details =
     rbind (contract_details_of same contract_details) (\<lambda>contract_details'.
     Ok \<lparr>r_ticker_id = i, cd_contract_details = contract_details'\<rparr>)"

definition new_resp_bond_contract_details :: "(string \<Rightarrow> string \<Rightarrow> bool) \<Rightarrow> int \<Rightarrow> tr_contract_details \<Rightarrow>
    ib_msg_resp_bond_contract_details res" where
  "new_resp_bond_contract_details same i contract_details =
     rbind (contract_details_of same contract_details) (\<lambda>contract_details'.
     Ok \<lparr>r_ticker_id = i, bd_contract_details = contract_details'\<rparr>)"

definition new_resp_exec_details :: "(string \<Rightarrow> string \<Rightarrow> bool) \<Rightarrow> int \<Rightarrow> tr_contract \<Rightarrow> tr_execution \<Rightarrow>
    ib_msg_resp_exec_details res" where
  "new_resp_exec_details same order_id contract execution =
     rbind (contract_of same contract) (\<lambda>contract'.
     Ok \<lparr>ed_order_id = order_id, ed_contract = contract', ed_execution = execution_of execution\<rparr>)"

definition new_resp_error :: "int \<Rightarrow> int \<Rightarrow> string option \<Rightarrow> ib_msg_resp_error" where
  "new_resp_error i error_code error_string = \<lparr>r_ticker_id = i, er_error_code = error_code, er_error_string =
     ib_string error_string\<rparr>"

definition new_resp_update_mkt_depth :: "int \<Rightarrow> int \<Rightarrow> int \<Rightarrow> int \<Rightarrow> double \<Rightarrow> int \<Rightarrow> ib_msg_resp_update_mkt_depth"
    where
  "new_resp_update_mkt_depth i position operation side price sz = \<lparr>r_ticker_id = i, md_position = position,
     md_operation = operation, md_side = side, md_price = price, md_size = sz\<rparr>"

definition new_resp_update_mkt_depth_l2 :: "int \<Rightarrow> int \<Rightarrow> string option \<Rightarrow> int \<Rightarrow> int \<Rightarrow> double \<Rightarrow> int \<Rightarrow>
    ib_msg_resp_update_mkt_depth_l2" where
  "new_resp_update_mkt_depth_l2 i position market_maker operation side price sz = \<lparr>r_ticker_id = i, ml_position
     = position, ml_market_maker = ib_string market_maker, ml_operation = operation, ml_side = side, ml_price =
     price, ml_size = sz\<rparr>"

definition new_resp_update_news_bulletin :: "int \<Rightarrow> int \<Rightarrow> string option \<Rightarrow> string option \<Rightarrow>
    ib_msg_resp_update_news_bulletin" where
  "new_resp_update_news_bulletin msgid msg_type news_msg origin_exch = \<lparr>nb_msgid = msgid, nb_msg_type =
     msg_type, nb_news_msg = ib_string news_msg, nb_origin_exch = ib_string origin_exch\<rparr>"

definition new_resp_managed_accounts :: "string option \<Rightarrow> ib_msg_resp_managed_accounts" where
  "new_resp_managed_accounts accounts_list = \<lparr>ma_accounts_list = ib_string accounts_list\<rparr>"

definition new_resp_receive_fa :: "int \<Rightarrow> string option \<Rightarrow> ib_msg_resp_receive_fa" where
  "new_resp_receive_fa fa_data_type cxml = \<lparr>fa_fa_data_type = fa_data_type, fa_cxml = ib_string cxml\<rparr>"

definition new_resp_historical_data :: "int \<Rightarrow> string option \<Rightarrow> double \<Rightarrow> double \<Rightarrow> double \<Rightarrow> double \<Rightarrow> int \<Rightarrow> int \<Rightarrow>
    double \<Rightarrow> int \<Rightarrow> ib_msg_resp_historical_data" where
  "new_resp_historical_data i date opn hi low cls volume bar_count wap has_gaps = \<lparr>r_ticker_id = i, hd_date =
     ib_string date, hd_open = opn, hd_high = hi, hd_low = low, hd_close = cls, hd_volume = volume, hd_bar_count
     = bar_count, hd_wap = wap, hd_has_gaps = has_gaps\<rparr>"

definition new_resp_historical_data_end :: "int \<Rightarrow> string option \<Rightarrow> string option \<Rightarrow>
    ib_msg_resp_historical_data_end" where
  "new_resp_historical_data_end i completion_from completion_to = \<lparr>r_ticker_id = i, he_completion_from =
     ib_string completion_from, he_completion_to = ib_string completion_to\<rparr>"

definition new_resp_scanner_parameters :: "string option \<Rightarrow> ib_msg_resp_scanner_parameters" where
  "new_resp_scanner_parameters xml = \<lparr>sp_xml = ib_string xml\<rparr>"

definition new_resp_scanner_data :: "(string \<Rightarrow> string \<Rightarrow> bool) \<Rightarrow> int \<Rightarrow> int \<Rightarrow> tr_contract_details \<Rightarrow> string option
    \<Rightarrow> string option \<Rightarrow> string option \<Rightarrow> string option \<Rightarrow> ib_msg_resp_scanner_data res" where
  "new_resp_scanner_data same i rank cd distance benchmark projection legs_str =
     rbind (contract_details_of same cd) (\<lambda>cd'.
     Ok \<lparr>r_ticker_id = i, sd_rank = rank, sd_cd = cd', sd_distance = ib_string distance, sd_benchmark =
       ib_string benchmark, sd_projection = ib_string projection, sd_legs_str = ib_string legs_str\<rparr>)"

definition new_resp_scanner_data_end :: "int \<Rightarrow> int \<Rightarrow> ib_msg_resp_scanner_data_end" where
  "new_resp_scanner_data_end i num_elements = \<lparr>r_ticker_id = i, se_num_elements = num_elements\<rparr>"

definition new_resp_scanner_data_start :: "int \<Rightarrow> int \<Rightarrow> ib_msg_resp_scanner_data_start" where
  "new_resp_scanner_data_start i num_elements = \<lparr>r_ticker_id = i, st_num_elements = num_elements\<rparr>"

definition new_resp_current_time :: "int \<Rightarrow> ib_msg_resp_current_time" where
  "new_resp_current_time time = \<lparr>ct_time = time\<rparr>"

definition new_resp_realtime_bar :: "int \<Rightarrow> int \<Rightarrow> double \<Rightarrow> double \<Rightarrow> double \<Rightarrow> double \<Rightarrow> int \<Rightarrow> double \<Rightarrow> int \<Rightarrow>
    ib_msg_resp_realtime_bar" where
  "new_resp_realtime_bar i time opn hi low cls volume wap cnt = \<lparr>r_ticker_id = i, rb_time = time, rb_open = opn,
     rb_high = hi, rb_low = low, rb_close = cls, rb_volume = volume, rb_wap = wap, rb_count = cnt\<rparr>"

definition new_resp_fundamental_data :: "int \<Rightarrow> string option \<Rightarrow> ib_msg_resp_fundamental_data" where
  "new_resp_fundamental_data i data = \<lparr>r_ticker_id = i, fd_data = ib_string data\<rparr>"

definition new_resp_delta_neutral_validation :: "int \<Rightarrow> ib_under_comp option \<Rightarrow>
    ib_msg_resp_delta_neutral_validation" where
  "new_resp_delta_neutral_validation i und = \<lparr>r_ticker_id = i, dn_und = under_comp_of und\<rparr>"

definition new_resp_acct_download_end :: "string option \<Rightarrow> ib_msg_resp_acct_download_end" where
  "new_resp_acct_download_end acct_name = \<lparr>ad_acct_name = ib_string acct_name\<rparr>"

definition new_resp_market_data_type :: "int \<Rightarrow> int \<Rightarrow> ib_msg_resp_market_data_type" where
  "new_resp_market_data_type i data_type = \<lparr>r_ticker_id = i, dt_data_type = data_type\<rparr>"

definition new_resp_commission_report :: "tr_commission_report \<Rightarrow> ib_msg_resp_commission_report" where
  "new_resp_commission_report report = \<lparr>cr_report = commission_report_of report\<rparr>"

section \<open>A response of any class\<close>

datatype (plugins only:) ib_response =
  Got_tick_price ib_msg_resp_tick_price
| Got_tick_size ib_msg_resp_tick_size
| Got_tick_option_computation ib_msg_resp_tick_option_computation
| Got_tick_generic ib_msg_resp_tick_generic
| Got_tick_string ib_msg_resp_tick_string
| Got_tick_efp ib_msg_resp_tick_efp
| Got_order_status ib_msg_resp_order_status
| Got_open_order ib_msg_resp_open_order
| Got_open_order_end
| Got_update_account_value ib_msg_resp_update_account_value
| Got_update_portfolio ib_msg_resp_update_portfolio
| Got_update_account_time ib_msg_resp_update_account_time
| Got_next_valid_id ib_msg_resp_next_valid_id
| Got_contract_details ib_msg_resp_contract_details
| Got_contract_details_end tws_response_w_ticker_message
| Got_bond_contract_details ib_msg_resp_bond_contract_details
| Got_exec_details ib_msg_resp_exec_details
| Got_exec_details_end tws_response_w_ticker_message
| Got_error ib_msg_resp_error
| Got_update_mkt_depth ib_msg_resp_update_mkt_depth
| Got_update_mkt_depth_l2 ib_msg_resp_update_mkt_depth_l2
| Got_update_news_bulletin ib_msg_resp_update_news_bulletin
| Got_managed_accounts ib_msg_resp_managed_accounts
| Got_receive_fa ib_msg_resp_receive_fa
| Got_historical_data ib_msg_resp_historical_data
| Got_historical_data_end ib_msg_resp_historical_data_end
| Got_scanner_parameters ib_msg_resp_scanner_parameters
| Got_scanner_data ib_msg_resp_scanner_data
| Got_scanner_data_end ib_msg_resp_scanner_data_end
| Got_scanner_data_start ib_msg_resp_scanner_data_start
| Got_current_time ib_msg_resp_current_time
| Got_realtime_bar ib_msg_resp_realtime_bar
| Got_fundamental_data ib_msg_resp_fundamental_data
| Got_delta_neutral_validation ib_msg_resp_delta_neutral_validation
| Got_acct_download_end ib_msg_resp_acct_download_end
| Got_tick_snapshot_end tws_response_w_ticker_message
| Got_market_data_type ib_msg_resp_market_data_type
| Got_commission_report ib_msg_resp_commission_report

fun response_kind :: "ib_response \<Rightarrow> resp_kind" where
  "response_kind (Got_tick_price q) = Resp_tick_price"
| "response_kind (Got_tick_size q) = Resp_tick_size"
| "response_kind (Got_tick_option_computation q) = Resp_tick_option_computation"
| "response_kind (Got_tick_generic q) = Resp_tick_generic"
| "response_kind (Got_tick_string q) = Resp_tick_string"
| "response_kind (Got_tick_efp q) = Resp_tick_efp"
| "response_kind (Got_order_status q) = Resp_order_status"
| "response_kind (Got_open_order q) = Resp_open_order"
| "response_kind Got_open_order_end = Resp_open_order_end"
| "response_kind (Got_update_account_value q) = Resp_update_account_value"
| "response_kind (Got_update_portfolio q) = Resp_update_portfolio"
| "response_kind (Got_update_account_time q) = Resp_update_account_time"
| "response_kind (Got_next_valid_id q) = Resp_next_valid_id"
| "response_kind (Got_contract_details q) = Resp_contract_details"
| "response_kind (Got_contract_details_end q) = Resp_contract_details_end"
| "response_kind (Got_bond_contract_details q) = Resp_bond_contract_details"
| "response_kind (Got_exec_details q) = Resp_exec_details"
| "response_kind (Got_exec_details_end q) = Resp_exec_details_end"
| "response_kind (Got_error q) = Resp_error"
| "response_kind (Got_update_mkt_depth q) = Resp_update_mkt_depth"
| "response_kind (Got_update_mkt_depth_l2 q) = Resp_update_mkt_depth_l2"
| "response_kind (Got_update_news_bulletin q) = Resp_update_news_bulletin"
| "response_kind (Got_managed_accounts q) = Resp_managed_accounts"
| "response_kind (Got_receive_fa q) = Resp_receive_fa"
| "response_kind (Got_historical_data q) = Resp_historical_data"
| "response_kind (Got_historical_data_end q) = Resp_historical_data_end"
| "response_kind (Got_scanner_parameters q) = Resp_scanner_parameters"
| "response_kind (Got_scanner_data q) = Resp_scanner_data"
| "response_kind (Got_scanner_data_end q) = Resp_scanner_data_end"
| "response_kind (Got_scanner_data_start q) = Resp_scanner_data_start"
| "response_kind (Got_current_time q) = Resp_current_time"
| "response_kind (Got_realtime_bar q) = Resp_realtime_bar"
| "response_kind (Got_fundamental_data q) = Resp_fundamental_data"
| "response_kind (Got_delta_neutral_validation q) = Resp_delta_neutral_validation"
| "response_kind (Got_acct_download_end q) = Resp_acct_download_end"
| "response_kind (Got_tick_snapshot_end q) = Resp_tick_snapshot_end"
| "response_kind (Got_market_data_type q) = Resp_market_data_type"
| "response_kind (Got_commission_report q) = Resp_commission_report"

text \<open>The ticker of the classes that are derived from \<open>tws_response_w_ticker_message\<close>.\<close>

fun response_ticker :: "ib_response \<Rightarrow> int option" where
  "response_ticker (Got_tick_price q) = Some (r_ticker_id q)"
| "response_ticker (Got_tick_size q) = Some (r_ticker_id q)"
| "response_ticker (Got_tick_option_computation q) = Some (r_ticker_id q)"
| "response_ticker (Got_tick_generic q) = Some (r_ticker_id q)"
| "response_ticker (Got_tick_string q) = Some (r_ticker_id q)"
| "response_ticker (Got_tick_efp q) = Some (r_ticker_id q)"
| "response_ticker (Got_contract_details q) = Some (r_ticker_id q)"
| "response_ticker (Got_contract_details_end q) = Some (r_ticker_id q)"
| "response_ticker (Got_bond_contract_details q) = Some (r_ticker_id q)"
| "response_ticker (Got_exec_details_end q) = Some (r_ticker_id q)"
| "response_ticker (Got_error q) = Some (r_ticker_id q)"
| "response_ticker (Got_update_mkt_depth q) = Some (r_ticker_id q)"
| "response_ticker (Got_update_mkt_depth_l2 q) = Some (r_ticker_id q)"
| "response_ticker (Got_historical_data q) = Some (r_ticker_id q)"
| "response_ticker (Got_historical_data_end q) = Some (r_ticker_id q)"
| "response_ticker (Got_scanner_data q) = Some (r_ticker_id q)"
| "response_ticker (Got_scanner_data_end q) = Some (r_ticker_id q)"
| "response_ticker (Got_scanner_data_start q) = Some (r_ticker_id q)"
| "response_ticker (Got_realtime_bar q) = Some (r_ticker_id q)"
| "response_ticker (Got_fundamental_data q) = Some (r_ticker_id q)"
| "response_ticker (Got_delta_neutral_validation q) = Some (r_ticker_id q)"
| "response_ticker (Got_tick_snapshot_end q) = Some (r_ticker_id q)"
| "response_ticker (Got_market_data_type q) = Some (r_ticker_id q)"
| "response_ticker _ = None"

section \<open>Responses as messages\<close>

text \<open>What the program reads of a response: \<open>code\<close> names the error codes that it knows.\<close>

fun response_data :: "(int \<Rightarrow> error_code) \<Rightarrow> ib_response \<Rightarrow> ib_contract_details resp_data" where
  "response_data code (Got_error q) = no_data\<lparr>rd_ticker_id := r_ticker_id q, rd_error_code := code (er_error_code q), rd_text := er_error_string q\<rparr>"
| "response_data code (Got_next_valid_id q) = no_data\<lparr>rd_order_id := nv_order_id q\<rparr>"
| "response_data code (Got_managed_accounts q) = no_data\<lparr>rd_text := ma_accounts_list q\<rparr>"
| "response_data code (Got_scanner_parameters q) = no_data\<lparr>rd_text := sp_xml q\<rparr>"
| "response_data code (Got_scanner_data q) = no_data\<lparr>rd_ticker_id := r_ticker_id q, rd_details := Some (sd_cd q)\<rparr>"
| "response_data code (Got_scanner_data_start q) = no_data\<lparr>rd_ticker_id := r_ticker_id q, rd_num_elements := st_num_elements q\<rparr>"
| "response_data code (Got_scanner_data_end q) = no_data\<lparr>rd_ticker_id := r_ticker_id q, rd_num_elements := se_num_elements q\<rparr>"
| "response_data code (Got_current_time q) = no_data\<lparr>rd_time := ct_time q\<rparr>"
| "response_data code r = (case response_ticker r of Some i \<Rightarrow> no_data\<lparr>rd_ticker_id := i\<rparr> | None \<Rightarrow> no_data)"

section \<open>Events\<close>

text \<open>An event of the API with the arguments of its callback, the response that the callback makes of it, and the
  callback, which makes a message of it and delivers it.\<close>

datatype (plugins only:) api_event =
  Ev_tick_price int int double int
| Ev_tick_size int int int
| Ev_tick_option_computation int int double double double double double double double double
| Ev_tick_generic int int double
| Ev_tick_string int int "string option"
| Ev_tick_efp int int double "string option" double int "string option" double double
| Ev_order_status int "string option" int int double int int double int "string option"
| Ev_open_order int tr_contract tr_order tr_order_status
| Ev_open_order_end
| Ev_update_account_value "string option" "string option" "string option" "string option"
| Ev_update_portfolio tr_contract int double double double double double "string option"
| Ev_update_account_time "string option"
| Ev_next_valid_id int
| Ev_contract_details int tr_contract_details
| Ev_contract_details_end int
| Ev_bond_contract_details int tr_contract_details
| Ev_exec_details int tr_contract tr_execution
| Ev_exec_details_end int
| Ev_error int int "string option"
| Ev_update_mkt_depth int int int int double int
| Ev_update_mkt_depth_l2 int int "string option" int int double int
| Ev_update_news_bulletin int int "string option" "string option"
| Ev_managed_accounts "string option"
| Ev_receive_fa int "string option"
| Ev_historical_data int "string option" double double double double int int double int
| Ev_historical_data_end int "string option" "string option"
| Ev_scanner_parameters "string option"
| Ev_scanner_data int int tr_contract_details "string option" "string option" "string option" "string option"
| Ev_scanner_data_end int int
| Ev_scanner_data_start int int
| Ev_current_time int
| Ev_realtime_bar int int double double double double int double int
| Ev_fundamental_data int "string option"
| Ev_delta_neutral_validation int "ib_under_comp option"
| Ev_acct_download_end "string option"
| Ev_tick_snapshot_end int
| Ev_market_data_type int int
| Ev_commission_report tr_commission_report

fun response_of :: "(string \<Rightarrow> string \<Rightarrow> bool) \<Rightarrow> (string option \<Rightarrow> int) \<Rightarrow> api_event \<Rightarrow> ib_response res" where
  "response_of same parse (Ev_tick_price i field price can_auto_execute) = Ok (Got_tick_price (new_resp_tick_price
      i field price can_auto_execute))"
| "response_of same parse (Ev_tick_size i field sz) = Ok (Got_tick_size (new_resp_tick_size i field sz))"
| "response_of same parse (Ev_tick_option_computation i ty implied_vol delta opt_price pv_dividend gamma vega
      theta und_price) = Ok (Got_tick_option_computation (new_resp_tick_option_computation i ty implied_vol
      delta opt_price pv_dividend gamma vega theta und_price))"
| "response_of same parse (Ev_tick_generic i ty v) = Ok (Got_tick_generic (new_resp_tick_generic i ty v))"
| "response_of same parse (Ev_tick_string i ty v) = Ok (Got_tick_string (new_resp_tick_string i ty v))"
| "response_of same parse (Ev_tick_efp i tick_type basis_points formatted_basis_points implied_futures_price
      hold_days future_expiry dividend_impact dividends_to_expiry) = Ok (Got_tick_efp (new_resp_tick_efp i
      tick_type basis_points formatted_basis_points implied_futures_price hold_days future_expiry
      dividend_impact dividends_to_expiry))"
| "response_of same parse (Ev_order_status order_id status filled remaining avg_fill_price perm_id parent_id
      last_fill_price client_id why_held) = Ok (Got_order_status (new_resp_order_status order_id status filled
      remaining avg_fill_price perm_id parent_id last_fill_price client_id why_held))"
| "response_of same parse (Ev_open_order order_id contract order ost) = rbind (new_resp_open_order same order_id
      contract order ost) (\<lambda>q. Ok (Got_open_order q))"
| "response_of same parse Ev_open_order_end = Ok Got_open_order_end"
| "response_of same parse (Ev_update_account_value k vl currency account_name) = Ok (Got_update_account_value
      (new_resp_update_account_value k vl currency account_name))"
| "response_of same parse (Ev_update_portfolio contract position mkt_price mkt_value average_cost unrealized_pnl
      realized_pnl account_name) = rbind (new_resp_update_portfolio same contract position mkt_price mkt_value
      average_cost unrealized_pnl realized_pnl account_name) (\<lambda>q. Ok (Got_update_portfolio q))"
| "response_of same parse (Ev_update_account_time time_stamp) = Ok (Got_update_account_time
      (new_resp_update_account_time parse time_stamp))"
| "response_of same parse (Ev_next_valid_id order_id) = Ok (Got_next_valid_id (new_resp_next_valid_id order_id))"
| "response_of same parse (Ev_contract_details i contract_details) = rbind (new_resp_contract_details same i
      contract_details) (\<lambda>q. Ok (Got_contract_details q))"
| "response_of same parse (Ev_contract_details_end i) = Ok (Got_contract_details_end \<lparr>r_ticker_id = i\<rparr>)"
| "response_of same parse (Ev_bond_contract_details i contract_details) = rbind (new_resp_bond_contract_details
      same i contract_details) (\<lambda>q. Ok (Got_bond_contract_details q))"
| "response_of same parse (Ev_exec_details order_id contract execution) = rbind (new_resp_exec_details same
      order_id contract execution) (\<lambda>q. Ok (Got_exec_details q))"
| "response_of same parse (Ev_exec_details_end i) = Ok (Got_exec_details_end \<lparr>r_ticker_id = i\<rparr>)"
| "response_of same parse (Ev_error i error_code error_string) = Ok (Got_error (new_resp_error i error_code
      error_string))"
| "response_of same parse (Ev_update_mkt_depth i position operation side price sz) = Ok (Got_update_mkt_depth
      (new_resp_update_mkt_depth i position operation side price sz))"
| "response_of same parse (Ev_update_mkt_depth_l2 i position market_maker operation side price sz) = Ok
      (Got_update_mkt_depth_l2 (new_resp_update_mkt_depth_l2 i position market_maker operation side price sz))"
| "response_of same parse (Ev_update_news_bulletin msgid msg_type news_msg origin_exch) = Ok
      (Got_update_news_bulletin (new_resp_update_news_bulletin msgid msg_type news_msg origin_exch))"
| "response_of same parse (Ev_managed_accounts accounts_list) = Ok (Got_managed_accounts
      (new_resp_managed_accounts accounts_list))"
| "response_of same parse (Ev_receive_fa fa_data_type cxml) = Ok (Got_receive_fa (new_resp_receive_fa fa_data_type
      cxml))"
| "response_of same parse (Ev_historical_data i date opn hi low cls volume bar_count wap has_gaps) = Ok
      (Got_historical_data (new_resp_historical_data i date opn hi low cls volume bar_count wap has_gaps))"
| "response_of same parse (Ev_historical_data_end i completion_from completion_to) = Ok (Got_historical_data_end
      (new_resp_historical_data_end i completion_from completion_to))"
| "response_of same parse (Ev_scanner_parameters xml) = Ok (Got_scanner_parameters (new_resp_scanner_parameters
      xml))"
| "response_of same parse (Ev_scanner_data i rank cd distance benchmark projection legs_str) = rbind
      (new_resp_scanner_data same i rank cd distance benchmark projection legs_str) (\<lambda>q. Ok (Got_scanner_data
      q))"
| "response_of same parse (Ev_scanner_data_end i num_elements) = Ok (Got_scanner_data_end
      (new_resp_scanner_data_end i num_elements))"
| "response_of same parse (Ev_scanner_data_start i num_elements) = Ok (Got_scanner_data_start
      (new_resp_scanner_data_start i num_elements))"
| "response_of same parse (Ev_current_time time) = Ok (Got_current_time (new_resp_current_time time))"
| "response_of same parse (Ev_realtime_bar i time opn hi low cls volume wap cnt) = Ok (Got_realtime_bar
      (new_resp_realtime_bar i time opn hi low cls volume wap cnt))"
| "response_of same parse (Ev_fundamental_data i data) = Ok (Got_fundamental_data (new_resp_fundamental_data i
      data))"
| "response_of same parse (Ev_delta_neutral_validation i und) = Ok (Got_delta_neutral_validation
      (new_resp_delta_neutral_validation i und))"
| "response_of same parse (Ev_acct_download_end acct_name) = Ok (Got_acct_download_end (new_resp_acct_download_end
      acct_name))"
| "response_of same parse (Ev_tick_snapshot_end i) = Ok (Got_tick_snapshot_end \<lparr>r_ticker_id = i\<rparr>)"
| "response_of same parse (Ev_market_data_type i data_type) = Ok (Got_market_data_type (new_resp_market_data_type
      i data_type))"
| "response_of same parse (Ev_commission_report report) = Ok (Got_commission_report (new_resp_commission_report
      report))"

fun callback :: "ib_contract_details tws_env \<Rightarrow> nat \<Rightarrow> (string \<Rightarrow> string \<Rightarrow> bool) \<Rightarrow> (int \<Rightarrow> error_code) \<Rightarrow> api_event \<Rightarrow>
    (ib_contract_details tws_world, int) M" where
  "callback te n same code (Ev_tick_price i _ _ _) = event_tick_price te n i"
| "callback te n same code (Ev_tick_size i _ _) = event_tick_size te n i"
| "callback te n same code (Ev_tick_option_computation i _ _ _ _ _ _ _ _ _) = event_tick_option_computation te n
      i"
| "callback te n same code (Ev_tick_generic i _ _) = event_tick_generic te n i"
| "callback te n same code (Ev_tick_string i _ _) = event_tick_string te n i"
| "callback te n same code (Ev_tick_efp i _ _ _ _ _ _ _ _) = event_tick_efp te n i"
| "callback te n same code (Ev_order_status _ _ _ _ _ _ _ _ _ _) = event_order_status te n"
| "callback te n same code (Ev_open_order _ _ _ _) = event_open_order te n"
| "callback te n same code Ev_open_order_end = event_open_order_end te n"
| "callback te n same code (Ev_update_account_value _ _ _ _) = event_update_account_value te n"
| "callback te n same code (Ev_update_portfolio _ _ _ _ _ _ _ _) = event_update_portfolio te n"
| "callback te n same code (Ev_update_account_time _) = event_update_account_time te n"
| "callback te n same code (Ev_next_valid_id order_id) = event_next_valid_id te n order_id"
| "callback te n same code (Ev_contract_details i _) = event_contract_details te n i"
| "callback te n same code (Ev_contract_details_end i) = event_contract_details_end te n i"
| "callback te n same code (Ev_bond_contract_details i _) = event_bond_contract_details te n i"
| "callback te n same code (Ev_exec_details _ _ _) = event_exec_details te n"
| "callback te n same code (Ev_exec_details_end i) = event_exec_details_end te n i"
| "callback te n same code (Ev_error i error_code error_string) = event_error te n i (code error_code) (ib_string
      error_string)"
| "callback te n same code (Ev_update_mkt_depth i _ _ _ _ _) = event_update_mkt_depth te n i"
| "callback te n same code (Ev_update_mkt_depth_l2 i _ _ _ _ _ _) = event_update_mkt_depth_l2 te n i"
| "callback te n same code (Ev_update_news_bulletin _ _ _ _) = event_update_news_bulletin te n"
| "callback te n same code (Ev_managed_accounts accounts_list) = event_managed_accounts te n (ib_string
      accounts_list)"
| "callback te n same code (Ev_receive_fa _ _) = event_receive_fa te n"
| "callback te n same code (Ev_historical_data i _ _ _ _ _ _ _ _ _) = event_historical_data te n i"
| "callback te n same code (Ev_historical_data_end i _ _) = event_historical_data_end te n i"
| "callback te n same code (Ev_scanner_parameters xml) = event_scanner_parameters te n (ib_string xml)"
| "callback te n same code (Ev_scanner_data i _ cd _ _ _ _) = (case contract_details_of same cd of Ok d \<Rightarrow>
      event_scanner_data te n i d | Bad e \<Rightarrow> mfail e)"
| "callback te n same code (Ev_scanner_data_end i num_elements) = event_scanner_data_end te n i num_elements"
| "callback te n same code (Ev_scanner_data_start i num_elements) = event_scanner_data_start te n i num_elements"
| "callback te n same code (Ev_current_time time) = event_current_time te n time"
| "callback te n same code (Ev_realtime_bar i _ _ _ _ _ _ _ _) = event_realtime_bar te n i"
| "callback te n same code (Ev_fundamental_data i _) = event_fundamental_data te n i"
| "callback te n same code (Ev_delta_neutral_validation i _) = event_delta_neutral_validation te n i"
| "callback te n same code (Ev_acct_download_end _) = event_acct_download_end te n"
| "callback te n same code (Ev_tick_snapshot_end i) = event_tick_snapshot_end te n i"
| "callback te n same code (Ev_market_data_type i _) = event_market_data_type te n i"
| "callback te n same code (Ev_commission_report _) = event_commission_report te n"

lemmas event_defs =
  event_tick_price_def event_tick_size_def event_tick_option_computation_def event_tick_generic_def
  event_tick_string_def event_tick_efp_def event_order_status_def event_open_order_def event_open_order_end_def
  event_update_account_value_def event_update_portfolio_def event_update_account_time_def
  event_next_valid_id_def event_contract_details_def event_contract_details_end_def
  event_bond_contract_details_def event_exec_details_def event_exec_details_end_def event_error_def
  event_update_mkt_depth_def event_update_mkt_depth_l2_def event_update_news_bulletin_def
  event_managed_accounts_def event_receive_fa_def event_historical_data_def event_historical_data_end_def
  event_scanner_parameters_def event_scanner_data_def event_scanner_data_end_def event_scanner_data_start_def
  event_current_time_def event_realtime_bar_def event_fundamental_data_def event_delta_neutral_validation_def
  event_acct_download_end_def event_tick_snapshot_end_def event_market_data_type_def event_commission_report_def

section \<open>Properties\<close>

lemmas new_resp_defs =
  new_resp_tick_price_def new_resp_tick_size_def new_resp_tick_option_computation_def new_resp_tick_generic_def
  new_resp_tick_string_def new_resp_tick_efp_def new_resp_order_status_def new_resp_open_order_def
  new_resp_update_account_value_def new_resp_update_portfolio_def new_resp_update_account_time_def
  new_resp_next_valid_id_def new_resp_contract_details_def new_resp_bond_contract_details_def
  new_resp_exec_details_def new_resp_error_def new_resp_update_mkt_depth_def new_resp_update_mkt_depth_l2_def
  new_resp_update_news_bulletin_def new_resp_managed_accounts_def new_resp_receive_fa_def
  new_resp_historical_data_def new_resp_historical_data_end_def new_resp_scanner_parameters_def
  new_resp_scanner_data_def new_resp_scanner_data_end_def new_resp_scanner_data_start_def
  new_resp_current_time_def new_resp_realtime_bar_def new_resp_fundamental_data_def
  new_resp_delta_neutral_validation_def new_resp_acct_download_end_def new_resp_market_data_type_def
  new_resp_commission_report_def



end
