(* ===== verification/XPathText.thy ===== *)
theory XPathText
  imports Prelude "HOL-Library.Sublist"
begin

text \<open>The helpers of \<open>tws_stocklist_loading.cpp\<close> for the XML document of the scanner parameters: the XPath function
  \<open>contains-any-of\<close>, with which the queries select locations and scanners, and the search for a child element.\<close>

section \<open>Elements\<close>

text \<open>An element with its name, its text and the elements in it.\<close>

datatype xml_node = Xml (xml_name: string) (xml_text: string) (xml_children: "xml_node list")

definition xmlFindChildWithName :: "xml_node \<Rightarrow> string \<Rightarrow> xml_node option" where
  "xmlFindChildWithName parent tag_name = find (\<lambda>child. xml_name child = tag_name) (xml_children parent)"

section \<open>The function\<close>

text \<open>The scan of one value: \<open>s\<close> is the entry that has been started. An entry that a comma ends is looked for in any
  case, the last one only if it is not empty.\<close>

fun entries_loop :: "string \<Rightarrow> string \<Rightarrow> string \<Rightarrow> bool \<Rightarrow> bool" where
  "entries_loop item s [] rv = (if s \<noteq> [] then rv \<or> sublist s item else rv)"
| "entries_loop item s (c # p) rv =
     (if c = CHR '','' then entries_loop item [] p (rv \<or> sublist s item) else entries_loop item (s @ [c]) p rv)"

definition xmlXPathContainsAnyOfFunction :: "string \<Rightarrow> string list \<Rightarrow> bool" where
  "xmlXPathContainsAnyOfFunction item nodeset = fold (\<lambda>val rv. entries_loop item [] val rv) nodeset False"

section \<open>What it looks for\<close>

fun entries :: "string \<Rightarrow> string list" where
  "entries [] = [[]]"
| "entries (c # s) = (if c = CHR '','' then [] # entries s
     else case entries s of e # es \<Rightarrow> (c # e) # es | [] \<Rightarrow> [[c]])"

lemma entries_not_Nil [simp]: "entries s \<noteq> []"
  by (cases s) (auto split: list.splits)

lemma entries_plain: "CHR '','' \<notin> set s \<Longrightarrow> entries (s @ t) = (s @ hd (entries t)) # tl (entries t)"
proof (induction s)
  case Nil
  then show ?case
    by (cases "entries t") auto
next
  case (Cons c s)
  then show ?case
    by auto
qed

lemma entries_comma: "CHR '','' \<notin> set s \<Longrightarrow> entries (s @ CHR '','' # t) = s # entries t"
  using entries_plain [of s "CHR '','' # t"] by simp

lemma entries_loop_iff:
  assumes "CHR '','' \<notin> set s"
  shows "entries_loop item s p rv \<longleftrightarrow> rv \<or> (\<exists>e \<in> set (butlast (entries (s @ p))). sublist e item) \<or>
    (last (entries (s @ p)) \<noteq> [] \<and> sublist (last (entries (s @ p))) item)"
  using assms
proof (induction p arbitrary: s rv)
  case Nil
  have "entries s = [s]"
    using entries_plain [OF Nil, of "[]"] by simp
  then show ?case
    by simp
next
  case (Cons c p)
  show ?case
  proof (cases "c = CHR '',''")
    case True
    then show ?thesis
      using Cons.IH [of "[]"] entries_comma [OF Cons.prems, of p] by auto
  next
    case False
    then show ?thesis
      using Cons.IH [of "s @ [c]"] Cons.prems by simp
  qed
qed

text \<open>The function is true when an entry of one of the values occurs in the item, where the values are lists of entries
  with commas between them. An empty entry occurs in every item, but for the one at the end of a value.\<close>

theorem contains_any_of_looks_for_entries:
  "xmlXPathContainsAnyOfFunction item nodeset \<longleftrightarrow>
     (\<exists>val \<in> set nodeset. (\<exists>e \<in> set (butlast (entries val)). sublist e item) \<or>
        (last (entries val) \<noteq> [] \<and> sublist (last (entries val)) item))"
proof -
  have "fold (\<lambda>val rv. entries_loop item [] val rv) nodeset rv \<longleftrightarrow> rv \<or>
      (\<exists>val \<in> set nodeset. (\<exists>e \<in> set (butlast (entries val)). sublist e item) \<or>
         (last (entries val) \<noteq> [] \<and> sublist (last (entries val)) item))" for rv
    by (induction nodeset arbitrary: rv) (auto simp: entries_loop_iff)
  then show ?thesis
    by (simp add: xmlXPathContainsAnyOfFunction_def)
qed

text \<open>Entries without commas come back from their joined text.\<close>

lemma entries_join:
  assumes "\<forall>e \<in> set (e0 # es). CHR '','' \<notin> set e"
  shows "entries (e0 @ concat (map (\<lambda>e. CHR '','' # e) es)) = e0 # es"
  using assms
proof (induction es arbitrary: e0)
  case Nil
  then show ?case
    using entries_plain [of e0 "[]"] by simp
next
  case (Cons e es)
  then show ?case
    using entries_comma [of e0] by simp
qed

lemma empty_entry_matches: "xmlXPathContainsAnyOfFunction item ['',STK.US'']"
  by (simp add: contains_any_of_looks_for_entries)

end
