(* ===== verification/FakeDatabase.thy ===== *)
theory FakeDatabase
  imports Prelude
begin

text \<open>The stand-in for the database library that the program can be linked with (\<open>fake_hamsterdb.c\<close>): every function that
  has a status to return reports an internal error, and none does any work.\<close>

section \<open>Answers\<close>

text \<open>What a function returns, and what it writes through its pointer arguments, in their order. The functions that give
  an object back have it null or not. The number of the internal error is the library's.\<close>

type_synonym ham_status = int

datatype ham_value = Nothing | Number int | Null | Pointer | Text string

type_synonym ham_answer = "ham_value \<times> ham_value list"

section \<open>The library, its environments and transactions\<close>

text \<open>A constructor for each function; of the arguments only the status of \<open>ham_strerror\<close> is kept, since no function
  looks at any.\<close>

datatype (plugins only:) env_call =
    Ham_set_errhandler | Ham_strerror ham_status | Ham_get_version | Ham_get_license | Ham_env_new
  | Ham_env_delete | Ham_env_create | Ham_env_create_ex | Ham_env_open | Ham_env_open_ex
  | Ham_env_get_parameters | Ham_env_create_db | Ham_env_open_db | Ham_env_rename_db | Ham_env_erase_db
  | Ham_env_flush | Ham_env_enable_encryption | Ham_env_get_database_names | Ham_env_close
  | Ham_txn_begin | Ham_txn_get_name | Ham_txn_commit | Ham_txn_abort

fun fake_env_call :: "ham_status \<Rightarrow> env_call \<Rightarrow> ham_answer" where
  "fake_env_call HAM_INTERNAL_ERROR Ham_set_errhandler = (Nothing, [])"
| "fake_env_call HAM_INTERNAL_ERROR (Ham_strerror status) = (Text ''???'', [])"
| "fake_env_call HAM_INTERNAL_ERROR Ham_get_version = (Nothing, [Number 42, Number 42, Number 42])"
| "fake_env_call HAM_INTERNAL_ERROR Ham_get_license = (Nothing, [Null, Null])"
| "fake_env_call HAM_INTERNAL_ERROR Ham_env_new = (Number HAM_INTERNAL_ERROR, [Null])"
| "fake_env_call HAM_INTERNAL_ERROR Ham_env_delete = (Number HAM_INTERNAL_ERROR, [])"
| "fake_env_call HAM_INTERNAL_ERROR Ham_env_create = (Number HAM_INTERNAL_ERROR, [])"
| "fake_env_call HAM_INTERNAL_ERROR Ham_env_create_ex = (Number HAM_INTERNAL_ERROR, [])"
| "fake_env_call HAM_INTERNAL_ERROR Ham_env_open = (Number HAM_INTERNAL_ERROR, [])"
| "fake_env_call HAM_INTERNAL_ERROR Ham_env_open_ex = (Number HAM_INTERNAL_ERROR, [])"
| "fake_env_call HAM_INTERNAL_ERROR Ham_env_get_parameters = (Number HAM_INTERNAL_ERROR, [])"
| "fake_env_call HAM_INTERNAL_ERROR Ham_env_create_db = (Number HAM_INTERNAL_ERROR, [])"
| "fake_env_call HAM_INTERNAL_ERROR Ham_env_open_db = (Number HAM_INTERNAL_ERROR, [])"
| "fake_env_call HAM_INTERNAL_ERROR Ham_env_rename_db = (Number HAM_INTERNAL_ERROR, [])"
| "fake_env_call HAM_INTERNAL_ERROR Ham_env_erase_db = (Number HAM_INTERNAL_ERROR, [])"
| "fake_env_call HAM_INTERNAL_ERROR Ham_env_flush = (Number HAM_INTERNAL_ERROR, [])"
| "fake_env_call HAM_INTERNAL_ERROR Ham_env_enable_encryption = (Number HAM_INTERNAL_ERROR, [])"
| "fake_env_call HAM_INTERNAL_ERROR Ham_env_get_database_names = (Number HAM_INTERNAL_ERROR, [])"
| "fake_env_call HAM_INTERNAL_ERROR Ham_env_close = (Number HAM_INTERNAL_ERROR, [])"
| "fake_env_call HAM_INTERNAL_ERROR Ham_txn_begin = (Number HAM_INTERNAL_ERROR, [Null])"
| "fake_env_call HAM_INTERNAL_ERROR Ham_txn_get_name = (Null, [])"
| "fake_env_call HAM_INTERNAL_ERROR Ham_txn_commit = (Number HAM_INTERNAL_ERROR, [])"
| "fake_env_call HAM_INTERNAL_ERROR Ham_txn_abort = (Number HAM_INTERNAL_ERROR, [])"

section \<open>Databases\<close>

datatype (plugins only:) db_call =
    Ham_new | Ham_delete | Ham_create | Ham_create_ex | Ham_open | Ham_open_ex | Ham_get_parameters
  | Ham_get_flags | Ham_get_env | Ham_key_get_approximate_match_type | Ham_get_error
  | Ham_set_prefix_compare_func | Ham_set_compare_func | Ham_set_duplicate_compare_func
  | Ham_enable_compression | Ham_find | Ham_insert | Ham_erase | Ham_flush | Ham_get_key_count
  | Ham_close

fun fake_db_call :: "ham_status \<Rightarrow> db_call \<Rightarrow> ham_answer" where
  "fake_db_call HAM_INTERNAL_ERROR Ham_new = (Number HAM_INTERNAL_ERROR, [Null])"
| "fake_db_call HAM_INTERNAL_ERROR Ham_delete = (Number HAM_INTERNAL_ERROR, [])"
| "fake_db_call HAM_INTERNAL_ERROR Ham_create = (Number HAM_INTERNAL_ERROR, [])"
| "fake_db_call HAM_INTERNAL_ERROR Ham_create_ex = (Number HAM_INTERNAL_ERROR, [])"
| "fake_db_call HAM_INTERNAL_ERROR Ham_open = (Number HAM_INTERNAL_ERROR, [])"
| "fake_db_call HAM_INTERNAL_ERROR Ham_open_ex = (Number HAM_INTERNAL_ERROR, [])"
| "fake_db_call HAM_INTERNAL_ERROR Ham_get_parameters = (Number HAM_INTERNAL_ERROR, [])"
| "fake_db_call HAM_INTERNAL_ERROR Ham_get_flags = (Number 0, [])"
| "fake_db_call HAM_INTERNAL_ERROR Ham_get_env = (Null, [])"
| "fake_db_call HAM_INTERNAL_ERROR Ham_key_get_approximate_match_type = (Number 0, [])"
| "fake_db_call HAM_INTERNAL_ERROR Ham_get_error = (Number HAM_INTERNAL_ERROR, [])"
| "fake_db_call HAM_INTERNAL_ERROR Ham_set_prefix_compare_func = (Number HAM_INTERNAL_ERROR, [])"
| "fake_db_call HAM_INTERNAL_ERROR Ham_set_compare_func = (Number HAM_INTERNAL_ERROR, [])"
| "fake_db_call HAM_INTERNAL_ERROR Ham_set_duplicate_compare_func = (Number HAM_INTERNAL_ERROR, [])"
| "fake_db_call HAM_INTERNAL_ERROR Ham_enable_compression = (Number HAM_INTERNAL_ERROR, [])"
| "fake_db_call HAM_INTERNAL_ERROR Ham_find = (Number HAM_INTERNAL_ERROR, [])"
| "fake_db_call HAM_INTERNAL_ERROR Ham_insert = (Number HAM_INTERNAL_ERROR, [])"
| "fake_db_call HAM_INTERNAL_ERROR Ham_erase = (Number HAM_INTERNAL_ERROR, [])"
| "fake_db_call HAM_INTERNAL_ERROR Ham_flush = (Number HAM_INTERNAL_ERROR, [])"
| "fake_db_call HAM_INTERNAL_ERROR Ham_get_key_count = (Number HAM_INTERNAL_ERROR, [])"
| "fake_db_call HAM_INTERNAL_ERROR Ham_close = (Number HAM_INTERNAL_ERROR, [])"

section \<open>Cursors\<close>

datatype (plugins only:) cursor_call =
    Ham_cursor_create | Ham_cursor_clone | Ham_cursor_move | Ham_cursor_overwrite | Ham_cursor_find
  | Ham_cursor_find_ex | Ham_cursor_insert | Ham_cursor_erase | Ham_cursor_get_duplicate_count
  | Ham_cursor_get_record_size | Ham_cursor_close | Ham_cursor_get_database

fun fake_cursor_call :: "ham_status \<Rightarrow> cursor_call \<Rightarrow> ham_answer" where
  "fake_cursor_call HAM_INTERNAL_ERROR Ham_cursor_create = (Number HAM_INTERNAL_ERROR, [Null])"
| "fake_cursor_call HAM_INTERNAL_ERROR Ham_cursor_clone = (Number HAM_INTERNAL_ERROR, [])"
| "fake_cursor_call HAM_INTERNAL_ERROR Ham_cursor_move = (Number HAM_INTERNAL_ERROR, [])"
| "fake_cursor_call HAM_INTERNAL_ERROR Ham_cursor_overwrite = (Number HAM_INTERNAL_ERROR, [])"
| "fake_cursor_call HAM_INTERNAL_ERROR Ham_cursor_find = (Number HAM_INTERNAL_ERROR, [])"
| "fake_cursor_call HAM_INTERNAL_ERROR Ham_cursor_find_ex = (Number HAM_INTERNAL_ERROR, [])"
| "fake_cursor_call HAM_INTERNAL_ERROR Ham_cursor_insert = (Number HAM_INTERNAL_ERROR, [])"
| "fake_cursor_call HAM_INTERNAL_ERROR Ham_cursor_erase = (Number HAM_INTERNAL_ERROR, [])"
| "fake_cursor_call HAM_INTERNAL_ERROR Ham_cursor_get_duplicate_count = (Number HAM_INTERNAL_ERROR, [])"
| "fake_cursor_call HAM_INTERNAL_ERROR Ham_cursor_get_record_size = (Number HAM_INTERNAL_ERROR, [])"
| "fake_cursor_call HAM_INTERNAL_ERROR Ham_cursor_close = (Number HAM_INTERNAL_ERROR, [])"
| "fake_cursor_call HAM_INTERNAL_ERROR Ham_cursor_get_database = (Null, [])"

section \<open>Nothing succeeds\<close>

text \<open>No call gives an object back, and no status is 0 when the internal error is not.\<close>

theorem fake_library_gives_nothing:
  "Pointer \<notin> set (fst (fake_env_call err e) # snd (fake_env_call err e))"
  "Pointer \<notin> set (fst (fake_db_call err d) # snd (fake_db_call err d))"
  "Pointer \<notin> set (fst (fake_cursor_call err c) # snd (fake_cursor_call err c))"
  by ((cases e; simp), (cases d; simp), (cases c; simp))

theorem fake_library_always_fails:
  "err \<noteq> 0 \<Longrightarrow> fst (fake_env_call err e) \<noteq> Number 0" "err \<noteq> 0 \<Longrightarrow> fst (fake_cursor_call err c) \<noteq> Number 0"
  "err \<noteq> 0 \<Longrightarrow> fst (fake_db_call err d) = Number 0 \<Longrightarrow> d = Ham_get_flags \<or> d = Ham_key_get_approximate_match_type"
  by ((cases e; simp), (cases c; simp), (cases d; simp))

end
