(* ===== verification/Database.thy ===== *)
theory Database
  imports SupportCode FakeDatabase
begin

text \<open>The manager of the database (\<open>tws_database_io.cpp\<close>), whose operations are mostly stubs: it opens nothing, and
  the only thing it stores is the XML document of the scanner parameters, in a file beside the database.\<close>

section \<open>The manager\<close>

text \<open>Whether there is an environment, and which of the databases have a handle.\<close>

record db_manager =
  m_database_path :: "string option"
  m_env :: bool
  m_db :: "bool list"

definition new_db_manager :: "nat \<Rightarrow> string option \<Rightarrow> db_manager" where
  "new_db_manager DB_MAX memory = \<lparr>m_database_path = memory, m_env = False, m_db = replicate DB_MAX False\<rparr>"

definition set_database_path :: "string \<Rightarrow> db_manager \<Rightarrow> db_manager" where
  "set_database_path path h = h\<lparr>m_database_path := Some path\<rparr>"

text \<open>The database library is a parameter: what its functions return and write.\<close>

type_synonym ham_library = "env_call \<Rightarrow> ham_answer"

definition status_of :: "ham_answer \<Rightarrow> ham_status" where
  "status_of a = (case fst a of Number n \<Rightarrow> n | _ \<Rightarrow> 0)"

definition written_pointer :: "ham_answer \<Rightarrow> bool \<Rightarrow> bool" where
  "written_pointer a old = (case snd a of [v] \<Rightarrow> v = Pointer | _ \<Rightarrow> old)"

definition close_databases :: "ham_library \<Rightarrow> db_manager \<Rightarrow> ham_status \<times> db_manager" where
  "close_databases lib h =
     (if m_env h then (status_of (lib Ham_env_close), h\<lparr>m_env := False, m_db := map (\<lambda>_. False) (m_db h)\<rparr>) else (0, h))"

text \<open>The function returns when it has made the environment, in front of the code that opens it; the status of
  \<open>ham_env_new\<close> is not looked at.\<close>

definition open_databases :: "ham_library \<Rightarrow> db_manager \<Rightarrow> ham_status \<times> db_manager" where
  "open_databases lib h = (let h = snd (close_databases lib h) in (0, h\<lparr>m_env := written_pointer (lib Ham_env_new) (m_env h)\<rparr>))"

definition db_strerror :: "ham_library \<Rightarrow> ham_status \<Rightarrow> string option" where
  "db_strerror lib errcode = (case fst (lib (Ham_strerror errcode)) of Text t \<Rightarrow> Some t | _ \<Rightarrow> None)"

text \<open>The program's manager is made when it is first asked for.\<close>

definition get_db_manager :: "nat \<Rightarrow> string option \<Rightarrow> db_manager option \<Rightarrow> db_manager" where
  "get_db_manager DB_MAX memory m_dbi = (case m_dbi of None \<Rightarrow> new_db_manager DB_MAX memory | Some h \<Rightarrow> h)"

definition get_db_config :: "nat \<Rightarrow> string option \<Rightarrow> db_manager option \<Rightarrow> string option \<times> db_manager option" where
  "get_db_config DB_MAX memory m_dbi =
     (let h = get_db_manager DB_MAX memory m_dbi in (m_database_path h, Some h))"

definition ib_cache_ticker_info :: "'details \<Rightarrow> db_manager \<Rightarrow> int" where
  "ib_cache_ticker_info cd h = 0"

text \<open>The details are left as they are.\<close>

definition ib_get_ticker_info :: "'details \<Rightarrow> db_manager \<Rightarrow> int \<times> 'details" where
  "ib_get_ticker_info cd h = (0, cd)"

definition ib_store_scanner_parameters_xml ::
  "'fs files \<Rightarrow> (string \<Rightarrow> bool \<Rightarrow> string \<Rightarrow> 'fs \<Rightarrow> int \<times> 'fs) \<Rightarrow> size_t \<Rightarrow> bool \<Rightarrow> string \<Rightarrow> db_manager \<Rightarrow> 'fs \<Rightarrow>
    (int \<times> 'fs) res" where
  "ib_store_scanner_parameters_xml os io PATH_MAXSIZE faking xml h fs =
     (if faking then Ok (0, fs)
      else case m_database_path h of
        None \<Rightarrow> Bad Dangling
      | Some db_filename \<Rightarrow>
          rbind (concat_path True PATH_MAXSIZE db_filename [''/../scanner-parameters.xml'']) (\<lambda>dst.
          Ok (0, case dst of Some d \<Rightarrow> snd (writefile os io PATH_MAXSIZE d xml False fs) | None \<Rightarrow> fs)))"

section \<open>What it keeps\<close>

datatype db_operation = Open | Close | Set_path string

fun db_step :: "ham_library \<Rightarrow> db_operation \<Rightarrow> db_manager \<Rightarrow> db_manager" where
  "db_step lib Open h = snd (open_databases lib h)"
| "db_step lib Close h = snd (close_databases lib h)"
| "db_step lib (Set_path path) h = set_database_path path h"

lemmas db_defs = open_databases_def close_databases_def set_database_path_def Let_def

lemma db_step_keeps:
  "True \<notin> set (m_db h) \<Longrightarrow> True \<notin> set (m_db (db_step lib op h))" "length (m_db (db_step lib op h)) = length (m_db h)"
  "snd (lib Ham_env_new) = [Null] \<Longrightarrow> \<not> m_env h \<Longrightarrow> \<not> m_env (db_step lib op h)"
  by (cases op; auto simp: db_defs written_pointer_def)+

text \<open>Whatever the library is, no operation ever opens a database, and \<open>open_databases\<close> reports success all the same.\<close>

theorem no_database_is_ever_opened:
  "True \<notin> set (m_db (fold (db_step lib) ops (new_db_manager n memory))) \<and> fst (open_databases lib h) = 0"
proof -
  have "True \<notin> set (m_db h) \<Longrightarrow> True \<notin> set (m_db (fold (db_step lib) ops h))" for h
    by (induction ops arbitrary: h) (auto dest: db_step_keeps(1))
  then show ?thesis
    by (simp add: new_db_manager_def open_databases_def Let_def)
qed

text \<open>With the stand-in there is never an environment either, and yet opening and closing succeed.\<close>

theorem stand_in_is_not_noticed:
  fixes err n memory ops
  defines "lib \<equiv> fake_env_call err" and "h \<equiv> fold (db_step (fake_env_call err)) ops (new_db_manager n memory)"
  shows "\<not> m_env h \<and> fst (open_databases lib h) = 0 \<and> fst (close_databases lib h) = 0 \<and> db_strerror lib e = Some ''???''"
proof -
  have "\<not> m_env h \<Longrightarrow> \<not> m_env (fold (db_step (fake_env_call err)) ops h)" for h
    by (induction ops arbitrary: h) (simp_all add: db_step_keeps(3))
  then have "\<not> m_env h"
    by (simp add: h_def new_db_manager_def)
  then show ?thesis
    by (simp add: lib_def db_strerror_def db_defs)
qed

text \<open>The path that the option sets is the one in the configuration, whatever was there before.\<close>

lemma configured_path:
  "fst (get_db_config n memory (Some (set_database_path path (get_db_manager n memory m_dbi)))) = Some path"
  by (simp add: get_db_config_def get_db_manager_def set_database_path_def)

text \<open>With the default path the document is stored in the directory of the database.\<close>

lemma document_beside_the_database:
  "concat_path True 8194 ''./ib_tws_if.hamsterdb'' [''/../scanner-parameters.xml''] = Ok (Some ''./scanner-parameters.xml'')"
  by code_simp

theorem fake_documents_are_not_stored:
  "ib_store_scanner_parameters_xml os io cap True xml h fs = Ok (0, fs)"
  by (simp add: ib_store_scanner_parameters_xml_def)

end
