(* ===== verification/Singleton.thy ===== *)
theory Singleton
  imports Prelude
begin

text \<open>The only back-end manager of the program: \<open>get_instance\<close> in \<open>tws_backend_io.cpp\<close> and
  \<open>tws_instance.cpp\<close>, called by all threads through \<open>app_manager::get_ib_tws_manager\<close>. No lock protects it: the
  steps of the threads are interleaved in any order.\<close>

section \<open>A call, step by step\<close>

text \<open>The static pointer is to an object of the class of the manager or of its base class; objects are numbered. A thread
  is outside the function, has to make the object, to test the pointer in \<open>set_instance\<close>, to assign it, has returned
  from a call with its result, or has failed the assertion.\<close>

datatype instance_class = Io_channel | Tws_manager

datatype thread_pc = Outside | Make | Test nat | Assign nat | Returned "nat option" | Asserted

record singleton_state =
  singleton :: "(nat \<times> instance_class) option"
  made :: nat
  thread :: "nat \<Rightarrow> thread_pc"

definition new_singleton_state :: singleton_state where
  "new_singleton_state = \<lparr>singleton = None, made = 0, thread = (\<lambda>_. Outside)\<rparr>"

definition goto :: "nat \<Rightarrow> thread_pc \<Rightarrow> singleton_state \<Rightarrow> singleton_state" where
  "goto t pc s = s\<lparr>thread := (thread s)(t := pc)\<rparr>"

text \<open>\<open>ib_backend_io_channel::get_instance\<close> without making an object, and the \<open>dynamic_cast\<close> of its result.\<close>

definition channel_instance :: "singleton_state \<Rightarrow> (nat \<times> instance_class) option" where
  "channel_instance s = singleton s"

definition as_manager :: "(nat \<times> instance_class) option \<Rightarrow> nat option" where
  "as_manager p = (case p of Some (i, Tws_manager) \<Rightarrow> Some i | _ \<Rightarrow> None)"

text \<open>\<open>set_instance\<close>: the assertion, and the assignment.\<close>

definition set_instance_test :: "nat \<Rightarrow> nat \<Rightarrow> singleton_state \<Rightarrow> singleton_state" where
  "set_instance_test t i s = goto t (if singleton s \<noteq> None then Asserted else Assign i) s"

definition set_instance_assign :: "nat \<Rightarrow> nat \<Rightarrow> singleton_state \<Rightarrow> singleton_state" where
  "set_instance_assign t i s = goto t (Returned (Some i)) (s\<lparr>singleton := Some (i, Tws_manager)\<rparr>)"

text \<open>One step of thread \<open>t\<close>, which calls \<open>get_instance\<close> again and again; a thread that has failed the assertion does
  nothing any more.\<close>

definition get_instance_step :: "nat \<Rightarrow> singleton_state \<Rightarrow> singleton_state" where
  "get_instance_step t s = (case thread s t of
     Outside \<Rightarrow> (case as_manager (channel_instance s) of Some i \<Rightarrow> goto t (Returned (Some i)) s | None \<Rightarrow> goto t Make s)
   | Make \<Rightarrow> goto t (Test (made s)) (s\<lparr>made := made s + 1\<rparr>)
   | Test i \<Rightarrow> set_instance_test t i s
   | Assign i \<Rightarrow> set_instance_assign t i s
   | Returned r \<Rightarrow> goto t Outside s
   | Asserted \<Rightarrow> s)"

definition interleaved :: "nat list \<Rightarrow> singleton_state \<Rightarrow> singleton_state" where
  "interleaved = fold get_instance_step"

section \<open>Lemmas\<close>

lemma interleaved_simps [simp]:
  "interleaved [] s = s" "interleaved (t # ts) s = interleaved ts (get_instance_step t s)"
  "interleaved (ts @ us) s = interleaved us (interleaved ts s)"
  by (simp_all add: interleaved_def)

lemma thread_goto [simp]:
  "thread (goto t pc s) = (thread s)(t := pc)" "singleton (goto t pc s) = singleton s" "made (goto t pc s) = made s"
  by (simp_all add: goto_def)

text \<open>The manager is there, and no thread is on its way to make another.\<close>

definition settled :: "nat \<Rightarrow> singleton_state \<Rightarrow> bool" where
  "settled i s \<longleftrightarrow> singleton s = Some (i, Tws_manager) \<and> (\<forall>t. thread s t = Outside \<or> thread s t = Returned (Some i))"

lemma settled_step: "settled i s \<Longrightarrow> settled i (get_instance_step t s) \<and> made (get_instance_step t s) = made s"
proof -
  assume s: "settled i s"
  then have "thread s t = Outside \<or> thread s t = Returned (Some i)"
    by (simp add: settled_def)
  then show ?thesis
    using s by (elim disjE) (auto simp: settled_def get_instance_step_def channel_instance_def as_manager_def)
qed

lemma settled_interleaved: "settled i s \<Longrightarrow> settled i (interleaved ts s) \<and> made (interleaved ts s) = made s"
  by (induction ts arbitrary: s) (use settled_step in auto)

lemmas singleton_simps = get_instance_step_def channel_instance_def as_manager_def set_instance_test_def set_instance_assign_def
  new_singleton_state_def

lemma first_call: "settled 0 (interleaved (replicate 4 t) new_singleton_state) \<and> made (interleaved (replicate 4 t) new_singleton_state) = 1"
  by (simp add: numeral_eq_Suc singleton_simps settled_def)

section \<open>Properties\<close>

text \<open>C18: when the first call of \<open>get_instance\<close> is over before another thread makes one, as the decoding of the options
  sees to, every call of every thread that follows, however they are interleaved, returns the manager that the first has
  made; no second one is made and no assertion fails.\<close>

theorem first_call_alone_fixes_the_manager:
  "\<forall>u. thread (interleaved (replicate 4 t @ ts) new_singleton_state) u \<in> {Outside, Returned (Some 0)} \<and>
     made (interleaved (replicate 4 t @ ts) new_singleton_state) = 1"
  using first_call [of t] settled_interleaved [of 0 "interleaved (replicate 4 t) new_singleton_state" ts]
  by (auto simp: settled_def)

text \<open>Without that the calls race: the assertion can fail, or two threads go on with two managers.\<close>

theorem first_calls_race:
  "thread (interleaved [0, 1, 0, 1, 0, 0, 1] new_singleton_state) 1 = Asserted"
  "thread (interleaved [0, 1, 0, 1, 0, 1, 0, 1] new_singleton_state) 0 = Returned (Some 0) \<and>
   thread (interleaved [0, 1, 0, 1, 0, 1, 0, 1] new_singleton_state) 1 = Returned (Some 1)"
  by (simp_all add: singleton_simps)

end
