(* ===== verification/Printing.thy ===== *)
theory Printing
  imports ApiOrders
begin

text \<open>What the callbacks print of the structs the TWS API hands them (the helper functions of \<open>tws_api_callbacks.cpp\<close>, with
  \<open>tws_callback_printf.cpp\<close> and \<open>tws_debug_printf.cpp\<close>): the entries they write to the log of the web server. The formats
  are the code's, and formatting one is undefined when an argument is missing, of another kind than its directive, or a
  null text.\<close>

section \<open>Formatting\<close>

datatype directive = Dec | Long_dec | Hex8 | Gen | Gen4 | Str | Ptr

datatype c_arg = D int | L int | G double | S "string option" | Opaque

text \<open>The directives the program uses: \<open>%d\<close>, \<open>%ld\<close>, \<open>%g\<close>, \<open>%.4g\<close>, \<open>%s\<close>, \<open>%p\<close> and \<open>%08X\<close>. The only pointer it
  prints with \<open>%p\<close> is the one the callbacks are registered with.\<close>

definition directive_of :: "string \<Rightarrow> (directive \<times> nat) option" where
  "directive_of s =
     (if take 1 s = ''d'' then Some (Dec, 1) else if take 1 s = ''g'' then Some (Gen, 1) else if take 1 s = ''s'' then Some (Str, 1)
      else if take 1 s = ''p'' then Some (Ptr, 1) else if take 2 s = ''ld'' then Some (Long_dec, 2) else if take 3 s = ''.4g'' then Some (Gen4, 3)
      else if take 3 s = ''08X'' then Some (Hex8, 3) else None)"

function pieces :: "string \<Rightarrow> (char + directive) list" where
  "pieces [] = []"
| "pieces (c # s) = (if c \<noteq> CHR ''%'' then Inl c # pieces s else
     case directive_of s of Some (d, n) \<Rightarrow> Inr d # pieces (drop n s) | None \<Rightarrow> Inl c # pieces s)"
  by pat_completeness auto
termination
  by (relation "measure length") auto

definition directives :: "string \<Rightarrow> directive list" where
  "directives fmt = concat (map (\<lambda>p. case p of Inl c \<Rightarrow> [] | Inr d \<Rightarrow> [d]) (pieces fmt))"

definition hex_digit :: "nat \<Rightarrow> char" where
  "hex_digit n = ''0123456789ABCDEF'' ! n"

definition hex8 :: "u32 \<Rightarrow> string" where
  "hex8 w = map (\<lambda>i. hex_digit (unat (take_bit 4 (drop_bit (4 * i) w)))) (rev [0..<8])"

text \<open>The texts of \<open>%g\<close>, \<open>%.4g\<close> and of the pointer, and the names the TWS API has for its enumerations.\<close>

record print_env =
  show_g :: "double \<Rightarrow> string"
  show_4g :: "double \<Rightarrow> string"
  show_opaque :: string
  tr_comboleg_type_name :: "u32 \<Rightarrow> string"
  tr_origin_name :: "u32 \<Rightarrow> string"
  tr_oca_type_name :: "u32 \<Rightarrow> string"
  tr_auction_strategy_name :: "u32 \<Rightarrow> string"
  tick_type_name :: "int \<Rightarrow> string"
  fa_msg_type_name :: "int \<Rightarrow> string"
  market_data_type_name :: "int \<Rightarrow> string"
  manager_connection :: "nat option"

fun argument_text :: "print_env \<Rightarrow> directive \<Rightarrow> c_arg \<Rightarrow> string option" where
  "argument_text pe Dec (D i) = Some (show_int i)"
| "argument_text pe Long_dec (L i) = Some (show_int i)"
| "argument_text pe Hex8 (D i) = Some (hex8 (word_of_int i))"
| "argument_text pe Gen (G d) = Some (show_g pe d)"
| "argument_text pe Gen4 (G d) = Some (show_4g pe d)"
| "argument_text pe Ptr Opaque = Some (show_opaque pe)"
| "argument_text pe Str (S t) = t"
| "argument_text pe _ _ = None"

fun c_format :: "print_env \<Rightarrow> (char + directive) list \<Rightarrow> c_arg list \<Rightarrow> string option" where
  "c_format pe [] as = Some []"
| "c_format pe (Inl c # ps) as = map_option ((#) c) (c_format pe ps as)"
| "c_format pe (Inr d # ps) [] = None"
| "c_format pe (Inr d # ps) (a # as) =
     (case argument_text pe d a of None \<Rightarrow> None | Some t \<Rightarrow> map_option ((@) t) (c_format pe ps as))"

section \<open>The log\<close>

text \<open>An entry has the connection it belongs to, its level and its text.\<close>

type_synonym log_entry = "nat option \<times> string \<times> string"

type_synonym printed = "log_entry list option"

text \<open>The level of indentation is taken and ignored.\<close>

definition tws_cb_printf :: "print_env \<Rightarrow> int \<Rightarrow> string \<Rightarrow> c_arg list \<Rightarrow> printed" where
  "tws_cb_printf pe indent_level fmt as =
     map_option (\<lambda>t. [(manager_connection pe, ''info'', t)]) (c_format pe (pieces fmt) as)"

definition tws_debug_printf :: "bool \<Rightarrow> print_env \<Rightarrow> string \<Rightarrow> c_arg list \<Rightarrow> printed" where
  "tws_debug_printf mgr pe fmt as =
     map_option (\<lambda>t. [(if mgr then manager_connection pe else None, ''debug'', t)]) (c_format pe (pieces fmt) as)"

definition both :: "printed \<Rightarrow> printed \<Rightarrow> printed" where
  "both p q = (case (p, q) of (Some a, Some b) \<Rightarrow> Some (a @ b) | _ \<Rightarrow> None)"

fun in_turn :: "printed list \<Rightarrow> printed" where
  "in_turn [] = Some []"
| "in_turn (p # ps) = both p (in_turn ps)"

definition line :: "string \<Rightarrow> string" where "line s = s @ [CHR 0x0A]"

text \<open>The items of an array that a loop reads, of which there may be fewer than it believes.\<close>

definition read_items :: "'a list option \<Rightarrow> int \<Rightarrow> 'a list option" where
  "read_items p n = (if n \<le> 0 then Some [] else case p of
     None \<Rightarrow> None | Some xs \<Rightarrow> if nat n \<le> length xs then Some (take (nat n) xs) else None)"

definition print_items :: "(nat \<Rightarrow> 'a \<Rightarrow> printed) \<Rightarrow> 'a list option \<Rightarrow> int \<Rightarrow> printed" where
  "print_items print p n = (case read_items p n of
     None \<Rightarrow> None | Some xs \<Rightarrow> in_turn (map (\<lambda>(i, x). print i x) (zip [0..<length xs] xs)))"

section \<open>Contracts\<close>

definition print_under_comp :: "print_env \<Rightarrow> int \<Rightarrow> ib_under_comp \<Rightarrow> printed" where
  "print_under_comp pe indent und =
     tws_cb_printf pe indent (line ''UNDER_COMP: price=%g, delta=%g, conid=%d'')
       [G (u_price und), G (u_delta und), D (sint (u_conid und))]"

definition print_tag_value_set :: "print_env \<Rightarrow> int \<Rightarrow> int \<Rightarrow> (string option \<times> string option) list option \<Rightarrow> printed" where
  "print_tag_value_set pe indent count tags =
     both (tws_cb_printf pe indent (line ''TAG/VALUE SET: count=%d'') [D count])
       (print_items (\<lambda>i t. tws_cb_printf pe (indent + 1) (line ''TAG/VALUE [%d]: tag=[%s], val=[%s]'')
          [D (int i), S (fst t), S (snd t)]) tags count)"

definition print_order_combolegs :: "print_env \<Rightarrow> int \<Rightarrow> int \<Rightarrow> double list option \<Rightarrow> printed" where
  "print_order_combolegs pe indent count legs =
     both (tws_cb_printf pe indent (line ''ORDER COMBOLEGS: count=%d'') [D count])
       (print_items (\<lambda>i price. tws_cb_printf pe (indent + 1) (line ''ORDER COMBOLEG[%d]: price=%g'')
          [D (int i), G price]) legs count)"

definition comboleg_format :: string where
  "comboleg_format = line ''COMBOLEG[%d]: action=[%s], exchange=[%s], designated_location=[%s], conid=%d, ratio=%d, open_close=%d (%s), short_sale_slot=%d, exempt_code=%d''"

definition print_combolegs :: "print_env \<Rightarrow> int \<Rightarrow> int \<Rightarrow> tr_comboleg list option \<Rightarrow> printed" where
  "print_combolegs pe indent count legs =
     both (tws_cb_printf pe indent (line ''COMBOLEGS: count=%d'') [D count])
       (print_items (\<lambda>i leg. tws_cb_printf pe (indent + 1) comboleg_format
          [D (int i), S (tl_action leg), S (tl_exchange leg), S (tl_designated_location leg), D (sint (tl_conid leg)), D (sint (tl_ratio leg)),
           D (sint (tl_open_close leg)), S (Some (tr_comboleg_type_name pe (tl_open_close leg))), D (sint (tl_short_sale_slot leg)),
           D (sint (tl_exempt_code leg))]) legs count)"

definition contract_format :: string where
  "contract_format = line ''strike=%g, symbol=[%s], sectype=[%s], exchange=[%s], primary_exch=[%s], expiry=[%s], currency=[%s], right=[%s], local_symbol=[%s], multiplier=[%s], combolegs_descrip=[%s], secid_type=[%s], secid=[%s], conid=%d, include_expired=%d''"

definition flag :: "bool \<Rightarrow> c_arg" where
  "flag b = D (if b then 1 else 0)"

definition print_contract :: "print_env \<Rightarrow> int \<Rightarrow> tr_contract \<Rightarrow> printed" where
  "print_contract pe indent c = in_turn [
     tws_cb_printf pe indent (line ''CONTRACT: delta neutral:'') [],
     (case tc_undercomp c of None \<Rightarrow> Some [] | Some und \<Rightarrow> print_under_comp pe (indent + 1) und),
     tws_cb_printf pe (indent + 1) contract_format
       ([G (tc_strike c)] @ map (\<lambda>f. S (tc_text c f)) contract_texts @ [D (sint (tc_conid c)), flag (tc_include_expired c)]),
     print_combolegs pe 2 (tc_num_combolegs c) (tc_comboleg c)]"

definition details_format :: string where
  "details_format = line (''min.tick: %g, coupon: %g, order types: [%s], valid exch: [%s], cusip: [%s], maturity: [%s], issue_date: [%s], ratings: [%s], bond_type: [%s], '' @
     ''coupon_type: [%s], notes: [%s], long name: [%s], industry: [%s], category: [%s], subcategory: [%s], timezone: [%s], trading hours: [%s], liquid hours: [%s], price_magnifier: %d, '' @
     ''under_conid: %d, ev_multiplier: %g, ev_rule: [%s]'')"

definition details_printed :: "details_text list" where
  "details_printed = [D_order_types, D_valid_exchanges, D_cusip, D_maturity, D_issue_date, D_ratings, D_bond_type, D_coupon_type,
     D_notes, D_long_name, D_industry, D_category, D_subcategory, D_timezone_id, D_trading_hours, D_liquid_hours]"

definition print_contract_details :: "print_env \<Rightarrow> tr_contract_details \<Rightarrow> printed" where
  "print_contract_details pe cd = in_turn [
     tws_cb_printf pe 1 (line ''CONTRACT_DETAILS: contract summary:'') [],
     print_contract pe 2 (td_summary cd),
     tws_cb_printf pe 2 details_format
       ([G (td_mintick cd), G (td_coupon cd)] @ map (\<lambda>f. S (td_text cd f)) details_printed @
        [D (sint (td_price_magnifier cd)), D (sint (td_under_conid cd)), G (td_ev_multiplier cd), S (td_text cd D_ev_rule)]),
     print_tag_value_set pe 2 (td_sec_id_list_count cd) (td_sec_id_list cd)]"

section \<open>Orders and reports\<close>

definition order_double_format :: string where
  "order_double_format = line ''ORDER: discretionary_amt=%g, lmt_price=%g, aux_price=%g, percent_offset=%g, nbbo_price_cap=%g, starting_price=%g, stock_ref_price=%g, delta=%g, stock_range_lower=%g, stock_range_upper=%g, volatility=%g, delta_neutral_aux_price=%g, trail_stop_price=%g, trailing_percent=%g, basis_points=%g, scale_price_increment=%g, scale_price_adjust_value=%g, scale_profit_offset=%g''"

definition order_text_format :: string where
  "order_text_format = line ''algo_strategy=[%s], good_after_time=[%s], good_till_date=[%s], fagroup=[%s], famethod=[%s], fapercentage=[%s], faprofile=[%s], action=[%s], order_type=[%s], tif=[%s], oca_group=[%s], account=[%s], open_close=[%s], orderref=[%s], designated_location=[%s], rule80a=[%s], settling_firm=[%s], delta_neutral_order_type=[%s], clearing_account=[%s], clearing_intent=[%s], hedge_type=[%s], hedge_param=[%s], delta_neutral_settling_firm=[%s], delta_neutral_clearing_account=[%s], delta_neutral_clearing_intent=[%s]''"

definition order_int_format :: string where
  "order_int_format = line (''o_orderid=%d, total_quantity=%d, origin=%d (%s), clientid=%d, permid=%d, parentid=%d, display_size=%d, trigger_method=%d, min_qty=%d, volatility_type=%d, reference_price_type=%d, basis_points_type=%d, scale_subs_level_size=%d, scale_init_level_size=%d, scale_price_adjust_interval=%d, scale_init_position=%d, scale_init_fill_qty=%d, exempt_code=%d, delta_neutral_con_id=%d, oca_type=%d (%s), auction_strategy=%d (%s)'' @
     '', short_sale_slot=%d, override_percentage_constraints=%d, firm_quote_only=%d, etrade_only=%d, all_or_none=%d, outside_rth=%d, hidden=%d, transmit=%d, block_order=%d, sweep_to_fill=%d, continuous_update=%d, whatif=%d, not_held=%d, opt_out_smart_routing=%d, scale_auto_reset=%d, scale_random_percent=%d'')"

definition order_int_arguments :: "print_env \<Rightarrow> tr_order \<Rightarrow> c_arg list" where
  "order_int_arguments pe ord =
     [D (sint (to_int ord O_orderid)), D (sint (to_int ord O_total_quantity)), D (sint (to_origin ord)), S (Some (tr_origin_name pe (to_origin ord)))] @
     map (\<lambda>f. D (sint (to_int ord f))) [O_clientid, O_permid, O_parentid, O_display_size, O_trigger_method, O_min_qty, O_volatility_type,
       O_reference_price_type, O_basis_points_type, O_scale_subs_level_size, O_scale_init_level_size, O_scale_price_adjust_interval,
       O_scale_init_position, O_scale_init_fill_qty, O_exempt_code, O_delta_neutral_con_id] @
     [D (sint (to_oca_type ord)), S (Some (tr_oca_type_name pe (to_oca_type ord))),
      D (sint (to_auction_strategy ord)), S (Some (tr_auction_strategy_name pe (to_auction_strategy ord))), D (sint (to_short_sale_slot ord))] @
     map (\<lambda>f. flag (to_flag ord f)) order_flags"

text \<open>The doubles and the texts are printed in the order of their declaration.\<close>

definition print_order :: "print_env \<Rightarrow> tr_order \<Rightarrow> printed" where
  "print_order pe ord = in_turn [
     tws_cb_printf pe 1 order_double_format (map (\<lambda>f. G (to_double ord f)) order_doubles),
     tws_cb_printf pe 2 order_text_format (map (\<lambda>f. S (to_text ord f)) order_texts),
     tws_cb_printf pe 2 (line ''algo_params:'') [],
     print_tag_value_set pe 3 (to_algo_params_count ord) (to_algo_params ord),
     tws_cb_printf pe 2 (line ''Smart combo routing params:'') [],
     print_tag_value_set pe 3 (to_smart_combo_routing_params_count ord) (to_smart_combo_routing_params ord),
     print_order_combolegs pe 2 (to_combo_legs_count ord) (to_combo_legs ord),
     tws_cb_printf pe 2 order_int_format (order_int_arguments pe ord)]"

definition status_format :: string where
  "status_format = line ''ORDER_STATUS: ost_commission=%g, ost_min_commission=%g, ost_max_commission=%g, ost_status=[%s], ost_init_margin=[%s], ost_maint_margin=[%s], ost_equity_with_loan=[%s], ost_commission_currency=[%s], ost_warning_text=[%s]''"

definition print_order_status :: "print_env \<Rightarrow> tr_order_status \<Rightarrow> printed" where
  "print_order_status pe st = tws_cb_printf pe 1 status_format
     (map (\<lambda>f. G (tst_double st f)) [Ost_commission, Ost_min_commission, Ost_max_commission] @
      map (\<lambda>f. S (tst_text st f)) [Ost_status, Ost_init_margin, Ost_maint_margin, Ost_equity_with_loan, Ost_commission_currency,
        Ost_warning_text])"

definition execution_format :: string where
  "execution_format = line ''EXECUTION: e_price=%g, e_avg_price=%g, e_execid=[%s], e_time=[%s], e_acct_number=[%s], e_exchange=[%s], e_side=[%s], e_orderref=[%s], e_shares=%d, e_permid=%d, e_clientid=%d, e_liquidation=%d, e_orderid=%d, e_cum_qty=%d''"

definition print_execution :: "print_env \<Rightarrow> tr_execution \<Rightarrow> printed" where
  "print_execution pe ex = tws_cb_printf pe 1 execution_format
     (map (\<lambda>f. G (te_double ex f)) [E_price, E_avg_price] @
      map (\<lambda>f. S (te_text ex f)) [E_execid, E_time, E_acct_number, E_exchange, E_side, E_orderref] @
      map (\<lambda>f. D (sint (te_int ex f))) [E_shares, E_permid, E_clientid, E_liquidation, E_orderid, E_cum_qty])"

definition report_format :: string where
  "report_format = line ''COMMISSION_REPORT: cr_exec_id=[%s], cr_currency=[%s], cr_commission=%g, cr_realized_pnl=%g, cr_yield=%g, cr_yield_redemption_date=%d (%08X) (YYYYMMDD format)''"

definition print_commission_report :: "print_env \<Rightarrow> tr_commission_report \<Rightarrow> printed" where
  "print_commission_report pe r = tws_cb_printf pe 1 report_format
     [S (tr_text r Cr_exec_id), S (tr_text r Cr_currency), G (tr_double r Cr_commission), G (tr_double r Cr_realized_pnl),
      G (tr_double r Cr_yield), D (sint (tr_yield_redemption_date r)), D (sint (tr_yield_redemption_date r))]"

section \<open>When printing is defined\<close>

text \<open>The arguments a list of directives can take.\<close>

fun fits :: "directive list \<Rightarrow> c_arg list \<Rightarrow> bool" where
  "fits [] as = True"
| "fits (d # ds) [] = False"
| "fits (d # ds) (a # as) = ((case a of D i \<Rightarrow> d = Dec \<or> d = Hex8 | L i \<Rightarrow> d = Long_dec | G x \<Rightarrow> d = Gen \<or> d = Gen4
     | S t \<Rightarrow> d = Str \<and> t \<noteq> None | Opaque \<Rightarrow> d = Ptr) \<and> fits ds as)"

lemma c_format_defined:
  "(c_format pe ps as \<noteq> None) = fits (concat (map (\<lambda>p. case p of Inl c \<Rightarrow> [] | Inr d \<Rightarrow> [d]) ps)) as"
proof (induction pe ps as rule: c_format.induct)
  case (4 pe d ps a as)
  then show ?case
    by (cases d; cases a) (auto split: option.splits)
qed simp_all

lemma tws_cb_printf_defined:
  "fits (directives fmt) as \<longleftrightarrow> tws_cb_printf pe indent fmt as \<noteq> None"
  unfolding directives_def c_format_defined [of pe, symmetric] by (simp add: tws_cb_printf_def)

named_theorems formats \<open>the directives of the formats\<close>

lemma format_directives [formats]:
  "directives (line ''UNDER_COMP: price=%g, delta=%g, conid=%d'') = [Gen, Gen, Dec]"
  "directives (line ''TAG/VALUE SET: count=%d'') = [Dec]"
  "directives (line ''TAG/VALUE [%d]: tag=[%s], val=[%s]'') = [Dec, Str, Str]"
  "directives (line ''ORDER COMBOLEGS: count=%d'') = [Dec]"
  "directives (line ''ORDER COMBOLEG[%d]: price=%g'') = [Dec, Gen]"
  "directives (line ''COMBOLEGS: count=%d'') = [Dec]"
  "directives (line ''CONTRACT: delta neutral:'') = []"
  "directives (line ''CONTRACT_DETAILS: contract summary:'') = []"
  "directives (line ''algo_params:'') = []"
  "directives (line ''Smart combo routing params:'') = []"
  "directives comboleg_format = [Dec, Str, Str, Str, Dec, Dec, Dec, Str, Dec, Dec]"
  "directives contract_format = Gen # replicate 12 Str @ [Dec, Dec]"
  "directives details_format = [Gen, Gen] @ replicate 16 Str @ [Dec, Dec, Gen, Str]"
  "directives order_double_format = replicate 18 Gen"
  "directives order_text_format = replicate 25 Str"
  "directives order_int_format = [Dec, Dec, Dec, Str] @ replicate 16 Dec @ [Dec, Str, Dec, Str, Dec] @ replicate 15 Dec"
  "directives status_format = replicate 3 Gen @ replicate 6 Str"
  "directives execution_format = replicate 2 Gen @ replicate 6 Str @ replicate 6 Dec"
  "directives report_format = [Str, Str, Gen, Gen, Gen, Dec, Hex8]"
  by code_simp+

text \<open>Printing is defined and makes \<open>n\<close> entries.\<close>

definition prints :: "nat \<Rightarrow> printed \<Rightarrow> bool" where
  "prints n p \<longleftrightarrow> (\<exists>log. p = Some log \<and> length log = n)"

lemma prints_printf [intro]: "fits (directives fmt) as \<Longrightarrow> prints (Suc 0) (tws_cb_printf pe indent fmt as)"
  by (auto simp: prints_def tws_cb_printf_defined [of fmt as pe indent]) (auto simp: tws_cb_printf_def)

lemma prints_both: "prints m p \<Longrightarrow> prints n q \<Longrightarrow> prints (m + n) (both p q)"
  by (auto simp: prints_def both_def)

lemma prints_Nil [simp]: "prints n (Some []) = (n = 0)"
  by (auto simp: prints_def)

lemma prints_in_turn:
  "list_all2 prints ns ps \<Longrightarrow> prints (sum_list ns) (in_turn ps)"
  by (induction ns ps rule: list_all2_induct) (simp_all add: prints_both)

definition enough :: "('a \<Rightarrow> bool) \<Rightarrow> 'a list option \<Rightarrow> int \<Rightarrow> bool" where
  "enough P p n \<longleftrightarrow> n \<le> 0 \<or> (\<exists>xs. p = Some xs \<and> nat n \<le> length xs \<and> list_all P xs)"

lemma enough_read: "enough P p n \<Longrightarrow> \<exists>xs. read_items p n = Some xs \<and> length xs = nat n \<and> list_all P xs"
  by (cases "n \<le> 0") (auto simp: enough_def read_items_def list_all_length)

lemma prints_items:
  assumes "enough P p n" "\<And>i x. P x \<Longrightarrow> prints (Suc 0) (pr i x)"
  shows "prints (nat n) (print_items pr p n)"
proof -
  obtain xs where xs: "read_items p n = Some xs" "length xs = nat n" "list_all P xs"
    using enough_read [OF assms(1)] by auto
  have "list_all2 prints (replicate (length xs) (Suc 0)) (map (\<lambda>(i, x). pr i x) (zip [0..<length xs] xs))"
    using xs(3) assms(2) by (auto simp: list_all2_conv_all_nth list_all_length)
  from prints_in_turn [OF this] show ?thesis
    using xs by (simp add: print_items_def sum_list_replicate)
qed

text \<open>No null text, and arrays as long as their counts say.\<close>

definition tag_ok :: "string option \<times> string option \<Rightarrow> bool" where
  "tag_ok t \<longleftrightarrow> fst t \<noteq> None \<and> snd t \<noteq> None"

definition comboleg_ok :: "tr_comboleg \<Rightarrow> bool" where
  "comboleg_ok l \<longleftrightarrow> tl_action l \<noteq> None \<and> tl_exchange l \<noteq> None \<and> tl_designated_location l \<noteq> None"

definition contract_printable :: "tr_contract \<Rightarrow> bool" where
  "contract_printable c \<longleftrightarrow> (\<forall>f \<in> set contract_texts. tc_text c f \<noteq> None) \<and> enough comboleg_ok (tc_comboleg c) (tc_num_combolegs c)"

definition details_printable :: "tr_contract_details \<Rightarrow> bool" where
  "details_printable cd \<longleftrightarrow> contract_printable (td_summary cd) \<and>
     (\<forall>f \<in> set (D_ev_rule # details_printed). td_text cd f \<noteq> None) \<and> enough tag_ok (td_sec_id_list cd) (td_sec_id_list_count cd)"

definition order_printable :: "tr_order \<Rightarrow> bool" where
  "order_printable ord \<longleftrightarrow> (\<forall>f \<in> set order_texts. to_text ord f \<noteq> None) \<and>
     enough tag_ok (to_algo_params ord) (to_algo_params_count ord) \<and>
     enough tag_ok (to_smart_combo_routing_params ord) (to_smart_combo_routing_params_count ord) \<and>
     enough (\<lambda>_. True) (to_combo_legs ord) (to_combo_legs_count ord)"

text \<open>A head line and the items.\<close>

lemma prints_head_and_items:
  assumes "enough P p n" "directives fmt = [Dec]" "\<And>i x. P x \<Longrightarrow> prints (Suc 0) (pr i x)"
  shows "prints (Suc (nat n)) (both (tws_cb_printf pe indent fmt [D k]) (print_items pr p n))"
proof -
  have "prints (Suc 0) (tws_cb_printf pe indent fmt [D k])"
    by (rule prints_printf) (simp add: assms(2))
  from prints_both [OF this prints_items [OF assms(1,3)]] show ?thesis
    by simp
qed

lemma prints_tags: "enough tag_ok tags n \<Longrightarrow> prints (Suc (nat n)) (print_tag_value_set pe indent n tags)"
  unfolding print_tag_value_set_def
  by (rule prints_head_and_items [where P = tag_ok]) (auto simp: formats tag_ok_def)

lemma prints_order_combolegs: "enough (\<lambda>_. True) legs n \<Longrightarrow> prints (Suc (nat n)) (print_order_combolegs pe indent n legs)"
  unfolding print_order_combolegs_def
  by (rule prints_head_and_items [where P = "\<lambda>_. True"]) (auto simp: formats)

lemma prints_combolegs: "enough comboleg_ok legs n \<Longrightarrow> prints (Suc (nat n)) (print_combolegs pe indent n legs)"
  unfolding print_combolegs_def
  by (rule prints_head_and_items [where P = comboleg_ok]) (auto simp: formats comboleg_ok_def)

lemma fits_texts: "\<forall>f \<in> set fs. t f \<noteq> None \<Longrightarrow> fits (replicate (length fs) Str @ ds) (map (\<lambda>f. S (t f)) fs @ as) = fits ds as"
  by (induction fs) auto

theorem contract_printing_is_defined:
  assumes "contract_printable c"
  shows "prints ((if tc_undercomp c = None then 3 else 4) + nat (tc_num_combolegs c)) (print_contract pe indent c)"
proof -
  have "fits (directives contract_format)
      ([G (tc_strike c)] @ map (\<lambda>f. S (tc_text c f)) contract_texts @ [D (sint (tc_conid c)), flag (tc_include_expired c)])"
    using fits_texts [of contract_texts "tc_text c" "[Dec, Dec]"] assms
    by (simp add: contract_printable_def formats contract_texts_def flag_def numeral_eq_Suc)
  then have "list_all2 prints [Suc 0, if tc_undercomp c = None then 0 else Suc 0, Suc 0, Suc (nat (tc_num_combolegs c))]
    [tws_cb_printf pe indent (line ''CONTRACT: delta neutral:'') [],
     (case tc_undercomp c of None \<Rightarrow> Some [] | Some und \<Rightarrow> print_under_comp pe (indent + 1) und),
     tws_cb_printf pe (indent + 1) contract_format
       ([G (tc_strike c)] @ map (\<lambda>f. S (tc_text c f)) contract_texts @ [D (sint (tc_conid c)), flag (tc_include_expired c)]),
     print_combolegs pe 2 (tc_num_combolegs c) (tc_comboleg c)]"
    using assms prints_combolegs
    by (auto simp: contract_printable_def print_under_comp_def formats split: option.splits intro!: prints_printf)
  from prints_in_turn [OF this] show ?thesis
    by (auto simp: print_contract_def numeral_eq_Suc split: if_splits)
qed

theorem details_printing_is_defined:
  assumes "details_printable cd"
  shows "\<exists>n. prints n (print_contract_details pe cd)"
proof -
  have "fits (directives details_format) ([G (td_mintick cd), G (td_coupon cd)] @ map (\<lambda>f. S (td_text cd f)) details_printed @
        [D (sint (td_price_magnifier cd)), D (sint (td_under_conid cd)), G (td_ev_multiplier cd), S (td_text cd D_ev_rule)])"
    using fits_texts [of details_printed "td_text cd" "[Dec, Dec, Gen, Str]"] assms
    by (simp add: details_printable_def formats details_printed_def numeral_eq_Suc)
  then show ?thesis
    using assms unfolding print_contract_details_def details_printable_def
    by (metis (no_types, lifting) prints_in_turn list_all2_Nil list_all2_Cons contract_printing_is_defined prints_tags prints_printf
        format_directives(8) fits.simps(1))
qed

text \<open>Of an order eight lines are printed, and one for each tag and leg; every other outcome needs a null text or a wrong
  count.\<close>

theorem order_printing_is_defined:
  assumes "order_printable ord"
  shows "prints (8 + nat (to_algo_params_count ord) + nat (to_smart_combo_routing_params_count ord) + nat (to_combo_legs_count ord))
    (print_order pe ord)"
proof -
  have fit: "fits (directives order_double_format) (map (\<lambda>f. G (to_double ord f)) order_doubles)"
    "fits (directives order_text_format) (map (\<lambda>f. S (to_text ord f)) order_texts)"
    "fits (directives order_int_format) (order_int_arguments pe ord)"
    using assms fits_texts [of order_texts "to_text ord" "[]" "[]"]
    by (simp_all add: formats order_doubles_def order_printable_def order_int_arguments_def order_texts_def order_flags_def flag_def numeral_eq_Suc)
  have "list_all2 prints [Suc 0, Suc 0, Suc 0, Suc (nat (to_algo_params_count ord)), Suc 0,
      Suc (nat (to_smart_combo_routing_params_count ord)), Suc (nat (to_combo_legs_count ord)), Suc 0]
    [tws_cb_printf pe 1 order_double_format (map (\<lambda>f. G (to_double ord f)) order_doubles),
     tws_cb_printf pe 2 order_text_format (map (\<lambda>f. S (to_text ord f)) order_texts),
     tws_cb_printf pe 2 (line ''algo_params:'') [],
     print_tag_value_set pe 3 (to_algo_params_count ord) (to_algo_params ord),
     tws_cb_printf pe 2 (line ''Smart combo routing params:'') [],
     print_tag_value_set pe 3 (to_smart_combo_routing_params_count ord) (to_smart_combo_routing_params ord),
     print_order_combolegs pe 2 (to_combo_legs_count ord) (to_combo_legs ord),
     tws_cb_printf pe 2 order_int_format (order_int_arguments pe ord)]"
    using assms fit by (auto simp: order_printable_def format_directives(9,10) prints_tags prints_order_combolegs intro!: prints_printf)
  from prints_in_turn [OF this] show ?thesis
    by (simp add: print_order_def ac_simps numeral_eq_Suc)
qed

text \<open>A text the API leaves null makes printing, and so the callback, undefined.\<close>

theorem null_text_is_undefined:
  "\<exists>f \<in> set order_texts. to_text ord f = None \<Longrightarrow> print_order pe ord = None"
proof -
  assume a: "\<exists>f \<in> set order_texts. to_text ord f = None"
  have "\<not> fits (directives order_text_format) (map (\<lambda>f. S (to_text ord f)) order_texts)"
    using a by (auto simp: formats order_texts_def numeral_eq_Suc)
  then have "tws_cb_printf pe 2 order_text_format (map (\<lambda>f. S (to_text ord f)) order_texts) = None"
    using tws_cb_printf_defined by blast
  then show ?thesis
    by (simp add: print_order_def both_def split: option.splits)
qed

end
