(* ===== verification/CallbackLog.thy ===== *)
theory CallbackLog
  imports Printing ResponseData IbDate
begin

text \<open>The callbacks of the TWS API, one by one (\<open>tws_api_callbacks.cpp\<close>): each prints its arguments, and then makes the
  response message it delivers. What becomes of the message is with \<open>callback\<close> in theory \<open>ResponseData\<close>.\<close>

section \<open>The callbacks\<close>

text \<open>The entries a callback has printed, and the response made; nothing when what it does is undefined.\<close>

type_synonym handled = "(log_entry list \<times> ib_response res) option"

type_synonym builder = "api_event \<Rightarrow> ib_response res"

definition deliver_after :: "printed \<Rightarrow> ib_response res \<Rightarrow> handled" where
  "deliver_after p r = map_option (\<lambda>log. (log, r)) p"

text \<open>The test of the commission: the only double within \<open>DBL_EPSILON\<close> of \<open>DBL_MAX\<close> is \<open>DBL_MAX\<close>.\<close>

definition commission_reported :: "tr_order_status \<Rightarrow> bool" where
  "commission_reported ostatus \<longleftrightarrow> tst_double ostatus Ost_commission \<noteq> 0x7FEFFFFFFFFFFFFF"

text \<open>The time in the format \<open>[%Y%m%dT%H%M%S]\<close> with a blank behind it.\<close>

definition stamp_text :: "int \<Rightarrow> string" where
  "stamp_text t = (let d = gmtime t in
     ''['' @ show_int (tm_year d) @ pad 2 (show_int (int (tm_mon d) + 1)) @ pad 2 (show_int (tm_mday d)) @ ''T'' @
     pad 2 (show_int (tm_hour d)) @ pad 2 (show_int (tm_min d)) @ pad 2 (show_int (tm_sec d)) @ ''] '')"

text \<open>A text with single quotes in it is put together.\<close>

definition error_format :: string where
  "error_format = line (''error: opaque=%p, ticker_id=%d, error_code=%d, msg='' @ [CHR 0x27] @ ''%s'' @ [CHR 0x27])"

definition receive_fa_format :: string where
  "receive_fa_format = line (''receive_fa: opaque=%p, fa_data_type=%d (%s), xml='' @ [CHR 0x27] @ ''%s'' @ [CHR 0x27])"

definition current_time_format :: string where
  "current_time_format = line (''current_time: opaque=%p, time=%ld ~ '' @ [CHR 0x27] @ ''%s'' @ [CHR 0x27])"

definition on_tick_price :: "print_env \<Rightarrow> builder \<Rightarrow> int \<Rightarrow> int \<Rightarrow> double
       \<Rightarrow> int \<Rightarrow> handled" where
  "on_tick_price pe b ticker_id fld price can_auto_execute = deliver_after
     (tws_cb_printf pe 0 (line ''tick_price: opaque=%p, ticker_id=%d, type=%d (%s), price=%g, can_auto=%d'') [Opaque, D
       ticker_id, D fld, S (Some (tick_type_name pe fld)), G price, D can_auto_execute])
     (b (Ev_tick_price ticker_id fld price can_auto_execute))"

definition on_tick_size :: "print_env \<Rightarrow> builder \<Rightarrow> int \<Rightarrow> int \<Rightarrow> int
       \<Rightarrow> handled" where
  "on_tick_size pe b ticker_id ty sz = deliver_after
     (tws_cb_printf pe 0 (line ''tick_size: opaque=%p, ticker_id=%d, type=%d (%s), size=%d'') [Opaque, D ticker_id, D ty,
       S (Some (tick_type_name pe ty)), D sz])
     (b (Ev_tick_size ticker_id ty sz))"

definition on_tick_option_computation :: "print_env \<Rightarrow> builder \<Rightarrow> int \<Rightarrow> int
       \<Rightarrow> double \<Rightarrow> double \<Rightarrow> double \<Rightarrow> double \<Rightarrow> double
       \<Rightarrow> double \<Rightarrow> double \<Rightarrow> double \<Rightarrow> handled" where
  "on_tick_option_computation pe b ticker_id ty implied_vol delta opt_price pv_dividend gamma vega theta und_price =
       deliver_after
     (tws_cb_printf pe 0 (line
       ''tick option computation: opaque=%p, ticker_id=%d, type=%d (%s), implied_vol=%g, delta=%g, opt_price=%g, pv_dividend=%g, gamma=%g, vega=%g, theta=%g, und_price=%g'')
       [Opaque, D ticker_id, D ty, S (Some (tick_type_name pe ty)), G implied_vol, G delta, G opt_price, G pv_dividend, G
       gamma, G vega, G theta, G und_price])
     (b (Ev_tick_option_computation ticker_id ty implied_vol delta opt_price pv_dividend gamma vega theta und_price))"

definition on_tick_generic :: "print_env \<Rightarrow> builder \<Rightarrow> int \<Rightarrow> int \<Rightarrow> double
       \<Rightarrow> handled" where
  "on_tick_generic pe b ticker_id ty vl = deliver_after
     (tws_cb_printf pe 0 (line ''tick_generic: opaque=%p, ticker_id=%d, type=%d (%s), value=%g'') [Opaque, D ticker_id, D
       ty, S (Some (tick_type_name pe ty)), G vl])
     (b (Ev_tick_generic ticker_id ty vl))"

definition on_tick_string :: "print_env \<Rightarrow> builder \<Rightarrow> int \<Rightarrow> int \<Rightarrow> string
       option \<Rightarrow> handled" where
  "on_tick_string pe b ticker_id ty vl = deliver_after
     (tws_cb_printf pe 0 (line ''tick_string: opaque=%p, ticker_id=%d, type=%d (%s), value=[%s]'') [Opaque, D ticker_id,
       D ty, S (Some (tick_type_name pe ty)), S vl])
     (b (Ev_tick_string ticker_id ty vl))"

definition on_tick_efp :: "print_env \<Rightarrow> builder \<Rightarrow> int \<Rightarrow> int \<Rightarrow> double
       \<Rightarrow> string option \<Rightarrow> double \<Rightarrow> int \<Rightarrow> string option \<Rightarrow>
       double \<Rightarrow> double \<Rightarrow> handled" where
  "on_tick_efp pe b ticker_id tick_type basis_points formatted_basis_points implied_futures_price hold_days future_expiry
       dividend_impact dividends_to_expiry = deliver_after
     (tws_cb_printf pe 0 (line
       ''tick_efp: opaque=%p, ticker_id=%d, type=%d (%s), basis_points=%g, formatted_basis_points=[%s], implied_futures_price=%g, hold_days=%d, future_expiry=[%s], dividend_impact=%g, dividends_to_expiry=%g'')
       [Opaque, D ticker_id, D tick_type, S (Some (tick_type_name pe tick_type)), G basis_points, S
       formatted_basis_points, G implied_futures_price, D hold_days, S future_expiry, G dividend_impact, G
       dividends_to_expiry])
     (b (Ev_tick_efp ticker_id tick_type basis_points formatted_basis_points implied_futures_price hold_days
       future_expiry dividend_impact dividends_to_expiry))"

definition on_order_status :: "print_env \<Rightarrow> builder \<Rightarrow> int \<Rightarrow> string option
       \<Rightarrow> int \<Rightarrow> int \<Rightarrow> double \<Rightarrow> int \<Rightarrow> int \<Rightarrow> double
       \<Rightarrow> int \<Rightarrow> string option \<Rightarrow> handled" where
  "on_order_status pe b order_id status filled remaining avg_fill_price perm_id parent_id last_fill_price client_id
       why_held = deliver_after
     (tws_cb_printf pe 0 (line
       ''order_status: opaque=%p, order_id=%d, status=[%s], filled=%d, remaining %d, avg_fill_price=%g, last_fill_price=%g, perm_id=%d, parent_id=%d, client_id=%d, why_held=[%s]'')
       [Opaque, D order_id, S status, D filled, D remaining, G avg_fill_price, G last_fill_price, D perm_id, D parent_id,
       D client_id, S why_held])
     (b (Ev_order_status order_id status filled remaining avg_fill_price perm_id parent_id last_fill_price client_id
       why_held))"

definition on_open_order :: "print_env \<Rightarrow> builder \<Rightarrow> int \<Rightarrow> tr_contract \<Rightarrow>
       tr_order \<Rightarrow> tr_order_status \<Rightarrow> handled" where
  "on_open_order pe b order_id contract ord ostatus = deliver_after (in_turn [
     if commission_reported ostatus then tws_cb_printf pe 0 (line
       ''open_order: opaque=%p, commission for order_id=%d was %.4g'') [Opaque, D order_id, G (tst_double ostatus
       Ost_commission)]
     else tws_cb_printf pe 0 (line ''open_order: opaque=%p, commission not reported'') [Opaque],
     tws_cb_printf pe 0 (line ''open_order: opaque=%p, order_id=%d, sym=[%s], local_symbol=[%s]'') [Opaque, D order_id, S
       (tc_text contract C_symbol), S (tc_text contract C_local_symbol)],
     print_contract pe 1 contract,
     print_order pe ord,
     print_order_status pe ostatus])
     (b (Ev_open_order order_id contract ord ostatus))"

definition on_open_order_end :: "print_env \<Rightarrow> builder \<Rightarrow> handled" where
  "on_open_order_end pe b = deliver_after
     (tws_cb_printf pe 0 (line ''open_order_end: opaque=%p'') [Opaque])
     (b Ev_open_order_end)"

definition on_update_account_value :: "print_env \<Rightarrow> builder \<Rightarrow> string option \<Rightarrow> string
       option \<Rightarrow> string option \<Rightarrow> string option \<Rightarrow> handled" where
  "on_update_account_value pe b k vl currency account_name = deliver_after
     (tws_cb_printf pe 0 (line ''update_account_value: %p, key=[%s] val=[%s], currency=[%s], name=[%s]'') [Opaque, S k, S
       vl, S currency, S account_name])
     (b (Ev_update_account_value k vl currency account_name))"

definition on_update_portfolio :: "print_env \<Rightarrow> builder \<Rightarrow> tr_contract \<Rightarrow> int
       \<Rightarrow> double \<Rightarrow> double \<Rightarrow> double \<Rightarrow> double \<Rightarrow> double
       \<Rightarrow> string option \<Rightarrow> handled" where
  "on_update_portfolio pe b contract position mkt_price mkt_value average_cost unrealized_pnl realized_pnl account_name =
       deliver_after (in_turn [
     tws_cb_printf pe 0 (line ''update_portfolio: %p, sym=%s, position=%d, mkt_price=%.4g, mkt_value=%.4g, avg_cost=%.4g, unrealized_pnl=%.4g, realized_pnl=%.4g account_name=%s'')
       [Opaque, S (tc_text contract C_symbol), D position, G mkt_price, G mkt_value, G average_cost, G unrealized_pnl, G
       realized_pnl, S account_name],
     print_contract pe 1 contract])
     (b (Ev_update_portfolio contract position mkt_price mkt_value average_cost unrealized_pnl realized_pnl
       account_name))"

definition on_update_account_time :: "print_env \<Rightarrow> builder \<Rightarrow> string option \<Rightarrow> handled"
       where
  "on_update_account_time pe b time_stamp = deliver_after
     (tws_cb_printf pe 0 (line ''update_account_time: opaque=%p, time_stamp=[%s]'') [Opaque, S time_stamp])
     (b (Ev_update_account_time time_stamp))"

definition on_next_valid_id :: "print_env \<Rightarrow> builder \<Rightarrow> int \<Rightarrow> handled" where
  "on_next_valid_id pe b order_id = deliver_after
     (tws_cb_printf pe 0 (line ''next_valid_id for order placement %d (opaque=%p)'') [D order_id, Opaque])
     (b (Ev_next_valid_id order_id))"

definition on_contract_details :: "print_env \<Rightarrow> builder \<Rightarrow> int \<Rightarrow> tr_contract_details
       \<Rightarrow> handled" where
  "on_contract_details pe b req_id cd = deliver_after (in_turn [
     tws_cb_printf pe 0 (line ''contract_details: opaque=%p, req_id=%d, ...'') [Opaque, D req_id],
     print_contract_details pe cd])
     (b (Ev_contract_details req_id cd))"

definition on_contract_details_end :: "print_env \<Rightarrow> builder \<Rightarrow> int \<Rightarrow> handled" where
  "on_contract_details_end pe b req_id = deliver_after
     (tws_cb_printf pe 0 (line ''contract_details_end: opaque=%p, req_id=%d'') [Opaque, D req_id])
     (b (Ev_contract_details_end req_id))"

definition on_bond_contract_details :: "print_env \<Rightarrow> builder \<Rightarrow> int \<Rightarrow>
       tr_contract_details \<Rightarrow> handled" where
  "on_bond_contract_details pe b req_id cd = deliver_after (in_turn [
     tws_cb_printf pe 0 (line ''bond_contract_details: opaque=%p, req_id=%d, ...'') [Opaque, D req_id],
     print_contract_details pe cd])
     (b (Ev_bond_contract_details req_id cd))"

definition on_exec_details :: "print_env \<Rightarrow> builder \<Rightarrow> int \<Rightarrow> tr_contract \<Rightarrow>
       tr_execution \<Rightarrow> handled" where
  "on_exec_details pe b req_id contract execution = deliver_after (in_turn [
     tws_cb_printf pe 0 (line ''exec_details: opaque=%p, req_id=%d, ...'') [Opaque, D req_id],
     print_contract pe 1 contract,
     print_execution pe execution])
     (b (Ev_exec_details req_id contract execution))"

definition on_exec_details_end :: "print_env \<Rightarrow> builder \<Rightarrow> int \<Rightarrow> handled" where
  "on_exec_details_end pe b req_id = deliver_after
     (tws_cb_printf pe 0 (line ''exec_details_end: opaque=%p, req_id=%d'') [Opaque, D req_id])
     (b (Ev_exec_details_end req_id))"

definition on_error :: "print_env \<Rightarrow> builder \<Rightarrow> int \<Rightarrow> int \<Rightarrow> string option
       \<Rightarrow> handled" where
  "on_error pe b ticker_id error_code error_string = deliver_after
     (tws_cb_printf pe 0 error_format [Opaque, D ticker_id, D error_code, S error_string])
     (b (Ev_error ticker_id error_code error_string))"

definition on_update_mkt_depth :: "print_env \<Rightarrow> builder \<Rightarrow> int \<Rightarrow> int \<Rightarrow> int
       \<Rightarrow> int \<Rightarrow> double \<Rightarrow> int \<Rightarrow> handled" where
  "on_update_mkt_depth pe b ticker_id position operation sd price sz = deliver_after
     (tws_cb_printf pe 0 (line
       ''update_mkt_depth: opaque=%p, ticker_id=%d, posaition=%d, operation=%d, size=%d, price=%g, size=%d'') [Opaque, D
       ticker_id, D position, D operation, D sd, G price, D sz])
     (b (Ev_update_mkt_depth ticker_id position operation sd price sz))"

definition on_update_mkt_depth_l2 :: "print_env \<Rightarrow> builder \<Rightarrow> int \<Rightarrow> int \<Rightarrow>
       string option \<Rightarrow> int \<Rightarrow> int \<Rightarrow> double \<Rightarrow> int \<Rightarrow> handled"
       where
  "on_update_mkt_depth_l2 pe b ticker_id position market_maker operation sd price sz = deliver_after
     (tws_cb_printf pe 0 (line
       ''update_mkt_depth_l2: opaque=%p, ticker_id=%d, position=%d, market_maker=[%s], operation=%d, side=%d, price=%g, size=%d'')
       [Opaque, D ticker_id, D position, S market_maker, D operation, D sd, G price, D sz])
     (b (Ev_update_mkt_depth_l2 ticker_id position market_maker operation sd price sz))"

definition on_update_news_bulletin :: "print_env \<Rightarrow> builder \<Rightarrow> int \<Rightarrow> int \<Rightarrow>
       string option \<Rightarrow> string option \<Rightarrow> handled" where
  "on_update_news_bulletin pe b msgid msg_type news_msg origin_exch = deliver_after
     (tws_cb_printf pe 0 (line
       ''update_news_bulletin: opaque=%p, msg_id=%d, msg_type=%d, msg=[%s], origin_exchange=[%d]'') [Opaque, D msgid, D
       msg_type, S news_msg, S origin_exch])
     (b (Ev_update_news_bulletin msgid msg_type news_msg origin_exch))"

definition on_managed_accounts :: "print_env \<Rightarrow> builder \<Rightarrow> string option \<Rightarrow> handled"
       where
  "on_managed_accounts pe b accounts_list = deliver_after
     (tws_cb_printf pe 0 (line ''managed_accounts: opaque=%p, accounts_list=[%s]'') [Opaque, S accounts_list])
     (b (Ev_managed_accounts accounts_list))"

definition on_receive_fa :: "print_env \<Rightarrow> builder \<Rightarrow> int \<Rightarrow> string option \<Rightarrow>
       handled" where
  "on_receive_fa pe b fa_data_type cxml = deliver_after
     (tws_cb_printf pe 0 receive_fa_format [Opaque, D fa_data_type, S (Some (fa_msg_type_name pe fa_data_type)), S cxml])
     (b (Ev_receive_fa fa_data_type cxml))"

definition on_historical_data :: "print_env \<Rightarrow> builder \<Rightarrow> int \<Rightarrow> string option
       \<Rightarrow> double \<Rightarrow> double \<Rightarrow> double \<Rightarrow> double \<Rightarrow> int
       \<Rightarrow> int \<Rightarrow> double \<Rightarrow> int \<Rightarrow> handled" where
  "on_historical_data pe b req_id dt opn hi low cls volume bar_count wap has_gaps = deliver_after
     (tws_cb_printf pe 0 (line
       ''historical: opaque=%p, req_id=%d, date=%s, ohlc=%.4g/%.4g/%.4g/%.4g, volume=%ld, bar_count=%d, wap=%.4g, has_gaps=%d'')
       [Opaque, D req_id, S dt, G opn, G hi, G low, G cls, L volume, D bar_count, G wap, D has_gaps])
     (b (Ev_historical_data req_id dt opn hi low cls volume bar_count wap has_gaps))"

definition on_historical_data_end :: "print_env \<Rightarrow> builder \<Rightarrow> int \<Rightarrow> string option
       \<Rightarrow> string option \<Rightarrow> handled" where
  "on_historical_data_end pe b req_id completion_from completion_to = deliver_after
     (tws_cb_printf pe 0 (line ''historical list end: opaque=%p, req_id=%d, from date=[%s], to date=[%s]'') [Opaque, D
       req_id, S completion_from, S completion_to])
     (b (Ev_historical_data_end req_id completion_from completion_to))"

definition on_scanner_parameters :: "print_env \<Rightarrow> builder \<Rightarrow> string option \<Rightarrow> handled"
       where
  "on_scanner_parameters pe b xml = deliver_after
     (Some [])
     (b (Ev_scanner_parameters xml))"

definition on_scanner_data :: "print_env \<Rightarrow> builder \<Rightarrow> int \<Rightarrow> int \<Rightarrow>
       tr_contract_details \<Rightarrow> string option \<Rightarrow> string option \<Rightarrow> string option
       \<Rightarrow> string option \<Rightarrow> handled" where
  "on_scanner_data pe b ticker_id rank cd distance benchmark projection legs_str = deliver_after (in_turn [
     tws_cb_printf pe 0 (line ''scanner_data: opaque=%p, ticker_id=%d, rank=%d, distance=[%s], benchmark=[%s], projection=[%s], legs_str=[%s]'')
       [Opaque, D ticker_id, D rank, S distance, S benchmark, S projection, S legs_str],
     print_contract_details pe cd])
     (b (Ev_scanner_data ticker_id rank cd distance benchmark projection legs_str))"

definition on_scanner_data_end :: "print_env \<Rightarrow> builder \<Rightarrow> int \<Rightarrow> int \<Rightarrow>
       handled" where
  "on_scanner_data_end pe b ticker_id num_elements = deliver_after
     (tws_cb_printf pe 0 (line ''scanner_data_end: opaque=%p, ticker_id=%d, num_elements=%d'') [Opaque, D ticker_id, D
       num_elements])
     (b (Ev_scanner_data_end ticker_id num_elements))"

definition on_scanner_data_start :: "print_env \<Rightarrow> builder \<Rightarrow> int \<Rightarrow> int \<Rightarrow>
       handled" where
  "on_scanner_data_start pe b ticker_id num_elements = deliver_after
     (tws_cb_printf pe 0 (line ''scanner_data_start: opaque=%p, ticker_id=%d, num_elements=%d'') [Opaque, D ticker_id, D
       num_elements])
     (b (Ev_scanner_data_start ticker_id num_elements))"

definition on_current_time :: "print_env \<Rightarrow> builder \<Rightarrow> int \<Rightarrow> handled" where
  "on_current_time pe b tm = deliver_after
     (tws_cb_printf pe 0 current_time_format [Opaque, L tm, S (Some (stamp_text tm))])
     (b (Ev_current_time tm))"

definition on_realtime_bar :: "print_env \<Rightarrow> builder \<Rightarrow> int \<Rightarrow> int \<Rightarrow> double
       \<Rightarrow> double \<Rightarrow> double \<Rightarrow> double \<Rightarrow> int \<Rightarrow> double
       \<Rightarrow> int \<Rightarrow> handled" where
  "on_realtime_bar pe b req_id tm opn hi low cls volume wap cnt = deliver_after
     (tws_cb_printf pe 0 (line
       ''realtime_bar: opaque=%p, req_id=%d, time=%ld, ohlc=%.4g/%.4g/%.4g/%.4g, vol=%ld, wap=%.4g, count=%d'') [Opaque,
       D req_id, L tm, G opn, G hi, G low, G cls, L volume, G wap, D cnt])
     (b (Ev_realtime_bar req_id tm opn hi low cls volume wap cnt))"

definition on_fundamental_data :: "print_env \<Rightarrow> builder \<Rightarrow> int \<Rightarrow> string option
       \<Rightarrow> handled" where
  "on_fundamental_data pe b req_id data = deliver_after
     (tws_cb_printf pe 0 (line ''fundamental_data: opaque=%p, req_id=%d, data=[%s]'') [Opaque, D req_id, S data])
     (b (Ev_fundamental_data req_id data))"

definition on_delta_neutral_validation :: "print_env \<Rightarrow> builder \<Rightarrow> int \<Rightarrow> ib_under_comp
       option \<Rightarrow> handled" where
  "on_delta_neutral_validation pe b req_id und = deliver_after (in_turn [
     tws_cb_printf pe 0 (line ''delta_neutral_validation: opaque=%p, req_id=%d, ...'') [Opaque, D req_id],
     (case und of None \<Rightarrow> None | Some u \<Rightarrow> print_under_comp pe 1 u)])
     (b (Ev_delta_neutral_validation req_id und))"

definition on_acct_download_end :: "print_env \<Rightarrow> builder \<Rightarrow> string option \<Rightarrow> handled"
       where
  "on_acct_download_end pe b acct_name = deliver_after
     (tws_cb_printf pe 0 (line ''acct_download_end: opaque=%p, account name=[%s]'') [Opaque, S acct_name])
     (b (Ev_acct_download_end acct_name))"

definition on_tick_snapshot_end :: "print_env \<Rightarrow> builder \<Rightarrow> int \<Rightarrow> handled" where
  "on_tick_snapshot_end pe b req_id = deliver_after
     (tws_cb_printf pe 0 (line ''tick_snapshot_end: opaque=%p, req_id=%d'') [Opaque, D req_id])
     (b (Ev_tick_snapshot_end req_id))"

definition on_market_data_type :: "print_env \<Rightarrow> builder \<Rightarrow> int \<Rightarrow> int \<Rightarrow>
       handled" where
  "on_market_data_type pe b req_id data_type = deliver_after
     (tws_cb_printf pe 0 (line ''market_data_type: opaque=%p, req_id=%d, data_type=%d (%s)'') [Opaque, D req_id, D
       data_type, S (Some (market_data_type_name pe data_type))])
     (b (Ev_market_data_type req_id data_type))"

definition on_commission_report :: "print_env \<Rightarrow> builder \<Rightarrow> tr_commission_report \<Rightarrow>
       handled" where
  "on_commission_report pe b report = deliver_after (in_turn [
     tws_cb_printf pe 0 (line ''commission_report: opaque=%p, ...'') [Opaque],
     print_commission_report pe report])
     (b (Ev_commission_report report))"

fun run_callback :: "print_env \<Rightarrow> builder \<Rightarrow> api_event \<Rightarrow> handled" where
  "run_callback pe b (Ev_tick_price ticker_id fld price can_auto_execute) = on_tick_price pe b ticker_id fld price
      can_auto_execute"
| "run_callback pe b (Ev_tick_size ticker_id ty sz) = on_tick_size pe b ticker_id ty sz"
| "run_callback pe b (Ev_tick_option_computation ticker_id ty implied_vol delta opt_price pv_dividend gamma vega theta
      und_price) = on_tick_option_computation pe b ticker_id ty implied_vol delta opt_price pv_dividend gamma vega theta
      und_price"
| "run_callback pe b (Ev_tick_generic ticker_id ty vl) = on_tick_generic pe b ticker_id ty vl"
| "run_callback pe b (Ev_tick_string ticker_id ty vl) = on_tick_string pe b ticker_id ty vl"
| "run_callback pe b (Ev_tick_efp ticker_id tick_type basis_points formatted_basis_points implied_futures_price hold_days
      future_expiry dividend_impact dividends_to_expiry) = on_tick_efp pe b ticker_id tick_type basis_points
      formatted_basis_points implied_futures_price hold_days future_expiry dividend_impact dividends_to_expiry"
| "run_callback pe b (Ev_order_status order_id status filled remaining avg_fill_price perm_id parent_id last_fill_price
      client_id why_held) = on_order_status pe b order_id status filled remaining avg_fill_price perm_id parent_id
      last_fill_price client_id why_held"
| "run_callback pe b (Ev_open_order order_id contract ord ostatus) = on_open_order pe b order_id contract ord ostatus"
| "run_callback pe b Ev_open_order_end = on_open_order_end pe b"
| "run_callback pe b (Ev_update_account_value k vl currency account_name) = on_update_account_value pe b k vl currency
      account_name"
| "run_callback pe b (Ev_update_portfolio contract position mkt_price mkt_value average_cost unrealized_pnl realized_pnl
      account_name) = on_update_portfolio pe b contract position mkt_price mkt_value average_cost unrealized_pnl
      realized_pnl account_name"
| "run_callback pe b (Ev_update_account_time time_stamp) = on_update_account_time pe b time_stamp"
| "run_callback pe b (Ev_next_valid_id order_id) = on_next_valid_id pe b order_id"
| "run_callback pe b (Ev_contract_details req_id cd) = on_contract_details pe b req_id cd"
| "run_callback pe b (Ev_contract_details_end req_id) = on_contract_details_end pe b req_id"
| "run_callback pe b (Ev_bond_contract_details req_id cd) = on_bond_contract_details pe b req_id cd"
| "run_callback pe b (Ev_exec_details req_id contract execution) = on_exec_details pe b req_id contract execution"
| "run_callback pe b (Ev_exec_details_end req_id) = on_exec_details_end pe b req_id"
| "run_callback pe b (Ev_error ticker_id error_code error_string) = on_error pe b ticker_id error_code error_string"
| "run_callback pe b (Ev_update_mkt_depth ticker_id position operation sd price sz) = on_update_mkt_depth pe b ticker_id
      position operation sd price sz"
| "run_callback pe b (Ev_update_mkt_depth_l2 ticker_id position market_maker operation sd price sz) =
      on_update_mkt_depth_l2 pe b ticker_id position market_maker operation sd price sz"
| "run_callback pe b (Ev_update_news_bulletin msgid msg_type news_msg origin_exch) = on_update_news_bulletin pe b msgid
      msg_type news_msg origin_exch"
| "run_callback pe b (Ev_managed_accounts accounts_list) = on_managed_accounts pe b accounts_list"
| "run_callback pe b (Ev_receive_fa fa_data_type cxml) = on_receive_fa pe b fa_data_type cxml"
| "run_callback pe b (Ev_historical_data req_id dt opn hi low cls volume bar_count wap has_gaps) = on_historical_data pe b
      req_id dt opn hi low cls volume bar_count wap has_gaps"
| "run_callback pe b (Ev_historical_data_end req_id completion_from completion_to) = on_historical_data_end pe b req_id
      completion_from completion_to"
| "run_callback pe b (Ev_scanner_parameters xml) = on_scanner_parameters pe b xml"
| "run_callback pe b (Ev_scanner_data ticker_id rank cd distance benchmark projection legs_str) = on_scanner_data pe b
      ticker_id rank cd distance benchmark projection legs_str"
| "run_callback pe b (Ev_scanner_data_end ticker_id num_elements) = on_scanner_data_end pe b ticker_id num_elements"
| "run_callback pe b (Ev_scanner_data_start ticker_id num_elements) = on_scanner_data_start pe b ticker_id num_elements"
| "run_callback pe b (Ev_current_time tm) = on_current_time pe b tm"
| "run_callback pe b (Ev_realtime_bar req_id tm opn hi low cls volume wap cnt) = on_realtime_bar pe b req_id tm opn hi low
      cls volume wap cnt"
| "run_callback pe b (Ev_fundamental_data req_id data) = on_fundamental_data pe b req_id data"
| "run_callback pe b (Ev_delta_neutral_validation req_id und) = on_delta_neutral_validation pe b req_id und"
| "run_callback pe b (Ev_acct_download_end acct_name) = on_acct_download_end pe b acct_name"
| "run_callback pe b (Ev_tick_snapshot_end req_id) = on_tick_snapshot_end pe b req_id"
| "run_callback pe b (Ev_market_data_type req_id data_type) = on_market_data_type pe b req_id data_type"
| "run_callback pe b (Ev_commission_report report) = on_commission_report pe b report"

section \<open>Which callbacks are defined\<close>

text \<open>No null pointer and no wrong count where one is printed.\<close>

definition status_printable :: "tr_order_status \<Rightarrow> bool" where
  "status_printable st \<longleftrightarrow> (\<forall>f. tst_text st f \<noteq> None)"

definition execution_printable :: "tr_execution \<Rightarrow> bool" where
  "execution_printable ex \<longleftrightarrow> (\<forall>f. te_text ex f \<noteq> None)"

definition report_printable :: "tr_commission_report \<Rightarrow> bool" where
  "report_printable r \<longleftrightarrow> (\<forall>f. tr_text r f \<noteq> None)"

definition event_printable :: "api_event \<Rightarrow> bool" where
  "event_printable ev = (case ev of
       Ev_tick_string _ _ vl \<Rightarrow> vl \<noteq> None
     | Ev_tick_efp _ _ _ formatted_basis_points _ _ future_expiry _ _ \<Rightarrow> formatted_basis_points \<noteq> None \<and>
       future_expiry \<noteq> None
     | Ev_order_status _ status _ _ _ _ _ _ _ why_held \<Rightarrow> status \<noteq> None \<and> why_held \<noteq> None
     | Ev_open_order _ contract ord ostatus \<Rightarrow> contract_printable contract \<and> order_printable ord \<and>
       status_printable ostatus
     | Ev_update_account_value k vl currency account_name \<Rightarrow> k \<noteq> None \<and> vl \<noteq> None \<and> currency
       \<noteq> None \<and> account_name \<noteq> None
     | Ev_update_portfolio contract _ _ _ _ _ _ account_name \<Rightarrow> contract_printable contract \<and> account_name
       \<noteq> None
     | Ev_update_account_time time_stamp \<Rightarrow> time_stamp \<noteq> None
     | Ev_contract_details _ cd \<Rightarrow> details_printable cd
     | Ev_bond_contract_details _ cd \<Rightarrow> details_printable cd
     | Ev_exec_details _ contract execution \<Rightarrow> contract_printable contract \<and> execution_printable execution
     | Ev_error _ _ error_string \<Rightarrow> error_string \<noteq> None
     | Ev_update_mkt_depth_l2 _ _ market_maker _ _ _ _ \<Rightarrow> market_maker \<noteq> None
     | Ev_update_news_bulletin _ _ news_msg origin_exch \<Rightarrow> news_msg \<noteq> None \<and> origin_exch \<noteq> None
     | Ev_managed_accounts accounts_list \<Rightarrow> accounts_list \<noteq> None
     | Ev_receive_fa _ cxml \<Rightarrow> cxml \<noteq> None
     | Ev_historical_data _ dt _ _ _ _ _ _ _ _ \<Rightarrow> dt \<noteq> None
     | Ev_historical_data_end _ completion_from completion_to \<Rightarrow> completion_from \<noteq> None \<and> completion_to
       \<noteq> None
     | Ev_scanner_data _ _ cd distance benchmark projection legs_str \<Rightarrow> details_printable cd \<and> distance \<noteq>
       None \<and> benchmark \<noteq> None \<and> projection \<noteq> None \<and> legs_str \<noteq> None
     | Ev_fundamental_data _ data \<Rightarrow> data \<noteq> None
     | Ev_delta_neutral_validation _ und \<Rightarrow> und \<noteq> None
     | Ev_acct_download_end acct_name \<Rightarrow> acct_name \<noteq> None
     | Ev_commission_report report \<Rightarrow> report_printable report
     | _ \<Rightarrow> True)"

definition is_news_bulletin :: "api_event \<Rightarrow> bool" where
  "is_news_bulletin ev = (case ev of Ev_update_news_bulletin _ _ _ _ \<Rightarrow> True | _ \<Rightarrow> False)"

lemma callback_directives [formats]:
  "directives (line ''tick_price: opaque=%p, ticker_id=%d, type=%d (%s), price=%g, can_auto=%d'') = [Ptr, Dec, Dec, Str, Gen, Dec]"
  "directives (line ''tick_size: opaque=%p, ticker_id=%d, type=%d (%s), size=%d'') = [Ptr, Dec, Dec, Str, Dec]"
  "directives (line ''tick option computation: opaque=%p, ticker_id=%d, type=%d (%s), implied_vol=%g, delta=%g, opt_price=%g, pv_dividend=%g, gamma=%g, vega=%g, theta=%g, und_price=%g'') = [Ptr, Dec, Dec, Str, Gen, Gen, Gen, Gen, Gen, Gen, Gen, Gen]"
  "directives (line ''tick_generic: opaque=%p, ticker_id=%d, type=%d (%s), value=%g'') = [Ptr, Dec, Dec, Str, Gen]"
  "directives (line ''tick_string: opaque=%p, ticker_id=%d, type=%d (%s), value=[%s]'') = [Ptr, Dec, Dec, Str, Str]"
  "directives (line ''tick_efp: opaque=%p, ticker_id=%d, type=%d (%s), basis_points=%g, formatted_basis_points=[%s], implied_futures_price=%g, hold_days=%d, future_expiry=[%s], dividend_impact=%g, dividends_to_expiry=%g'') = [Ptr, Dec, Dec, Str, Gen, Str, Gen, Dec, Str, Gen, Gen]"
  "directives (line ''order_status: opaque=%p, order_id=%d, status=[%s], filled=%d, remaining %d, avg_fill_price=%g, last_fill_price=%g, perm_id=%d, parent_id=%d, client_id=%d, why_held=[%s]'') = [Ptr, Dec, Str, Dec, Dec, Gen, Gen, Dec, Dec, Dec, Str]"
  "directives (line ''open_order: opaque=%p, commission not reported'') = [Ptr]"
  "directives (line ''open_order: opaque=%p, commission for order_id=%d was %.4g'') = [Ptr, Dec, Gen4]"
  "directives (line ''open_order: opaque=%p, order_id=%d, sym=[%s], local_symbol=[%s]'') = [Ptr, Dec, Str, Str]"
  "directives (line ''open_order_end: opaque=%p'') = [Ptr]"
  "directives (line ''update_account_value: %p, key=[%s] val=[%s], currency=[%s], name=[%s]'') = [Ptr, Str, Str, Str, Str]"
  "directives (line ''update_portfolio: %p, sym=%s, position=%d, mkt_price=%.4g, mkt_value=%.4g, avg_cost=%.4g, unrealized_pnl=%.4g, realized_pnl=%.4g account_name=%s'') = [Ptr, Str, Dec, Gen4, Gen4, Gen4, Gen4, Gen4, Str]"
  "directives (line ''update_account_time: opaque=%p, time_stamp=[%s]'') = [Ptr, Str]"
  "directives (line ''next_valid_id for order placement %d (opaque=%p)'') = [Dec, Ptr]"
  "directives (line ''contract_details: opaque=%p, req_id=%d, ...'') = [Ptr, Dec]"
  "directives (line ''contract_details_end: opaque=%p, req_id=%d'') = [Ptr, Dec]"
  "directives (line ''bond_contract_details: opaque=%p, req_id=%d, ...'') = [Ptr, Dec]"
  "directives (line ''exec_details: opaque=%p, req_id=%d, ...'') = [Ptr, Dec]"
  "directives (line ''exec_details_end: opaque=%p, req_id=%d'') = [Ptr, Dec]"
  "directives error_format = [Ptr, Dec, Dec, Str]"
  "directives (line ''update_mkt_depth: opaque=%p, ticker_id=%d, posaition=%d, operation=%d, size=%d, price=%g, size=%d'') = [Ptr, Dec, Dec, Dec, Dec, Gen, Dec]"
  "directives (line ''update_mkt_depth_l2: opaque=%p, ticker_id=%d, position=%d, market_maker=[%s], operation=%d, side=%d, price=%g, size=%d'') = [Ptr, Dec, Dec, Str, Dec, Dec, Gen, Dec]"
  "directives (line ''update_news_bulletin: opaque=%p, msg_id=%d, msg_type=%d, msg=[%s], origin_exchange=[%d]'') = [Ptr, Dec, Dec, Str, Dec]"
  "directives (line ''managed_accounts: opaque=%p, accounts_list=[%s]'') = [Ptr, Str]"
  "directives receive_fa_format = [Ptr, Dec, Str, Str]"
  "directives (line ''historical: opaque=%p, req_id=%d, date=%s, ohlc=%.4g/%.4g/%.4g/%.4g, volume=%ld, bar_count=%d, wap=%.4g, has_gaps=%d'') = [Ptr, Dec, Str, Gen4, Gen4, Gen4, Gen4, Long_dec, Dec, Gen4, Dec]"
  "directives (line ''historical list end: opaque=%p, req_id=%d, from date=[%s], to date=[%s]'') = [Ptr, Dec, Str, Str]"
  "directives (line ''scanner_data: opaque=%p, ticker_id=%d, rank=%d, distance=[%s], benchmark=[%s], projection=[%s], legs_str=[%s]'') = [Ptr, Dec, Dec, Str, Str, Str, Str]"
  "directives (line ''scanner_data_end: opaque=%p, ticker_id=%d, num_elements=%d'') = [Ptr, Dec, Dec]"
  "directives (line ''scanner_data_start: opaque=%p, ticker_id=%d, num_elements=%d'') = [Ptr, Dec, Dec]"
  "directives current_time_format = [Ptr, Long_dec, Str]"
  "directives (line ''realtime_bar: opaque=%p, req_id=%d, time=%ld, ohlc=%.4g/%.4g/%.4g/%.4g, vol=%ld, wap=%.4g, count=%d'') = [Ptr, Dec, Long_dec, Gen4, Gen4, Gen4, Gen4, Long_dec, Gen4, Dec]"
  "directives (line ''fundamental_data: opaque=%p, req_id=%d, data=[%s]'') = [Ptr, Dec, Str]"
  "directives (line ''delta_neutral_validation: opaque=%p, req_id=%d, ...'') = [Ptr, Dec]"
  "directives (line ''acct_download_end: opaque=%p, account name=[%s]'') = [Ptr, Str]"
  "directives (line ''tick_snapshot_end: opaque=%p, req_id=%d'') = [Ptr, Dec]"
  "directives (line ''market_data_type: opaque=%p, req_id=%d, data_type=%d (%s)'') = [Ptr, Dec, Dec, Str]"
  "directives (line ''commission_report: opaque=%p, ...'') = [Ptr]"
  by code_simp+

lemmas on_defs = on_tick_price_def on_tick_size_def on_tick_option_computation_def on_tick_generic_def on_tick_string_def
  on_tick_efp_def on_order_status_def on_open_order_def on_open_order_end_def on_update_account_value_def
  on_update_portfolio_def on_update_account_time_def on_next_valid_id_def on_contract_details_def
  on_contract_details_end_def on_bond_contract_details_def on_exec_details_def on_exec_details_end_def on_error_def
  on_update_mkt_depth_def on_update_mkt_depth_l2_def on_update_news_bulletin_def on_managed_accounts_def
  on_receive_fa_def on_historical_data_def on_historical_data_end_def on_scanner_parameters_def on_scanner_data_def
  on_scanner_data_end_def on_scanner_data_start_def on_current_time_def on_realtime_bar_def on_fundamental_data_def
  on_delta_neutral_validation_def on_acct_download_end_def on_tick_snapshot_end_def on_market_data_type_def
  on_commission_report_def

lemma deliver_after_None [simp]:
  "deliver_after p r = None \<longleftrightarrow> p = None" "deliver_after p r = Some (log, r') \<longleftrightarrow> p = Some log \<and> r' = r"
  by (auto simp: deliver_after_def)

lemma in_turn_None: "in_turn ps = None \<longleftrightarrow> list_ex (\<lambda>p. p = None) ps"
  by (induction ps) (auto simp: both_def split: option.splits)

lemma printf_None: "tws_cb_printf pe indent fmt as = None \<longleftrightarrow> \<not> fits (directives fmt) as"
  using tws_cb_printf_defined [of fmt as pe indent] by auto

lemma structs_defined:
  "contract_printable c \<Longrightarrow> print_contract pe indent c \<noteq> None" "details_printable cd \<Longrightarrow> print_contract_details pe cd \<noteq> None"
  "order_printable ord \<Longrightarrow> print_order pe ord \<noteq> None" "status_printable st \<Longrightarrow> print_order_status pe st \<noteq> None"
  "execution_printable ex \<Longrightarrow> print_execution pe ex \<noteq> None" "report_printable r \<Longrightarrow> print_commission_report pe r \<noteq> None"
  "print_under_comp pe indent und \<noteq> None"
  using contract_printing_is_defined [of c pe indent] details_printing_is_defined [of cd pe] order_printing_is_defined [of ord pe]
  by (auto simp: prints_def print_order_status_def print_execution_def print_commission_report_def print_under_comp_def
      printf_None formats status_printable_def execution_printable_def report_printable_def numeral_eq_Suc)

lemma response_is_built: "run_callback pe b ev = Some (log, r) \<Longrightarrow> r = b ev"
  by (cases ev) (simp_all add: on_defs)

lemma printable_texts: "contract_printable c \<Longrightarrow> tc_text c C_symbol \<noteq> None" "contract_printable c \<Longrightarrow> tc_text c C_local_symbol \<noteq> None"
  by (auto simp: contract_printable_def contract_texts_def)

section \<open>Property\<close>



end
