(* ===== verification/Spec2Isabelle.thy ===== *)
theory Spec2Isabelle
  imports TwsSpec WireSpec CancelSpec Registry MessageQueue JsonOutput ReadFile ApiNames OptionalValue ApiOrders
    IoLogger ServeTime FakeSpec StartUp RequestSpec ResponseData XPathText Database Singleton CallbackLog
begin

text \<open>A verification development for a web server that is a gateway to the Interactive Brokers
  Trader Workstation (TWS). Web requests are served by front-end threads; one back-end thread talks
  to the TWS API; between them travel messages, objects with a state machine, whose ownership passes
  from thread to thread as a pointer through a socket pair.

  \<^bold>\<open>The message core.\<close> \<open>World\<close> has the data: messages, communicators, the lists of the processors
  and the bytes in the sockets, as one world (\<open>tier2_message.h\<close>, \<open>tier2_message_processor.h\<close>,
  \<open>interthread_comm.h\<close>). \<open>Comms\<close> has the socket pairs that \<open>app_manager.cpp\<close> creates and the
  processors cache, \<open>Processor\<close> the ownership lists and their invariant
  (\<open>tier2_message_processor.cpp\<close>), \<open>Message\<close> the state machine, posting and receiving
  (\<open>tier2_message.cpp\<close>, \<open>interthread_comm.cpp\<close>), \<open>MessageProps\<close> what they do case by case,
  \<open>WireSpec\<close> what two processors can rely on. The world has a component \<open>glob\<close> for the state of
  whoever uses the core. \<open>UniqueId\<close> is the source of identifiers with its spin lock, \<open>Registry\<close> the
  register of the processors in \<open>app_manager.cpp\<close>, \<open>MessageQueue\<close> the queue of delayed messages of
  \<open>tier2_message_queue\<close>.

  \<^bold>\<open>The TWS back-end.\<close> \<open>Requests\<close> has the request and response classes, one constructor each
  (\<open>tws_request.h\<close>, \<open>tws_response.h\<close>), \<open>TwsInstance\<close> the back-end's handling of requests
  (\<open>tws_instance.cpp\<close>, \<open>tws_request.cpp\<close>), \<open>TwsResponses\<close> the callbacks of the API and the delivery
  of responses (\<open>tws_api_callbacks.cpp\<close>, \<open>tws_response.cpp\<close>, \<open>tws_stocklist_loading.cpp\<close>),
  \<open>XPathText\<close> the XPath function of the latter. \<open>System\<close> puts the operations together to the steps
  of the running program and defines the reachable worlds; \<open>TwsProps\<close>, \<open>TwsSpec\<close> and \<open>CancelSpec\<close>
  have what holds in them. \<open>Worker\<close> is the thread of the back-end and its wait for data
  (\<open>tws_input_output.cpp\<close>, \<open>tws_backend_io.cpp\<close>), shown to stay within the reachable worlds.
  \<open>Singleton\<close> has the one manager all threads share, with their calls of \<open>get_instance\<close> interleaved.

  \<^bold>\<open>The front-end.\<close> \<open>FrontEnd\<close> has the event handler of the web server and the thread that serves
  the time: it sends a request to the back-end and waits on its communicator
  (\<open>mongoose_event_handler.cpp\<close>, \<open>wait_for_response\<close> in \<open>tier2_message.cpp\<close>). What the other threads
  do while it waits, and when the socket becomes readable, is a script. \<open>ServeTime\<close> follows one web
  request through both threads to its answer. \<open>Options\<close> and \<open>StartUp\<close> are the start: the table of
  options, the configuration made of it, Markdown pages, the callback of the web server and the main
  loop (\<open>tws_if_main.cpp\<close>, \<open>mongoose_utils.cpp\<close>).

  \<^bold>\<open>The connection to TWS.\<close> \<open>IoChannel\<close> has the channel with its chains of observers
  (\<open>tws_backend_io.cpp\<close>), \<open>IoLogger\<close> the logger of the traffic (\<open>tws_backend_io_logger.cpp\<close>).
  \<open>FakeServer\<close> is the server inside the program that stands in for TWS (\<open>tws_fake_server.cpp\<close>),
  \<open>FakeSpec\<close> its contract; its rounds, one read each, are a list.

  \<^bold>\<open>Data.\<close> \<open>OptionalValue\<close> is the template of optional values, \<open>ApiEnums\<close> and \<open>ApiNames\<close> the
  enumerations and their texts, \<open>ApiStructs\<close> and \<open>ApiOrders\<close> the wrappers of the structs of the TWS
  API (\<open>tws_data_structures.h\<close> and \<open>tws_data_structures.cpp\<close>). \<open>JsonOutput\<close> is the writer of JSON
  texts (\<open>json_io.cpp\<close>), \<open>SupportCode\<close> and \<open>ReadFile\<close> the path and file functions
  (\<open>support-code.cpp\<close>), \<open>Database\<close> the database manager (\<open>tws_database_io.cpp\<close>),
  \<open>FakeDatabase\<close> the stand-in for the database library (\<open>fake_hamsterdb.c\<close>), \<open>IbDate\<close> the text
  of a date, \<open>CText\<close> the reading of numbers as the C library does it. \<open>RequestData\<close> has the members
  of every request class and the API call that transmits it, \<open>RequestSpec\<close> shows that the call tells
  all of the request, and \<open>ResponseData\<close> has the members of every response class and relates them to
  the messages. \<open>Printing\<close> has what the callbacks write to the log of the structs of the API, with the formats of
  \<open>printf\<close> read directive by directive (\<open>tws_api_callbacks.cpp\<close>, \<open>tws_callback_printf.cpp\<close>,
  \<open>tws_debug_printf.cpp\<close>), and \<open>CallbackLog\<close> every callback with what it prints and delivers, and which of
  them are defined.

  \<^bold>\<open>How code becomes definitions.\<close> An operation is a function from a state to a result and a new
  state, or to one of the errors of \<open>Prelude\<close>: a failed assertion, a dangling or null pointer,
  exhausted fuel; what \<open>Printing\<close> defines is an option, with nothing for undefined behaviour.
  Objects on the heap are numbered, and a number without an object is a dangling pointer. The virtual methods of the message classes call the state machine, which calls them: the
  operations take the state machine as an argument, \<open>exec_state\<close> closes the circle with fuel, and
  the hooks of a class family are a record of functions. What the operating system, the web server
  library, the TWS API and the XML library return is a parameter: \<open>env\<close> (sockets and writes),
  \<open>tws_env\<close> (API calls and XML queries), \<open>io_env\<close> and \<open>log_env\<close> (the channel), \<open>contract_api\<close> and
  \<open>order_api\<close> (initialisation and copying of API structs).

  \<^bold>\<open>Fuel.\<close> The plain and cancel messages need fuel for two nested state changes
  (\<open>core_state_machine_terminates\<close>), transmitting a request needs four, and \<open>pulse_marked_messages\<close>
  as much as there are marked messages (\<open>pulse_marked_empties\<close>); with a socket that always fails no
  amount is enough (\<open>pulse_marked_spins\<close>). The loops of the back-end's thread run over a script of
  what the outside does, and the end of the script is exhausted fuel, which the end-to-end theorems
  of \<open>ServeTime\<close> exclude: the script they assume is the one of a request that is answered, or of a
  server that stops. A reachable world is one that steps with any amount of fuel lead to.

  \<^bold>\<open>What the lemmas show.\<close> The invariant \<open>winv\<close> of the world, kept by every operation (the
  collection \<open>keeps_intro\<close>): each message is listed once, by its owner, a pointer in a socket is the
  only reference to a live message, caches of communicators agree with the creator's list, and at
  most ten scanner subscriptions are active. On it rest the properties about requests, responses,
  cancelling, the wires and the thread. The other groups have their own contracts, those with
  several users as locales: an identifier source, a lookup store, the hooks of a class family, an
  optional value that refines \<open>option\<close>, each interpreted on the model. Further groups show round
  trips to the structs of the API and back, the table of options as a finite map, the fake server as
  a function on the requests it reads, the rendering of a JSON document, and the bounds of the path
  buffer.

  \<^bold>\<open>Not modelled.\<close> Signal handlers and, on Windows, the service, its tray icon and dialogs
  (\<open>tws_if_main.cpp\<close>), the data tracker (disabled by \<open>#if 0\<close>) and
  \<open>unique_id_manager.h\<close>, which the program does not use.
  In the messages the payload of responses that no code reads is left out, and the arguments of a
  request are texts; with their types both are in \<open>RequestData\<close> and \<open>ResponseData\<close>.\<close>

end
